(* ===== verification/Prelude.thy ===== *)
theory Prelude
  imports Main "HOL-Library.Sublist"
begin

text \<open>
  Shared vocabulary of the development: the string operations of JavaScript that
  the dashboards call (\<open>toLowerCase\<close>, \<open>trim\<close>, \<open>includes\<close>, \<open>join\<close>,
  \<open>split\<close>), decimal printing of integers, and the generic list lemmas the
  component theories share. Strings are \<open>char list\<close>; characters are bytes, so
  \<open>toLowerCase\<close> and \<open>trim\<close> are modelled on their ASCII part (all literal data
  of the repository is ASCII).
\<close>

named_theorems js_simps "evaluation rules of the JavaScript value model"
named_theorems repo_simps "unfolding rules of the repository operations"

section \<open>Characters and strings\<close>

text \<open>ASCII upper- and lower-case letters differ in bit 5 only.\<close>

fun set_bit5 :: "char \<Rightarrow> char" where
  "set_bit5 (Char b0 b1 b2 b3 b4 b5 b6 b7) = Char b0 b1 b2 b3 b4 True b6 b7"

definition lower_char :: "char \<Rightarrow> char" where
  "lower_char c =
     (if 65 \<le> (of_char c :: nat) \<and> (of_char c :: nat) \<le> 90 then set_bit5 c else c)"

definition to_lower :: "string \<Rightarrow> string" where
  "to_lower s = map lower_char s"

fun clear_bit5 :: "char \<Rightarrow> char" where
  "clear_bit5 (Char b0 b1 b2 b3 b4 b5 b6 b7) = Char b0 b1 b2 b3 b4 False b6 b7"

definition upper_char :: "char \<Rightarrow> char" where
  "upper_char c =
     (if 97 \<le> (of_char c :: nat) \<and> (of_char c :: nat) \<le> 122 then clear_bit5 c else c)"

text \<open>\<open>s.charAt(0).toUpperCase() + s.slice(1)\<close>.\<close>

definition capitalize :: "string \<Rightarrow> string" where
  "capitalize s = (case s of [] \<Rightarrow> [] | c # cs \<Rightarrow> upper_char c # cs)"

definition is_js_space :: "char \<Rightarrow> bool" where
  "is_js_space c \<longleftrightarrow> (of_char c :: nat) \<in> {9, 10, 11, 12, 13, 32}"

definition trim :: "string \<Rightarrow> string" where
  "trim s = rev (dropWhile is_js_space (rev (dropWhile is_js_space s)))"

text \<open>\<open>hay.includes(needle)\<close>: a contiguous occurrence, searched left to right.\<close>

fun js_includes :: "string \<Rightarrow> string \<Rightarrow> bool" where
  "js_includes [] needle \<longleftrightarrow> needle = []"
| "js_includes (c # cs) needle \<longleftrightarrow> prefix needle (c # cs) \<or> js_includes cs needle"

text \<open>\<open>xs.join(sep)\<close> on a list of strings.\<close>

fun join :: "string \<Rightarrow> string list \<Rightarrow> string" where
  "join sep [] = []"
| "join sep [x] = x"
| "join sep (x # y # zs) = x @ sep @ join sep (y # zs)"

text \<open>\<open>s.split(c)\<close> with a one-character separator.\<close>

fun split_on :: "char \<Rightarrow> string \<Rightarrow> string list" where
  "split_on c [] = [[]]"
| "split_on c (x # xs) =
     (if x = c then [] # split_on c xs
      else (case split_on c xs of w # ws \<Rightarrow> (x # w) # ws | [] \<Rightarrow> [[x]]))"

section \<open>Decimal printing\<close>

definition digit_char :: "nat \<Rightarrow> char" where
  "digit_char d = ''0123456789'' ! d"

fun show_nat :: "nat \<Rightarrow> string" where
  "show_nat n = (if n < 10 then [digit_char n] else show_nat (n div 10) @ [digit_char (n mod 10)])"

declare show_nat.simps [simp del]

definition show_int :: "int \<Rightarrow> string" where
  "show_int i = (if i < 0 then CHR ''-'' # show_nat (nat (- i)) else show_nat (nat i))"

section \<open>Generic lemmas\<close>

lemma digit_char_mem: "d < 10 \<Longrightarrow> digit_char d \<in> set ''0123456789''"
  unfolding digit_char_def by (rule nth_mem) simp

lemma show_nat_digits: "set (show_nat n) \<subseteq> set ''0123456789''"
proof (induction n rule: show_nat.induct)
  case (1 n)
  show ?case
    using 1 digit_char_mem [of n] digit_char_mem [of "n mod 10"]
    by (subst show_nat.simps) auto
qed

text \<open>Evaluation rules for \<open>show_nat\<close> that fire only on a decided comparison, so
  that \<open>simp\<close> evaluates printed numerals without unfolding symbolic ones.\<close>

lemma show_nat_lt10: "n < 10 \<Longrightarrow> show_nat n = [digit_char n]"
  by (simp add: show_nat.simps)

lemma show_nat_ge10: "\<not> n < 10 \<Longrightarrow> show_nat n = show_nat (n div 10) @ [digit_char (n mod 10)]"
  by (subst show_nat.simps) simp

lemmas show_nat_eval = show_nat_lt10 show_nat_ge10 digit_char_def

lemma js_includes_iff_sublist [simp]: "js_includes hay needle \<longleftrightarrow> sublist needle hay"
  by (induction hay) (auto simp: sublist_Cons_right)

lemma js_includes_Nil [simp]: "js_includes hay []"
  by simp

lemma to_lower_append [simp]: "to_lower (xs @ ys) = to_lower xs @ to_lower ys"
  by (simp add: to_lower_def)

lemma length_to_lower [simp]: "length (to_lower s) = length s"
  by (simp add: to_lower_def)

lemma split_on_nonempty [simp]: "split_on c s \<noteq> []"
  by (induction s) (auto split: list.splits)

lemma split_on_no_sep: "c \<notin> set w \<Longrightarrow> split_on c (w @ rest) =
    (case split_on c rest of v # vs \<Rightarrow> (w @ v) # vs | [] \<Rightarrow> [w])"
  by (induction w) (auto split: list.splits)

lemma split_on_no_sep_all: "c \<notin> set s \<Longrightarrow> split_on c s = [s]"
  using split_on_no_sep [of c s "[]"] by simp

lemma split_on_join:
  assumes "ws \<noteq> []" and "\<forall>w \<in> set ws. c \<notin> set w"
  shows "split_on c (join [c] ws) = ws"
  using assms
proof (induction "[c]" ws rule: join.induct)
  case (1)
  then show ?case by simp
next
  case (2 x)
  then show ?case by (simp add: split_on_no_sep_all)
next
  case (3 x y zs)
  then have IH: "split_on c (join [c] (y # zs)) = y # zs" by simp
  from "3.prems" have "c \<notin> set x" by simp
  then have "split_on c (x @ c # join [c] (y # zs)) = x # y # zs"
    by (simp add: split_on_no_sep IH)
  then show ?case by simp
qed

text \<open>Counting by a key over distinct key values, as the summaries do with
  \<open>rows.filter(r => r.k === v).length\<close> for each \<open>v\<close>.\<close>

definition count_by :: "('a \<Rightarrow> 'k) \<Rightarrow> 'k \<Rightarrow> 'a list \<Rightarrow> nat" where
  "count_by f v xs = length (filter (\<lambda>x. f x = v) xs)"

lemma count_by_simps [simp]:
  "count_by f v [] = 0"
  "count_by f v (x # xs) = (if f x = v then Suc (count_by f v xs) else count_by f v xs)"
  by (simp_all add: count_by_def)

lemma count_by_Cons_add:
  "count_by f v (x # xs) = (if f x = v then 1 else 0) + count_by f v xs"
  by simp

lemma sum_count_by_Cons:
  "(\<Sum>v\<leftarrow>vs. count_by f v (x # xs))
     = (\<Sum>v\<leftarrow>vs. if f x = v then 1 else 0) + (\<Sum>v\<leftarrow>vs. count_by f v xs)"
  by (simp only: count_by_Cons_add sum_list_addf)

lemma sum_indicator_distinct:
  "distinct vs \<Longrightarrow> (\<Sum>v\<leftarrow>vs. if a = v then 1 else 0) = (if a \<in> set vs then 1 else (0::nat))"
  by (induction vs) auto

lemma sum_count_by_distinct:
  assumes "distinct vs" and "\<forall>x \<in> set xs. f x \<in> set vs"
  shows "(\<Sum>v\<leftarrow>vs. count_by f v xs) = length xs"
  using assms(2)
proof (induction xs)
  case Nil
  then show ?case by (simp add: sum_list_triv)
next
  case (Cons x xs)
  have "(\<Sum>v\<leftarrow>vs. count_by f v (x # xs))
      = (\<Sum>v\<leftarrow>vs. if f x = v then 1 else 0) + (\<Sum>v\<leftarrow>vs. count_by f v xs)"
    by (rule sum_count_by_Cons)
  also have "\<dots> = Suc (length xs)"
    using Cons by (simp add: sum_indicator_distinct assms(1))
  finally show ?case by simp
qed

lemma sum_count_by_le:
  "distinct vs \<Longrightarrow> (\<Sum>v\<leftarrow>vs. count_by f v xs) \<le> length xs"
proof (induction xs)
  case Nil
  then show ?case by (simp add: sum_list_triv)
next
  case (Cons x xs)
  have "(\<Sum>v\<leftarrow>vs. count_by f v (x # xs))
      = (\<Sum>v\<leftarrow>vs. if f x = v then 1 else 0) + (\<Sum>v\<leftarrow>vs. count_by f v xs)"
    by (rule sum_count_by_Cons)
  with Cons show ?case by (simp add: sum_indicator_distinct)
qed

lemma map_of_rev_distinct: "distinct (map fst xs) \<Longrightarrow> map_of (rev xs) = map_of xs"
proof
  fix k
  assume d: "distinct (map fst xs)"
  then have d': "distinct (map fst (rev xs))" by (simp add: rev_map [symmetric])
  show "map_of (rev xs) k = map_of xs k"
  proof (cases "map_of xs k")
    case None
    then have "k \<notin> fst ` set (rev xs)" by (simp add: map_of_eq_None_iff)
    then have "map_of (rev xs) k = None" by (metis map_of_eq_None_iff)
    with None show ?thesis by simp
  next
    case (Some v)
    then have "(k, v) \<in> set xs" by (rule map_of_SomeD)
    with d d' Some show ?thesis by (simp add: map_of_eq_Some_iff)
  qed
qed

lemma set_join_subset: "set (join sep xs) \<subseteq> set sep \<union> \<Union> (set ` set xs)"
  by (induction sep xs rule: join.induct) auto

lemma not_in_join:
  "c \<notin> set sep \<Longrightarrow> \<forall>x \<in> set xs. c \<notin> set x \<Longrightarrow> c \<notin> set (join sep xs)"
  using set_join_subset [of sep xs] by blast

lemma hd_split_on_join:
  "c \<notin> set x \<Longrightarrow> hd (split_on c (join [c] (x # xs))) = x"
proof (cases xs)
  case Nil
  assume "c \<notin> set x"
  with Nil show ?thesis by (simp add: split_on_no_sep_all)
next
  case (Cons y ys)
  assume "c \<notin> set x"
  then have "split_on c (x @ c # join [c] (y # ys)) = x # split_on c (join [c] (y # ys))"
    by (simp add: split_on_no_sep)
  with Cons show ?thesis by simp
qed

lemma length_split_on_join:
  "ws \<noteq> [] \<Longrightarrow> \<forall>w \<in> set ws. c \<notin> set w \<Longrightarrow> length (split_on c (join [c] ws)) = length ws"
  by (simp add: split_on_join)

lemma join_append_single:
  "xs \<noteq> [] \<Longrightarrow> join sep (xs @ [y]) = join sep xs @ sep @ y"
  by (induction sep xs rule: join.induct) auto

end
