(* ===== verification/JsValue.thy ===== *)
theory JsValue
  imports Prelude
begin

text \<open>
  The JavaScript values the repository's code handles dynamically: the rows of the
  repositories seen as plain objects (\<open>item[key]\<close>, \<open>Object.keys\<close>), the filter
  values read from query strings, and the payloads given to \<open>NextResponse.json\<close> and
  \<open>JSON.stringify\<close>. Numbers occur in the code as integer and one- or two-digit
  decimal literals only and are never computed in floating point where a claim depends
  on it, so a number is an exact decimal \<open>Num m e\<close>, the value \<open>m / 10^e\<close>.
  Objects are association lists in property order (all keys of the code are
  non-numeric, so \<open>Object.keys\<close> returns insertion order). An object compared by
  \<open>===\<close> is compared by identity in JavaScript; the code never compares two objects,
  and the model makes such a comparison false.
\<close>

section \<open>Numbers\<close>

datatype num = Num int nat

fun num_eq :: "num \<Rightarrow> num \<Rightarrow> bool" where
  "num_eq (Num a e) (Num b f) \<longleftrightarrow> a * 10 ^ f = b * 10 ^ e"

abbreviation int_num :: "int \<Rightarrow> num" where
  "int_num i \<equiv> Num i 0"

text \<open>\<open>String(n)\<close> for a number: integers without a point, decimals with their
  significant digits only (\<open>80.0\<close> prints as \<open>80\<close>, \<open>2.10\<close> as \<open>2.1\<close>).\<close>

fun show_num :: "num \<Rightarrow> string" where
  "show_num (Num m e) =
     (let a = nat \<bar>m\<bar>; q = a div 10 ^ e; r = a mod 10 ^ e;
          digits = replicate (e - length (show_nat r)) (CHR ''0'') @ show_nat r;
          frac = rev (dropWhile (\<lambda>c. c = CHR ''0'') (rev digits))
      in if r = 0 then show_int (if m < 0 then - int q else int q)
         else (if m < 0 then ''-'' else []) @ show_nat q @ ''.'' @ frac)"

section \<open>Values and objects\<close>

datatype jsval =
    JUndef
  | JNull
  | JBool bool
  | JNum num
  | JStr string
  | JArr "jsval list"
  | JObj "(string \<times> jsval) list"

type_synonym obj = "(string \<times> jsval) list"

abbreviation jint :: "int \<Rightarrow> jsval" where
  "jint i \<equiv> JNum (int_num i)"

text \<open>\<open>obj[key]\<close>: the first property of that name, \<open>undefined\<close> when there is none.\<close>

definition obj_get :: "obj \<Rightarrow> string \<Rightarrow> jsval" where
  "obj_get ob k = (case map_of ob k of None \<Rightarrow> JUndef | Some v \<Rightarrow> v)"

definition obj_keys :: "obj \<Rightarrow> string list" where
  "obj_keys ob = map fst ob"

text \<open>Writing a property: an existing property keeps its position and takes the new
  value, a new one goes last. An object literal \<open>{a: x, ...o, b: y}\<close> writes its
  entries in order, a spread \<open>...o\<close> writing each property of \<open>o\<close>.\<close>

fun obj_set :: "obj \<Rightarrow> string \<Rightarrow> jsval \<Rightarrow> obj" where
  "obj_set [] k v = [(k, v)]"
| "obj_set ((k', v') # ob) k v = (if k = k' then (k, v) # ob else (k', v') # obj_set ob k v)"

definition obj_literal :: "(string \<times> jsval) list \<Rightarrow> obj" where
  "obj_literal entries = foldl (\<lambda>ob (k, v). obj_set ob k v) [] entries"

text \<open>\<open>typeof v === "string"\<close>.\<close>

fun is_js_string :: "jsval \<Rightarrow> bool" where
  "is_js_string (JStr s) = True"
| "is_js_string v = False"

text \<open>\<open>String(v)\<close>. Arrays print their elements joined by commas, with
  \<open>null\<close> and \<open>undefined\<close> elements empty.\<close>

fun js_string :: "jsval \<Rightarrow> string" where
  "js_string JUndef = ''undefined''"
| "js_string JNull = ''null''"
| "js_string (JBool b) = (if b then ''true'' else ''false'')"
| "js_string (JNum n) = show_num n"
| "js_string (JStr s) = s"
| "js_string (JArr vs) =
     join '','' (map (\<lambda>v. if v = JUndef \<or> v = JNull then [] else js_string v) vs)"
| "js_string (JObj kvs) = ''[object Object]''"

text \<open>\<open>String(v ?? "")\<close>, the cell printer of the exporters.\<close>

definition cell_string :: "jsval \<Rightarrow> string" where
  "cell_string v = (if v = JUndef \<or> v = JNull then [] else js_string v)"

text \<open>\<open>a === b\<close>.\<close>

fun strict_eq :: "jsval \<Rightarrow> jsval \<Rightarrow> bool" where
  "strict_eq JUndef JUndef = True"
| "strict_eq JNull JNull = True"
| "strict_eq (JBool a) (JBool b) = (a = b)"
| "strict_eq (JNum a) (JNum b) = num_eq a b"
| "strict_eq (JStr a) (JStr b) = (a = b)"
| "strict_eq a b = False"

text \<open>Truthiness, as in \<open>if (!raw)\<close> and \<open>.filter(Boolean)\<close>.\<close>

fun js_truthy :: "jsval \<Rightarrow> bool" where
  "js_truthy JUndef = False"
| "js_truthy JNull = False"
| "js_truthy (JBool b) = b"
| "js_truthy (JNum (Num m e)) = (m \<noteq> 0)"
| "js_truthy (JStr s) = (s \<noteq> [])"
| "js_truthy (JArr vs) = True"
| "js_truthy (JObj kvs) = True"

section \<open>JSON text\<close>

definition newline :: string where
  "newline = [CHR 0x0A]"

definition hex_digit :: "nat \<Rightarrow> char" where
  "hex_digit d = ''0123456789abcdef'' ! d"

text \<open>The escapes of \<open>JSON.stringify\<close> for one character of a string.\<close>

definition dquote :: char where
  "dquote = CHR 0x22"

definition bslash :: char where
  "bslash = CHR 0x5C"

definition json_escape :: "char \<Rightarrow> string" where
  "json_escape c =
     (let n = (of_char c :: nat) in
      if c = dquote then [bslash, dquote]
      else if c = bslash then [bslash, bslash]
      else if n = 8 then [bslash, CHR ''b''] else if n = 9 then [bslash, CHR ''t'']
      else if n = 10 then [bslash, CHR ''n''] else if n = 12 then [bslash, CHR ''f'']
      else if n = 13 then [bslash, CHR ''r'']
      else if n < 32 then bslash # ''u00'' @ [hex_digit (n div 16), hex_digit (n mod 16)]
      else [c])"

definition json_quote :: "string \<Rightarrow> string" where
  "json_quote s = dquote # concat (map json_escape s) @ [dquote]"

text \<open>
  \<open>JSON.stringify(v, null, 2)\<close> at indentation \<open>ind\<close>: object properties whose value
  is \<open>undefined\<close> are left out, \<open>undefined\<close> array elements print as \<open>null\<close>.
\<close>

fun json_str :: "string \<Rightarrow> jsval \<Rightarrow> string" where
  "json_str ind JUndef = ''null''"
| "json_str ind JNull = ''null''"
| "json_str ind (JBool b) = (if b then ''true'' else ''false'')"
| "json_str ind (JNum n) = show_num n"
| "json_str ind (JStr s) = json_quote s"
| "json_str ind (JArr vs) =
     (if vs = [] then ''[]''
      else ''['' @ newline
        @ join ('','' @ newline) (map (\<lambda>v. ind @ ''  '' @ json_str (ind @ ''  '') v) vs)
        @ newline @ ind @ '']'')"
| "json_str ind (JObj kvs) =
     (let ps = filter (\<lambda>(k, v). v \<noteq> JUndef) kvs in
      if ps = [] then ''{}''
      else ''{'' @ newline
        @ join ('','' @ newline)
            (map (\<lambda>(k, v). ind @ ''  '' @ json_quote k @ '': '' @ json_str (ind @ ''  '') v) ps)
        @ newline @ ind @ ''}'')"

text \<open>\<open>JSON.stringify(v)\<close> without indentation, the body of \<open>NextResponse.json\<close>.\<close>

fun json_compact :: "jsval \<Rightarrow> string" where
  "json_compact JUndef = ''null''"
| "json_compact JNull = ''null''"
| "json_compact (JBool b) = (if b then ''true'' else ''false'')"
| "json_compact (JNum n) = show_num n"
| "json_compact (JStr s) = json_quote s"
| "json_compact (JArr vs) = ''['' @ join '','' (map json_compact vs) @ '']''"
| "json_compact (JObj kvs) =
     ''{'' @ join '',''
       (map (\<lambda>(k, v). json_quote k @ '':'' @ json_compact v) (filter (\<lambda>(k, v). v \<noteq> JUndef) kvs))
     @ ''}''"

definition json_stringify_pretty :: "jsval \<Rightarrow> string" where
  "json_stringify_pretty v = json_str [] v"

section \<open>Lemmas\<close>

lemma obj_get_Cons [simp, js_simps]:
  "obj_get ((k', v) # ob) k = (if k = k' then v else obj_get ob k)"
  by (simp add: obj_get_def)

lemma obj_get_Nil [simp, js_simps]: "obj_get [] k = JUndef"
  by (simp add: obj_get_def)

lemma obj_keys_simps [simp, js_simps]:
  "obj_keys [] = []" "obj_keys ((k, v) # ob) = k # obj_keys ob"
  by (simp_all add: obj_keys_def)

lemma obj_get_obj_set [simp, js_simps]:
  "obj_get (obj_set ob k v) k' = (if k' = k then v else obj_get ob k')"
  by (induction ob k v rule: obj_set.induct) auto

lemma obj_get_foldl_set:
  "obj_get (foldl (\<lambda>ob (k, v). obj_set ob k v) ob0 es) k =
     (case map_of (rev es) k of None \<Rightarrow> obj_get ob0 k | Some v \<Rightarrow> v)"
  by (induction es arbitrary: ob0) (auto split: option.splits)

lemma obj_get_obj_literal [js_simps]:
  "obj_get (obj_literal es) k = (case map_of (rev es) k of None \<Rightarrow> JUndef | Some v \<Rightarrow> v)"
  using obj_get_foldl_set [of "[]" es k] by (simp add: obj_literal_def split: option.split)

lemma num_eq_refl [simp]: "num_eq n n"
  by (cases n) simp

lemma num_eq_sym: "num_eq a b \<Longrightarrow> num_eq b a"
  by (cases a; cases b) simp

lemma num_eq_int [simp]: "num_eq (int_num a) (int_num b) \<longleftrightarrow> a = b"
  by simp

lemma strict_eq_JStr_left [simp]: "strict_eq (JStr s) v \<longleftrightarrow> v = JStr s"
  by (cases v) auto

lemma strict_eq_JStr_right [simp]: "strict_eq v (JStr s) \<longleftrightarrow> v = JStr s"
  by (cases v) auto

lemma strict_eq_JNum_JStr [simp]: "\<not> strict_eq (JNum n) (JStr s)"
  by simp

lemma strict_eq_jint [simp]: "strict_eq (jint a) (jint b) \<longleftrightarrow> a = b"
  by simp

lemma is_js_string_iff: "is_js_string v \<longleftrightarrow> (\<exists>s. v = JStr s)"
  by (cases v) auto

lemma cell_string_simps [simp, js_simps]:
  "cell_string JUndef = []" "cell_string JNull = []"
  "cell_string (JStr s) = s" "cell_string (JNum n) = show_num n"
  by (simp_all add: cell_string_def)

end
