(* ===== verification/BaseRepository.thy ===== *)
theory BaseRepository
  imports JsValue
begin

text \<open>
  \<open>src/futuristic-ons-dashboard/lib/repositories/BaseRepository.js\<close>: the abstract
  base class of the ONS repositories. Its three query methods throw until a subclass
  overrides them; its \<open>applyFilters\<close> is the generic filter engine every
  \<open>findAll\<close> calls. The engine is stated over any row type \<open>'a\<close> with a view
  \<open>'a \<Rightarrow> obj\<close> that gives the row as the JavaScript object it is, so its lemmas serve
  every repository; \<open>findById\<close>'s lookup by \<open>id ===\<close> is given the same way.
\<close>

section \<open>The abstract base class\<close>

datatype repo_error = NotImplemented string string

record base_repository =
  entityName :: string

definition new_base_repository :: "string \<Rightarrow> base_repository" where
  "new_base_repository name = \<lparr>entityName = name\<rparr>"

text \<open>The three methods of the base class: each raises
  \<open>Error("<method>() nao implementado para <entityName>")\<close>.\<close>

definition base_findAll :: "base_repository \<Rightarrow> (string \<times> jsval) list \<Rightarrow> repo_error + 'a list" where
  "base_findAll r filters = Inl (NotImplemented ''findAll'' (entityName r))"

definition base_findById :: "base_repository \<Rightarrow> jsval \<Rightarrow> repo_error + 'a option" where
  "base_findById r i = Inl (NotImplemented ''findById'' (entityName r))"

definition base_getSummary :: "base_repository \<Rightarrow> repo_error + 'a" where
  "base_getSummary r = Inl (NotImplemented ''getSummary'' (entityName r))"

fun error_message :: "repo_error \<Rightarrow> string" where
  "error_message (NotImplemented m e) = m @ ''() nao implementado para '' @ e"

section \<open>The filter engine\<close>

type_synonym filters = "(string \<times> jsval) list"

text \<open>A filter entry is skipped when its value is \<open>undefined\<close>, \<open>null\<close>, \<open>""\<close> or
  \<open>"all"\<close> (the guard of line 59).\<close>

definition filter_ignored :: "jsval \<Rightarrow> bool" where
  "filter_ignored v \<longleftrightarrow> v = JUndef \<or> v = JNull \<or> v = JStr [] \<or> v = JStr ''all''"

text \<open>The predicate of lines 60--65: case-insensitive substring search when the
  row's field is a string, \<open>===\<close> otherwise.\<close>

definition item_matches :: "obj \<Rightarrow> string \<Rightarrow> jsval \<Rightarrow> bool" where
  "item_matches item key value =
     (case obj_get item key of
        JStr s \<Rightarrow> js_includes (to_lower s) (to_lower (js_string value))
      | v \<Rightarrow> strict_eq v value)"

text \<open>The loop of lines 58--67 over \<open>Object.entries(filters)\<close>, narrowing
  \<open>result\<close> once per entry that is not skipped.\<close>

fun filter_loop :: "('a \<Rightarrow> obj) \<Rightarrow> 'a list \<Rightarrow> filters \<Rightarrow> 'a list" where
  "filter_loop view result [] = result"
| "filter_loop view result ((key, value) # rest) =
     filter_loop view
       (if \<not> filter_ignored value then filter (\<lambda>item. item_matches (view item) key value) result
        else result)
       rest"

definition applyFilters :: "('a \<Rightarrow> obj) \<Rightarrow> 'a list \<Rightarrow> filters \<Rightarrow> 'a list" where
  "applyFilters view data filters = filter_loop view data filters"

text \<open>The subclasses' \<open>findById\<close>: \<open>rows.find(r => r.id === id) || null\<close>.\<close>

definition find_by_id :: "('a \<Rightarrow> int) \<Rightarrow> 'a list \<Rightarrow> jsval \<Rightarrow> 'a option" where
  "find_by_id row_id rows i = find (\<lambda>r. strict_eq (jint (row_id r)) i) rows"

section \<open>Specification of the engine\<close>

text \<open>What a row must satisfy to survive the filters: every entry that is not skipped
  accepts it.\<close>

definition passes :: "('a \<Rightarrow> obj) \<Rightarrow> filters \<Rightarrow> 'a \<Rightarrow> bool" where
  "passes view filters item \<longleftrightarrow>
     (\<forall>(key, value) \<in> set filters. filter_ignored value \<or> item_matches (view item) key value)"

lemma passes_Nil [simp]: "passes view [] item"
  by (simp add: passes_def)

lemma passes_Cons [simp]:
  "passes view ((k, v) # fs) item \<longleftrightarrow>
     (filter_ignored v \<or> item_matches (view item) k v) \<and> passes view fs item"
  by (simp add: passes_def)

lemma filter_loop_eq_filter:
  "filter_loop view result fs = filter (passes view fs) result"
proof (induction view result fs rule: filter_loop.induct)
  case (1 view result)
  then show ?case by simp
next
  case (2 view result key v rest)
  then show ?case by (auto simp: filter_filter conj_commute intro: filter_cong)
qed

lemmas applyFilters_unfold [repo_simps] = applyFilters_def filter_loop_eq_filter

lemma item_matches_string_field:
  "obj_get item key = JStr s \<Longrightarrow>
     item_matches item key value \<longleftrightarrow> sublist (to_lower (js_string value)) (to_lower s)"
  by (simp add: item_matches_def)

lemma item_matches_other_field:
  "\<not> is_js_string (obj_get item key) \<Longrightarrow>
     item_matches item key value \<longleftrightarrow> strict_eq (obj_get item key) value"
  by (cases "obj_get item key") (simp_all add: item_matches_def)

lemma find_by_id_string_None:
  "find_by_id row_id rows (JStr s) = None"
  by (simp add: find_by_id_def find_None_iff)

text \<open>A single string filter on a field that is a string in every row: the rows
  whose field contains the value, ignoring case.\<close>

lemma applyFilters_string_field:
  assumes "q \<noteq> []" and "q \<noteq> ''all''" and "\<And>x. obj_get (view x) k = JStr (f x)"
  shows "applyFilters view data [(k, JStr q)] = filter (\<lambda>x. sublist (to_lower q) (to_lower (f x))) data"
  unfolding applyFilters_unfold
  by (intro filter_cong) (simp_all add: assms filter_ignored_def item_matches_string_field)

section \<open>Properties of the engine\<close>

text \<open>C1. The engine narrows the collection entry by entry; the result is the same as
  one pass of \<open>filter\<close> that keeps the rows every non-skipped entry accepts: the
  entries compose with logical AND.\<close>

theorem applyFilters_spec: "applyFilters view data fs = filter (passes view fs) data"
  by (simp add: applyFilters_unfold)

text \<open>A filter map whose values are all \<open>undefined\<close>, \<open>null\<close>, \<open>""\<close> or
  \<open>"all"\<close> returns the collection unchanged.\<close>

theorem applyFilters_ignorable_identity:
  "\<forall>(k, v) \<in> set fs. filter_ignored v \<Longrightarrow> applyFilters view data fs = data"
  by (auto simp: applyFilters_unfold filter_id_conv passes_def)

text \<open>Filtering never reorders or invents rows: the result is a subsequence of the
  input, in the input's order.\<close>

theorem applyFilters_subseq: "subseq (applyFilters view data fs) data"
  by (simp add: applyFilters_unfold)

text \<open>C4. A single filter with a string value other than \<open>""\<close> and \<open>"all"\<close> keeps
  exactly the rows whose field is a string containing the value, compared after
  \<open>toLowerCase\<close>; a row whose field is not a string never matches a string.\<close>

theorem applyFilters_string_value:
  assumes "q \<noteq> []" and "q \<noteq> ''all''"
  shows "applyFilters view data [(k, JStr q)] =
           filter (\<lambda>x. \<exists>s. obj_get (view x) k = JStr s \<and> sublist (to_lower q) (to_lower s)) data"
proof -
  have "passes view [(k, JStr q)] x \<longleftrightarrow>
          (\<exists>s. obj_get (view x) k = JStr s \<and> sublist (to_lower q) (to_lower s))" for x
    using assms
    by (cases "obj_get (view x) k") (auto simp: filter_ignored_def item_matches_def)
  then show ?thesis unfolding applyFilters_unfold by (intro filter_cong) simp_all
qed

text \<open>A single filter with a value that is not a string, on a field that is not a
  string in any row, keeps exactly the rows whose field is \<open>===\<close> to the value.\<close>

theorem applyFilters_exact_value:
  assumes "\<not> filter_ignored v" and "\<not> is_js_string v"
    and "\<forall>x \<in> set data. \<not> is_js_string (obj_get (view x) k)"
  shows "applyFilters view data [(k, v)] = filter (\<lambda>x. strict_eq (obj_get (view x) k) v) data"
  using assms by (auto simp: applyFilters_unfold item_matches_other_field intro: filter_cong)

text \<open>Filtering a filtered collection is filtering once by both maps.\<close>

theorem applyFilters_compose:
  "applyFilters view (applyFilters view data fs1) fs2 = applyFilters view data (fs1 @ fs2)"
proof -
  have "passes view (fs1 @ fs2) x \<longleftrightarrow> passes view fs1 x \<and> passes view fs2 x" for x
    by (auto simp: passes_def)
  then show ?thesis
    unfolding applyFilters_unfold filter_filter by (intro filter_cong) auto
qed

end
