(* ===== verification/TransmissaoRepository.thy ===== *)
theory TransmissaoRepository
  imports BaseRepository
begin

text \<open>
  \<open>src/futuristic-ons-dashboard/lib/repositories/TransmissaoRepository.js\<close>: the
  transmission lines and the hourly inter-regional exchanges, seeded in the constructor
  and read-only afterwards; \<open>findAll\<close> filters the lines through the base class's
  engine, \<open>findById\<close> looks a line up by \<open>id ===\<close>, \<open>getSummary\<close> counts the lines
  by status and sums their length and capacity.
\<close>

record linha =
  linha_id :: int
  linha_nome :: string
  linha_tensao :: string
  linha_extensao :: int
  linha_capacidade :: int
  linha_status :: string
  linha_regiao :: string
  linha_perdas :: num

text \<open>A line as the object literal the constructor writes, properties in source order.\<close>

definition linha_obj :: "linha \<Rightarrow> obj" where
  "linha_obj l =
     [(''id'', jint (linha_id l)), (''nome'', JStr (linha_nome l)), (''tensao'', JStr (linha_tensao l)),
      (''extensao'', jint (linha_extensao l)), (''capacidade'', jint (linha_capacidade l)),
      (''status'', JStr (linha_status l)), (''regiao'', JStr (linha_regiao l)),
      (''perdas'', JNum (linha_perdas l))]"

record intercambio =
  ic_hora :: string
  ic_N_NE :: int
  ic_NE_SE :: int
  ic_SE_S :: int
  ic_N_SE :: int

definition intercambio_obj :: "intercambio \<Rightarrow> obj" where
  "intercambio_obj i =
     [(''hora'', JStr (ic_hora i)), (''N_NE'', jint (ic_N_NE i)), (''NE_SE'', jint (ic_NE_SE i)),
      (''SE_S'', jint (ic_SE_S i)), (''N_SE'', jint (ic_N_SE i))]"

record transmissao_repository =
  tr_base :: base_repository
  tr_linhas :: "linha list"
  tr_intercambios :: "intercambio list"

definition mk_linha ::
  "int \<Rightarrow> string \<Rightarrow> string \<Rightarrow> int \<Rightarrow> int \<Rightarrow> string \<Rightarrow> string \<Rightarrow> num \<Rightarrow> linha" where
  "mk_linha i n t e c s r p =
     \<lparr>linha_id = i, linha_nome = n, linha_tensao = t, linha_extensao = e, linha_capacidade = c,
      linha_status = s, linha_regiao = r, linha_perdas = p\<rparr>"

definition mk_intercambio :: "string \<Rightarrow> int \<Rightarrow> int \<Rightarrow> int \<Rightarrow> int \<Rightarrow> intercambio" where
  "mk_intercambio h a b c d = \<lparr>ic_hora = h, ic_N_NE = a, ic_NE_SE = b, ic_SE_S = c, ic_N_SE = d\<rparr>"

text \<open>The constructor (lines 4--32).\<close>

definition new_transmissao_repository :: transmissao_repository where
  "new_transmissao_repository =
     \<lparr>tr_base = new_base_repository ''Transmissao'',
      tr_linhas =
       [mk_linha 1 ''Tucurui - Macapa'' ''500 kV'' 1800 3200 ''operando'' ''Norte'' (Num 21 1),
        mk_linha 2 ''Itaipu - SE Foz'' ''765 kV'' 890 6300 ''operando'' ''Sul'' (Num 12 1),
        mk_linha 3 ''Belo Monte - Estreito'' ''800 kV CC'' 2092 4000 ''operando'' ''Norte'' (Num 35 1),
        mk_linha 4 ''Xingu - Terminal Rio'' ''800 kV CC'' 2543 4000 ''operando'' ''Sudeste'' (Num 38 1),
        mk_linha 5 ''SE Miracema - SE Sapeacu'' ''500 kV'' 1452 2800 ''manutencao'' ''Norte'' (Num 25 1),
        mk_linha 6 ''Furnas - Adrianopolis'' ''345 kV'' 420 1200 ''operando'' ''Sudeste'' (Num 8 1),
        mk_linha 7 ''Paulo Afonso - Recife'' ''500 kV'' 680 2500 ''operando'' ''Nordeste'' (Num 15 1),
        mk_linha 8 ''SE Presidente Medici - Pelotas'' ''525 kV'' 350 1500 ''alerta'' ''Sul'' (Num 9 1)],
      tr_intercambios =
       [mk_intercambio ''00:00'' 1200 3500 (-800) 4200,
        mk_intercambio ''02:00'' 1100 3200 (-600) 4000,
        mk_intercambio ''04:00'' 1000 2800 (-500) 3800,
        mk_intercambio ''06:00'' 1300 3000 (-400) 3900,
        mk_intercambio ''08:00'' 1500 3800 (-1200) 4500,
        mk_intercambio ''10:00'' 1800 4200 (-1500) 5000,
        mk_intercambio ''12:00'' 2000 4500 (-1800) 5200,
        mk_intercambio ''14:00'' 1900 4300 (-1600) 5100,
        mk_intercambio ''16:00'' 1700 4000 (-1300) 4800,
        mk_intercambio ''18:00'' 2200 4800 (-2000) 5500,
        mk_intercambio ''20:00'' 2100 4600 (-1800) 5300,
        mk_intercambio ''22:00'' 1600 3800 (-1000) 4400]\<rparr>"

section \<open>Operations\<close>

definition tr_findAll :: "transmissao_repository \<Rightarrow> filters \<Rightarrow> linha list" where
  "tr_findAll r filters = applyFilters linha_obj (tr_linhas r) filters"

definition tr_findById :: "transmissao_repository \<Rightarrow> jsval \<Rightarrow> linha option" where
  "tr_findById r i = find_by_id linha_id (tr_linhas r) i"

definition tr_getIntercambios :: "transmissao_repository \<Rightarrow> intercambio list" where
  "tr_getIntercambios r = tr_intercambios r"

record transmissao_summary =
  ts_total :: nat
  ts_operando :: nat
  ts_manutencao :: nat
  ts_alerta :: nat
  ts_extensaoTotal :: int
  ts_capacidadeTotal :: int

definition tr_getSummary :: "transmissao_repository \<Rightarrow> transmissao_summary" where
  "tr_getSummary r =
     (let ls = tr_linhas r in
      \<lparr>ts_total = length ls,
       ts_operando = count_by linha_status ''operando'' ls,
       ts_manutencao = count_by linha_status ''manutencao'' ls,
       ts_alerta = count_by linha_status ''alerta'' ls,
       ts_extensaoTotal = sum_list (map linha_extensao ls),
       ts_capacidadeTotal = sum_list (map linha_capacidade ls)\<rparr>)"

definition transmissao_summary_obj :: "transmissao_summary \<Rightarrow> obj" where
  "transmissao_summary_obj s =
     [(''total'', jint (int (ts_total s))), (''operando'', jint (int (ts_operando s))),
      (''manutencao'', jint (int (ts_manutencao s))), (''alerta'', jint (int (ts_alerta s))),
      (''extensaoTotal'', jint (ts_extensaoTotal s)), (''capacidadeTotal'', jint (ts_capacidadeTotal s))]"

section \<open>Lemmas\<close>

lemma linha_obj_get [simp, js_simps]:
  "obj_get (linha_obj l) ''status'' = JStr (linha_status l)"
  "obj_get (linha_obj l) ''regiao'' = JStr (linha_regiao l)"
  "obj_get (linha_obj l) ''nome'' = JStr (linha_nome l)"
  "obj_get (linha_obj l) ''id'' = jint (linha_id l)"
  by (simp_all add: linha_obj_def)

lemma linha_status_cases_sum:
  assumes "\<forall>l \<in> set ls. linha_status l \<in> {''operando'', ''manutencao'', ''alerta''}"
  shows "count_by linha_status ''operando'' ls + count_by linha_status ''manutencao'' ls
           + count_by linha_status ''alerta'' ls = length ls"
  using sum_count_by_distinct [of "[''operando'', ''manutencao'', ''alerta'']" ls linha_status] assms
  by simp

lemmas transmissao_seed = new_transmissao_repository_def mk_linha_def mk_intercambio_def
  new_base_repository_def

section \<open>Properties\<close>

text \<open>The summary of the seeded repository: 8 lines, 6 operating, 1 in maintenance,
  1 on alert, 10227 km and 25500 MW in all.\<close>

theorem tr_getSummary_seed:
  "tr_getSummary new_transmissao_repository =
     \<lparr>ts_total = 8, ts_operando = 6, ts_manutencao = 1, ts_alerta = 1,
      ts_extensaoTotal = 10227, ts_capacidadeTotal = 25500\<rparr>"
  by (simp add: tr_getSummary_def transmissao_seed)

text \<open>C8. When every line's status is one of \<open>operando\<close>, \<open>manutencao\<close> and
  \<open>alerta\<close>, the three status counts of the summary add up to its total.\<close>

theorem tr_summary_status_partition:
  assumes "\<forall>l \<in> set (tr_linhas r). linha_status l \<in> {''operando'', ''manutencao'', ''alerta''}"
  shows "ts_operando (tr_getSummary r) + ts_manutencao (tr_getSummary r) + ts_alerta (tr_getSummary r)
           = ts_total (tr_getSummary r)"
  using linha_status_cases_sum [OF assms] by (simp add: tr_getSummary_def Let_def)

theorem tr_summary_status_partition_witness:
  "list_all (\<lambda>l. linha_status l \<in> {''operando'', ''manutencao'', ''alerta''})
      (tr_linhas new_transmissao_repository) \<and>
   ts_operando (tr_getSummary new_transmissao_repository)
     + ts_manutencao (tr_getSummary new_transmissao_repository)
     + ts_alerta (tr_getSummary new_transmissao_repository)
   = ts_total (tr_getSummary new_transmissao_repository)"
proof -
  have h: "\<forall>l \<in> set (tr_linhas new_transmissao_repository).
      linha_status l \<in> {''operando'', ''manutencao'', ''alerta''}"
    by (simp add: transmissao_seed)
  show ?thesis using h tr_summary_status_partition [OF h] by (simp add: list_all_iff)
qed

text \<open>Filtering the seeded lines by status matches case-insensitive substrings:
  \<open>{status: "MANUT"}\<close> returns line 5, the one in \<open>manutencao\<close>, and
  \<open>{regiao: "sul"}\<close> returns lines 2 and 8.\<close>

theorem tr_findAll_seed_filters:
  "tr_findAll new_transmissao_repository [(''status'', JStr ''MANUT'')] =
     [mk_linha 5 ''SE Miracema - SE Sapeacu'' ''500 kV'' 1452 2800 ''manutencao'' ''Norte'' (Num 25 1)]
   \<and> map linha_id (tr_findAll new_transmissao_repository [(''regiao'', JStr ''sul'')]) = [2, 8]"
  by (simp add: tr_findAll_def applyFilters_unfold transmissao_seed filter_ignored_def
      item_matches_def to_lower_def lower_char_def sublist_code prefix_def)

text \<open>\<open>findById\<close> compares with \<open>===\<close>: a numeric id finds its line, the same id
  given as a string (as every query-string value is) finds nothing.\<close>

theorem tr_findById_number_vs_string:
  "tr_findById new_transmissao_repository (jint 5) =
     Some (mk_linha 5 ''SE Miracema - SE Sapeacu'' ''500 kV'' 1452 2800 ''manutencao'' ''Norte'' (Num 25 1))
   \<and> tr_findById r (JStr s) = None"
  by (simp add: tr_findById_def find_by_id_def transmissao_seed find_None_iff)

section \<open>Witnesses of the engine's properties on the seeded lines\<close>

theorem applyFilters_ignorable_identity_witness:
  "filter_ignored (JStr ''all'') \<and> filter_ignored JNull \<and>
   applyFilters linha_obj (tr_linhas new_transmissao_repository)
     [(''status'', JStr ''all''), (''regiao'', JNull)] = tr_linhas new_transmissao_repository"
proof -
  have h: "\<forall>(k, v) \<in> set [(''status'', JStr ''all''), (''regiao'', JNull)]. filter_ignored v"
    by (simp add: filter_ignored_def)
  show ?thesis using h applyFilters_ignorable_identity [OF h] by (simp add: filter_ignored_def)
qed

theorem applyFilters_string_value_witness:
  "''MANUT'' \<noteq> [] \<and> ''MANUT'' \<noteq> ''all'' \<and>
   applyFilters linha_obj (tr_linhas new_transmissao_repository) [(''status'', JStr ''MANUT'')] =
     filter (\<lambda>x. \<exists>s. obj_get (linha_obj x) ''status'' = JStr s \<and> sublist (to_lower ''MANUT'') (to_lower s))
       (tr_linhas new_transmissao_repository)"
  using applyFilters_string_value [of "''MANUT''" linha_obj "tr_linhas new_transmissao_repository" "''status''"]
  by simp

theorem applyFilters_exact_value_witness:
  "\<not> filter_ignored (jint 5) \<and> \<not> is_js_string (jint 5) \<and>
   list_all (\<lambda>x. \<not> is_js_string (obj_get (linha_obj x) ''id'')) (tr_linhas new_transmissao_repository) \<and>
   applyFilters linha_obj (tr_linhas new_transmissao_repository) [(''id'', jint 5)] =
     filter (\<lambda>x. strict_eq (obj_get (linha_obj x) ''id'') (jint 5)) (tr_linhas new_transmissao_repository)"
proof -
  have h1: "\<not> filter_ignored (jint 5)" by (simp add: filter_ignored_def)
  have h2: "\<not> is_js_string (jint 5)" by simp
  have h3: "\<forall>x \<in> set (tr_linhas new_transmissao_repository). \<not> is_js_string (obj_get (linha_obj x) ''id'')"
    by simp
  show ?thesis using h1 h2 h3 applyFilters_exact_value [OF h1 h2 h3] by (simp add: list_all_iff)
qed

end
