(* ===== verification/RelatoriosRepository.thy ===== *)
theory RelatoriosRepository
  imports BaseRepository
begin

text \<open>
  \<open>src/futuristic-ons-dashboard/lib/repositories/RelatoriosRepository.js\<close>: the
  report catalogue and the KPIs, seeded and read-only, and the annotations, the one
  collection that grows at run time: \<open>addAnotacao\<close> builds
  \<open>{id: count + 1, ...anotacao, createdAt: now}\<close>, appends it and returns it. The
  clock \<open>new Date().toISOString()\<close> is an argument of the operation. The annotations'
  invariant (ids \<open>1..n\<close> in order, each with its \<open>createdAt\<close>) is proved over the
  states reachable from the constructor by \<open>addAnotacao\<close> calls whose argument has no
  \<open>id\<close> of its own, which is what the POST handler passes.
\<close>

record relatorio =
  rel_id :: int
  rel_title :: string
  rel_type :: string
  rel_date :: string
  rel_size :: string
  rel_category :: string

definition relatorio_obj :: "relatorio \<Rightarrow> obj" where
  "relatorio_obj r =
     [(''id'', jint (rel_id r)), (''title'', JStr (rel_title r)), (''type'', JStr (rel_type r)),
      (''date'', JStr (rel_date r)), (''size'', JStr (rel_size r)), (''category'', JStr (rel_category r))]"

record kpi =
  kpi_label :: string
  kpi_value :: string
  kpi_trend :: string
  kpi_change :: string

definition kpi_obj :: "kpi \<Rightarrow> obj" where
  "kpi_obj k =
     [(''label'', JStr (kpi_label k)), (''value'', JStr (kpi_value k)), (''trend'', JStr (kpi_trend k)),
      (''change'', JStr (kpi_change k))]"

record relatorios_repository =
  rr_base :: base_repository
  rr_relatorios :: "relatorio list"
  rr_anotacoes :: "obj list"
  rr_kpis :: "kpi list"

definition mk_relatorio :: "int \<Rightarrow> string \<Rightarrow> string \<Rightarrow> string \<Rightarrow> string \<Rightarrow> string \<Rightarrow> relatorio" where
  "mk_relatorio i t ty d sz c =
     \<lparr>rel_id = i, rel_title = t, rel_type = ty, rel_date = d, rel_size = sz, rel_category = c\<rparr>"

definition mk_kpi :: "string \<Rightarrow> string \<Rightarrow> string \<Rightarrow> string \<Rightarrow> kpi" where
  "mk_kpi l v t c = \<lparr>kpi_label = l, kpi_value = v, kpi_trend = t, kpi_change = c\<rparr>"

text \<open>The constructor (lines 4--26).\<close>

definition new_relatorios_repository :: relatorios_repository where
  "new_relatorios_repository =
     \<lparr>rr_base = new_base_repository ''Relatorios'',
      rr_relatorios =
       [mk_relatorio 1 ''Relatorio Mensal do SIN - Janeiro 2026'' ''mensal'' ''05/02/2026'' ''4.2 MB'' ''Operacao'',
        mk_relatorio 2 ''Boletim Diario de Operacao'' ''diario'' ''06/02/2026'' ''1.8 MB'' ''Operacao'',
        mk_relatorio 3 ''Analise de Contingencia - Regiao Sudeste'' ''especial'' ''04/02/2026'' ''2.5 MB'' ''Seguranca'',
        mk_relatorio 4 ''Balanco Energetico Semanal'' ''semanal'' ''03/02/2026'' ''3.1 MB'' ''Energia'',
        mk_relatorio 5 ''Previsao de Carga - Fevereiro 2026'' ''mensal'' ''01/02/2026'' ''2.8 MB'' ''Planejamento'',
        mk_relatorio 6 ''Relatorio de Geracao Renovavel'' ''mensal'' ''02/02/2026'' ''5.4 MB'' ''Renovavel'',
        mk_relatorio 7 ''Situacao dos Reservatorios'' ''semanal'' ''06/02/2026'' ''1.2 MB'' ''Hidro'',
        mk_relatorio 8 ''Indicadores de Desempenho do SIN'' ''mensal'' ''01/02/2026'' ''3.8 MB'' ''Operacao''],
      rr_anotacoes = [],
      rr_kpis =
       [mk_kpi ''Geracao Total 2025'' ''716 TWh'' ''up'' ''+4.2%'',
        mk_kpi ''Pico de Demanda'' ''102.2 GW'' ''up'' ''+2.8%'',
        mk_kpi ''Participacao Renovavel'' ''88.4%'' ''up'' ''+3.1%'',
        mk_kpi ''Nivel dos Reservatorios'' ''62.5%'' ''down'' ''-5.4%'']\<rparr>"

section \<open>Operations\<close>

definition rr_findAll :: "relatorios_repository \<Rightarrow> filters \<Rightarrow> relatorio list" where
  "rr_findAll r filters = applyFilters relatorio_obj (rr_relatorios r) filters"

definition rr_findById :: "relatorios_repository \<Rightarrow> jsval \<Rightarrow> relatorio option" where
  "rr_findById r i = find_by_id rel_id (rr_relatorios r) i"

definition rr_getKpis :: "relatorios_repository \<Rightarrow> kpi list" where
  "rr_getKpis r = rr_kpis r"

definition rr_getAnotacoes :: "relatorios_repository \<Rightarrow> obj list" where
  "rr_getAnotacoes r = rr_anotacoes r"

text \<open>\<open>addAnotacao\<close> (lines 44--52): the new state and the returned object.\<close>

definition addAnotacao :: "relatorios_repository \<Rightarrow> obj \<Rightarrow> string \<Rightarrow> relatorios_repository \<times> obj" where
  "addAnotacao r anotacao now =
     (let newAnotacao =
        obj_literal ((''id'', jint (int (length (rr_anotacoes r)) + 1)) # anotacao @ [(''createdAt'', JStr now)])
      in (r\<lparr>rr_anotacoes := rr_anotacoes r @ [newAnotacao]\<rparr>, newAnotacao))"

record relatorios_summary =
  rs_totalRelatorios :: nat
  rs_diario :: nat
  rs_semanal :: nat
  rs_mensal :: nat
  rs_especial :: nat
  rs_totalAnotacoes :: nat

definition rr_getSummary :: "relatorios_repository \<Rightarrow> relatorios_summary" where
  "rr_getSummary r =
     \<lparr>rs_totalRelatorios = length (rr_relatorios r),
      rs_diario = count_by rel_type ''diario'' (rr_relatorios r),
      rs_semanal = count_by rel_type ''semanal'' (rr_relatorios r),
      rs_mensal = count_by rel_type ''mensal'' (rr_relatorios r),
      rs_especial = count_by rel_type ''especial'' (rr_relatorios r),
      rs_totalAnotacoes = length (rr_anotacoes r)\<rparr>"

definition relatorios_summary_obj :: "relatorios_summary \<Rightarrow> obj" where
  "relatorios_summary_obj s =
     [(''totalRelatorios'', jint (int (rs_totalRelatorios s))),
      (''porTipo'', JObj [(''diario'', jint (int (rs_diario s))), (''semanal'', jint (int (rs_semanal s))),
                        (''mensal'', jint (int (rs_mensal s))), (''especial'', jint (int (rs_especial s)))]),
      (''totalAnotacoes'', jint (int (rs_totalAnotacoes s)))]"

section \<open>Reachable states of the annotation store\<close>

inductive rr_reachable :: "relatorios_repository \<Rightarrow> bool" where
  init: "rr_reachable new_relatorios_repository"
| add: "rr_reachable r \<Longrightarrow> map_of anotacao ''id'' = None \<Longrightarrow>
          rr_reachable (fst (addAnotacao r anotacao now))"

inductive_cases rr_reachable_addE: "rr_reachable (fst (addAnotacao r a now))"

text \<open>The annotations' invariant: the \<open>i\<close>-th annotation has id \<open>i\<close> (from 1) and a
  string \<open>createdAt\<close>.\<close>

definition anotacoes_ok :: "obj list \<Rightarrow> bool" where
  "anotacoes_ok as \<longleftrightarrow>
     (\<forall>i < length as. obj_get (as ! i) ''id'' = jint (int i + 1)
                      \<and> (\<exists>t. obj_get (as ! i) ''createdAt'' = JStr t))"

lemma new_anotacao_fields:
  assumes "map_of anotacao ''id'' = None"
  shows "obj_get (snd (addAnotacao r anotacao now)) ''id'' = jint (int (length (rr_anotacoes r)) + 1)"
    and "obj_get (snd (addAnotacao r anotacao now)) ''createdAt'' = JStr now"
proof -
  from assms have "map_of (rev anotacao) ''id'' = None"
    by (simp add: map_of_eq_None_iff)
  then show "obj_get (snd (addAnotacao r anotacao now)) ''id'' = jint (int (length (rr_anotacoes r)) + 1)"
    by (simp add: addAnotacao_def Let_def obj_get_obj_literal map_add_def)
  show "obj_get (snd (addAnotacao r anotacao now)) ''createdAt'' = JStr now"
    by (simp add: addAnotacao_def Let_def obj_get_obj_literal map_add_def)
qed

lemma addAnotacao_fst:
  "fst (addAnotacao r a now) = r\<lparr>rr_anotacoes := rr_anotacoes r @ [snd (addAnotacao r a now)]\<rparr>"
  by (simp add: addAnotacao_def Let_def)

lemma anotacoes_ok_snoc:
  "anotacoes_ok as \<Longrightarrow> obj_get x ''id'' = jint (int (length as) + 1) \<Longrightarrow>
     obj_get x ''createdAt'' = JStr t \<Longrightarrow> anotacoes_ok (as @ [x])"
  by (auto simp: anotacoes_ok_def nth_append less_Suc_eq)

lemma addAnotacao_keeps_ok:
  assumes "anotacoes_ok (rr_anotacoes r)" and "map_of a ''id'' = None"
  shows "anotacoes_ok (rr_anotacoes (fst (addAnotacao r a now)))"
  using anotacoes_ok_snoc [OF assms(1) new_anotacao_fields [OF assms(2)]] addAnotacao_fst [of r a now]
  by simp

lemma rr_reachable_ok: "rr_reachable r \<Longrightarrow> anotacoes_ok (rr_anotacoes r)"
proof (induction rule: rr_reachable.induct)
  case init
  then show ?case by (simp add: anotacoes_ok_def new_relatorios_repository_def)
next
  case (add r anotacao now)
  show ?case by (rule addAnotacao_keeps_ok [OF add.IH add.hyps(2)])
qed

lemma rr_reachable_frame:
  "rr_reachable r \<Longrightarrow> rr_relatorios r = rr_relatorios new_relatorios_repository
                     \<and> rr_kpis r = rr_kpis new_relatorios_repository"
  by (induction rule: rr_reachable.induct) (simp_all add: addAnotacao_def Let_def)

lemmas relatorios_seed = new_relatorios_repository_def mk_relatorio_def mk_kpi_def new_base_repository_def

lemma anotacoes_ok_ids:
  assumes "anotacoes_ok as"
  shows "map (\<lambda>a. obj_get a ''id'') as = map (\<lambda>i. jint (int i + 1)) [0..<length as]"
proof (rule nth_equalityI)
  show "length (map (\<lambda>a. obj_get a ''id'') as) = length (map (\<lambda>i. jint (int i + 1)) [0..<length as])"
    by simp
next
  fix i
  assume i: "i < length (map (\<lambda>a. obj_get a ''id'') as)"
  then have "obj_get (as ! i) ''id'' = jint (int i + 1)"
    using assms by (simp add: anotacoes_ok_def)
  with i show "map (\<lambda>a. obj_get a ''id'') as ! i = map (\<lambda>i. jint (int i + 1)) [0..<length as] ! i"
    by simp
qed

lemma rr_getSummary_types_sum:
  assumes "\<forall>x \<in> set (rr_relatorios r). rel_type x \<in> {''diario'', ''semanal'', ''mensal'', ''especial''}"
  shows "rs_diario (rr_getSummary r) + rs_semanal (rr_getSummary r) + rs_mensal (rr_getSummary r)
           + rs_especial (rr_getSummary r) = rs_totalRelatorios (rr_getSummary r)"
  using sum_count_by_distinct [of "[''diario'', ''semanal'', ''mensal'', ''especial'']" "rr_relatorios r" rel_type]
    assms
  by (simp add: rr_getSummary_def)

text \<open>Two annotations as the POST handler builds them, for the witnesses.\<close>

definition two_notes_state :: relatorios_repository where
  "two_notes_state =
     fst (addAnotacao (fst (addAnotacao new_relatorios_repository
                              [(''title'', JStr ''a''), (''content'', JStr ''x'')] ''2026-02-06T10:00:00.000Z''))
            [(''title'', JStr ''b''), (''content'', JStr ''y'')] ''2026-02-06T10:05:00.000Z'')"

lemma two_notes_state_reachable: "rr_reachable two_notes_state"
proof -
  have r1: "rr_reachable (fst (addAnotacao new_relatorios_repository
              [(''title'', JStr ''a''), (''content'', JStr ''x'')] ''2026-02-06T10:00:00.000Z''))"
    by (rule rr_reachable.add [OF rr_reachable.init]) simp
  show ?thesis unfolding two_notes_state_def
    by (rule rr_reachable.add [OF r1]) simp
qed

section \<open>Properties\<close>

text \<open>C11. In every state reachable from the constructor by \<open>addAnotacao\<close> calls whose
  argument has no \<open>id\<close> of its own (the calls the POST handler makes), the
  annotations carry the ids \<open>1, 2, ..., n\<close> (the \<open>i\<close>-th from 0 has \<open>i + 1\<close>) in insertion order, so they are unique.\<close>

theorem rr_reachable_annotation_ids:
  assumes "rr_reachable r"
  shows "map (\<lambda>a. obj_get a ''id'') (rr_anotacoes r) = map (\<lambda>i. jint (int i + 1)) [0..<length (rr_anotacoes r)]"
  using anotacoes_ok_ids [OF rr_reachable_ok [OF assms]] .

theorem rr_reachable_annotation_ids_witness:
  "rr_reachable two_notes_state \<and>
   map (\<lambda>a. obj_get a ''id'') (rr_anotacoes two_notes_state) =
     map (\<lambda>i. jint (int i + 1)) [0..<length (rr_anotacoes two_notes_state)]"
  using two_notes_state_reachable rr_reachable_annotation_ids [OF two_notes_state_reachable] by simp

text \<open>Two annotation calls in sequence on the fresh repository return ids 1 and 2,
  and each carries the clock reading of its own call as \<open>createdAt\<close>, so with a clock
  that does not go back the \<open>createdAt\<close> values do not decrease.\<close>

theorem addAnotacao_two_sequential:
  "let (r1, a1) = addAnotacao new_relatorios_repository [(''title'', t1), (''content'', c1)] now1;
       (r2, a2) = addAnotacao r1 [(''title'', t2), (''content'', c2)] now2
   in obj_get a1 ''id'' = jint 1 \<and> obj_get a2 ''id'' = jint 2
      \<and> obj_get a1 ''createdAt'' = JStr now1 \<and> obj_get a2 ''createdAt'' = JStr now2
      \<and> rr_anotacoes r2 = [a1, a2]"
  by (simp add: addAnotacao_def Let_def obj_get_obj_literal relatorios_seed)

text \<open>C13. \<open>addAnotacao\<close> spreads its argument after the id: an argument with an
  \<open>id\<close> property replaces the sequential id, while \<open>createdAt\<close>, written last, is
  always the clock's. The id invariant of C11 therefore rests on the callers.\<close>

theorem addAnotacao_id_override:
  assumes "map_of anotacao ''id'' = Some v" and "distinct (map fst anotacao)"
  shows "obj_get (snd (addAnotacao r anotacao now)) ''id'' = v
         \<and> obj_get (snd (addAnotacao r anotacao now)) ''createdAt'' = JStr now"
proof -
  from assms have "map_of (rev anotacao) ''id'' = Some v"
    by (simp add: map_of_rev_distinct)
  then show ?thesis by (simp add: addAnotacao_def Let_def obj_get_obj_literal map_add_def)
qed

theorem addAnotacao_id_override_witness:
  "map_of [(''id'', jint 1), (''title'', JStr ''dup'')] ''id'' = Some (jint 1) \<and>
   distinct (map fst [(''id'', jint 1), (''title'', JStr ''dup'')]) \<and>
   obj_get (snd (addAnotacao two_notes_state [(''id'', jint 1), (''title'', JStr ''dup'')] ''t'')) ''id'' = jint 1
   \<and> obj_get (snd (addAnotacao two_notes_state [(''id'', jint 1), (''title'', JStr ''dup'')] ''t'')) ''createdAt''
       = JStr ''t''"
  using addAnotacao_id_override [of "[(''id'', jint 1), (''title'', JStr ''dup'')]" "jint 1" two_notes_state "''t''"]
  by simp

text \<open>The summary of the seeded repository: 8 reports, 1 daily, 2 weekly,
  4 monthly, 1 special, no annotations.\<close>

theorem rr_getSummary_seed:
  "rr_getSummary new_relatorios_repository =
     \<lparr>rs_totalRelatorios = 8, rs_diario = 1, rs_semanal = 2, rs_mensal = 4, rs_especial = 1,
      rs_totalAnotacoes = 0\<rparr>"
  by (simp add: rr_getSummary_def relatorios_seed)

text \<open>C15. In every reachable state the per-type counts of the summary add up to the
  number of reports, and \<open>totalAnotacoes\<close> counts the annotations added so far.\<close>

theorem rr_reachable_summary:
  assumes "rr_reachable r"
  shows "rs_diario (rr_getSummary r) + rs_semanal (rr_getSummary r) + rs_mensal (rr_getSummary r)
           + rs_especial (rr_getSummary r) = rs_totalRelatorios (rr_getSummary r)
         \<and> rs_totalAnotacoes (rr_getSummary r) = length (rr_getAnotacoes r)"
proof -
  from rr_reachable_frame [OF assms]
  have "\<forall>x \<in> set (rr_relatorios r). rel_type x \<in> {''diario'', ''semanal'', ''mensal'', ''especial''}"
    by (simp add: relatorios_seed)
  from rr_getSummary_types_sum [OF this] show ?thesis
    by (simp add: rr_getSummary_def rr_getAnotacoes_def)
qed

theorem rr_reachable_summary_witness:
  "rr_reachable two_notes_state \<and>
   rs_diario (rr_getSummary two_notes_state) + rs_semanal (rr_getSummary two_notes_state)
     + rs_mensal (rr_getSummary two_notes_state) + rs_especial (rr_getSummary two_notes_state)
     = rs_totalRelatorios (rr_getSummary two_notes_state)
   \<and> rs_totalAnotacoes (rr_getSummary two_notes_state) = length (rr_getAnotacoes two_notes_state)"
  using two_notes_state_reachable rr_reachable_summary [OF two_notes_state_reachable] by simp

end
