(* ===== verification/EnergiaRepository.thy ===== *)
theory EnergiaRepository
  imports BaseRepository
begin

text \<open>
  \<open>src/futuristic-ons-dashboard/lib/repositories/EnergiaRepository.js\<close>: hourly
  generation by source (the rows of \<open>findAll\<close>), the energy matrix, weekly demand and
  regional consumption, all seeded in the constructor; \<open>getSummary\<close> sums generation
  and capacity over the matrix and prints their ratio in percent with
  \<open>toFixed(1)\<close>. \<open>toFixed\<close> is modelled on the exact ratio: the nearest tenth, ties
  to the larger, a \<open>-\<close> for negative values, \<open>NaN\<close>/\<open>Infinity\<close> for a zero
  capacity. JavaScript computes the ratio in binary floating point first; the two agree
  except where the exact ratio is a tie at the second decimal.
\<close>

record geracao_hora =
  gh_hora :: string
  gh_hidro :: int
  gh_eolica :: int
  gh_solar :: int
  gh_termica :: int
  gh_biomassa :: int

definition geracao_hora_obj :: "geracao_hora \<Rightarrow> obj" where
  "geracao_hora_obj g =
     [(''hora'', JStr (gh_hora g)), (''hidro'', jint (gh_hidro g)), (''eolica'', jint (gh_eolica g)),
      (''solar'', jint (gh_solar g)), (''termica'', jint (gh_termica g)), (''biomassa'', jint (gh_biomassa g))]"

record fonte =
  mf_fonte :: string
  mf_capacidade :: int
  mf_geracao :: int
  mf_cor :: string
  mf_percentual :: num

record demanda_dia =
  dd_dia :: string
  dd_demanda :: int
  dd_geracao :: int

record consumo_regiao =
  cr_regiao :: string
  cr_consumo :: int
  cr_percentual :: num
  cr_cor :: string

record energia_repository =
  er_base :: base_repository
  er_geracaoHoraria :: "geracao_hora list"
  er_matrizEnergetica :: "fonte list"
  er_demandaSemanal :: "demanda_dia list"
  er_consumoRegional :: "consumo_regiao list"

definition mk_gh :: "string \<Rightarrow> int \<Rightarrow> int \<Rightarrow> int \<Rightarrow> int \<Rightarrow> int \<Rightarrow> geracao_hora" where
  "mk_gh h a b c d e =
     \<lparr>gh_hora = h, gh_hidro = a, gh_eolica = b, gh_solar = c, gh_termica = d, gh_biomassa = e\<rparr>"

definition mk_fonte :: "string \<Rightarrow> int \<Rightarrow> int \<Rightarrow> string \<Rightarrow> num \<Rightarrow> fonte" where
  "mk_fonte f c g cor p = \<lparr>mf_fonte = f, mf_capacidade = c, mf_geracao = g, mf_cor = cor, mf_percentual = p\<rparr>"

definition mk_dd :: "string \<Rightarrow> int \<Rightarrow> int \<Rightarrow> demanda_dia" where
  "mk_dd d a b = \<lparr>dd_dia = d, dd_demanda = a, dd_geracao = b\<rparr>"

definition mk_cr :: "string \<Rightarrow> int \<Rightarrow> num \<Rightarrow> string \<Rightarrow> consumo_regiao" where
  "mk_cr r c p cor = \<lparr>cr_regiao = r, cr_consumo = c, cr_percentual = p, cr_cor = cor\<rparr>"

text \<open>The constructor (lines 10--55).\<close>

definition new_energia_repository :: energia_repository where
  "new_energia_repository =
     \<lparr>er_base = new_base_repository ''Energia'',
      er_geracaoHoraria =
       [mk_gh ''00:00'' 42000 12000 0 8500 3200, mk_gh ''02:00'' 40000 13500 0 8200 3100,
        mk_gh ''04:00'' 38000 14000 0 8800 3300, mk_gh ''06:00'' 39000 13000 2000 9200 3400,
        mk_gh ''08:00'' 41000 11000 12000 7500 3500, mk_gh ''10:00'' 43000 9500 22000 5500 3600,
        mk_gh ''12:00'' 44000 8500 28000 4800 3700, mk_gh ''14:00'' 45000 9000 26000 5200 3600,
        mk_gh ''16:00'' 46000 10500 18000 6800 3500, mk_gh ''18:00'' 48000 12000 5000 9500 3400,
        mk_gh ''20:00'' 47000 13000 0 10200 3300, mk_gh ''22:00'' 44000 12500 0 9000 3200],
      er_matrizEnergetica =
       [mk_fonte ''Hidraulica'' 109000 45200 ''#3b82f6'' (Num 576 1),
        mk_fonte ''Eolica'' 30000 12800 ''#00b4d8'' (Num 163 1),
        mk_fonte ''Solar'' 42000 22500 ''#facc15'' (Num 287 1),
        mk_fonte ''Termica'' 25000 8500 ''#f97316'' (Num 108 1),
        mk_fonte ''Biomassa'' 16000 3600 ''#4ade80'' (Num 46 1),
        mk_fonte ''Nuclear'' 2000 1900 ''#a855f7'' (Num 24 1)],
      er_demandaSemanal =
       [mk_dd ''Seg'' 74500 78200, mk_dd ''Ter'' 76200 79500, mk_dd ''Qua'' 75800 78800,
        mk_dd ''Qui'' 77100 80200, mk_dd ''Sex'' 74900 77600, mk_dd ''Sab'' 62000 68500,
        mk_dd ''Dom'' 58500 65200],
      er_consumoRegional =
       [mk_cr ''Sudeste'' 48500 (Num 542 1) ''#00b4d8'', mk_cr ''Sul'' 14200 (Num 159 1) ''#4ade80'',
        mk_cr ''Nordeste'' 12800 (Num 143 1) ''#facc15'', mk_cr ''Norte'' 6500 (Num 73 1) ''#f97316'',
        mk_cr ''Centro-Oeste'' 5800 (Num 65 1) ''#3b82f6'']\<rparr>"

section \<open>Operations\<close>

definition er_findAll :: "energia_repository \<Rightarrow> filters \<Rightarrow> geracao_hora list" where
  "er_findAll r filters = applyFilters geracao_hora_obj (er_geracaoHoraria r) filters"

definition er_getMatrizEnergetica :: "energia_repository \<Rightarrow> fonte list" where
  "er_getMatrizEnergetica r = er_matrizEnergetica r"

definition er_getDemandaSemanal :: "energia_repository \<Rightarrow> demanda_dia list" where
  "er_getDemandaSemanal r = er_demandaSemanal r"

definition er_getConsumoRegional :: "energia_repository \<Rightarrow> consumo_regiao list" where
  "er_getConsumoRegional r = er_consumoRegional r"

text \<open>\<open>(p / q * 100).toFixed(1)\<close> on the exact ratio: the tenths are the nearest
  integer to \<open>1000 |p| / |q|\<close>, ties rounded up.\<close>

definition percent_tenths :: "int \<Rightarrow> int \<Rightarrow> nat" where
  "percent_tenths p q = nat ((2000 * \<bar>p\<bar> + \<bar>q\<bar>) div (2 * \<bar>q\<bar>))"

definition show_tenths :: "nat \<Rightarrow> string" where
  "show_tenths n = show_nat (n div 10) @ ''.'' @ [digit_char (n mod 10)]"

definition percent_toFixed1 :: "int \<Rightarrow> int \<Rightarrow> string" where
  "percent_toFixed1 p q =
     (if q = 0 then (if p = 0 then ''NaN'' else if p > 0 then ''Infinity'' else ''-Infinity'')
      else (if p * q < 0 then ''-'' else []) @ show_tenths (percent_tenths p q))"

record energia_summary =
  es_totalGeracao :: int
  es_totalCapacidade :: int
  es_fatorCarga :: string
  es_fontes :: nat

definition er_getSummary :: "energia_repository \<Rightarrow> energia_summary" where
  "er_getSummary r =
     (let totalGeracao = sum_list (map mf_geracao (er_matrizEnergetica r));
          totalCapacidade = sum_list (map mf_capacidade (er_matrizEnergetica r))
      in \<lparr>es_totalGeracao = totalGeracao, es_totalCapacidade = totalCapacidade,
          es_fatorCarga = percent_toFixed1 totalGeracao totalCapacidade,
          es_fontes = length (er_matrizEnergetica r)\<rparr>)"

definition energia_summary_obj :: "energia_summary \<Rightarrow> obj" where
  "energia_summary_obj s =
     [(''totalGeracao'', jint (es_totalGeracao s)), (''totalCapacidade'', jint (es_totalCapacidade s)),
      (''fatorCarga'', JStr (es_fatorCarga s)), (''fontes'', jint (int (es_fontes s)))]"

lemmas energia_seed = new_energia_repository_def mk_gh_def mk_fonte_def mk_dd_def mk_cr_def
  new_base_repository_def

lemma percent_tenths_le:
  assumes "0 \<le> p" and "p \<le> q" and "0 < q"
  shows "percent_tenths p q \<le> 1000"
proof -
  have "2000 * p + q \<le> 2000 * q + q" using assms by simp
  then have "(2000 * p + q) div (2 * q) \<le> (2000 * q + q) div (2 * q)"
    by (rule zdiv_mono1) (use assms in simp)
  also have "(2000 * q + q) div (2 * q) = 1000"
  proof -
    have "2000 * q + q = 1000 * (2 * q) + q" by simp
    moreover have "q div (2 * q) = 0" using assms by simp
    ultimately show ?thesis using assms by (simp add: div_add_self1 del: mult_2)
  qed
  finally show ?thesis using assms by (simp add: percent_tenths_def)
qed

section \<open>Properties\<close>

text \<open>The summary of the seeded repository: 94500 MW generated of 224000 MW
  installed over 6 sources, a load factor printed as \<open>"42.2"\<close>.\<close>

theorem er_getSummary_seed:
  "er_getSummary new_energia_repository =
     \<lparr>es_totalGeracao = 94500, es_totalCapacidade = 224000, es_fatorCarga = ''42.2'', es_fontes = 6\<rparr>"
  by (simp add: er_getSummary_def energia_seed percent_toFixed1_def percent_tenths_def show_tenths_def
      show_nat.simps digit_char_def)

text \<open>C17. Whenever the matrix generates no more than it has installed and has some
  capacity, the load factor is a non-negative percentage of at most \<open>100.0\<close>: it prints
  the tenths of a number in \<open>0..1000\<close>.\<close>

theorem er_getSummary_fatorCarga_bounds:
  assumes "0 \<le> sum_list (map mf_geracao (er_matrizEnergetica r))"
    and "sum_list (map mf_geracao (er_matrizEnergetica r)) \<le> sum_list (map mf_capacidade (er_matrizEnergetica r))"
    and "0 < sum_list (map mf_capacidade (er_matrizEnergetica r))"
  shows "\<exists>n \<le> 1000. es_fatorCarga (er_getSummary r) = show_tenths n"
proof -
  let ?g = "sum_list (map mf_geracao (er_matrizEnergetica r))"
  let ?c = "sum_list (map mf_capacidade (er_matrizEnergetica r))"
  have "\<not> ?g * ?c < 0" using assms by (simp add: not_less)
  then have "es_fatorCarga (er_getSummary r) = show_tenths (percent_tenths ?g ?c)"
    using assms by (simp add: er_getSummary_def percent_toFixed1_def Let_def)
  with percent_tenths_le [OF assms] show ?thesis by blast
qed

theorem er_getSummary_fatorCarga_bounds_witness:
  "0 \<le> sum_list (map mf_geracao (er_matrizEnergetica new_energia_repository)) \<and>
   sum_list (map mf_geracao (er_matrizEnergetica new_energia_repository))
     \<le> sum_list (map mf_capacidade (er_matrizEnergetica new_energia_repository)) \<and>
   0 < sum_list (map mf_capacidade (er_matrizEnergetica new_energia_repository)) \<and>
   (\<exists>n \<le> 1000. es_fatorCarga (er_getSummary new_energia_repository) = show_tenths n)"
proof -
  have h1: "0 \<le> sum_list (map mf_geracao (er_matrizEnergetica new_energia_repository))"
    by (simp add: energia_seed)
  have h2: "sum_list (map mf_geracao (er_matrizEnergetica new_energia_repository))
     \<le> sum_list (map mf_capacidade (er_matrizEnergetica new_energia_repository))"
    by (simp add: energia_seed)
  have h3: "0 < sum_list (map mf_capacidade (er_matrizEnergetica new_energia_repository))"
    by (simp add: energia_seed)
  show ?thesis using h1 h2 h3 er_getSummary_fatorCarga_bounds [OF h1 h2 h3] by blast
qed

text \<open>The \<open>percentual\<close> column of the seeded matrix is literal data, not derived
  from generation: it adds up to 120.4, and the generation share of hydro is 47.8 \<percent>,
  not the 57.6 \<percent> the row states.\<close>

theorem er_matriz_percentual_seed:
  "sum_list (map (\<lambda>f. case mf_percentual f of Num m e \<Rightarrow> m) (er_getMatrizEnergetica new_energia_repository)) = 1204
   \<and> list_all (\<lambda>f. mf_percentual f = Num (case mf_percentual f of Num m e \<Rightarrow> m) 1)
       (er_getMatrizEnergetica new_energia_repository)
   \<and> percent_toFixed1 45200 (es_totalGeracao (er_getSummary new_energia_repository)) = ''47.8''"
  by (simp add: er_getMatrizEnergetica_def er_getSummary_def energia_seed percent_toFixed1_def
      percent_tenths_def show_tenths_def show_nat.simps digit_char_def)

end
