(* ===== verification/UsinasRepository.thy ===== *)
theory UsinasRepository
  imports BaseRepository
begin

text \<open>
  \<open>src/futuristic-ons-dashboard/lib/repositories/UsinasRepository.js\<close>: two parallel
  repositories, the solar plants with their daily generation curve and the wind farms
  with their generation by wind speed; \<open>findAll\<close>/\<open>findById\<close> as for the other
  repositories, \<open>getSummary\<close> sums capacity and generation (and turbines) and counts
  the plants in operation.
\<close>

record usina_solar =
  us_id :: int
  us_nome :: string
  us_estado :: string
  us_capacidade :: int
  us_geracao :: int
  us_irradiancia :: num
  us_status :: string
  us_fatorCapacidade :: num

definition usina_solar_obj :: "usina_solar \<Rightarrow> obj" where
  "usina_solar_obj u =
     [(''id'', jint (us_id u)), (''nome'', JStr (us_nome u)), (''estado'', JStr (us_estado u)),
      (''capacidade'', jint (us_capacidade u)), (''geracao'', jint (us_geracao u)),
      (''irradiancia'', JNum (us_irradiancia u)), (''status'', JStr (us_status u)),
      (''fatorCapacidade'', JNum (us_fatorCapacidade u))]"

record parque_eolico =
  pe_id :: int
  pe_nome :: string
  pe_estado :: string
  pe_capacidade :: int
  pe_geracao :: int
  pe_turbinas :: int
  pe_velocidadeVento :: num
  pe_status :: string
  pe_fatorCapacidade :: num

definition parque_eolico_obj :: "parque_eolico \<Rightarrow> obj" where
  "parque_eolico_obj p =
     [(''id'', jint (pe_id p)), (''nome'', JStr (pe_nome p)), (''estado'', JStr (pe_estado p)),
      (''capacidade'', jint (pe_capacidade p)), (''geracao'', jint (pe_geracao p)),
      (''turbinas'', jint (pe_turbinas p)), (''velocidadeVento'', JNum (pe_velocidadeVento p)),
      (''status'', JStr (pe_status p)), (''fatorCapacidade'', JNum (pe_fatorCapacidade p))]"

text \<open>A point of the solar curve (\<open>hora, geracao, irradiancia\<close>) and of the wind
  curve (\<open>hora, geracao, velocidade\<close>).\<close>

record curva_ponto =
  cp_hora :: string
  cp_geracao :: int
  cp_valor :: num

record usinas_solares_repository =
  usr_base :: base_repository
  usr_usinas :: "usina_solar list"
  usr_geracaoDiaria :: "curva_ponto list"

record usinas_eolicas_repository =
  uer_base :: base_repository
  uer_parques :: "parque_eolico list"
  uer_geracaoPorVento :: "curva_ponto list"

definition mk_us :: "int \<Rightarrow> string \<Rightarrow> string \<Rightarrow> int \<Rightarrow> int \<Rightarrow> num \<Rightarrow> string \<Rightarrow> num \<Rightarrow> usina_solar" where
  "mk_us i n e c g ir s f =
     \<lparr>us_id = i, us_nome = n, us_estado = e, us_capacidade = c, us_geracao = g, us_irradiancia = ir,
      us_status = s, us_fatorCapacidade = f\<rparr>"

definition mk_pe ::
  "int \<Rightarrow> string \<Rightarrow> string \<Rightarrow> int \<Rightarrow> int \<Rightarrow> int \<Rightarrow> num \<Rightarrow> string \<Rightarrow> num \<Rightarrow> parque_eolico" where
  "mk_pe i n e c g t v s f =
     \<lparr>pe_id = i, pe_nome = n, pe_estado = e, pe_capacidade = c, pe_geracao = g, pe_turbinas = t,
      pe_velocidadeVento = v, pe_status = s, pe_fatorCapacidade = f\<rparr>"

definition mk_cp :: "string \<Rightarrow> int \<Rightarrow> num \<Rightarrow> curva_ponto" where
  "mk_cp h g v = \<lparr>cp_hora = h, cp_geracao = g, cp_valor = v\<rparr>"

text \<open>The two constructors (lines 4--33 and 56--82).\<close>

definition new_usinas_solares_repository :: usinas_solares_repository where
  "new_usinas_solares_repository =
     \<lparr>usr_base = new_base_repository ''UsinasSolares'',
      usr_usinas =
       [mk_us 1 ''Sao Goncalo'' ''PI'' 608 485 (Num 58 1) ''operando'' (Num 798 1),
        mk_us 2 ''Pirapora'' ''MG'' 399 312 (Num 55 1) ''operando'' (Num 782 1),
        mk_us 3 ''Nova Olinda'' ''PI'' 292 238 (Num 59 1) ''operando'' (Num 815 1),
        mk_us 4 ''Boa Sorte'' ''BA'' 350 280 (Num 57 1) ''operando'' (Num 80 0),
        mk_us 5 ''Janauba Solar'' ''MG'' 156 120 (Num 54 1) ''manutencao'' (Num 769 1),
        mk_us 6 ''Coremas'' ''PB'' 210 175 (Num 56 1) ''operando'' (Num 833 1)],
      usr_geracaoDiaria =
       [mk_cp ''05:00'' 0 (Num 0 0), mk_cp ''06:00'' 120 (Num 150 0), mk_cp ''07:00'' 580 (Num 380 0),
        mk_cp ''08:00'' 1200 (Num 620 0), mk_cp ''09:00'' 2100 (Num 780 0), mk_cp ''10:00'' 3200 (Num 890 0),
        mk_cp ''11:00'' 3800 (Num 950 0), mk_cp ''12:00'' 4100 (Num 980 0), mk_cp ''13:00'' 3900 (Num 960 0),
        mk_cp ''14:00'' 3400 (Num 880 0), mk_cp ''15:00'' 2600 (Num 720 0), mk_cp ''16:00'' 1600 (Num 520 0),
        mk_cp ''17:00'' 680 (Num 280 0), mk_cp ''18:00'' 120 (Num 80 0), mk_cp ''19:00'' 0 (Num 0 0)]\<rparr>"

definition new_usinas_eolicas_repository :: usinas_eolicas_repository where
  "new_usinas_eolicas_repository =
     \<lparr>uer_base = new_base_repository ''UsinasEolicas'',
      uer_parques =
       [mk_pe 1 ''Complexo Alto Sertao'' ''BA'' 842 650 184 (Num 82 1) ''operando'' (Num 772 1),
        mk_pe 2 ''Complexo Lagoa dos Ventos'' ''PI'' 716 580 162 (Num 91 1) ''operando'' (Num 81 0),
        mk_pe 3 ''Parque Tucano'' ''BA'' 524 410 120 (Num 78 1) ''operando'' (Num 782 1),
        mk_pe 4 ''Complexo Chafariz'' ''PB'' 472 385 108 (Num 85 1) ''operando'' (Num 816 1),
        mk_pe 5 ''Parque Ventos do Araripe'' ''PE'' 358 265 82 (Num 72 1) ''manutencao'' (Num 74 0),
        mk_pe 6 ''Complexo Caetite'' ''BA'' 292 230 68 (Num 76 1) ''operando'' (Num 788 1)],
      uer_geracaoPorVento =
       [mk_cp ''00:00'' 8500 (Num 72 1), mk_cp ''02:00'' 9200 (Num 78 1), mk_cp ''04:00'' 9800 (Num 81 1),
        mk_cp ''06:00'' 9500 (Num 79 1), mk_cp ''08:00'' 8200 (Num 7 0), mk_cp ''10:00'' 7500 (Num 65 1),
        mk_cp ''12:00'' 7000 (Num 62 1), mk_cp ''14:00'' 7800 (Num 68 1), mk_cp ''16:00'' 8500 (Num 73 1),
        mk_cp ''18:00'' 9500 (Num 8 0), mk_cp ''20:00'' 10200 (Num 85 1), mk_cp ''22:00'' 9800 (Num 82 1)]\<rparr>"

section \<open>Operations\<close>

definition usr_findAll :: "usinas_solares_repository \<Rightarrow> filters \<Rightarrow> usina_solar list" where
  "usr_findAll r filters = applyFilters usina_solar_obj (usr_usinas r) filters"

definition usr_findById :: "usinas_solares_repository \<Rightarrow> jsval \<Rightarrow> usina_solar option" where
  "usr_findById r i = find_by_id us_id (usr_usinas r) i"

definition usr_getGeracaoDiaria :: "usinas_solares_repository \<Rightarrow> curva_ponto list" where
  "usr_getGeracaoDiaria r = usr_geracaoDiaria r"

record solar_summary =
  ss_totalCapacidade :: int
  ss_totalGeracao :: int
  ss_totalUsinas :: nat
  ss_operando :: nat

definition usr_getSummary :: "usinas_solares_repository \<Rightarrow> solar_summary" where
  "usr_getSummary r =
     \<lparr>ss_totalCapacidade = sum_list (map us_capacidade (usr_usinas r)),
      ss_totalGeracao = sum_list (map us_geracao (usr_usinas r)),
      ss_totalUsinas = length (usr_usinas r),
      ss_operando = count_by us_status ''operando'' (usr_usinas r)\<rparr>"

definition uer_findAll :: "usinas_eolicas_repository \<Rightarrow> filters \<Rightarrow> parque_eolico list" where
  "uer_findAll r filters = applyFilters parque_eolico_obj (uer_parques r) filters"

definition uer_findById :: "usinas_eolicas_repository \<Rightarrow> jsval \<Rightarrow> parque_eolico option" where
  "uer_findById r i = find_by_id pe_id (uer_parques r) i"

definition uer_getGeracaoPorVento :: "usinas_eolicas_repository \<Rightarrow> curva_ponto list" where
  "uer_getGeracaoPorVento r = uer_geracaoPorVento r"

record eolica_summary =
  eo_totalCapacidade :: int
  eo_totalGeracao :: int
  eo_totalTurbinas :: int
  eo_totalParques :: nat
  eo_operando :: nat

definition uer_getSummary :: "usinas_eolicas_repository \<Rightarrow> eolica_summary" where
  "uer_getSummary r =
     \<lparr>eo_totalCapacidade = sum_list (map pe_capacidade (uer_parques r)),
      eo_totalGeracao = sum_list (map pe_geracao (uer_parques r)),
      eo_totalTurbinas = sum_list (map pe_turbinas (uer_parques r)),
      eo_totalParques = length (uer_parques r),
      eo_operando = count_by pe_status ''operando'' (uer_parques r)\<rparr>"

lemmas usinas_seed = new_usinas_solares_repository_def new_usinas_eolicas_repository_def
  mk_us_def mk_pe_def mk_cp_def new_base_repository_def

lemma sum_list_mono_map:
  "(\<forall>x \<in> set xs. f x \<le> (g x :: int)) \<Longrightarrow> sum_list (map f xs) \<le> sum_list (map g xs)"
  by (induction xs) (auto intro: add_mono)

lemma count_by_le_length: "count_by f v xs \<le> length xs"
  by (simp add: count_by_def)

section \<open>Properties\<close>

text \<open>The summaries of the seeded repositories: six solar plants, 2015 MW
  installed, 1610 MW generated, five operating; six wind farms, 3204 MW installed,
  2520 MW generated, 724 turbines, five operating.\<close>

theorem usinas_getSummary_seed:
  "usr_getSummary new_usinas_solares_repository =
     \<lparr>ss_totalCapacidade = 2015, ss_totalGeracao = 1610, ss_totalUsinas = 6, ss_operando = 5\<rparr>
   \<and> uer_getSummary new_usinas_eolicas_repository =
     \<lparr>eo_totalCapacidade = 3204, eo_totalGeracao = 2520, eo_totalTurbinas = 724, eo_totalParques = 6,
      eo_operando = 5\<rparr>"
  by (simp add: usr_getSummary_def uer_getSummary_def usinas_seed)

lemma usinas_obj_status [simp]:
  "obj_get (usina_solar_obj u) ''status'' = JStr (us_status u)"
  "obj_get (parque_eolico_obj p) ''status'' = JStr (pe_status p)"
  by (simp_all add: usina_solar_obj_def parque_eolico_obj_def)

lemma lower_operando [simp]: "to_lower ''operando'' = ''operando''"
  by (simp add: to_lower_def lower_char_def)

lemma count_operando_filter:
  assumes "\<forall>x \<in> set xs. st x = ''operando'' \<or> \<not> sublist ''operando'' (to_lower (st x))"
  shows "count_by st ''operando'' xs = length (filter (\<lambda>x. sublist ''operando'' (to_lower (st x))) xs)"
proof -
  have "filter (\<lambda>x. st x = ''operando'') xs = filter (\<lambda>x. sublist ''operando'' (to_lower (st x))) xs"
    using assms by (intro filter_cong) auto
  then show ?thesis by (simp add: count_by_def)
qed

text \<open>C20. The summaries agree with the list route: the \<open>operando\<close> count of
  \<open>getSummary\<close> (an exact \<open>===\<close> comparison) is the number of rows \<open>findAll\<close> returns
  for the filter \<open>status = "operando"\<close> (a case-insensitive substring search), and the
  plant count is the length of the unfiltered list, whenever no other status
  contains \<open>operando\<close>.\<close>

theorem usinas_summary_matches_list:
  assumes "\<forall>u \<in> set (usr_usinas rs). us_status u = ''operando'' \<or> \<not> sublist ''operando'' (to_lower (us_status u))"
    and "\<forall>p \<in> set (uer_parques re). pe_status p = ''operando'' \<or> \<not> sublist ''operando'' (to_lower (pe_status p))"
  shows "ss_operando (usr_getSummary rs) = length (usr_findAll rs [(''status'', JStr ''operando'')])
       \<and> ss_totalUsinas (usr_getSummary rs) = length (usr_findAll rs [])
       \<and> eo_operando (uer_getSummary re) = length (uer_findAll re [(''status'', JStr ''operando'')])
       \<and> eo_totalParques (uer_getSummary re) = length (uer_findAll re [])"
  using count_operando_filter [OF assms(1)] count_operando_filter [OF assms(2)]
    applyFilters_string_field [of "''operando''" usina_solar_obj "''status''" us_status]
    applyFilters_string_field [of "''operando''" parque_eolico_obj "''status''" pe_status]
  by (simp add: usr_getSummary_def uer_getSummary_def usr_findAll_def uer_findAll_def applyFilters_unfold)

theorem usinas_summary_matches_list_witness:
  "list_all (\<lambda>u. us_status u = ''operando'' \<or> \<not> sublist ''operando'' (to_lower (us_status u)))
     (usr_usinas new_usinas_solares_repository)
   \<and> list_all (\<lambda>p. pe_status p = ''operando'' \<or> \<not> sublist ''operando'' (to_lower (pe_status p)))
     (uer_parques new_usinas_eolicas_repository)
   \<and> length (usr_findAll new_usinas_solares_repository [(''status'', JStr ''operando'')]) = 5
   \<and> length (uer_findAll new_usinas_eolicas_repository [(''status'', JStr ''operando'')]) = 5"
proof -
  have h1: "\<forall>u \<in> set (usr_usinas new_usinas_solares_repository).
              us_status u = ''operando'' \<or> \<not> sublist ''operando'' (to_lower (us_status u))"
    by (simp add: usinas_seed to_lower_def lower_char_def sublist_code prefix_def)
  have h2: "\<forall>p \<in> set (uer_parques new_usinas_eolicas_repository).
              pe_status p = ''operando'' \<or> \<not> sublist ''operando'' (to_lower (pe_status p))"
    by (simp add: usinas_seed to_lower_def lower_char_def sublist_code prefix_def)
  have "ss_operando (usr_getSummary new_usinas_solares_repository) = 5"
       "eo_operando (uer_getSummary new_usinas_eolicas_repository) = 5"
    by (simp_all add: usr_getSummary_def uer_getSummary_def usinas_seed)
  then show ?thesis using usinas_summary_matches_list [OF h1 h2] h1 h2 by (simp add: list_all_iff)
qed

end
