(* ===== verification/ExportRoute.thy ===== *)
theory ExportRoute
  imports TransmissaoRepository RelatoriosRepository EnergiaRepository UsinasRepository
begin

text \<open>
  \<open>src/futuristic-ons-dashboard/app/api/export/route.js\<close>: \<open>GET
  /api/export?formato=csv|json|md&dados=energia|transmissao|solar|eolica|relatorios\<close>.
  The handler reads the two query parameters (defaults \<open>csv\<close> and \<open>energia\<close>), asks
  the named repository for \<open>findAll()\<close>, answers 400 for an unknown dataset, 404 for an
  empty one, and otherwise serialises the rows as CSV, pretty JSON or a Markdown table
  with a download file name; an unknown format is 400. The five repositories are the
  record \<open>ons_db\<close>; the clock readings the handler takes (\<open>Date.now()\<close>, the ISO
  time, the pt-BR date and time) are the record \<open>clock\<close>, read once per request.
\<close>

record ons_db =
  db_energia :: energia_repository
  db_transmissao :: transmissao_repository
  db_solar :: usinas_solares_repository
  db_eolica :: usinas_eolicas_repository
  db_relatorios :: relatorios_repository

text \<open>The module-level singletons of \<open>lib/repositories/index.js\<close>.\<close>

definition initial_db :: ons_db where
  "initial_db =
     \<lparr>db_energia = new_energia_repository, db_transmissao = new_transmissao_repository,
      db_solar = new_usinas_solares_repository, db_eolica = new_usinas_eolicas_repository,
      db_relatorios = new_relatorios_repository\<rparr>"

record clock =
  clk_ms :: nat
  clk_iso :: string
  clk_date_br :: string
  clk_time_br :: string

text \<open>A response: \<open>NextResponse.json(body, {status})\<close> or a text body with its
  \<open>Content-Type\<close> and \<open>Content-Disposition\<close> headers.\<close>

datatype response =
    JsonResponse nat jsval
  | FileResponse nat string string string

type_synonym query = "(string \<times> string) list"

text \<open>\<open>searchParams.get(k) || default\<close>: the first value of the parameter, the
  default when it is absent or empty.\<close>

definition param_or :: "query \<Rightarrow> string \<Rightarrow> string \<Rightarrow> string" where
  "param_or q k d = (case map_of q k of Some v \<Rightarrow> if v = [] then d else v | None \<Rightarrow> d)"

definition error_json :: "nat \<Rightarrow> string \<Rightarrow> response" where
  "error_json status msg = JsonResponse status (JObj [(''error'', JStr msg)])"

text \<open>The dataset switch (lines 17--40): the rows as objects and the title.\<close>

definition export_dataset :: "ons_db \<Rightarrow> string \<Rightarrow> (obj list \<times> string) option" where
  "export_dataset db dados =
     (if dados = ''energia'' then
        Some (map geracao_hora_obj (er_findAll (db_energia db) []), ''Geracao de Energia Eletrica'')
      else if dados = ''transmissao'' then
        Some (map linha_obj (tr_findAll (db_transmissao db) []), ''Linhas de Transmissao'')
      else if dados = ''solar'' then
        Some (map usina_solar_obj (usr_findAll (db_solar db) []), ''Usinas Solares'')
      else if dados = ''eolica'' then
        Some (map parque_eolico_obj (uer_findAll (db_eolica db) []), ''Usinas Eolicas'')
      else if dados = ''relatorios'' then
        Some (map relatorio_obj (rr_findAll (db_relatorios db) []), ''Relatorios do SIN'')
      else None)"

section \<open>Serialisers\<close>

definition nl_char :: char where
  "nl_char = CHR 0x0A"

definition csv_row :: "string list \<Rightarrow> obj \<Rightarrow> string" where
  "csv_row headers row = join '';'' (map (\<lambda>h. cell_string (obj_get row h)) headers)"

text \<open>Lines 48--53: the header line and one line per row, joined by newlines.\<close>

definition csv_content :: "string list \<Rightarrow> obj list \<Rightarrow> string" where
  "csv_content headers rows = join [nl_char] (join '';'' headers # map (csv_row headers) rows)"

definition json_envelope :: "string \<Rightarrow> string \<Rightarrow> obj list \<Rightarrow> jsval" where
  "json_envelope title exportedAt rows =
     JObj [(''title'', JStr title), (''exportedAt'', JStr exportedAt), (''data'', JArr (map JObj rows))]"

definition md_row :: "string list \<Rightarrow> obj \<Rightarrow> string" where
  "md_row headers row = ''| '' @ join '' | '' (map (\<lambda>h. cell_string (obj_get row h)) headers) @ '' |''"

text \<open>Lines 78--90.\<close>

definition md_lines :: "string \<Rightarrow> string \<Rightarrow> string \<Rightarrow> string list \<Rightarrow> obj list \<Rightarrow> string list" where
  "md_lines title date time headers rows =
     [''# '' @ title, [], ''> Exportado em: '' @ date @ '' '' @ time, [],
      ''| '' @ join '' | '' headers @ '' |'',
      ''| '' @ join '' | '' (map (\<lambda>_. ''---'') headers) @ '' |'']
     @ map (md_row headers) rows
     @ [[], ''---'', ''*Total de registros: '' @ show_nat (length rows) @ ''*'']"

definition md_content :: "string \<Rightarrow> string \<Rightarrow> string \<Rightarrow> string list \<Rightarrow> obj list \<Rightarrow> string" where
  "md_content title date time headers rows = join [nl_char] (md_lines title date time headers rows)"

definition attachment :: "string \<Rightarrow> nat \<Rightarrow> string \<Rightarrow> string" where
  "attachment dados ms ext =
     ''attachment; filename='' @ [dquote] @ ''ons_'' @ dados @ ''_'' @ show_nat ms @ ''.'' @ ext @ [dquote]"

section \<open>The handler\<close>

definition export_GET :: "ons_db \<Rightarrow> query \<Rightarrow> clock \<Rightarrow> response" where
  "export_GET db q clk =
     (let formato = param_or q ''formato'' ''csv'';
          dados = param_or q ''dados'' ''energia''
      in case export_dataset db dados of
           None \<Rightarrow> error_json 400 ''Tipo de dados invalido''
         | Some (data, title) \<Rightarrow>
             if data = [] then error_json 404 ''Sem dados para exportar''
             else
               (let headers = obj_keys (hd data) in
                if formato = ''csv'' then
                  FileResponse 200 ''text/csv; charset=utf-8'' (attachment dados (clk_ms clk) ''csv'')
                    (csv_content headers data)
                else if formato = ''json'' then
                  FileResponse 200 ''application/json; charset=utf-8'' (attachment dados (clk_ms clk) ''json'')
                    (json_stringify_pretty (json_envelope title (clk_iso clk) data))
                else if formato = ''md'' then
                  FileResponse 200 ''text/markdown; charset=utf-8'' (attachment dados (clk_ms clk) ''md'')
                    (md_content title (clk_date_br clk) (clk_time_br clk) headers data)
                else error_json 400 ''Formato invalido. Use: csv, json, md''))"

fun response_body :: "response \<Rightarrow> string option" where
  "response_body (FileResponse s ct cd body) = Some body"
| "response_body (JsonResponse s v) = None"

fun response_status :: "response \<Rightarrow> nat" where
  "response_status (FileResponse s ct cd body) = s"
| "response_status (JsonResponse s v) = s"

section \<open>Lemmas\<close>

lemma param_or_given: "map_of q k = Some v \<Longrightarrow> v \<noteq> [] \<Longrightarrow> param_or q k d = v"
  by (simp add: param_or_def)

lemma export_dataset_None:
  "dados \<notin> {''energia'', ''transmissao'', ''solar'', ''eolica'', ''relatorios''} \<Longrightarrow>
     export_dataset db dados = None"
  by (simp add: export_dataset_def)

lemma export_GET_found:
  assumes "export_dataset db (param_or q ''dados'' ''energia'') = Some (data, title)" and "data \<noteq> []"
  shows "export_GET db q clk =
    (let formato = param_or q ''formato'' ''csv''; dados = param_or q ''dados'' ''energia'';
         headers = obj_keys (hd data) in
     if formato = ''csv'' then
       FileResponse 200 ''text/csv; charset=utf-8'' (attachment dados (clk_ms clk) ''csv'') (csv_content headers data)
     else if formato = ''json'' then
       FileResponse 200 ''application/json; charset=utf-8'' (attachment dados (clk_ms clk) ''json'')
         (json_stringify_pretty (json_envelope title (clk_iso clk) data))
     else if formato = ''md'' then
       FileResponse 200 ''text/markdown; charset=utf-8'' (attachment dados (clk_ms clk) ''md'')
         (md_content title (clk_date_br clk) (clk_time_br clk) headers data)
     else error_json 400 ''Formato invalido. Use: csv, json, md'')"
  using assms by (simp add: export_GET_def Let_def)

lemma export_GET_status_ok:
  assumes "export_dataset db (param_or q ''dados'' ''energia'') = Some (data, title)" and "data \<noteq> []"
    and "param_or q ''formato'' ''csv'' \<in> {''csv'', ''json'', ''md''}"
  shows "response_status (export_GET db q clk) = 200"
proof -
  have "export_GET db q clk = (case Some (data, title) of None \<Rightarrow> error_json 400 ''Tipo de dados invalido''
         | Some (data, title) \<Rightarrow> if data = [] then error_json 404 ''Sem dados para exportar'' else
           (let headers = obj_keys (hd data) in
                if param_or q ''formato'' ''csv'' = ''csv'' then
                  FileResponse 200 ''text/csv; charset=utf-8'' (attachment (param_or q ''dados'' ''energia'') (clk_ms clk) ''csv'')
                    (csv_content headers data)
                else if param_or q ''formato'' ''csv'' = ''json'' then
                  FileResponse 200 ''application/json; charset=utf-8'' (attachment (param_or q ''dados'' ''energia'') (clk_ms clk) ''json'')
                    (json_stringify_pretty (json_envelope title (clk_iso clk) data))
                else if param_or q ''formato'' ''csv'' = ''md'' then
                  FileResponse 200 ''text/markdown; charset=utf-8'' (attachment (param_or q ''dados'' ''energia'') (clk_ms clk) ''md'')
                    (md_content title (clk_date_br clk) (clk_time_br clk) headers data)
                else error_json 400 ''Formato invalido. Use: csv, json, md''))"
    unfolding export_GET_def Let_def assms(1) ..
  then show ?thesis using assms(2,3) by (auto simp: Let_def)
qed

lemma nl_char_not_semicolon [simp]: "nl_char \<notin> set '';''" "nl_char \<notin> set '' | ''"
  "nl_char \<notin> set ''| ''" "nl_char \<notin> set '' |''" "nl_char \<notin> set ''---''"
  by (simp_all add: nl_char_def)

lemma nl_not_in_csv_row:
  "\<forall>h \<in> set headers. nl_char \<notin> set (cell_string (obj_get r h)) \<Longrightarrow> nl_char \<notin> set (csv_row headers r)"
  unfolding csv_row_def by (rule not_in_join) (auto simp: nl_char_def)

lemma nl_not_in_md_row:
  "\<forall>h \<in> set headers. nl_char \<notin> set (cell_string (obj_get r h)) \<Longrightarrow> nl_char \<notin> set (md_row headers r)"
  unfolding md_row_def using not_in_join [of nl_char "'' | ''" "map (\<lambda>h. cell_string (obj_get r h)) headers"]
  by (auto simp: nl_char_def)

lemma nl_not_in_show_nat: "nl_char \<notin> set (show_nat n)"
  using show_nat_digits [of n] by (auto simp: nl_char_def)

lemma dataset_keys_seed:
  "export_dataset initial_db d = Some (data, title) \<Longrightarrow> data \<noteq> []"
  by (auto simp: export_dataset_def initial_db_def er_findAll_def tr_findAll_def usr_findAll_def
      uer_findAll_def rr_findAll_def applyFilters_unfold energia_seed transmissao_seed usinas_seed
      relatorios_seed split: if_splits)

lemma csv_lines:
  "csv_content headers rows = join [nl_char] (join '';'' headers # map (csv_row headers) rows)"
  by (simp add: csv_content_def)

lemma nl_not_in_md_lines:
  assumes "nl_char \<notin> set title" "nl_char \<notin> set date" "nl_char \<notin> set time"
    and "\<forall>h \<in> set headers. nl_char \<notin> set h"
    and "\<forall>r \<in> set rows. \<forall>h \<in> set headers. nl_char \<notin> set (cell_string (obj_get r h))"
  shows "\<forall>w \<in> set (md_lines title date time headers rows). nl_char \<notin> set w"
proof -
  have "nl_char \<notin> set (join '' | '' headers)"
    using assms(4) by (intro not_in_join) (auto simp: nl_char_def)
  moreover have "nl_char \<notin> set (join '' | '' (map (\<lambda>_. ''---'') headers))"
    by (intro not_in_join) (auto simp: nl_char_def)
  moreover have "\<forall>r \<in> set rows. nl_char \<notin> set (md_row headers r)"
    using assms(5) nl_not_in_md_row by blast
  ultimately show ?thesis
    using assms(1-3) nl_not_in_show_nat [of "length rows"] by (auto simp: md_lines_def nl_char_def)
qed

definition seed_clock :: clock where
  "seed_clock = \<lparr>clk_ms = 1770372000000, clk_iso = ''2026-02-06T10:00:00.000Z'',
                  clk_date_br = ''06/02/2026'', clk_time_br = ''07:00:00''\<rparr>"

section \<open>Properties\<close>

text \<open>C21. An unknown dataset key is a client error: whatever the format, the handler
  answers 400 with the message \<open>Tipo de dados invalido\<close>, never a file and never an
  exception.\<close>

theorem export_unknown_dataset:
  assumes "map_of q ''dados'' = Some d" and "d \<noteq> []"
    and "d \<notin> {''energia'', ''transmissao'', ''solar'', ''eolica'', ''relatorios''}"
  shows "export_GET db q clk = error_json 400 ''Tipo de dados invalido''"
  using assms by (simp add: export_GET_def param_or_given export_dataset_None Let_def)

theorem export_unknown_dataset_witness:
  "map_of [(''formato'', ''csv''), (''dados'', ''doesnotexist'')] ''dados'' = Some ''doesnotexist'' \<and>
   ''doesnotexist'' \<noteq> [] \<and>
   ''doesnotexist'' \<notin> {''energia'', ''transmissao'', ''solar'', ''eolica'', ''relatorios''} \<and>
   export_GET initial_db [(''formato'', ''csv''), (''dados'', ''doesnotexist'')] seed_clock
     = error_json 400 ''Tipo de dados invalido''"
  using export_unknown_dataset [of "[(''formato'', ''csv''), (''dados'', ''doesnotexist'')]" "''doesnotexist''"
      initial_db seed_clock]
  by simp

text \<open>A known, non-empty dataset with a format other than \<open>csv\<close>, \<open>json\<close>,
  \<open>md\<close> is a client error 400 naming the accepted formats.\<close>

theorem export_unknown_format:
  assumes "map_of q ''formato'' = Some f" and "f \<noteq> []" and "f \<notin> {''csv'', ''json'', ''md''}"
    and "export_dataset db (param_or q ''dados'' ''energia'') = Some (data, title)" and "data \<noteq> []"
  shows "export_GET db q clk = error_json 400 ''Formato invalido. Use: csv, json, md''"
  using assms by (simp add: export_GET_found [OF assms(4,5)] param_or_given Let_def)

theorem export_unknown_format_witness:
  "map_of [(''formato'', ''xml''), (''dados'', ''solar'')] ''formato'' = Some ''xml'' \<and> ''xml'' \<noteq> [] \<and>
   ''xml'' \<notin> {''csv'', ''json'', ''md''} \<and>
   export_dataset initial_db (param_or [(''formato'', ''xml''), (''dados'', ''solar'')] ''dados'' ''energia'')
     = Some (map usina_solar_obj (usr_usinas new_usinas_solares_repository), ''Usinas Solares'') \<and>
   map usina_solar_obj (usr_usinas new_usinas_solares_repository) \<noteq> [] \<and>
   export_GET initial_db [(''formato'', ''xml''), (''dados'', ''solar'')] seed_clock
     = error_json 400 ''Formato invalido. Use: csv, json, md''"
proof -
  have h: "export_dataset initial_db (param_or [(''formato'', ''xml''), (''dados'', ''solar'')] ''dados'' ''energia'')
     = Some (map usina_solar_obj (usr_usinas new_usinas_solares_repository), ''Usinas Solares'')"
    by (simp add: export_dataset_def param_or_def initial_db_def usr_findAll_def applyFilters_unfold)
  have ne: "map usina_solar_obj (usr_usinas new_usinas_solares_repository) \<noteq> []"
    by (simp add: usinas_seed)
  show ?thesis using h ne export_unknown_format [OF _ _ _ h ne, of "''xml''" seed_clock] by simp
qed

text \<open>When no key and no cell contains a newline, the CSV body has exactly one line
  more than there are records.\<close>

theorem csv_line_count:
  assumes "\<forall>h \<in> set headers. nl_char \<notin> set h"
    and "\<forall>r \<in> set rows. \<forall>h \<in> set headers. nl_char \<notin> set (cell_string (obj_get r h))"
  shows "length (split_on nl_char (csv_content headers rows)) = length rows + 1"
proof -
  have "nl_char \<notin> set (join '';'' headers)"
    using assms(1) by (intro not_in_join) (auto simp: nl_char_def)
  moreover have "\<forall>r \<in> set rows. nl_char \<notin> set (csv_row headers r)"
    using assms(2) nl_not_in_csv_row by blast
  ultimately show ?thesis by (simp add: csv_content_def length_split_on_join)
qed

definition seed_lines_headers :: "string list" where
  "seed_lines_headers = obj_keys (linha_obj (hd (tr_linhas new_transmissao_repository)))"

lemma seed_lines_no_newline:
  "\<forall>h \<in> set seed_lines_headers. nl_char \<notin> set h"
  "\<forall>r \<in> set (map linha_obj (tr_linhas new_transmissao_repository)). \<forall>h \<in> set seed_lines_headers.
      nl_char \<notin> set (cell_string (obj_get r h))"
  by (simp_all add: seed_lines_headers_def transmissao_seed linha_obj_def nl_char_def show_int_def
      show_nat.simps digit_char_def)

theorem csv_line_count_witness:
  "list_all (\<lambda>h. nl_char \<notin> set h) seed_lines_headers \<and>
   length (split_on nl_char (csv_content seed_lines_headers (map linha_obj (tr_linhas new_transmissao_repository))))
     = 9"
  using seed_lines_no_newline csv_line_count [OF seed_lines_no_newline]
  by (simp add: list_all_iff transmissao_seed)

text \<open>When the title, the clock strings, the keys and the cells have no newline, the
  Markdown body has \<open>n + 9\<close> lines for \<open>n\<close> records: title, blank, timestamp,
  blank, header, separator, the rows, blank, rule and the record count.\<close>

theorem md_line_count:
  assumes "nl_char \<notin> set title" "nl_char \<notin> set date" "nl_char \<notin> set time"
    and "\<forall>h \<in> set headers. nl_char \<notin> set h"
    and "\<forall>r \<in> set rows. \<forall>h \<in> set headers. nl_char \<notin> set (cell_string (obj_get r h))"
  shows "length (split_on nl_char (md_content title date time headers rows)) = length rows + 9"
proof -
  have "md_lines title date time headers rows \<noteq> []" by (simp add: md_lines_def)
  with nl_not_in_md_lines [OF assms] show ?thesis
    by (simp add: md_content_def length_split_on_join) (simp add: md_lines_def)
qed

theorem md_line_count_witness:
  "nl_char \<notin> set ''Linhas de Transmissao'' \<and> nl_char \<notin> set (clk_date_br seed_clock) \<and>
   nl_char \<notin> set (clk_time_br seed_clock) \<and>
   length (split_on nl_char (md_content ''Linhas de Transmissao'' (clk_date_br seed_clock) (clk_time_br seed_clock)
      seed_lines_headers (map linha_obj (tr_linhas new_transmissao_repository)))) = 17"
proof -
  have t: "nl_char \<notin> set ''Linhas de Transmissao''" "nl_char \<notin> set (clk_date_br seed_clock)"
    "nl_char \<notin> set (clk_time_br seed_clock)"
    by (simp_all add: nl_char_def seed_clock_def)
  show ?thesis using t md_line_count [OF t seed_lines_no_newline] by (simp add: transmissao_seed)
qed

text \<open>Exporting \<open>energia\<close> as JSON on the seeded repositories answers 200 with
  the envelope \<open>{title, exportedAt, data}\<close>, pretty-printed, whose \<open>data\<close> are the
  12 hourly generation rows and whose \<open>exportedAt\<close> is the request's ISO time.\<close>

theorem export_json_energia:
  "export_GET initial_db [(''formato'', ''json''), (''dados'', ''energia'')] clk =
     FileResponse 200 ''application/json; charset=utf-8'' (attachment ''energia'' (clk_ms clk) ''json'')
       (json_stringify_pretty (JObj [(''title'', JStr ''Geracao de Energia Eletrica''),
          (''exportedAt'', JStr (clk_iso clk)),
          (''data'', JArr (map (JObj \<circ> geracao_hora_obj) (er_geracaoHoraria new_energia_repository)))]))
   \<and> length (er_geracaoHoraria new_energia_repository) = 12"
  by (simp add: export_GET_def param_or_def export_dataset_def initial_db_def er_findAll_def
      applyFilters_unfold json_envelope_def energia_seed Let_def)

text \<open>C28. The CSV and Markdown bodies do not depend on the clock except for the
  timestamp line of the Markdown: two exports of the same data at different times give
  the same CSV body, and Markdown bodies that differ in their third line only.\<close>

theorem export_bodies_clock_independent:
  "response_body (export_GET db [(''formato'', ''csv''), (''dados'', k)] clk1)
     = response_body (export_GET db [(''formato'', ''csv''), (''dados'', k)] clk2)
   \<and> take 2 (md_lines title d1 t1 headers rows) = take 2 (md_lines title d2 t2 headers rows)
   \<and> drop 3 (md_lines title d1 t1 headers rows) = drop 3 (md_lines title d2 t2 headers rows)"
  by (simp add: export_GET_def param_or_def Let_def md_lines_def split: option.split)

text \<open>The CSV cells are not quoted or escaped: a record whose text contains the
  separator \<open>;\<close> yields a line that splits into one field more than there are
  columns, so the file no longer parses back to the records.\<close>

theorem csv_row_unescaped_separator:
  "let r = relatorio_obj (mk_relatorio 9 ''Carga; Sul'' ''especial'' ''07/02/2026'' ''1.0 MB'' ''Operacao'')
   in length (split_on (CHR '';'') (csv_row (obj_keys r) r)) = length (obj_keys r) + 1"
  by (simp add: relatorio_obj_def mk_relatorio_def csv_row_def show_int_def show_nat.simps digit_char_def)

end
