(* ===== verification/DataRoutes.thy ===== *)
theory DataRoutes
  imports ExportRoute
begin

text \<open>
  The data routes of \<open>src/futuristic-ons-dashboard/app/api/\<close>: \<open>energia\<close>,
  \<open>transmissao\<close>, \<open>usinas\<close> and \<open>relatorios\<close>, each a \<open>GET\<close> handler that switches on
  the \<open>tipo\<close> query parameter over the singletons of \<open>ons_db\<close>, and the \<open>POST\<close> of
  \<open>relatorios\<close>, the one route that changes a repository. A query parameter is
  \<open>searchParams.get(k)\<close>, the first value or \<open>null\<close> (\<open>None\<close>); a \<open>switch\<close> compares it
  with \<open>===\<close>, so an absent or unknown \<open>tipo\<close> takes the \<open>default\<close> branch. The JSON
  objects the repositories return are given by encoders in the key order of their
  literals.
\<close>

section \<open>Encoders of the repository objects\<close>

definition fonte_obj :: "fonte \<Rightarrow> obj" where
  "fonte_obj f =
     [(''fonte'', JStr (mf_fonte f)), (''capacidade'', jint (mf_capacidade f)),
      (''geracao'', jint (mf_geracao f)), (''cor'', JStr (mf_cor f)),
      (''percentual'', JNum (mf_percentual f))]"

definition demanda_dia_obj :: "demanda_dia \<Rightarrow> obj" where
  "demanda_dia_obj d =
     [(''dia'', JStr (dd_dia d)), (''demanda'', jint (dd_demanda d)), (''geracao'', jint (dd_geracao d))]"

definition consumo_regiao_obj :: "consumo_regiao \<Rightarrow> obj" where
  "consumo_regiao_obj c =
     [(''regiao'', JStr (cr_regiao c)), (''consumo'', jint (cr_consumo c)),
      (''percentual'', JNum (cr_percentual c)), (''cor'', JStr (cr_cor c))]"

text \<open>A curve point; its third key is \<open>irradiancia\<close> on the solar curve and
  \<open>velocidade\<close> on the wind curve.\<close>

definition curva_obj :: "string \<Rightarrow> curva_ponto \<Rightarrow> obj" where
  "curva_obj k p = [(''hora'', JStr (cp_hora p)), (''geracao'', jint (cp_geracao p)), (k, JNum (cp_valor p))]"

definition solar_summary_obj :: "solar_summary \<Rightarrow> obj" where
  "solar_summary_obj s =
     [(''totalCapacidade'', jint (ss_totalCapacidade s)), (''totalGeracao'', jint (ss_totalGeracao s)),
      (''totalUsinas'', jint (int (ss_totalUsinas s))), (''operando'', jint (int (ss_operando s)))]"

definition eolica_summary_obj :: "eolica_summary \<Rightarrow> obj" where
  "eolica_summary_obj s =
     [(''totalCapacidade'', jint (eo_totalCapacidade s)), (''totalGeracao'', jint (eo_totalGeracao s)),
      (''totalTurbinas'', jint (eo_totalTurbinas s)), (''totalParques'', jint (int (eo_totalParques s))),
      (''operando'', jint (int (eo_operando s)))]"

text \<open>\<open>NextResponse.json(rows)\<close> with the default status 200.\<close>

definition json_rows :: "('a \<Rightarrow> obj) \<Rightarrow> 'a list \<Rightarrow> response" where
  "json_rows enc xs = JsonResponse 200 (JArr (map (\<lambda>x. JObj (enc x)) xs))"

definition json_ok :: "obj \<Rightarrow> response" where
  "json_ok ob = JsonResponse 200 (JObj ob)"

definition param :: "query \<Rightarrow> string \<Rightarrow> string option" where
  "param q k = map_of q k"

text \<open>\<open>if (v) filters.k = v\<close>: a present, non-empty parameter becomes a filter entry.\<close>

definition opt_filter :: "string \<Rightarrow> string option \<Rightarrow> filters" where
  "opt_filter k v = (case v of Some s \<Rightarrow> if s = [] then [] else [(k, JStr s)] | None \<Rightarrow> [])"

section \<open>The GET handlers\<close>

text \<open>\<open>app/api/energia/route.js\<close>.\<close>

definition energia_GET :: "ons_db \<Rightarrow> query \<Rightarrow> response" where
  "energia_GET db q =
     (let r = db_energia db in
      case param q ''tipo'' of
        Some t \<Rightarrow>
          if t = ''matriz'' then json_rows fonte_obj (er_getMatrizEnergetica r)
          else if t = ''demanda'' then json_rows demanda_dia_obj (er_getDemandaSemanal r)
          else if t = ''consumo'' then json_rows consumo_regiao_obj (er_getConsumoRegional r)
          else if t = ''summary'' then json_ok (energia_summary_obj (er_getSummary r))
          else json_rows geracao_hora_obj (er_findAll r [])
      | None \<Rightarrow> json_rows geracao_hora_obj (er_findAll r []))"

text \<open>\<open>app/api/transmissao/route.js\<close>: the list takes the \<open>status\<close> and
  \<open>regiao\<close> parameters as filters, in that order.\<close>

definition transmissao_GET :: "ons_db \<Rightarrow> query \<Rightarrow> response" where
  "transmissao_GET db q =
     (let r = db_transmissao db;
          filters = opt_filter ''status'' (param q ''status'') @ opt_filter ''regiao'' (param q ''regiao'')
      in if param q ''tipo'' = Some ''intercambios'' then json_rows intercambio_obj (tr_getIntercambios r)
         else if param q ''tipo'' = Some ''summary'' then json_ok (transmissao_summary_obj (tr_getSummary r))
         else json_rows linha_obj (tr_findAll r filters))"

text \<open>\<open>app/api/usinas/route.js\<close>: \<open>fonte === "eolica"\<close> picks the wind repository,
  anything else the solar one.\<close>

definition usinas_GET :: "ons_db \<Rightarrow> query \<Rightarrow> response" where
  "usinas_GET db q =
     (let eolica = (param q ''fonte'' = Some ''eolica'');
          filters = opt_filter ''status'' (param q ''status'')
      in if param q ''tipo'' = Some ''geracao'' then
           (if eolica then json_rows (curva_obj ''velocidade'') (uer_getGeracaoPorVento (db_eolica db))
            else json_rows (curva_obj ''irradiancia'') (usr_getGeracaoDiaria (db_solar db)))
         else if param q ''tipo'' = Some ''summary'' then
           (if eolica then json_ok (eolica_summary_obj (uer_getSummary (db_eolica db)))
            else json_ok (solar_summary_obj (usr_getSummary (db_solar db))))
         else if eolica then json_rows parque_eolico_obj (uer_findAll (db_eolica db) filters)
         else json_rows usina_solar_obj (usr_findAll (db_solar db) filters))"

text \<open>\<open>app/api/relatorios/route.js\<close>, \<open>GET\<close>: the \<open>filter\<close> parameter other than
  \<open>all\<close> becomes the \<open>type\<close> filter.\<close>

definition relatorios_GET :: "ons_db \<Rightarrow> query \<Rightarrow> response" where
  "relatorios_GET db q =
     (let r = db_relatorios db;
          filters = (case param q ''filter'' of
                       Some f \<Rightarrow> if f = [] \<or> f = ''all'' then [] else [(''type'', JStr f)]
                     | None \<Rightarrow> [])
      in if param q ''tipo'' = Some ''kpis'' then json_rows kpi_obj (rr_getKpis r)
         else if param q ''tipo'' = Some ''anotacoes'' then json_rows id (rr_getAnotacoes r)
         else if param q ''tipo'' = Some ''summary'' then json_ok (relatorios_summary_obj (rr_getSummary r))
         else json_rows relatorio_obj (rr_findAll r filters))"

section \<open>The POST handler\<close>

text \<open>What \<open>request.json()\<close> and the destructuring \<open>const {action} = body\<close> may
  throw; neither is caught, so the request fails.\<close>

datatype route_fault = InvalidJsonBody | DestructureNullish

text \<open>\<open>body.k\<close> on a parsed JSON value: a property of an object, \<open>undefined\<close> on
  any other value.\<close>

fun js_prop :: "jsval \<Rightarrow> string \<Rightarrow> jsval" where
  "js_prop (JObj ob) k = obj_get ob k"
| "js_prop v k = JUndef"

text \<open>The body is \<open>None\<close> when it is not valid JSON. The handler adds the note with
  the request's ISO clock and answers 201 with it; any other action is 400.\<close>

definition relatorios_POST ::
  "ons_db \<Rightarrow> jsval option \<Rightarrow> clock \<Rightarrow> route_fault + (ons_db \<times> response)" where
  "relatorios_POST db body clk =
     (case body of
        None \<Rightarrow> Inl InvalidJsonBody
      | Some b \<Rightarrow>
          if b = JNull \<or> b = JUndef then Inl DestructureNullish
          else if strict_eq (js_prop b ''action'') (JStr ''anotacao'') then
            (let (r', a) = addAnotacao (db_relatorios db)
                             (obj_literal [(''title'', js_prop b ''title''), (''content'', js_prop b ''content'')])
                             (clk_iso clk)
             in Inr (db\<lparr>db_relatorios := r'\<rparr>, JsonResponse 201 (JObj a)))
          else Inr (db, error_json 400 ''Acao invalida''))"


text \<open>The shape of a JSON answer of the data routes: status 200 with an array of
  objects or with one object.\<close>

section \<open>Behaviour of the handlers\<close>

lemma applyFilters_no_filters [simp]: "applyFilters view xs [] = xs"
  by (simp add: applyFilters_def)

lemma param_simps [simp]:
  "param [] k = None"
  "param ((k', v) # q) k = (if k' = k then Some v else param q k)"
  by (simp_all add: param_def)

lemmas route_defs = json_rows_def json_ok_def opt_filter_def Let_def

lemma post_note_literal [simp]:
  "obj_literal [(''title'', t), (''content'', c)] = [(''title'', t), (''content'', c)]"
  by (simp add: obj_literal_def)

lemma post_note_no_id: "map_of (obj_literal [(''title'', t), (''content'', c)]) ''id'' = None"
  by simp

text \<open>The \<open>POST\<close> handler on each branch: an unparsable body and a \<open>null\<close> body
  throw, an unknown action is 400 and leaves the store alone, and \<open>anotacao\<close> appends
  the note, numbered after the notes already stored, with the request's clock, and
  answers it with 201.\<close>

lemma relatorios_POST_faults:
  "relatorios_POST db None clk = Inl InvalidJsonBody"
  "relatorios_POST db (Some JNull) clk = Inl DestructureNullish"
  by (simp_all add: relatorios_POST_def)

lemma relatorios_POST_invalid_action:
  "b \<noteq> JNull \<Longrightarrow> b \<noteq> JUndef \<Longrightarrow> \<not> strict_eq (js_prop b ''action'') (JStr ''anotacao'') \<Longrightarrow>
     relatorios_POST db (Some b) clk = Inr (db, error_json 400 ''Acao invalida'')"
  by (simp add: relatorios_POST_def)

lemma relatorios_POST_anotacao:
  assumes "b \<noteq> JNull" and "b \<noteq> JUndef" and "js_prop b ''action'' = JStr ''anotacao''"
  obtains a db' where "relatorios_POST db (Some b) clk = Inr (db', JsonResponse 201 (JObj a))"
    and "rr_anotacoes (db_relatorios db') = rr_anotacoes (db_relatorios db) @ [a]"
    and "obj_get a ''id'' = jint (int (length (rr_anotacoes (db_relatorios db))) + 1)"
    and "obj_get a ''createdAt'' = JStr (clk_iso clk)"
    and "obj_get a ''title'' = js_prop b ''title''"
    and "db'\<lparr>db_relatorios := db_relatorios db\<rparr> = db"
proof -
  let ?n = "obj_literal [(''title'', js_prop b ''title''), (''content'', js_prop b ''content'')]"
  let ?p = "addAnotacao (db_relatorios db) ?n (clk_iso clk)"
  have "relatorios_POST db (Some b) clk = Inr (db\<lparr>db_relatorios := fst ?p\<rparr>, JsonResponse 201 (JObj (snd ?p)))"
    using assms by (simp add: relatorios_POST_def case_prod_unfold Let_def)
  moreover have "obj_get (snd ?p) ''title'' = js_prop b ''title''"
    by (simp add: addAnotacao_def Let_def obj_get_obj_literal)
  ultimately show ?thesis
    using that new_anotacao_fields [OF post_note_no_id] addAnotacao_fst [of "db_relatorios db" ?n "clk_iso clk"]
    by simp
qed

text \<open>The summary of each route counts the rows its unfiltered list returns.\<close>

lemma routes_summary_counts_rows:
  "transmissao_GET db [] = json_rows linha_obj (tr_linhas (db_transmissao db))
   \<and> ts_total (tr_getSummary (db_transmissao db)) = length (tr_linhas (db_transmissao db))"
  "usinas_GET db [] = json_rows usina_solar_obj (usr_usinas (db_solar db))
   \<and> ss_totalUsinas (usr_getSummary (db_solar db)) = length (usr_usinas (db_solar db))"
  "usinas_GET db [(''fonte'', ''eolica'')] = json_rows parque_eolico_obj (uer_parques (db_eolica db))
   \<and> eo_totalParques (uer_getSummary (db_eolica db)) = length (uer_parques (db_eolica db))"
  "relatorios_GET db [] = json_rows relatorio_obj (rr_relatorios (db_relatorios db))
   \<and> rs_totalRelatorios (rr_getSummary (db_relatorios db)) = length (rr_relatorios (db_relatorios db))"
  by (simp_all add: transmissao_GET_def usinas_GET_def relatorios_GET_def route_defs tr_findAll_def
        usr_findAll_def uer_findAll_def rr_findAll_def tr_getSummary_def usr_getSummary_def
        uer_getSummary_def rr_getSummary_def)

text \<open>Only the exact value \<open>eolica\<close> selects the wind repository: an absent or
  differently cased \<open>fonte\<close> is served the solar plants.\<close>

lemma usinas_GET_fonte_solar:
  "f \<noteq> ''eolica'' \<Longrightarrow> usinas_GET db [(''fonte'', f)] = usinas_GET db []"
  by (simp add: usinas_GET_def Let_def)

section \<open>The routes' reachable states\<close>

text \<open>The repositories as the routes leave them: the fresh singletons, then any
  sequence of successful \<open>POST\<close>s. The \<open>GET\<close> handlers and the export route only read
  the store.\<close>

inductive routes_reachable :: "ons_db \<Rightarrow> bool" where
  init: "routes_reachable initial_db"
| post: "routes_reachable db \<Longrightarrow> relatorios_POST db b clk = Inr (db', resp) \<Longrightarrow> routes_reachable db'"


lemma relatorios_POST_Inr:
  assumes "relatorios_POST db b clk = Inr (db', resp)"
  shows "db' = db \<or>
         (\<exists>a now. map_of a ''id'' = None \<and> db' = db\<lparr>db_relatorios := fst (addAnotacao (db_relatorios db) a now)\<rparr>)"
proof (cases "\<exists>x. b = Some x \<and> x \<noteq> JNull \<and> x \<noteq> JUndef \<and> strict_eq (js_prop x ''action'') (JStr ''anotacao'')")
  case True
  then obtain x where x: "b = Some x" "x \<noteq> JNull" "x \<noteq> JUndef"
    "strict_eq (js_prop x ''action'') (JStr ''anotacao'')" by blast
  let ?a = "obj_literal [(''title'', js_prop x ''title''), (''content'', js_prop x ''content'')]"
  from assms x have "db' = db\<lparr>db_relatorios := fst (addAnotacao (db_relatorios db) ?a (clk_iso clk))\<rparr>"
    by (simp add: relatorios_POST_def case_prod_unfold Let_def)
  then show ?thesis using post_note_no_id by blast
next
  case False
  with assms show ?thesis by (auto simp: relatorios_POST_def split: option.splits if_splits)
qed

lemma routes_reachable_db:
  "routes_reachable db \<Longrightarrow>
     rr_reachable (db_relatorios db) \<and> db\<lparr>db_relatorios := db_relatorios initial_db\<rparr> = initial_db"
proof (induction rule: routes_reachable.induct)
  case init
  show ?case by (simp add: initial_db_def rr_reachable.init)
next
  case (post db b clk db' resp)
  from relatorios_POST_Inr [OF post.hyps(2)] show ?case
  proof
    assume "db' = db"
    with post.IH show ?thesis by simp
  next
    assume "\<exists>a now. map_of a ''id'' = None \<and> db' = db\<lparr>db_relatorios := fst (addAnotacao (db_relatorios db) a now)\<rparr>"
    then obtain a now where a: "map_of a ''id'' = None"
      and db': "db' = db\<lparr>db_relatorios := fst (addAnotacao (db_relatorios db) a now)\<rparr>" by blast
    from post.IH have "rr_reachable (fst (addAnotacao (db_relatorios db) a now))"
      using rr_reachable.add a by blast
    with post.IH db' show ?thesis by simp
  qed
qed

lemma relatorios_GET_anotacoes:
  "relatorios_GET db [(''tipo'', ''anotacoes'')] = JsonResponse 200 (JArr (map JObj (rr_anotacoes (db_relatorios db))))"
  by (simp add: relatorios_GET_def Let_def param_def json_rows_def rr_getAnotacoes_def)

text \<open>C12. Through the HTTP routes the annotation ids stay sequential: in every
  state reachable by \<open>POST /api/relatorios\<close> requests, whatever their bodies, the
  list \<open>GET ?tipo=anotacoes\<close> returns has ids \<open>1..n\<close> in order. The handler builds
  the argument of \<open>addAnotacao\<close> from \<open>title\<close> and \<open>content\<close> only, so a body with
  an \<open>id\<close> cannot reach the override of C13.\<close>

theorem routes_annotation_ids:
  assumes "routes_reachable db"
  shows "\<exists>as. relatorios_GET db [(''tipo'', ''anotacoes'')] = JsonResponse 200 (JArr (map JObj as))
              \<and> map (\<lambda>a. obj_get a ''id'') as = map (\<lambda>i. jint (int i + 1)) [0..<length as]"
  using relatorios_GET_anotacoes [of db] anotacoes_ok_ids [OF rr_reachable_ok] routes_reachable_db [OF assms]
  by blast

definition post_demo_db :: ons_db where
  "post_demo_db = fst (projr (relatorios_POST initial_db
     (Some (JObj [(''action'', JStr ''anotacao''), (''id'', jint 1), (''title'', JStr ''t'')]))
     \<lparr>clk_ms = 0, clk_iso = ''2026-02-06T10:00:00.000Z'', clk_date_br = [], clk_time_br = []\<rparr>))"

lemma post_demo_reachable: "routes_reachable post_demo_db"
proof -
  have "relatorios_POST initial_db
     (Some (JObj [(''action'', JStr ''anotacao''), (''id'', jint 1), (''title'', JStr ''t'')]))
     \<lparr>clk_ms = 0, clk_iso = ''2026-02-06T10:00:00.000Z'', clk_date_br = [], clk_time_br = []\<rparr>
     = Inr (post_demo_db, snd (projr (relatorios_POST initial_db
     (Some (JObj [(''action'', JStr ''anotacao''), (''id'', jint 1), (''title'', JStr ''t'')]))
     \<lparr>clk_ms = 0, clk_iso = ''2026-02-06T10:00:00.000Z'', clk_date_br = [], clk_time_br = []\<rparr>)))"
    by (simp add: post_demo_db_def relatorios_POST_def Let_def split: prod.split)
  then show ?thesis by (rule routes_reachable.post [OF routes_reachable.init])
qed

theorem routes_annotation_ids_witness:
  "routes_reachable post_demo_db \<and>
   (\<exists>as. relatorios_GET post_demo_db [(''tipo'', ''anotacoes'')] = JsonResponse 200 (JArr (map JObj as))
         \<and> map (\<lambda>a. obj_get a ''id'') as = map (\<lambda>i. jint (int i + 1)) [0..<length as])"
  using post_demo_reachable routes_annotation_ids [OF post_demo_reachable] by blast

section \<open>The list and export routes on reachable stores\<close>

text \<open>The routes only change the annotations: every repository the export reads is
  the fresh one.\<close>

lemma export_dataset_reachable:
  assumes "routes_reachable db"
  shows "export_dataset db d = export_dataset initial_db d"
proof -
  have r: "rr_reachable (db_relatorios db)" and eq: "db\<lparr>db_relatorios := db_relatorios initial_db\<rparr> = initial_db"
    using routes_reachable_db [OF assms] by simp_all
  have "db_energia db = db_energia initial_db" "db_transmissao db = db_transmissao initial_db"
       "db_solar db = db_solar initial_db" "db_eolica db = db_eolica initial_db"
    using arg_cong [OF eq, of db_energia] arg_cong [OF eq, of db_transmissao]
      arg_cong [OF eq, of db_solar] arg_cong [OF eq, of db_eolica] by simp_all
  moreover have "rr_relatorios (db_relatorios db) = rr_relatorios (db_relatorios initial_db)"
    using rr_reachable_frame [OF r] by (simp add: initial_db_def)
  ultimately show ?thesis by (simp add: export_dataset_def rr_findAll_def)
qed

lemma export_keys_clean:
  "export_dataset db d = Some (data, title) \<Longrightarrow> x \<in> set data \<Longrightarrow>
     obj_keys x \<noteq> [] \<and> (\<forall>h \<in> set (obj_keys x). CHR '';'' \<notin> set h \<and> nl_char \<notin> set h)"
  by (auto simp: export_dataset_def geracao_hora_obj_def linha_obj_def usina_solar_obj_def
      parque_eolico_obj_def relatorio_obj_def nl_char_def split: if_splits)

text \<open>C19. The transmission list route turns its \<open>status\<close> and \<open>regiao\<close> query
  parameters into repository filters: for values other than \<open>""\<close> and \<open>all\<close>, it
  answers exactly the lines whose status contains the first and whose region
  contains the second, ignoring case, in the repository's order.\<close>

theorem transmissao_GET_filters:
  assumes "st \<noteq> []" "st \<noteq> ''all''" "rg \<noteq> []" "rg \<noteq> ''all''"
  shows "transmissao_GET db [(''status'', st), (''regiao'', rg)] =
           json_rows linha_obj (filter (\<lambda>l. sublist (to_lower st) (to_lower (linha_status l))
                                            \<and> sublist (to_lower rg) (to_lower (linha_regiao l)))
                                  (tr_linhas (db_transmissao db)))"
proof -
  have "tr_findAll (db_transmissao db) [(''status'', JStr st), (''regiao'', JStr rg)] =
          filter (\<lambda>l. sublist (to_lower st) (to_lower (linha_status l))
                      \<and> sublist (to_lower rg) (to_lower (linha_regiao l))) (tr_linhas (db_transmissao db))"
    unfolding tr_findAll_def applyFilters_unfold
    by (intro filter_cong) (simp_all add: assms filter_ignored_def item_matches_string_field)
  then show ?thesis using assms by (simp add: transmissao_GET_def opt_filter_def Let_def)
qed

theorem transmissao_GET_filters_witness:
  "''MANUT'' \<noteq> [] \<and> ''MANUT'' \<noteq> ''all'' \<and> ''norte'' \<noteq> [] \<and> ''norte'' \<noteq> ''all''
   \<and> transmissao_GET initial_db [(''status'', ''MANUT''), (''regiao'', ''norte'')] =
       json_rows linha_obj (filter (\<lambda>l. sublist (to_lower ''MANUT'') (to_lower (linha_status l))
                                        \<and> sublist (to_lower ''norte'') (to_lower (linha_regiao l)))
                              (tr_linhas (db_transmissao initial_db)))"
  using transmissao_GET_filters [of "''MANUT''" "''norte''" initial_db] by simp

text \<open>C23. The export's 404 branch is dead: on every store the routes can reach, each
  of the five datasets exports in each of the three formats with status 200.\<close>

theorem export_reachable_ok:
  assumes "routes_reachable db"
    and "param_or q ''dados'' ''energia'' \<in> {''energia'', ''transmissao'', ''solar'', ''eolica'', ''relatorios''}"
    and "param_or q ''formato'' ''csv'' \<in> {''csv'', ''json'', ''md''}"
  shows "response_status (export_GET db q clk) = 200"
proof -
  obtain data title where d: "export_dataset db (param_or q ''dados'' ''energia'') = Some (data, title)"
    using assms(2) by (auto simp: export_dataset_def)
  then have "data \<noteq> []"
    using dataset_keys_seed export_dataset_reachable [OF assms(1)] by metis
  then show ?thesis using export_GET_status_ok [OF d _ assms(3)] by blast
qed

theorem export_reachable_ok_witness:
  "routes_reachable initial_db
   \<and> param_or [(''dados'', ''relatorios''), (''formato'', ''md'')] ''dados'' ''energia''
       \<in> {''energia'', ''transmissao'', ''solar'', ''eolica'', ''relatorios''}
   \<and> param_or [(''dados'', ''relatorios''), (''formato'', ''md'')] ''formato'' ''csv'' \<in> {''csv'', ''json'', ''md''}
   \<and> response_status (export_GET initial_db [(''dados'', ''relatorios''), (''formato'', ''md'')] seed_clock) = 200"
proof -
  have h: "param_or [(''dados'', ''relatorios''), (''formato'', ''md'')] ''dados'' ''energia''
             \<in> {''energia'', ''transmissao'', ''solar'', ''eolica'', ''relatorios''}"
          "param_or [(''dados'', ''relatorios''), (''formato'', ''md'')] ''formato'' ''csv'' \<in> {''csv'', ''json'', ''md''}"
    by (simp_all add: param_or_def)
  show ?thesis using export_reachable_ok [OF routes_reachable.init h] h routes_reachable.init by simp
qed

text \<open>C24. The CSV export's header round trip: on every reachable store, the first
  line of the body the route sends, split at \<open>;\<close>, is the list of keys of the first
  exported record, \<open>Object.keys(data[0])\<close>, in order.\<close>

theorem export_csv_header:
  assumes "routes_reachable db" and "param_or q ''formato'' ''csv'' = ''csv''"
    and "export_dataset db (param_or q ''dados'' ''energia'') = Some (data, title)"
  shows "\<exists>b. response_body (export_GET db q clk) = Some b
             \<and> split_on (CHR '';'') (hd (split_on nl_char b)) = obj_keys (hd data)"
proof -
  have ne: "data \<noteq> []" using dataset_keys_seed export_dataset_reachable [OF assms(1)] assms(3) by metis
  have k: "obj_keys (hd data) \<noteq> []" "\<forall>h \<in> set (obj_keys (hd data)). CHR '';'' \<notin> set h \<and> nl_char \<notin> set h"
    using export_keys_clean [OF assms(3) hd_in_set [OF ne]] by simp_all
  have b: "response_body (export_GET db q clk) = Some (csv_content (obj_keys (hd data)) data)"
    using export_GET_found [OF assms(3) ne] assms(2) by (simp add: Let_def)
  have "nl_char \<notin> set (join '';'' (obj_keys (hd data)))"
    using k(2) by (intro not_in_join) (auto simp: nl_char_def)
  then have "hd (split_on nl_char (csv_content (obj_keys (hd data)) data)) = join '';'' (obj_keys (hd data))"
    by (simp add: csv_content_def hd_split_on_join)
  with b k show ?thesis by (simp add: split_on_join)
qed

theorem export_csv_header_witness:
  "routes_reachable initial_db \<and> param_or [(''dados'', ''transmissao'')] ''formato'' ''csv'' = ''csv''
   \<and> export_dataset initial_db (param_or [(''dados'', ''transmissao'')] ''dados'' ''energia'')
       = Some (map linha_obj (tr_linhas new_transmissao_repository), ''Linhas de Transmissao'')
   \<and> (\<exists>b. response_body (export_GET initial_db [(''dados'', ''transmissao'')] seed_clock) = Some b
          \<and> split_on (CHR '';'') (hd (split_on nl_char b))
              = [''id'', ''nome'', ''tensao'', ''extensao'', ''capacidade'', ''status'', ''regiao'', ''perdas''])"
proof -
  have f: "param_or [(''dados'', ''transmissao'')] ''formato'' ''csv'' = ''csv''" by (simp add: param_or_def)
  have d: "export_dataset initial_db (param_or [(''dados'', ''transmissao'')] ''dados'' ''energia'')
             = Some (map linha_obj (tr_linhas new_transmissao_repository), ''Linhas de Transmissao'')"
    by (simp add: export_dataset_def param_or_def initial_db_def tr_findAll_def applyFilters_unfold)
  have k: "obj_keys (hd (map linha_obj (tr_linhas new_transmissao_repository)))
             = [''id'', ''nome'', ''tensao'', ''extensao'', ''capacidade'', ''status'', ''regiao'', ''perdas'']"
    by (simp add: transmissao_seed linha_obj_def)
  show ?thesis using export_csv_header [OF routes_reachable.init f d, of seed_clock] f d k routes_reachable.init by simp
qed

end
