(* ===== verification/Format.thy ===== *)
theory Format
  imports JsValue
begin

text \<open>
  \<open>src/futuristic-ons-dashboard/lib/format.js\<close>: \<open>formatNumber\<close>, the pages' number
  printer. A non-number is printed by \<open>String(value)\<close>; a number by
  \<open>toLocaleString("pt-BR")\<close>: the integer digits in groups of three separated by
  \<open>.\<close>, a decimal comma, at most three fraction digits (rounded half away from zero),
  no trailing zeros. The model's numbers are exact decimals, so the \<open>NaN\<close> branch of the
  guard has no counterpart.
\<close>

text \<open>Grouping works on the reversed digit string: a dot after every third digit that
  has more digits after it.\<close>

fun group_rev :: "string \<Rightarrow> string" where
  "group_rev (a # b # c # d # rest) = a # b # c # CHR ''.'' # group_rev (d # rest)"
| "group_rev xs = xs"

definition group_thousands :: "string \<Rightarrow> string" where
  "group_thousands s = rev (group_rev (rev s))"

definition strip_trailing_zeros :: "string \<Rightarrow> string" where
  "strip_trailing_zeros s = rev (dropWhile (\<lambda>c. c = CHR ''0'') (rev s))"

text \<open>A number \<open>m / 10^e\<close> with its magnitude rounded to three fraction digits, half
  away from zero: the thousandths of \<open>|m| / 10^e\<close>.\<close>

definition thousandths :: "int \<Rightarrow> nat \<Rightarrow> nat" where
  "thousandths m e =
     (if e \<le> 3 then nat \<bar>m\<bar> * 10 ^ (3 - e)
      else (2 * nat \<bar>m\<bar> + 10 ^ (e - 3)) div (2 * 10 ^ (e - 3)))"

fun locale_pt_BR :: "num \<Rightarrow> string" where
  "locale_pt_BR (Num m e) =
     (let t = thousandths m e; ip = t div 1000; fp = t mod 1000;
          frac = strip_trailing_zeros (replicate (3 - length (show_nat fp)) (CHR ''0'') @ show_nat fp)
      in (if m < 0 \<and> t \<noteq> 0 then ''-'' else [])
         @ group_thousands (show_nat ip) @ (if fp = 0 then [] else CHR '','' # frac))"

definition formatNumber :: "jsval \<Rightarrow> string" where
  "formatNumber v = (case v of JNum n \<Rightarrow> locale_pt_BR n | _ \<Rightarrow> js_string v)"

section \<open>Lemmas\<close>

lemma group_rev_remove_dots:
  "CHR ''.'' \<notin> set s \<Longrightarrow> filter (\<lambda>c. c \<noteq> CHR ''.'') (group_rev s) = s"
  by (induction s rule: group_rev.induct) auto

lemma length_group_rev: "length (group_rev s) = length s + (length s - 1) div 3"
  by (induction s rule: group_rev.induct) auto

lemma dot_not_digit: "CHR ''.'' \<notin> set (show_nat n)"
  using show_nat_digits [of n] by auto

section \<open>Properties\<close>

text \<open>C30. Round trip of the grouping: deleting the dots from the integer part printed
  by \<open>formatNumber\<close> gives back the decimal digits of the integer, and exactly
  \<open>(d - 1) div 3\<close> dots are inserted for \<open>d\<close> digits.\<close>

theorem formatNumber_int_roundtrip:
  assumes "0 \<le> i"
  shows "filter (\<lambda>c. c \<noteq> CHR ''.'') (formatNumber (jint i)) = show_nat (nat i)
         \<and> length (formatNumber (jint i)) = length (show_nat (nat i)) + (length (show_nat (nat i)) - 1) div 3"
proof -
  have f: "formatNumber (jint i) = group_thousands (show_nat (nat i))"
    using assms by (simp add: formatNumber_def thousandths_def Let_def)
  have "filter (\<lambda>c. c \<noteq> CHR ''.'') (group_rev (rev (show_nat (nat i)))) = rev (show_nat (nat i))"
    using dot_not_digit [of "nat i"] by (simp add: group_rev_remove_dots)
  then have "filter (\<lambda>c. c \<noteq> CHR ''.'') (group_thousands (show_nat (nat i))) = show_nat (nat i)"
    by (simp add: group_thousands_def rev_filter [symmetric])
  with f show ?thesis by (simp add: group_thousands_def length_group_rev)
qed

theorem formatNumber_int_roundtrip_witness:
  "0 \<le> (12000::int) \<and> formatNumber (jint 12000) = ''12.000'' \<and>
   filter (\<lambda>c. c \<noteq> CHR ''.'') (formatNumber (jint 12000)) = show_nat (nat 12000)"
  using formatNumber_int_roundtrip [of 12000]
  by (simp add: formatNumber_def thousandths_def group_thousands_def show_nat_eval)

text \<open>\<open>formatNumber\<close> on the pages' values: \<open>156284\<close> prints \<open>156.284\<close>,
  \<open>2.1\<close> prints \<open>2,1\<close>, \<open>-1800\<close> prints \<open>-1.800\<close>, \<open>1.2345\<close> rounds to
  \<open>1,235\<close>, and a string is printed as it is.\<close>

theorem formatNumber_examples:
  "formatNumber (jint 156284) = ''156.284'' \<and> formatNumber (JNum (Num 21 1)) = ''2,1''
   \<and> formatNumber (jint (-1800)) = ''-1.800'' \<and> formatNumber (JNum (Num 12345 4)) = ''1,235''
   \<and> formatNumber (JStr ''n/d'') = ''n/d''"
  by (simp add: formatNumber_def thousandths_def group_thousands_def strip_trailing_zeros_def
      show_nat_eval)

end
