(* ===== verification/View.thy ===== *)
theory View
  imports JsValue
begin

text \<open>
  The rendering vocabulary of the React pages and widgets. A rendered page is a tree
  of elements: an element has a tag, its string attributes (\<open>key\<close>, \<open>type\<close>,
  \<open>value\<close>, \<open>disabled\<close>, and \<open>class\<close> where the classes depend on the state), its
  event handlers, and its children; text nodes hold the strings the page shows. The
  handlers carry the page's own event type \<open>'e\<close>: a click handler is the event it
  dispatches, a change handler maps the input's new value to an event, a key handler
  maps the key pressed to the event it dispatches, if any. Icons of
  \<open>lucide-react\<close> draw no text and are left out; classes that do not depend on the
  state are left out too.
\<close>

datatype 'e handler = OnClick 'e | OnChange "string \<Rightarrow> 'e" | OnKeyDown "string \<Rightarrow> 'e option"

datatype 'e ui =
    Txt string
  | El string "(string \<times> string) list" "'e handler list" "'e ui list"

text \<open>\<open>cn(...)\<close> of the components: the class arguments that are not \<open>false\<close> or empty,
  joined by spaces (as \<open>clsx\<close> does).\<close>

definition cn :: "string list \<Rightarrow> string" where
  "cn args = join '' '' (filter (\<lambda>a. a \<noteq> []) args)"

text \<open>The arrow \<open>U+2192\<close> of the page texts, as its UTF-8 bytes.\<close>

definition right_arrow :: string where
  "right_arrow = [CHR 0xE2, CHR 0x86, CHR 0x92]"

definition bool_attr :: "bool \<Rightarrow> string" where
  "bool_attr b = (if b then ''true'' else ''false'')"

section \<open>The glass card widgets\<close>

text \<open>\<open>GlassCard\<close>, \<open>GlassCardHeader\<close> and \<open>GlassCardTitle\<close> of
  \<open>widgets/GlassCard.jsx\<close>, with no extra \<open>className\<close> and no glow.\<close>

definition glass_card :: "'e ui list \<Rightarrow> 'e ui" where
  "glass_card children =
     El ''div'' [(''class'', cn [''glass-card rounded-xl p-6 transition-all duration-300 hover:border-[#00b4d8]/30'']) ] [] children"

definition glass_card_header :: "'e ui list \<Rightarrow> 'e ui" where
  "glass_card_header children =
     El ''div'' [(''class'', cn [''flex items-center justify-between mb-4''])] [] children"

definition glass_card_title :: "string \<Rightarrow> 'e ui" where
  "glass_card_title t =
     El ''h3'' [(''class'', cn [''text-sm font-medium text-[#8b9cb8] uppercase tracking-wide''])] [] [Txt t]"

section \<open>Reading a rendered tree\<close>

text \<open>The texts of a tree in document order.\<close>

fun ui_texts :: "'e ui \<Rightarrow> string list" where
  "ui_texts (Txt s) = [s]"
| "ui_texts (El t as hs cs) = concat (map ui_texts cs)"

definition is_disabled :: "(string \<times> string) list \<Rightarrow> bool" where
  "is_disabled as \<longleftrightarrow> map_of as ''disabled'' = Some ''true''"

fun click_events :: "'e handler list \<Rightarrow> 'e list" where
  "click_events [] = []"
| "click_events (OnClick e # hs) = e # click_events hs"
| "click_events (OnChange f # hs) = click_events hs"
| "click_events (OnKeyDown f # hs) = click_events hs"

text \<open>The events a user can dispatch by clicking: the click handlers of the elements
  that are not disabled (a disabled button does not fire \<open>onClick\<close>).\<close>

fun ui_clicks :: "'e ui \<Rightarrow> 'e list" where
  "ui_clicks (Txt s) = []"
| "ui_clicks (El t as hs cs) =
     (if is_disabled as then [] else click_events hs) @ concat (map ui_clicks cs)"

text \<open>The elements of a tree in document order (pre-order).\<close>

fun ui_elems :: "'e ui \<Rightarrow> 'e ui list" where
  "ui_elems (Txt s) = []"
| "ui_elems (El t as hs cs) = El t as hs cs # concat (map ui_elems cs)"

fun ui_attr :: "string \<Rightarrow> 'e ui \<Rightarrow> string option" where
  "ui_attr k (Txt s) = None"
| "ui_attr k (El t as hs cs) = map_of as k"

section \<open>Lemmas\<close>

lemma click_events_append [simp]: "click_events (xs @ ys) = click_events xs @ click_events ys"
  by (induction xs rule: click_events.induct) auto

lemma is_disabled_simps [simp]:
  "is_disabled [] = False"
  "is_disabled ((k, v) # as) = (if k = ''disabled'' then v = ''true'' else is_disabled as)"
  by (simp_all add: is_disabled_def)

lemma bool_attr_eq [simp]:
  "bool_attr b = ''true'' \<longleftrightarrow> b" "bool_attr b = ''false'' \<longleftrightarrow> \<not> b"
  by (simp_all add: bool_attr_def)

lemma glass_card_simps [simp]:
  "ui_clicks (glass_card cs) = concat (map ui_clicks cs)"
  "ui_texts (glass_card cs) = concat (map ui_texts cs)"
  "ui_clicks (glass_card_header cs) = concat (map ui_clicks cs)"
  "ui_texts (glass_card_header cs) = concat (map ui_texts cs)"
  "ui_clicks (glass_card_title t) = []"
  "ui_texts (glass_card_title t) = [t]"
  by (simp_all add: glass_card_def glass_card_header_def glass_card_title_def cn_def)

text \<open>A render that maps a partial piece over a list succeeds when every piece does.\<close>

lemma those_Some_iff: "those xs \<noteq> None \<longleftrightarrow> (\<forall>x \<in> set xs. x \<noteq> None)"
  by (induction xs) (auto split: option.splits)

lemmas ui_simps = ui_texts.simps ui_clicks.simps ui_elems.simps ui_attr.simps click_events.simps

end
