(* ===== verification/Configuracoes.thy ===== *)
theory Configuracoes
  imports View
begin

text \<open>
  \<open>src/futuristic-ons-dashboard/app/configuracoes/page.jsx\<close>: the settings page. Its
  state is the ten \<open>useState\<close> hooks of lines 50--59, held in the record
  \<open>cfg_state\<close> together with the clock and the pending timers of the page
  (\<open>setTimeout\<close> and the awaited delays of the two simulated operations). A user event
  is a click or an edit on a control the page renders; \<open>Wait d\<close> lets \<open>d\<close> ms pass,
  firing the timers that fall due, earliest first. A timer's continuation sees the
  state captured when its handler ran: the closure of \<open>handleTestConnection\<close> holds the
  \<open>dataSource\<close> and \<open>dbConfig\<close> of the render it was created in.
\<close>

section \<open>Constants of the page\<close>

record db_config =
  host :: string
  port :: string
  database :: string
  username :: string
  password :: string
  tipo :: string
  caminho :: string
  poolSize :: string
  timeout :: string

definition initialDbConfig :: db_config where
  "initialDbConfig = \<lparr>host = ''localhost'', port = ''3306'', database = ''ons_dashboard'',
     username = ''ons_admin'', password = [], tipo = ''sqlite'', caminho = ''./data/ons.db'',
     poolSize = ''10'', timeout = ''30''\<rparr>"

record api_endpoint =
  ep_name :: string
  ep_path :: string
  ep_method :: string
  ep_status :: string
  ep_latency :: string

definition apiEndpoints :: "api_endpoint list" where
  "apiEndpoints =
    [\<lparr>ep_name = ''Energia Eletrica'', ep_path = ''/api/energia'', ep_method = ''GET'', ep_status = ''online'', ep_latency = ''12ms''\<rparr>,
     \<lparr>ep_name = ''Transmissao'', ep_path = ''/api/transmissao'', ep_method = ''GET'', ep_status = ''online'', ep_latency = ''8ms''\<rparr>,
     \<lparr>ep_name = ''Usinas'', ep_path = ''/api/usinas'', ep_method = ''GET'', ep_status = ''online'', ep_latency = ''15ms''\<rparr>,
     \<lparr>ep_name = ''Relatorios'', ep_path = ''/api/relatorios'', ep_method = ''GET/POST'', ep_status = ''online'', ep_latency = ''10ms''\<rparr>,
     \<lparr>ep_name = ''Exportacao'', ep_path = ''/api/export'', ep_method = ''GET'', ep_status = ''online'', ep_latency = ''22ms''\<rparr>]"

record source_option =
  so_id :: string
  so_label :: string
  so_desc :: string
  so_status :: string

definition dataSourceOptions :: "source_option list" where
  "dataSourceOptions =
    [\<lparr>so_id = ''mock'', so_label = ''Dados Mock (Memoria)'', so_desc = ''Dados simulados carregados em memoria. Ideal para desenvolvimento e testes.'', so_status = ''ativo''\<rparr>,
     \<lparr>so_id = ''sqlite'', so_label = ''SQLite Local'', so_desc = ''Banco de dados SQLite local. Requer better-sqlite3 instalado.'', so_status = ''disponivel''\<rparr>,
     \<lparr>so_id = ''api_externa'', so_label = ''API Externa ONS'', so_desc = ''Consume dados diretamente da API publica do ONS. Requer conexao com internet.'', so_status = ''disponivel''\<rparr>]"

record sync_option =
  sc_id :: string
  sc_label :: string
  sc_desc :: string

definition syncSchedules :: "sync_option list" where
  "syncSchedules =
    [\<lparr>sc_id = ''realtime'', sc_label = ''Tempo Real'', sc_desc = ''Atualiza a cada 5 segundos''\<rparr>,
     \<lparr>sc_id = ''1min'', sc_label = ''1 Minuto'', sc_desc = ''Atualiza a cada 60 segundos''\<rparr>,
     \<lparr>sc_id = ''5min'', sc_label = ''5 Minutos'', sc_desc = ''Atualiza a cada 5 minutos''\<rparr>,
     \<lparr>sc_id = ''15min'', sc_label = ''15 Minutos'', sc_desc = ''Intervalo padrao do ONS''\<rparr>,
     \<lparr>sc_id = ''1hora'', sc_label = ''1 Hora'', sc_desc = ''Atualiza a cada hora''\<rparr>,
     \<lparr>sc_id = ''manual'', sc_label = ''Manual'', sc_desc = ''Apenas ao clicar em sincronizar''\<rparr>]"

text \<open>The tabs of lines 61--66, as \<open>(id, label)\<close>.\<close>

definition cfg_tabs :: "(string \<times> string) list" where
  "cfg_tabs = [(''dados'', ''Fonte de Dados''), (''api'', ''API Endpoints''),
               (''sync'', ''Sincronizacao''), (''banco'', ''Banco de Dados'')]"

section \<open>State, timers and events\<close>

datatype cfg_task = TestDone string db_config | SyncDone | ClearSaved

record cfg_state =
  activeTab :: string
  dbConfig :: db_config
  dataSource :: string
  syncSchedule :: string
  showPassword :: bool
  testResult :: "(bool \<times> string) option"
  isTesting :: bool
  isSyncing :: bool
  autoSync :: bool
  savedMessage :: "string option"
  cfg_now :: nat
  cfg_timers :: "(nat \<times> cfg_task) list"

definition cfg_init :: cfg_state where
  "cfg_init = \<lparr>activeTab = ''dados'', dbConfig = initialDbConfig, dataSource = ''mock'',
     syncSchedule = ''15min'', showPassword = False, testResult = None, isTesting = False,
     isSyncing = False, autoSync = True, savedMessage = None, cfg_now = 0, cfg_timers = []\<rparr>"

datatype db_field = FTipo | FCaminho | FHost | FPort | FDatabase | FUsername | FPassword
  | FPoolSize | FTimeout

text \<open>\<open>setDbConfig(prev => ({ ...prev, f: value }))\<close>.\<close>

fun set_field :: "db_field \<Rightarrow> string \<Rightarrow> db_config \<Rightarrow> db_config" where
  "set_field FTipo v c = c\<lparr>tipo := v\<rparr>"
| "set_field FCaminho v c = c\<lparr>caminho := v\<rparr>"
| "set_field FHost v c = c\<lparr>host := v\<rparr>"
| "set_field FPort v c = c\<lparr>port := v\<rparr>"
| "set_field FDatabase v c = c\<lparr>database := v\<rparr>"
| "set_field FUsername v c = c\<lparr>username := v\<rparr>"
| "set_field FPassword v c = c\<lparr>password := v\<rparr>"
| "set_field FPoolSize v c = c\<lparr>poolSize := v\<rparr>"
| "set_field FTimeout v c = c\<lparr>timeout := v\<rparr>"

datatype cfg_event =
    SetTab string | SetSource string | TestConnection | TestEndpoint string
  | SetSchedule string | ToggleAutoSync | Sync | EditDb db_field string | TogglePassword
  | Save | RestoreDb | Wait nat

section \<open>Handlers\<close>

text \<open>The outcome of the simulated connection test (lines 75--85) for the source and
  configuration the handler captured.\<close>

definition test_result :: "string \<Rightarrow> db_config \<Rightarrow> bool \<times> string" where
  "test_result src c =
     (if src = ''mock'' then (True, ''Dados mock carregados com sucesso. 5 repositorios ativos.'')
      else if src = ''sqlite'' then
        (if caminho c \<noteq> [] then
           (True, ''Conexao com SQLite em '' @ caminho c @ '' simulada. Para uso real, instale better-sqlite3.'')
         else (False, ''Caminho do banco SQLite nao configurado.''))
      else (True, ''Conexao com API externa simulada. Configure a URL base para uso real.''))"

definition add_timer :: "nat \<Rightarrow> cfg_task \<Rightarrow> cfg_state \<Rightarrow> cfg_state" where
  "add_timer delay k s = s\<lparr>cfg_timers := cfg_timers s @ [(cfg_now s + delay, k)]\<rparr>"

text \<open>\<open>handleTestConnection\<close> up to its \<open>await\<close>, \<open>handleSync\<close> up to its
  \<open>await\<close>, and \<open>handleSave\<close>.\<close>

definition handleTestConnection :: "cfg_state \<Rightarrow> cfg_state" where
  "handleTestConnection s =
     add_timer 2000 (TestDone (dataSource s) (dbConfig s)) (s\<lparr>isTesting := True, testResult := None\<rparr>)"

definition handleSync :: "cfg_state \<Rightarrow> cfg_state" where
  "handleSync s = add_timer 3000 SyncDone (s\<lparr>isSyncing := True\<rparr>)"

definition handleSave :: "cfg_state \<Rightarrow> cfg_state" where
  "handleSave s = add_timer 4000 ClearSaved (s\<lparr>savedMessage := Some ''Configuracoes salvas com sucesso!''\<rparr>)"

text \<open>The continuations: the rest of \<open>handleTestConnection\<close> after its delay, the
  rest of \<open>handleSync\<close> (which arms the banner's timeout), and the timeout
  \<open>() => setSavedMessage(null)\<close>.\<close>

fun fire_task :: "cfg_task \<Rightarrow> cfg_state \<Rightarrow> cfg_state" where
  "fire_task (TestDone src c) s = s\<lparr>testResult := Some (test_result src c), isTesting := False\<rparr>"
| "fire_task SyncDone s =
     add_timer 4000 ClearSaved (s\<lparr>isSyncing := False, savedMessage := Some ''Dados sincronizados com sucesso!''\<rparr>)"
| "fire_task ClearSaved s = s\<lparr>savedMessage := None\<rparr>"

text \<open>The first timer with the earliest due time (timers due together fire in the
  order they were set).\<close>

fun earliest :: "(nat \<times> 'a) list \<Rightarrow> (nat \<times> 'a) option" where
  "earliest [] = None"
| "earliest (x # xs) =
     (case earliest xs of None \<Rightarrow> Some x | Some y \<Rightarrow> if fst y < fst x then Some y else Some x)"

fun task_weight :: "cfg_task \<Rightarrow> nat" where
  "task_weight SyncDone = 2"
| "task_weight k = 1"

definition timers_weight :: "(nat \<times> cfg_task) list \<Rightarrow> nat" where
  "timers_weight ts = sum_list (map (task_weight \<circ> snd) ts)"

lemma earliest_in: "earliest xs = Some y \<Longrightarrow> y \<in> set xs"
  by (induction xs arbitrary: y) (auto split: option.splits if_splits)

lemma timers_weight_remove1:
  "t \<in> set ts \<Longrightarrow> timers_weight ts = task_weight (snd t) + timers_weight (remove1 t ts)"
  by (induction ts) (auto simp: timers_weight_def)

lemma timers_weight_fire:
  "timers_weight (cfg_timers (fire_task k s)) < task_weight k + timers_weight (cfg_timers s)"
  by (cases k) (simp_all add: add_timer_def timers_weight_def)

lemma fire_earliest_decreases:
  assumes "earliest (cfg_timers s) = Some (d, k)"
  shows "timers_weight (cfg_timers (fire_task k (s\<lparr>cfg_now := d, cfg_timers := remove1 (d, k) (cfg_timers s)\<rparr>)))
           < timers_weight (cfg_timers s)"
proof -
  let ?s' = "s\<lparr>cfg_now := d, cfg_timers := remove1 (d, k) (cfg_timers s)\<rparr>"
  have "timers_weight (cfg_timers s) = task_weight k + timers_weight (cfg_timers ?s')"
    using earliest_in [OF assms] timers_weight_remove1 by fastforce
  with timers_weight_fire [of k ?s'] show ?thesis by simp
qed

text \<open>Letting time pass up to \<open>target\<close>: each timer due by then fires at its due
  time, in due order. A fired \<open>SyncDone\<close> arms one more timer, so the loop ends:
  the total weight of the pending timers (2 for \<open>SyncDone\<close>, 1 otherwise) drops at
  every firing.\<close>

function run_timers :: "nat \<Rightarrow> cfg_state \<Rightarrow> cfg_state" where
  "run_timers target s =
     (case earliest (cfg_timers s) of
        Some (d, k) \<Rightarrow>
          if d \<le> target
          then run_timers target
                 (fire_task k (s\<lparr>cfg_now := d, cfg_timers := remove1 (d, k) (cfg_timers s)\<rparr>))
          else s\<lparr>cfg_now := target\<rparr>
      | None \<Rightarrow> s\<lparr>cfg_now := target\<rparr>)"
  by pat_completeness auto
termination
  by (relation "measure (\<lambda>(target, s). timers_weight (cfg_timers s))")
     (auto intro: fire_earliest_decreases)

declare run_timers.simps [simp del]

text \<open>One pass of the loop body: fire the earliest timer if it is due by
  \<open>target\<close>, otherwise nothing.\<close>

definition timer_step :: "nat \<Rightarrow> cfg_state \<Rightarrow> cfg_state" where
  "timer_step target s =
     (case earliest (cfg_timers s) of
        Some (d, k) \<Rightarrow>
          if d \<le> target then fire_task k (s\<lparr>cfg_now := d, cfg_timers := remove1 (d, k) (cfg_timers s)\<rparr>) else s
      | None \<Rightarrow> s)"

definition timers_idle :: "nat \<Rightarrow> cfg_state \<Rightarrow> bool" where
  "timers_idle target s \<longleftrightarrow> (case earliest (cfg_timers s) of Some (d, k) \<Rightarrow> target < d | None \<Rightarrow> True)"

section \<open>The page's events\<close>

text \<open>The options of the \<open>tipo\<close> select (lines 435--437).\<close>

definition tipo_options :: "string list" where
  "tipo_options = [''sqlite'', ''postgresql'', ''mysql'']"

text \<open>Which configuration inputs the Banco tab renders: the file path for SQLite, the
  server fields otherwise (lines 441--509), the select and the two number inputs
  always.\<close>

fun field_shown :: "db_config \<Rightarrow> db_field \<Rightarrow> bool" where
  "field_shown c FCaminho = (tipo c = ''sqlite'')"
| "field_shown c FHost = (tipo c \<noteq> ''sqlite'')"
| "field_shown c FPort = (tipo c \<noteq> ''sqlite'')"
| "field_shown c FDatabase = (tipo c \<noteq> ''sqlite'')"
| "field_shown c FUsername = (tipo c \<noteq> ''sqlite'')"
| "field_shown c FPassword = (tipo c \<noteq> ''sqlite'')"
| "field_shown c f = True"

text \<open>The handlers the page's controls are bound to, as the code writes them (lines
  68--112 and the JSX \<open>onClick\<close>/\<open>onChange\<close> props): none of them checks which tab
  is shown or whether its button is disabled. \<open>TestEndpoint\<close> starts a \<open>fetch\<close>
  whose outcome only reaches an \<open>alert\<close> (see \<open>endpoint_alert\<close>): the page state
  does not change. \<open>Wait d\<close> lets \<open>d\<close> ms pass, firing the timers due meanwhile.\<close>

definition cfg_handle :: "cfg_state \<Rightarrow> cfg_event \<Rightarrow> cfg_state" where
  "cfg_handle s e = (case e of
      SetTab t \<Rightarrow> s\<lparr>activeTab := t\<rparr>
    | SetSource i \<Rightarrow> s\<lparr>dataSource := i\<rparr>
    | TestConnection \<Rightarrow> handleTestConnection s
    | TestEndpoint pth \<Rightarrow> s
    | SetSchedule i \<Rightarrow> s\<lparr>syncSchedule := i\<rparr>
    | ToggleAutoSync \<Rightarrow> s\<lparr>autoSync := \<not> autoSync s\<rparr>
    | Sync \<Rightarrow> handleSync s
    | EditDb f v \<Rightarrow> s\<lparr>dbConfig := set_field f v (dbConfig s)\<rparr>
    | TogglePassword \<Rightarrow> s\<lparr>showPassword := \<not> showPassword s\<rparr>
    | Save \<Rightarrow> handleSave s
    | RestoreDb \<Rightarrow> s\<lparr>dbConfig := initialDbConfig\<rparr>
    | Wait d \<Rightarrow> run_timers (cfg_now s + d) s)"

text \<open>Which events the user can cause: the control that dispatches the event is on
  the screen (its tab is the active one, lines 135--417) and not disabled (the test
  and sync buttons while busy, lines 207 and 399), and a chosen value is one the
  control offers. This is read off the rendered page: \<open>ConfiguracoesView\<close> checks
  it against the model of the view (lemma \<open>cfg_offered_clicks\<close>).\<close>

definition cfg_offered :: "cfg_state \<Rightarrow> cfg_event \<Rightarrow> bool" where
  "cfg_offered s e = (case e of
      SetTab t \<Rightarrow> t \<in> set (map fst cfg_tabs)
    | SetSource i \<Rightarrow> activeTab s = ''dados'' \<and> i \<in> set (map so_id dataSourceOptions)
    | TestConnection \<Rightarrow> activeTab s = ''dados'' \<and> \<not> isTesting s
    | TestEndpoint pth \<Rightarrow> activeTab s = ''api'' \<and> pth \<in> set (map ep_path apiEndpoints)
    | SetSchedule i \<Rightarrow> activeTab s = ''sync'' \<and> i \<in> set (map sc_id syncSchedules)
    | ToggleAutoSync \<Rightarrow> activeTab s = ''sync''
    | Sync \<Rightarrow> activeTab s = ''sync'' \<and> \<not> isSyncing s
    | EditDb f v \<Rightarrow> activeTab s = ''banco'' \<and> field_shown (dbConfig s) f \<and> (f \<noteq> FTipo \<or> v \<in> set tipo_options)
    | TogglePassword \<Rightarrow> activeTab s = ''banco'' \<and> tipo (dbConfig s) \<noteq> ''sqlite''
    | Save \<Rightarrow> activeTab s = ''banco''
    | RestoreDb \<Rightarrow> activeTab s = ''banco''
    | Wait d \<Rightarrow> True)"

text \<open>One step of the page: the handler of an event the page offers.\<close>

definition cfg_step :: "cfg_state \<Rightarrow> cfg_event \<Rightarrow> cfg_state option" where
  "cfg_step s e = (if cfg_offered s e then Some (cfg_handle s e) else None)"

lemmas cfg_step_unfold = cfg_step_def cfg_offered_def cfg_handle_def

text \<open>A run of the page from its first render: the states reached by a sequence of
  accepted events.\<close>

inductive cfg_reachable :: "cfg_state \<Rightarrow> bool" where
  init: "cfg_reachable cfg_init"
| step: "cfg_reachable s \<Longrightarrow> cfg_step s e = Some s' \<Longrightarrow> cfg_reachable s'"

fun cfg_run :: "cfg_state \<Rightarrow> cfg_event list \<Rightarrow> cfg_state option" where
  "cfg_run s [] = Some s"
| "cfg_run s (e # es) = (case cfg_step s e of None \<Rightarrow> None | Some s' \<Rightarrow> cfg_run s' es)"

text \<open>\<open>handleTestEndpoint\<close> (lines 102--112): the \<open>alert\<close> it raises for the
  outcome of \<open>fetch(path)\<close>: a response with its status and, when the body parses,
  its JSON text; or a network failure. A response that is not \<open>ok\<close> raises nothing.\<close>

datatype fetch_outcome = Response nat "string option" | NetworkError

definition endpoint_alert :: "string \<Rightarrow> fetch_outcome \<Rightarrow> string option" where
  "endpoint_alert pth r = (case r of
      Response st body \<Rightarrow>
        if 200 \<le> st \<and> st \<le> 299 then
          (case body of
             Some txt \<Rightarrow> Some (''Endpoint '' @ pth @ '' respondeu com sucesso!'' @ newline @ newline
                               @ take 300 txt @ ''...'')
           | None \<Rightarrow> Some (''Erro ao testar endpoint '' @ pth))
        else None
    | NetworkError \<Rightarrow> Some (''Erro ao testar endpoint '' @ pth))"

section \<open>The page invariant\<close>

fun is_test :: "cfg_task \<Rightarrow> bool" where
  "is_test (TestDone src c) = True"
| "is_test k = False"

text \<open>The last moment a pending timer can still change the state: a pending sync
  arms the banner's 4 s timeout when it completes.\<close>

fun horizon :: "nat \<times> cfg_task \<Rightarrow> nat" where
  "horizon (d, SyncDone) = d + 4000"
| "horizon (d, k) = d"

definition n_tests :: "(nat \<times> cfg_task) list \<Rightarrow> nat" where
  "n_tests ts = length (filter (is_test \<circ> snd) ts)"

definition n_syncs :: "(nat \<times> cfg_task) list \<Rightarrow> nat" where
  "n_syncs ts = length (filter (\<lambda>t. snd t = SyncDone) ts)"

text \<open>The selections stay among the rendered options; the two busy flags say exactly
  whether their continuation is pending (once each at most, the buttons being
  disabled meanwhile); a pending test has cleared the last result; a shown banner
  has a timeout pending; and every timer is due between now and 7 s from now.\<close>

definition sel_ok :: "cfg_state \<Rightarrow> bool" where
  "sel_ok s \<longleftrightarrow>
     activeTab s \<in> set (map fst cfg_tabs) \<and> dataSource s \<in> set (map so_id dataSourceOptions)
     \<and> syncSchedule s \<in> set (map sc_id syncSchedules)"

definition timing_ok :: "nat \<Rightarrow> (nat \<times> cfg_task) list \<Rightarrow> bool" where
  "timing_ok now ts \<longleftrightarrow> (\<forall>t \<in> set ts. now \<le> fst t \<and> horizon t \<le> now + 7000)"

definition cfg_inv :: "cfg_state \<Rightarrow> bool" where
  "cfg_inv s \<longleftrightarrow>
     sel_ok s
     \<and> n_tests (cfg_timers s) = (if isTesting s then 1 else 0)
     \<and> n_syncs (cfg_timers s) = (if isSyncing s then 1 else 0)
     \<and> (isTesting s \<longrightarrow> testResult s = None)
     \<and> (savedMessage s \<noteq> None \<longrightarrow> (\<exists>d. (d, ClearSaved) \<in> set (cfg_timers s)))
     \<and> timing_ok (cfg_now s) (cfg_timers s)"

lemma n_tests_snoc [simp]: "n_tests (ts @ [(d, k)]) = n_tests ts + (if is_test k then 1 else 0)"
  by (simp add: n_tests_def)

lemma n_syncs_snoc [simp]: "n_syncs (ts @ [(d, k)]) = n_syncs ts + (if k = SyncDone then 1 else 0)"
  by (simp add: n_syncs_def)

lemma timing_ok_snoc [simp]:
  "timing_ok n (ts @ [t]) \<longleftrightarrow> timing_ok n ts \<and> n \<le> fst t \<and> horizon t \<le> n + 7000"
  by (auto simp: timing_ok_def)

lemma n_tests_pos: "n_tests ts = 0 \<Longrightarrow> t \<in> set ts \<Longrightarrow> \<not> is_test (snd t)"
  by (auto simp: n_tests_def filter_empty_conv)

lemma length_filter_remove1:
  "x \<in> set xs \<Longrightarrow> length (filter P xs) = length (filter P (remove1 x xs)) + (if P x then 1 else 0)"
  by (induction xs) auto

lemma earliest_None: "earliest xs = None \<longleftrightarrow> xs = []"
  by (induction xs) (auto split: option.splits)

lemma earliest_min: "earliest xs = Some y \<Longrightarrow> t \<in> set xs \<Longrightarrow> fst y \<le> fst t"
proof (induction xs arbitrary: y)
  case Nil
  then show ?case by simp
next
  case (Cons a xs)
  show ?case
  proof (cases "earliest xs")
    case None
    with Cons.prems show ?thesis by (simp add: earliest_None)
  next
    case (Some z)
    have "t = a \<or> t \<in> set xs" using Cons.prems(2) by simp
    moreover have "t \<in> set xs \<Longrightarrow> fst z \<le> fst t" using Cons.IH Some by blast
    ultimately show ?thesis using Cons.prems(1) Some by (auto split: if_splits)
  qed
qed

section \<open>The invariant holds on every run\<close>

lemma fire_task_now [simp]: "cfg_now (fire_task k s) = cfg_now s"
  by (cases k) (simp_all add: add_timer_def)

lemma sel_ok_fire [simp]: "sel_ok (fire_task k s) = sel_ok s"
  by (cases k) (simp_all add: add_timer_def sel_ok_def)

lemma timing_ok_advance:
  "timing_ok n ts \<Longrightarrow> n \<le> d \<Longrightarrow> set rs \<subseteq> set ts \<Longrightarrow> \<forall>t \<in> set rs. d \<le> fst t \<Longrightarrow> timing_ok d rs"
  by (fastforce simp: timing_ok_def)

lemma fire_inv:
  assumes inv: "cfg_inv s" and e: "earliest (cfg_timers s) = Some (d, k)"
  shows "cfg_inv (fire_task k (s\<lparr>cfg_now := d, cfg_timers := remove1 (d, k) (cfg_timers s)\<rparr>))"
proof -
  let ?ts = "cfg_timers s" and ?rs = "remove1 (d, k) (cfg_timers s)"
  let ?s1 = "s\<lparr>cfg_now := d, cfg_timers := ?rs\<rparr>"
  have mem: "(d, k) \<in> set ?ts" using earliest_in [OF e] .
  have sub: "set ?rs \<subseteq> set ?ts" by (rule set_remove1_subset)
  have keep: "\<And>y. y \<in> set ?ts \<Longrightarrow> y \<noteq> (d, k) \<Longrightarrow> y \<in> set ?rs" by (simp add: in_set_remove1)
  have nt: "n_tests ?ts = n_tests ?rs + (if is_test k then 1 else 0)"
    using length_filter_remove1 [OF mem, of "is_test \<circ> snd"] by (simp add: n_tests_def)
  have ns: "n_syncs ?ts = n_syncs ?rs + (if k = SyncDone then 1 else 0)"
    using length_filter_remove1 [OF mem, of "\<lambda>t. snd t = SyncDone"] by (simp add: n_syncs_def)
  have t0: "timing_ok (cfg_now s) ?ts" using inv by (simp add: cfg_inv_def)
  have now: "cfg_now s \<le> d" using t0 mem unfolding timing_ok_def by fastforce
  have tim: "timing_ok d ?rs"
  proof (rule timing_ok_advance [OF t0 now sub])
    show "\<forall>t \<in> set ?rs. d \<le> fst t" using earliest_min [OF e] sub by fastforce
  qed
  have cs: "savedMessage s \<noteq> None \<Longrightarrow> k \<noteq> ClearSaved \<Longrightarrow> \<exists>d'. (d', ClearSaved) \<in> set ?rs"
  proof -
    assume "savedMessage s \<noteq> None" and k: "k \<noteq> ClearSaved"
    with inv obtain d' where "(d', ClearSaved) \<in> set ?ts" by (auto simp: cfg_inv_def)
    with keep k show ?thesis by blast
  qed
  have sel: "sel_ok ?s1" using inv by (simp add: cfg_inv_def sel_ok_def)
  show ?thesis
  proof (cases k)
    case (TestDone src c)
    then show ?thesis using inv nt ns tim cs sel by (simp add: cfg_inv_def sel_ok_def split: if_splits)
  next
    case SyncDone
    have "horizon (d + 4000, ClearSaved) \<le> d + 7000" by simp
    with SyncDone show ?thesis using inv nt ns tim cs sel
      by (simp add: cfg_inv_def sel_ok_def add_timer_def split: if_splits; blast)
  next
    case ClearSaved
    then show ?thesis using inv nt ns tim sel by (simp add: cfg_inv_def sel_ok_def split: if_splits)
  qed
qed

lemma run_timers_idle:
  "\<forall>t \<in> set (cfg_timers s). target < fst t \<Longrightarrow> run_timers target s = s\<lparr>cfg_now := target\<rparr>"
proof (cases "earliest (cfg_timers s)")
  case None
  then show ?thesis by (subst run_timers.simps) simp
next
  case (Some dk)
  assume "\<forall>t \<in> set (cfg_timers s). target < fst t"
  with Some earliest_in [OF Some] show ?thesis by (subst run_timers.simps) (auto split: prod.split)
qed

lemma run_timers_fire:
  "earliest (cfg_timers s) = Some (d, k) \<Longrightarrow> d \<le> target \<Longrightarrow>
     run_timers target s =
       run_timers target (fire_task k (s\<lparr>cfg_now := d, cfg_timers := remove1 (d, k) (cfg_timers s)\<rparr>))"
  by (subst run_timers.simps) simp

lemma timers_all_later:
  assumes "\<not> (\<exists>d k. earliest ts = Some (d, k) \<and> d \<le> target)"
  shows "\<forall>t \<in> set ts. target < fst t"
proof
  fix t assume t: "t \<in> set ts"
  then obtain y where e: "earliest ts = Some y"
    by (cases "earliest ts") (auto simp: earliest_None)
  with assms have "target < fst y" by (cases y) auto
  with earliest_min [OF e t] show "target < fst t" by simp
qed

lemma run_timers_inv:
  "cfg_inv s \<Longrightarrow> cfg_now s \<le> target \<Longrightarrow>
     cfg_inv (run_timers target s) \<and> cfg_now (run_timers target s) = target"
proof (induction target s rule: run_timers.induct)
  case (1 target s)
  show ?case
  proof (cases "\<exists>d k. earliest (cfg_timers s) = Some (d, k) \<and> d \<le> target")
    case True
    then obtain d k where e: "earliest (cfg_timers s) = Some (d, k)" and le: "d \<le> target" by blast
    let ?s' = "fire_task k (s\<lparr>cfg_now := d, cfg_timers := remove1 (d, k) (cfg_timers s)\<rparr>)"
    have "cfg_inv ?s'" using fire_inv "1.prems"(1) e by simp
    moreover have "cfg_now ?s' \<le> target" using le by simp
    ultimately have "cfg_inv (run_timers target ?s') \<and> cfg_now (run_timers target ?s') = target"
      using "1.IH" e le by blast
    then show ?thesis using run_timers_fire [OF e le] by simp
  next
    case False
    then have later: "\<forall>t \<in> set (cfg_timers s). target < fst t" by (rule timers_all_later)
    have "timing_ok target (cfg_timers s)"
      using "1.prems" later by (fastforce simp: cfg_inv_def timing_ok_def)
    with "1.prems"(1) show ?thesis
      by (simp add: run_timers_idle [OF later] cfg_inv_def sel_ok_def)
  qed
qed

lemma cfg_init_inv: "cfg_inv cfg_init"
  by (simp add: cfg_inv_def sel_ok_def timing_ok_def cfg_init_def cfg_tabs_def dataSourceOptions_def
      syncSchedules_def n_tests_def n_syncs_def)

lemma cfg_inv_sel:
  "cfg_inv s \<Longrightarrow> sel_ok s' \<Longrightarrow> cfg_timers s' = cfg_timers s \<Longrightarrow> cfg_now s' = cfg_now s \<Longrightarrow>
     isTesting s' = isTesting s \<Longrightarrow> isSyncing s' = isSyncing s \<Longrightarrow> testResult s' = testResult s \<Longrightarrow>
     savedMessage s' = savedMessage s \<Longrightarrow> cfg_inv s'"
  by (simp add: cfg_inv_def)

text \<open>The events other than the three timed handlers and \<open>Wait\<close> touch neither the
  timers nor the flags they govern, and keep the selections among the options.\<close>

lemma cfg_step_frame:
  assumes "cfg_step s e = Some s'"
  shows "e \<notin> {TestConnection, Sync, Save} \<Longrightarrow> (\<forall>n. e \<noteq> Wait n) \<Longrightarrow> sel_ok s \<Longrightarrow>
           sel_ok s' \<and> cfg_timers s' = cfg_timers s \<and> cfg_now s' = cfg_now s \<and>
           isTesting s' = isTesting s \<and> isSyncing s' = isSyncing s \<and>
           testResult s' = testResult s \<and> savedMessage s' = savedMessage s"
  using assms by (cases e) (force simp: cfg_step_unfold sel_ok_def split: if_splits)+

lemma cfg_step_inv:
  assumes inv: "cfg_inv s" and st: "cfg_step s e = Some s'"
  shows "cfg_inv s'"
proof -
  have sel: "sel_ok s" using inv by (simp add: cfg_inv_def)
  show ?thesis
  proof (cases e)
    case (Wait n)
    then show ?thesis using assms run_timers_inv [of s "cfg_now s + n"] by (simp add: cfg_step_unfold)
  next
    case TestConnection
    then have "s' = handleTestConnection s" "\<not> isTesting s" using st by (simp_all add: cfg_step_unfold split: if_splits)
    then show ?thesis using inv by (simp add: handleTestConnection_def add_timer_def cfg_inv_def sel_ok_def)
  next
    case Sync
    then have "s' = handleSync s" "\<not> isSyncing s" using st by (simp_all add: cfg_step_unfold split: if_splits)
    then show ?thesis using inv by (simp add: handleSync_def add_timer_def cfg_inv_def sel_ok_def)
  next
    case Save
    then have "s' = handleSave s" using st by (simp add: cfg_step_unfold split: if_splits)
    then show ?thesis using inv by (simp add: handleSave_def add_timer_def cfg_inv_def sel_ok_def) blast
  qed (use cfg_step_frame [OF st] sel in \<open>simp_all add: cfg_inv_sel [OF inv]\<close>)
qed

lemma cfg_reachable_inv: "cfg_reachable s \<Longrightarrow> cfg_inv s"
  by (induction rule: cfg_reachable.induct) (auto intro: cfg_init_inv cfg_step_inv)


lemma horizon_ge: "fst t \<le> horizon t"
  by (cases t rule: horizon.cases) simp_all

text \<open>The timer loop ends: \<open>run_timers target s\<close> runs its body at most
  \<open>timers_weight\<close> times, each time firing the earliest due timer, and stops when
  no timer is due by \<open>target\<close>, although a completed sync arms a new timer.\<close>

theorem run_timers_bounded:
  "\<exists>n \<le> timers_weight (cfg_timers s).
     timers_idle target ((timer_step target ^^ n) s)
     \<and> run_timers target s = ((timer_step target ^^ n) s)\<lparr>cfg_now := target\<rparr>"
proof (induction target s rule: run_timers.induct)
  case (1 target s)
  show ?case
  proof (cases "earliest (cfg_timers s)")
    case None
    then have "timers_idle target s" "run_timers target s = s\<lparr>cfg_now := target\<rparr>"
      by (simp_all add: timers_idle_def run_timers.simps)
    then show ?thesis by (intro exI [of _ 0]) simp
  next
    case (Some dk)
    obtain d k where e: "earliest (cfg_timers s) = Some (d, k)" using Some by (cases dk) simp
    show ?thesis
    proof (cases "d \<le> target")
      case False
      then have "timers_idle target s" "run_timers target s = s\<lparr>cfg_now := target\<rparr>"
        using e by (simp_all add: timers_idle_def run_timers.simps)
      then show ?thesis by (intro exI [of _ 0]) simp
    next
      case True
      let ?s' = "fire_task k (s\<lparr>cfg_now := d, cfg_timers := remove1 (d, k) (cfg_timers s)\<rparr>)"
      from "1.IH" [OF e refl True] obtain n where n: "n \<le> timers_weight (cfg_timers ?s')"
        "timers_idle target ((timer_step target ^^ n) ?s')"
        "run_timers target ?s' = ((timer_step target ^^ n) ?s')\<lparr>cfg_now := target\<rparr>" by blast
      have step: "timer_step target s = ?s'" using e True by (simp add: timer_step_def)
      have "Suc n \<le> timers_weight (cfg_timers s)" using n(1) fire_earliest_decreases [OF e] by simp
      moreover have "(timer_step target ^^ Suc n) s = (timer_step target ^^ n) ?s'"
        by (simp only: funpow_Suc_right comp_def step)
      ultimately show ?thesis using n(2,3) run_timers_fire [OF e True] by metis
    qed
  qed
qed

lemma run_timers_drains:
  "\<forall>t \<in> set (cfg_timers s). horizon t \<le> target \<Longrightarrow> cfg_timers (run_timers target s) = []"
proof (induction target s rule: run_timers.induct)
  case (1 target s)
  show ?case
  proof (cases "\<exists>d k. earliest (cfg_timers s) = Some (d, k) \<and> d \<le> target")
    case True
    then obtain d k where e: "earliest (cfg_timers s) = Some (d, k)" and le: "d \<le> target" by blast
    let ?s' = "fire_task k (s\<lparr>cfg_now := d, cfg_timers := remove1 (d, k) (cfg_timers s)\<rparr>)"
    have hk: "horizon (d, k) \<le> target" using "1.prems" earliest_in [OF e] by blast
    have "\<forall>t \<in> set (cfg_timers ?s'). horizon t \<le> target"
      using "1.prems" hk set_remove1_subset [of "(d, k)" "cfg_timers s"]
      by (cases k) (auto simp: add_timer_def)
    then have "cfg_timers (run_timers target ?s') = []" using "1.IH" e le by blast
    then show ?thesis using run_timers_fire [OF e le] by simp
  next
    case False
    then have "\<forall>t \<in> set (cfg_timers s). target < fst t" by (rule timers_all_later)
    with "1.prems" have "cfg_timers s = []"
      using horizon_ge by (metis leD order.trans last_in_set)
    then show ?thesis by (simp add: run_timers_idle)
  qed
qed

lemma cfg_run_reachable: "cfg_reachable s \<Longrightarrow> cfg_run s es = Some s' \<Longrightarrow> cfg_reachable s'"
proof (induction s es rule: cfg_run.induct)
  case (1 s)
  then show ?case by simp
next
  case (2 s e es)
  then show ?case by (auto split: option.splits intro: cfg_reachable.step)
qed

lemma n_tests_pos_iff: "0 < n_tests ts \<longleftrightarrow> (\<exists>d src c. (d, TestDone src c) \<in> set ts)"
proof
  assume "0 < n_tests ts"
  then obtain t where "t \<in> set ts" "is_test (snd t)" by (auto simp: n_tests_def filter_empty_conv)
  then show "\<exists>d src c. (d, TestDone src c) \<in> set ts"
    by (metis is_test.elims(2) prod.collapse)
next
  assume "\<exists>d src c. (d, TestDone src c) \<in> set ts"
  then show "0 < n_tests ts" by (force simp: n_tests_def filter_empty_conv)
qed

lemma n_syncs_pos_iff: "0 < n_syncs ts \<longleftrightarrow> (\<exists>d. (d, SyncDone) \<in> set ts)"
  by (force simp: n_syncs_def filter_empty_conv)

lemma cfg_run_append:
  "cfg_run s (xs @ ys) = (case cfg_run s xs of None \<Rightarrow> None | Some s' \<Rightarrow> cfg_run s' ys)"
  by (induction xs arbitrary: s) (auto split: option.splits)

lemma n_tests_one_unique:
  "n_tests ts = 1 \<Longrightarrow> a \<in> set ts \<Longrightarrow> b \<in> set ts \<Longrightarrow> is_test (snd a) \<Longrightarrow> is_test (snd b) \<Longrightarrow> a = b"
proof -
  assume n: "n_tests ts = 1" and ab: "a \<in> set ts" "b \<in> set ts" "is_test (snd a)" "is_test (snd b)"
  obtain x where f: "filter (is_test \<circ> snd) ts = [x]"
    using n by (auto simp: n_tests_def length_Suc_conv)
  have "a \<in> set (filter (is_test \<circ> snd) ts)" "b \<in> set (filter (is_test \<circ> snd) ts)"
    using ab by simp_all
  then show "a = b" unfolding f by simp
qed

lemma n_tests_fire [simp]: "n_tests (cfg_timers (fire_task k s)) = n_tests (cfg_timers s)"
  by (cases k) (simp_all add: add_timer_def)

lemma testResult_fire: "\<not> is_test k \<Longrightarrow> testResult (fire_task k s) = testResult s"
  by (cases k) (simp_all add: add_timer_def)

lemma n_tests_remove1:
  "(d, k) \<in> set ts \<Longrightarrow> n_tests ts = n_tests (remove1 (d, k) ts) + (if is_test k then 1 else 0)"
  using length_filter_remove1 [of "(d, k)" ts "is_test \<circ> snd"] by (simp add: n_tests_def)

text \<open>With no test pending, the timers leave the shown result alone; with exactly
  one pending and due, they show its result.\<close>

lemma run_timers_no_test:
  "n_tests (cfg_timers s) = 0 \<Longrightarrow> testResult (run_timers target s) = testResult s"
proof (induction target s rule: run_timers.induct)
  case (1 target s)
  show ?case
  proof (cases "\<exists>d k. earliest (cfg_timers s) = Some (d, k) \<and> d \<le> target")
    case True
    then obtain d k where e: "earliest (cfg_timers s) = Some (d, k)" and le: "d \<le> target" by blast
    have mem: "(d, k) \<in> set (cfg_timers s)" by (rule earliest_in [OF e])
    then have k: "\<not> is_test k" and z: "n_tests (remove1 (d, k) (cfg_timers s)) = 0"
      using n_tests_remove1 [OF mem] "1.prems" by (simp_all split: if_splits)
    have "testResult (run_timers target (fire_task k (s\<lparr>cfg_now := d, cfg_timers := remove1 (d, k) (cfg_timers s)\<rparr>)))
          = testResult (fire_task k (s\<lparr>cfg_now := d, cfg_timers := remove1 (d, k) (cfg_timers s)\<rparr>))"
      using "1.IH" [OF e _ le] z by simp
    then show ?thesis using run_timers_fire [OF e le] testResult_fire [OF k] by simp
  next
    case False
    then show ?thesis using run_timers_idle [OF timers_all_later [OF False]] by simp
  qed
qed

lemma run_timers_test_result:
  "n_tests (cfg_timers s) = 1 \<Longrightarrow> (d0, TestDone src c) \<in> set (cfg_timers s) \<Longrightarrow> d0 \<le> target
   \<Longrightarrow> testResult (run_timers target s) = Some (test_result src c)"
proof (induction target s rule: run_timers.induct)
  case (1 target s)
  have "\<exists>d k. earliest (cfg_timers s) = Some (d, k) \<and> d \<le> target"
  proof (rule ccontr)
    assume "\<not> ?thesis"
    from timers_all_later [OF this] "1.prems"(2,3) show False by fastforce
  qed
  then obtain d k where e: "earliest (cfg_timers s) = Some (d, k)" and le: "d \<le> target" by blast
  have mem: "(d, k) \<in> set (cfg_timers s)" by (rule earliest_in [OF e])
  let ?s1 = "s\<lparr>cfg_now := d, cfg_timers := remove1 (d, k) (cfg_timers s)\<rparr>"
  show ?case
  proof (cases "is_test k")
    case True
    then have "(d, k) = (d0, TestDone src c)"
      using n_tests_one_unique [OF "1.prems"(1) mem "1.prems"(2)] by simp
    moreover have "n_tests (cfg_timers ?s1) = 0" using n_tests_remove1 [OF mem] "1.prems"(1) True by simp
    ultimately show ?thesis
      using run_timers_fire [OF e le] run_timers_no_test [of "fire_task k ?s1" target] by simp
  next
    case False
    then have ne: "(d0, TestDone src c) \<noteq> (d, k)" by auto
    then have "(d0, TestDone src c) \<in> set (cfg_timers ?s1)" "n_tests (cfg_timers (fire_task k ?s1)) = 1"
      using False "1.prems"(1,2) n_tests_remove1 [OF mem] by (simp_all add: in_set_remove1)
    moreover have "(d0, TestDone src c) \<in> set (cfg_timers (fire_task k ?s1))"
      using calculation(1) by (cases k) (simp_all add: add_timer_def)
    ultimately show ?thesis using "1.IH" [OF e _ le] "1.prems"(3) run_timers_fire [OF e le] by simp
  qed
qed

text \<open>While a test is pending and no time passes, the other controls keep it pending
  and alone.\<close>

definition testing_at :: "nat \<Rightarrow> nat \<times> cfg_task \<Rightarrow> cfg_state \<Rightarrow> bool" where
  "testing_at n t s \<longleftrightarrow> isTesting s \<and> cfg_now s = n \<and> t \<in> set (cfg_timers s) \<and> n_tests (cfg_timers s) = 1"

lemma cfg_step_testing:
  "testing_at n t s \<Longrightarrow> cfg_step s e = Some s' \<Longrightarrow> \<forall>m. e \<noteq> Wait m \<Longrightarrow> testing_at n t s'"
  by (cases e) (auto simp: cfg_step_unfold testing_at_def handleSync_def handleSave_def add_timer_def split: if_splits)

lemma cfg_run_testing:
  "testing_at n t s \<Longrightarrow> list_all (\<lambda>e. \<forall>m. e \<noteq> Wait m) es \<Longrightarrow> cfg_run s es = Some s' \<Longrightarrow> testing_at n t s'"
proof (induction es arbitrary: s)
  case (Cons e es)
  then obtain s1 where s1: "cfg_step s e = Some s1" and r: "cfg_run s1 es = Some s'" by (auto split: option.splits)
  have "testing_at n t s1" using cfg_step_testing [OF Cons.prems(1) s1] Cons.prems(2) by simp
  then show ?case using Cons.IH [OF _ _ r] Cons.prems(2) by simp
qed simp

section \<open>Properties of the settings page\<close>

text \<open>C32. In every reachable state of the settings page the two busy flags mirror
  the pending work: \<open>isTesting\<close> holds exactly while a connection test is pending,
  \<open>isSyncing\<close> exactly while a sync is pending, and while a test is pending no
  earlier result is shown.\<close>

theorem cfg_busy_flags:
  assumes "cfg_reachable s"
  shows "(isTesting s \<longleftrightarrow> (\<exists>d src c. (d, TestDone src c) \<in> set (cfg_timers s)))
         \<and> (isSyncing s \<longleftrightarrow> (\<exists>d. (d, SyncDone) \<in> set (cfg_timers s)))
         \<and> (isTesting s \<longrightarrow> testResult s = None)"
proof -
  have inv: "cfg_inv s" using assms by (rule cfg_reachable_inv)
  then have "isTesting s \<longleftrightarrow> 0 < n_tests (cfg_timers s)" "isSyncing s \<longleftrightarrow> 0 < n_syncs (cfg_timers s)"
    by (simp_all add: cfg_inv_def)
  with inv show ?thesis by (simp add: n_tests_pos_iff n_syncs_pos_iff cfg_inv_def)
qed

definition cfg_demo_run :: "cfg_event list" where
  "cfg_demo_run = [SetTab ''dados'', TestConnection, SetTab ''sync'', Sync, SetTab ''banco'', Save]"

theorem cfg_busy_flags_witness:
  "cfg_reachable (the (cfg_run cfg_init cfg_demo_run)) \<and> isTesting (the (cfg_run cfg_init cfg_demo_run))
   \<and> (\<exists>d src c. (d, TestDone src c) \<in> set (cfg_timers (the (cfg_run cfg_init cfg_demo_run))))"
proof -
  have run: "cfg_run cfg_init cfg_demo_run = Some (the (cfg_run cfg_init cfg_demo_run))"
    by code_simp
  have r: "cfg_reachable (the (cfg_run cfg_init cfg_demo_run))"
    by (rule cfg_run_reachable [OF cfg_reachable.init run])
  have "isTesting (the (cfg_run cfg_init cfg_demo_run))" by code_simp
  with r cfg_busy_flags [OF r] show ?thesis by blast
qed

text \<open>C33. Quiescence: from any reachable state, once 7 s pass (\<open>Wait d\<close> with
  \<open>d \<ge> 7000\<close>) every timer has fired, neither operation is still running and the banner
  is gone. 7 s is the longest chain the page arms: a sync's 3 s delay followed by the
  4 s timeout of the banner it shows.\<close>

theorem cfg_quiescent_after_wait:
  assumes "cfg_reachable s" and "7000 \<le> d" and "cfg_step s (Wait d) = Some s'"
  shows "cfg_timers s' = [] \<and> \<not> isTesting s' \<and> \<not> isSyncing s' \<and> savedMessage s' = None"
proof -
  have inv: "cfg_inv s" using assms(1) by (rule cfg_reachable_inv)
  have s': "s' = run_timers (cfg_now s + d) s" using assms(3) by (simp add: cfg_step_unfold)
  have "\<forall>t \<in> set (cfg_timers s). horizon t \<le> cfg_now s + d"
    using inv assms(2) by (fastforce simp: cfg_inv_def timing_ok_def)
  then have empty: "cfg_timers s' = []" using s' run_timers_drains by blast
  have "cfg_inv s'" using s' run_timers_inv [OF inv] by simp
  with empty show ?thesis by (simp add: cfg_inv_def n_tests_def n_syncs_def split: if_splits)
qed


theorem cfg_quiescent_after_wait_witness:
  "cfg_reachable (the (cfg_run cfg_init cfg_demo_run)) \<and> isSyncing (the (cfg_run cfg_init cfg_demo_run))
   \<and> cfg_timers (run_timers (cfg_now (the (cfg_run cfg_init cfg_demo_run)) + 7000) (the (cfg_run cfg_init cfg_demo_run))) = []"
proof -
  let ?s = "the (cfg_run cfg_init cfg_demo_run)"
  have run: "cfg_run cfg_init cfg_demo_run = Some ?s" by code_simp
  have r: "cfg_reachable ?s" by (rule cfg_run_reachable [OF cfg_reachable.init run])
  have "isSyncing ?s" by code_simp
  moreover have st: "cfg_step ?s (Wait 7000) = Some (run_timers (cfg_now ?s + 7000) ?s)"
    by (simp add: cfg_step_unfold)
  ultimately show ?thesis using r cfg_quiescent_after_wait [OF r _ st] by simp
qed

text \<open>C34. The banner's timeouts are never cancelled: from any state on the Banco tab
  with no timer pending, saving, waiting \<open>d\<close> ms (\<open>0 < d < 4000\<close>) and saving again,
  the first save's timeout clears the banner 4 s after the first save, only
  \<open>4000 - d\<close> ms after the second save showed it, while the second timeout is still
  pending.\<close>

theorem cfg_banner_cleared_early:
  assumes "activeTab s = ''banco''" and "cfg_timers s = []" and "0 < d" and "d < 4000"
  shows "\<exists>s'. cfg_run s [Save, Wait d, Save, Wait (4000 - d)] = Some s' \<and> savedMessage s' = None
              \<and> cfg_now s' = cfg_now s + 4000 \<and> cfg_timers s' = [(cfg_now s + d + 4000, ClearSaved)]"
proof -
  let ?n = "cfg_now s" and ?m = "''Configuracoes salvas com sucesso!''"
  define s1 where "s1 = s\<lparr>savedMessage := Some ?m, cfg_timers := [(?n + 4000, ClearSaved)]\<rparr>"
  define s3 where "s3 = s1\<lparr>cfg_now := ?n + d, cfg_timers := [(?n + 4000, ClearSaved), (?n + d + 4000, ClearSaved)]\<rparr>"
  define s4 where "s4 = s3\<lparr>cfg_now := ?n + 4000, cfg_timers := [(?n + d + 4000, ClearSaved)], savedMessage := None\<rparr>"
  have 1: "cfg_step s Save = Some s1"
    using assms(1,2) by (simp add: cfg_step_unfold handleSave_def add_timer_def s1_def)
  have 2: "cfg_step s1 (Wait d) = Some (s1\<lparr>cfg_now := ?n + d\<rparr>)"
    using assms(4) run_timers_idle [of s1 "?n + d"] by (simp add: cfg_step_unfold s1_def)
  have 3: "cfg_step (s1\<lparr>cfg_now := ?n + d\<rparr>) Save = Some s3"
    using assms(1) by (simp add: cfg_step_unfold handleSave_def add_timer_def s1_def s3_def)
  have e: "earliest (cfg_timers s3) = Some (?n + 4000, ClearSaved)" by (simp add: s3_def)
  have "run_timers (?n + 4000) s3 = run_timers (?n + 4000) s4"
    using run_timers_fire [OF e, of "?n + 4000"] by (simp add: s3_def s4_def)
  also have "\<dots> = s4"
    using run_timers_idle [of s4 "?n + 4000"] assms(3) by (simp add: s4_def)
  finally have 4: "cfg_step s3 (Wait (4000 - d)) = Some s4"
    using assms(4) by (simp add: cfg_step_unfold s3_def s1_def)
  show ?thesis using 1 2 3 4 by (simp add: s4_def s3_def s1_def)
qed

theorem cfg_banner_cleared_early_witness:
  "activeTab (cfg_init\<lparr>activeTab := ''banco''\<rparr>) = ''banco'' \<and> cfg_timers (cfg_init\<lparr>activeTab := ''banco''\<rparr>) = []
   \<and> (\<exists>s'. cfg_run (cfg_init\<lparr>activeTab := ''banco''\<rparr>) [Save, Wait 3000, Save, Wait (4000 - 3000)] = Some s'
         \<and> savedMessage s' = None \<and> cfg_now s' = 4000 \<and> cfg_timers s' = [(7000, ClearSaved)])"
  using cfg_banner_cleared_early [of "cfg_init\<lparr>activeTab := ''banco''\<rparr>" 3000]
  by (simp add: cfg_init_def)

text \<open>C35. The connection test reports the source and configuration selected when
  it was started: from any reachable state on the Dados tab with no test running,
  whatever the user does during the 2 s delay without letting time pass (switching
  the source, editing the configuration, syncing, saving), the result shown when
  the delay ends is the one of the captured source.\<close>

theorem cfg_test_uses_captured_source:
  assumes "cfg_reachable s" and "activeTab s = ''dados''" and "\<not> isTesting s"
    and "list_all (\<lambda>e. \<forall>n. e \<noteq> Wait n) es"
    and "cfg_run s (TestConnection # es @ [Wait 2000]) = Some s'"
  shows "testResult s' = Some (test_result (dataSource s) (dbConfig s))"
proof -
  let ?t = "(cfg_now s + 2000, TestDone (dataSource s) (dbConfig s))"
  have "n_tests (cfg_timers s) = 0" using cfg_reachable_inv [OF assms(1)] assms(3) by (simp add: cfg_inv_def)
  then have p0: "testing_at (cfg_now s) ?t (handleTestConnection s)"
    by (simp add: testing_at_def handleTestConnection_def add_timer_def)
  have st: "cfg_step s TestConnection = Some (handleTestConnection s)"
    using assms(2,3) by (simp add: cfg_step_unfold)
  obtain y where y: "cfg_run (handleTestConnection s) es = Some y" and w: "cfg_step y (Wait 2000) = Some s'"
    using assms(5) st by (auto simp: cfg_run_append split: option.splits)
  have "testing_at (cfg_now s) ?t y" using cfg_run_testing [OF p0 assms(4) y] .
  then have "n_tests (cfg_timers y) = 1" "?t \<in> set (cfg_timers y)" "cfg_now y = cfg_now s"
    by (simp_all add: testing_at_def)
  moreover have "s' = run_timers (cfg_now y + 2000) y" using w by (simp add: cfg_step_unfold)
  ultimately show ?thesis using run_timers_test_result [of y _ "dataSource s" "dbConfig s"] by simp
qed

theorem cfg_test_uses_captured_source_witness:
  "cfg_reachable cfg_init \<and> activeTab cfg_init = ''dados'' \<and> \<not> isTesting cfg_init
   \<and> list_all (\<lambda>e. \<forall>n. e \<noteq> Wait n) [SetSource ''sqlite'']
   \<and> cfg_run cfg_init (TestConnection # [SetSource ''sqlite''] @ [Wait 2000]) = Some (the (cfg_run cfg_init [TestConnection, SetSource ''sqlite'', Wait 2000]))
   \<and> testResult (the (cfg_run cfg_init [TestConnection, SetSource ''sqlite'', Wait 2000]))
       = Some (test_result (dataSource cfg_init) (dbConfig cfg_init))
   \<and> dataSource (the (cfg_run cfg_init [TestConnection, SetSource ''sqlite'', Wait 2000])) = ''sqlite''"
proof -
  have r: "cfg_run cfg_init [TestConnection, SetSource ''sqlite'', Wait 2000]
             = Some (the (cfg_run cfg_init [TestConnection, SetSource ''sqlite'', Wait 2000]))" by code_simp
  have d: "dataSource (the (cfg_run cfg_init [TestConnection, SetSource ''sqlite'', Wait 2000])) = ''sqlite''" by code_simp
  have h: "activeTab cfg_init = ''dados''" "\<not> isTesting cfg_init" by (simp_all add: cfg_init_def)
  have l: "list_all (\<lambda>e. \<forall>n. e \<noteq> Wait n) [SetSource ''sqlite'']" by simp
  show ?thesis
    using cfg_test_uses_captured_source [OF cfg_reachable.init h l, of "the (cfg_run cfg_init [TestConnection, SetSource ''sqlite'', Wait 2000])"]
      r d h l cfg_reachable.init by simp
qed

end
