(* ===== verification/ConfiguracoesView.thy ===== *)
theory ConfiguracoesView
  imports Configuracoes
begin

text \<open>
  The JSX of \<open>app/configuracoes/page.jsx\<close> (lines 114--608) as a function of the
  page state: the success banner, the tab bar, and the content of the active tab.
  Click handlers are the page events of \<open>Configuracoes\<close>; the inputs' change
  handlers map the typed value to an \<open>EditDb\<close> event.
\<close>

section \<open>Banner and tabs\<close>

definition cfg_banner :: "cfg_state \<Rightarrow> cfg_event ui list" where
  "cfg_banner s = (case savedMessage s of
      None \<Rightarrow> []
    | Some m \<Rightarrow> [El ''div'' [] [] [El ''span'' [] [] [Txt m]]])"

definition cfg_tab_bar :: "cfg_state \<Rightarrow> cfg_event ui" where
  "cfg_tab_bar s =
     El ''div'' [] []
       (map (\<lambda>(i, l). El ''button''
              [(''key'', i),
               (''class'', cn [''flex items-center gap-2 px-5 py-3 rounded-xl text-sm font-medium transition-all duration-200 whitespace-nowrap'',
                  if activeTab s = i then ''bg-[#00b4d8]/20 text-[#00b4d8] border border-[#00b4d8]/30''
                  else ''glass-card text-[#8b9cb8] hover:text-white hover:bg-[#1e293b]''])]
              [OnClick (SetTab i)] [Txt l])
         cfg_tabs)"

section \<open>Tab: Fonte de Dados\<close>

definition cfg_source_card :: "cfg_state \<Rightarrow> source_option \<Rightarrow> cfg_event ui" where
  "cfg_source_card s opt =
     (let isActive = (dataSource s = so_id opt) in
      El ''button''
        [(''key'', so_id opt),
         (''class'', cn [''flex flex-col items-start p-5 rounded-xl border-2 transition-all duration-200 text-left'',
            if isActive then ''border-[#00b4d8] bg-[#00b4d8]/10''
            else ''border-[#1e293b] bg-[#1e293b]/30 hover:border-[#00b4d8]/30 hover:bg-[#1e293b]/50''])]
        [OnClick (SetSource (so_id opt))]
        ([El ''div'' [] []
           [El ''div'' [] []
             [El ''p'' [] [] [Txt (so_label opt)],
              El ''span'' [(''class'', cn [''text-xs px-2 py-0.5 rounded-full'',
                  if so_status opt = ''ativo'' then ''bg-[#4ade80]/20 text-[#4ade80]'' else ''bg-[#1e293b] text-[#8b9cb8]''])]
                [] [Txt (so_status opt)]]],
          El ''p'' [] [] [Txt (so_desc opt)]]
         @ (if isActive then [El ''div'' [] [] [Txt ''Selecionado'']] else [])))"

definition cfg_test_card :: "cfg_state \<Rightarrow> cfg_event ui" where
  "cfg_test_card s =
     glass_card
       [glass_card_header [glass_card_title ''Testar Conexao''],
        El ''div'' [] []
          (El ''button''
             [(''disabled'', bool_attr (isTesting s)),
              (''class'', cn [''flex items-center gap-2 px-5 py-3 rounded-xl font-medium text-sm transition-all duration-200'',
                 if isTesting s then ''bg-[#1e293b] text-[#8b9cb8] cursor-wait''
                 else ''bg-[#00b4d8] text-[#0a0f1c] hover:bg-[#00b4d8]/90''])]
             [OnClick TestConnection]
             [Txt (if isTesting s then ''Testando...'' else ''Testar Conexao'')]
           # (case testResult s of
                None \<Rightarrow> []
              | Some (ok, msg) \<Rightarrow>
                  [El ''div'' [(''class'', cn [''flex items-center gap-2 px-4 py-2 rounded-lg text-sm'',
                      if ok then ''bg-[#4ade80]/10 text-[#4ade80]'' else ''bg-[#f87171]/10 text-[#f87171]''])]
                     [] [El ''span'' [] [] [Txt msg]]]))]"

text \<open>The repository list of the architecture card (lines 236--242), as
  \<open>(name, desc, file)\<close>.\<close>

definition cfg_repositories :: "(string \<times> string \<times> string) list" where
  "cfg_repositories =
    [(''BaseRepository'', ''Classe base abstrata com findAll(), findById(), getSummary()'', ''lib/repositories/BaseRepository.js''),
     (''EnergiaRepository'', ''Dados de geracao, matriz energetica, demanda e consumo regional'', ''lib/repositories/EnergiaRepository.js''),
     (''TransmissaoRepository'', ''Linhas de transmissao e intercambios entre subsistemas'', ''lib/repositories/TransmissaoRepository.js''),
     (''UsinasRepository'', ''Usinas solares e eolicas com dados de geracao'', ''lib/repositories/UsinasRepository.js''),
     (''RelatoriosRepository'', ''Relatorios, KPIs e anotacoes do sistema'', ''lib/repositories/RelatoriosRepository.js'')]"

definition cfg_dados_tab :: "cfg_state \<Rightarrow> cfg_event ui" where
  "cfg_dados_tab s =
     El ''div'' [] []
       [glass_card
          [glass_card_header [glass_card_title ''Selecionar Fonte de Dados''],
           El ''p'' [] [] [Txt ''Escolha de onde o dashboard ira consumir os dados. A arquitetura de repositorios permite trocar a fonte sem alterar a interface.''],
           El ''div'' [] [] (map (cfg_source_card s) dataSourceOptions)],
        cfg_test_card s,
        glass_card
          [glass_card_header [glass_card_title ''Arquitetura de Repositorios''],
           El ''div'' [] []
             (map (\<lambda>(n, d, f). El ''div'' [(''key'', n)] []
                  [El ''div'' [] []
                     [El ''div'' [] [] [El ''p'' [] [] [Txt n], El ''code'' [] [] [Txt f]],
                      El ''p'' [] [] [Txt d]]])
                cfg_repositories),
           El ''div'' [] []
             [El ''p'' [] [] [Txt ''Para migrar para SQLite''],
              El ''p'' [] []
                [Txt ''1. Instale better-sqlite3: '', El ''code'' [] [] [Txt ''npm install better-sqlite3''], El ''br'' [] [] [],
                 Txt ''2. Crie o arquivo de conexao em '', El ''code'' [] [] [Txt ''lib/db.js''], El ''br'' [] [] [],
                 Txt ''3. Substitua os dados mock nos repositorios por queries SQL reais'', El ''br'' [] [] [],
                 Txt ''4. As API Routes e os componentes continuam funcionando sem alteracao'']]]]"

section \<open>Tab: API Endpoints\<close>

definition cfg_endpoint_docs :: "(string \<times> string) list" where
  "cfg_endpoint_docs =
    [(''GET /api/energia?tipo=geracao|matriz|demanda|consumo|summary'', ''Retorna dados de energia eletrica filtrados por tipo''),
     (''GET /api/transmissao?tipo=linhas|intercambios|summary&status=...&regiao=...'', ''Dados de linhas de transmissao com filtros''),
     (''GET /api/usinas?fonte=solar|eolica&tipo=lista|geracao|summary'', ''Dados de usinas solares e eolicas''),
     (''GET /api/relatorios?tipo=lista|kpis|anotacoes|summary&filter=...'', ''Lista de relatorios e KPIs''),
     (''POST /api/relatorios {action: 'anotacao', title, content}'', ''Cria nova anotacao''),
     (''GET /api/export?formato=csv|json|md&dados=energia|transmissao|solar|eolica|relatorios'', ''Exporta dados em diferentes formatos'')]"

definition cfg_api_tab :: "cfg_state \<Rightarrow> cfg_event ui" where
  "cfg_api_tab s =
     El ''div'' [] []
       [glass_card
          [glass_card_header
             [glass_card_title ''Endpoints Disponiveis'', El ''div'' [] [] [El ''span'' [] [] [Txt ''Todos Online'']]],
           El ''div'' [] []
             (map (\<lambda>ep. El ''div'' [(''key'', ep_path ep)] []
                  [El ''div'' [] []
                     [El ''div'' [] []
                        [El ''div'' [] [] [El ''p'' [] [] [Txt (ep_name ep)], El ''code'' [] [] [Txt (ep_method ep)]],
                         El ''code'' [] [] [Txt (ep_path ep)]]],
                   El ''div'' [] []
                     [El ''span'' [] [] [Txt (ep_latency ep)],
                      El ''button'' [] [OnClick (TestEndpoint (ep_path ep))] [Txt ''Testar'']]])
                apiEndpoints)],
        glass_card
          [glass_card_header [glass_card_title ''Documentacao dos Endpoints''],
           El ''div'' [] []
             (map (\<lambda>(pth, d). El ''div'' [(''key'', pth)] []
                  [El ''code'' [] [] [Txt pth], El ''p'' [] [] [Txt d]]) cfg_endpoint_docs)]]"

section \<open>Tab: Sincronizacao\<close>

definition cfg_sync_tab :: "cfg_state \<Rightarrow> cfg_event ui" where
  "cfg_sync_tab s =
     El ''div'' [] []
       [glass_card
          [glass_card_header [glass_card_title ''Intervalo de Sincronizacao''],
           El ''div'' [] []
             (map (\<lambda>sc. El ''button''
                  [(''key'', sc_id sc),
                   (''class'', cn [''flex flex-col items-center p-4 rounded-xl border-2 transition-all duration-200 text-center'',
                      if syncSchedule s = sc_id sc then ''border-[#00b4d8] bg-[#00b4d8]/10''
                      else ''border-[#1e293b] bg-[#1e293b]/30 hover:border-[#00b4d8]/30''])]
                  [OnClick (SetSchedule (sc_id sc))]
                  [El ''p'' [] [] [Txt (sc_label sc)], El ''p'' [] [] [Txt (sc_desc sc)]])
                syncSchedules),
           El ''div'' [] []
             [El ''div'' [] []
                [El ''div'' [] []
                   [El ''p'' [] [] [Txt ''Sincronizacao Automatica''],
                    El ''p'' [] [] [Txt ''Atualiza os dados automaticamente de acordo com o intervalo selecionado'']]],
              El ''button''
                [(''class'', cn [''relative w-12 h-6 rounded-full transition-colors duration-200'',
                    if autoSync s then ''bg-[#4ade80]'' else ''bg-[#1e293b]''])]
                [OnClick ToggleAutoSync]
                [El ''div'' [(''class'', cn [''absolute top-1 w-4 h-4 rounded-full bg-white transition-all duration-200'',
                    if autoSync s then ''left-7'' else ''left-1''])] [] []]]],
        glass_card
          [glass_card_header [glass_card_title ''Sincronizar Agora''],
           El ''div'' [] []
             [El ''button''
                [(''disabled'', bool_attr (isSyncing s)),
                 (''class'', cn [''flex items-center gap-2 px-5 py-3 rounded-xl font-medium text-sm transition-all duration-200'',
                    if isSyncing s then ''bg-[#1e293b] text-[#8b9cb8] cursor-wait''
                    else ''bg-[#4ade80] text-[#0a0f1c] hover:bg-[#4ade80]/90''])]
                [OnClick Sync]
                [Txt (if isSyncing s then ''Sincronizando...'' else ''Sincronizar Dados'')],
              El ''span'' [] [] [Txt ''Ultima sincronizacao: agora'']]]]"

section \<open>Tab: Banco de Dados\<close>

text \<open>The suggested SQL schema shown in the Banco tab (lines 559--601), line by line.\<close>

definition sql_schema :: string where
  "sql_schema = join newline
    [''CREATE TABLE energia_geracao ('',
     ''  id INTEGER PRIMARY KEY AUTOINCREMENT,'',
     ''  hora TEXT NOT NULL,'',
     ''  hidro REAL, eolica REAL, solar REAL,'',
     ''  termica REAL, biomassa REAL,'',
     ''  data_registro DATETIME DEFAULT CURRENT_TIMESTAMP'',
     '');'',
     [],
     ''CREATE TABLE linhas_transmissao ('',
     ''  id INTEGER PRIMARY KEY AUTOINCREMENT,'',
     ''  nome TEXT NOT NULL, tensao TEXT,'',
     ''  extensao REAL, capacidade REAL,'',
     ''  status TEXT, regiao TEXT, perdas REAL'',
     '');'',
     [],
     ''CREATE TABLE usinas_solares ('',
     ''  id INTEGER PRIMARY KEY AUTOINCREMENT,'',
     ''  nome TEXT NOT NULL, estado TEXT,'',
     ''  capacidade REAL, geracao REAL,'',
     ''  irradiancia REAL, status TEXT,'',
     ''  fator_capacidade REAL'',
     '');'',
     [],
     ''CREATE TABLE usinas_eolicas ('',
     ''  id INTEGER PRIMARY KEY AUTOINCREMENT,'',
     ''  nome TEXT NOT NULL, estado TEXT,'',
     ''  capacidade REAL, geracao REAL,'',
     ''  turbinas INTEGER, velocidade_vento REAL,'',
     ''  status TEXT, fator_capacidade REAL'',
     '');'',
     [],
     ''CREATE TABLE relatorios ('',
     ''  id INTEGER PRIMARY KEY AUTOINCREMENT,'',
     ''  title TEXT NOT NULL, type TEXT,'',
     ''  date TEXT, size TEXT, category TEXT'',
     '');'',
     [],
     ''CREATE TABLE anotacoes ('',
     ''  id INTEGER PRIMARY KEY AUTOINCREMENT,'',
     ''  title TEXT NOT NULL,'',
     ''  content TEXT,'',
     ''  created_at DATETIME DEFAULT CURRENT_TIMESTAMP'',
     '');'']"

text \<open>A labelled text input bound to one field of \<open>dbConfig\<close>.\<close>

definition cfg_input :: "string \<Rightarrow> string \<Rightarrow> db_field \<Rightarrow> string \<Rightarrow> (string \<times> string) list \<Rightarrow> cfg_event ui" where
  "cfg_input label ty f v extra =
     El ''div'' [] []
       [El ''label'' [] [] [Txt label],
        El ''input'' ([(''type'', ty), (''value'', v)] @ extra) [OnChange (EditDb f)] []]"

definition cfg_banco_tab :: "cfg_state \<Rightarrow> cfg_event ui" where
  "cfg_banco_tab s =
     (let c = dbConfig s in
      El ''div'' [] []
       [glass_card
          [glass_card_header [glass_card_title ''Configuracao do Banco de Dados''],
           El ''p'' [] [] [Txt ''Configure a conexao com o banco de dados SQLite. Estas configuracoes serao usadas quando a fonte de dados for alterada para SQLite.''],
           El ''div'' [] []
             ([El ''div'' [] []
                 [El ''label'' [] [] [Txt ''Tipo do Banco''],
                  El ''select'' [(''value'', tipo c)] [OnChange (EditDb FTipo)]
                    [El ''option'' [(''value'', ''sqlite'')] [] [Txt ''SQLite (Local)''],
                     El ''option'' [(''value'', ''postgresql'')] [] [Txt ''PostgreSQL''],
                     El ''option'' [(''value'', ''mysql'')] [] [Txt ''MySQL'']]]]
              @ (if tipo c = ''sqlite''
                 then [cfg_input ''Caminho do Arquivo'' ''text'' FCaminho (caminho c) [(''placeholder'', ''./data/ons.db'')]]
                 else [cfg_input ''Host'' ''text'' FHost (host c) [],
                       cfg_input ''Porta'' ''text'' FPort (port c) [],
                       cfg_input ''Nome do Banco'' ''text'' FDatabase (database c) [],
                       cfg_input ''Usuario'' ''text'' FUsername (username c) [],
                       El ''div'' [] []
                         [El ''label'' [] [] [Txt ''Senha''],
                          El ''div'' [] []
                            [El ''input'' [(''type'', if showPassword s then ''text'' else ''password''),
                                           (''value'', password c), (''placeholder'', ''Digite a senha'')]
                               [OnChange (EditDb FPassword)] [],
                             El ''button'' [] [OnClick TogglePassword] []]]])
              @ [cfg_input ''Pool Size'' ''number'' FPoolSize (poolSize c) [],
                 cfg_input ''Timeout (s)'' ''number'' FTimeout (timeout c) []]),
           El ''div'' [] []
             [El ''button'' [] [OnClick Save] [Txt ''Salvar Configuracoes''],
              El ''button'' [] [OnClick RestoreDb] [Txt ''Restaurar Padrao'']]],
        glass_card
          [glass_card_header [glass_card_title ''Schema SQL Sugerido''],
           El ''p'' [] [] [Txt ''Use este schema para criar as tabelas no SQLite quando migrar de dados mock para banco real.''],
           El ''pre'' [] [] [Txt sql_schema]]])"

section \<open>The page\<close>

definition cfg_content :: "cfg_state \<Rightarrow> cfg_event ui list" where
  "cfg_content s =
     cfg_banner s @ [cfg_tab_bar s]
     @ (if activeTab s = ''dados'' then [cfg_dados_tab s] else [])
     @ (if activeTab s = ''api'' then [cfg_api_tab s] else [])
     @ (if activeTab s = ''sync'' then [cfg_sync_tab s] else [])
     @ (if activeTab s = ''banco'' then [cfg_banco_tab s] else [])"


text \<open>The events a click dispatches; the others are edits of an input and the
  passing of time.\<close>

fun is_click_event :: "cfg_event \<Rightarrow> bool" where
  "is_click_event (EditDb f v) = False"
| "is_click_event (Wait d) = False"
| "is_click_event e = True"

definition cfg_clicks :: "cfg_state \<Rightarrow> cfg_event list" where
  "cfg_clicks s = concat (map ui_clicks (cfg_content s))"

lemma clicks_tab_bar: "ui_clicks (cfg_tab_bar s) = map (SetTab \<circ> fst) cfg_tabs"
  by (simp add: cfg_tab_bar_def cfg_tabs_def)

lemma clicks_dados_tab:
  "ui_clicks (cfg_dados_tab s) =
     map (SetSource \<circ> so_id) dataSourceOptions @ (if isTesting s then [] else [TestConnection])"
  by (cases "testResult s") (auto simp: cfg_dados_tab_def cfg_test_card_def cfg_source_card_def Let_def
      dataSourceOptions_def cfg_repositories_def)

lemma clicks_api_tab:
  "ui_clicks (cfg_api_tab s) = map (TestEndpoint \<circ> ep_path) apiEndpoints"
  by (simp add: cfg_api_tab_def apiEndpoints_def cfg_endpoint_docs_def)

lemma clicks_sync_tab:
  "ui_clicks (cfg_sync_tab s) =
     map (SetSchedule \<circ> sc_id) syncSchedules @ [ToggleAutoSync] @ (if isSyncing s then [] else [Sync])"
  by (simp add: cfg_sync_tab_def syncSchedules_def)

lemma clicks_banco_tab:
  "ui_clicks (cfg_banco_tab s) =
     (if tipo (dbConfig s) = ''sqlite'' then [] else [TogglePassword]) @ [Save, RestoreDb]"
  by (simp add: cfg_banco_tab_def cfg_input_def Let_def)

lemma clicks_banner: "concat (map ui_clicks (cfg_banner s)) = []"
  by (cases "savedMessage s") (simp_all add: cfg_banner_def)

lemma cfg_clicks_eq:
  "cfg_clicks s =
     map (SetTab \<circ> fst) cfg_tabs
     @ (if activeTab s = ''dados'' then map (SetSource \<circ> so_id) dataSourceOptions @ (if isTesting s then [] else [TestConnection]) else [])
     @ (if activeTab s = ''api'' then map (TestEndpoint \<circ> ep_path) apiEndpoints else [])
     @ (if activeTab s = ''sync'' then map (SetSchedule \<circ> sc_id) syncSchedules @ [ToggleAutoSync] @ (if isSyncing s then [] else [Sync]) else [])
     @ (if activeTab s = ''banco'' then (if tipo (dbConfig s) = ''sqlite'' then [] else [TogglePassword]) @ [Save, RestoreDb] else [])"
  by (simp add: cfg_clicks_def cfg_content_def clicks_banner clicks_tab_bar clicks_dados_tab
      clicks_api_tab clicks_sync_tab clicks_banco_tab)

section \<open>The view agrees with the handlers\<close>

text \<open>The guard of the page's step is the rendered page: a click event is offered
  (\<open>cfg_offered\<close>) if and only if an enabled element of the current view carries it
  as its \<open>onClick\<close> (the tab buttons always, the controls of the active tab only,
  the test and sync buttons only while idle).\<close>

lemma cfg_offered_clicks:
  "is_click_event e \<Longrightarrow> cfg_offered s e \<longleftrightarrow> e \<in> set (cfg_clicks s)"
  by (cases e) (auto simp: cfg_clicks_eq cfg_offered_def)

end
