(* ===== verification/RelatoriosPage.thy ===== *)
theory RelatoriosPage
  imports ExportRoute View Format
begin

text \<open>
  \<open>src/futuristic-ons-dashboard/app/relatorios/page.jsx\<close>: the reports page. Its seven
  \<open>useState\<close> hooks (lines 100--106) are the record \<open>rel_state\<close>, with the
  browser's clock, the pending \<open>setTimeout\<close>s that clear the export status, the
  \<open>fetch\<close>es still in flight, and the files the page has handed to the browser as
  downloads. \<open>handleExport\<close> calls the export route: when its request is answered
  (\<open>Resolve\<close>) the answer is \<open>ExportRoute.export_GET\<close> on the server's repositories
  at the server's clock, so the page and the route are composed here. Requests may be
  answered in any order.
\<close>

section \<open>Constants of the page\<close>

record yearly_row =
  yr_ano :: string
  yr_hidro :: int
  yr_eolica :: int
  yr_solar :: int
  yr_termica :: int
  yr_biomassa :: int

definition mk_yr :: "string \<Rightarrow> int \<Rightarrow> int \<Rightarrow> int \<Rightarrow> int \<Rightarrow> int \<Rightarrow> yearly_row" where
  "mk_yr a h e s t b = \<lparr>yr_ano = a, yr_hidro = h, yr_eolica = e, yr_solar = s, yr_termica = t, yr_biomassa = b\<rparr>"

definition yearlyData :: "yearly_row list" where
  "yearlyData =
    [mk_yr ''2019'' 398 55 6 85 32, mk_yr ''2020'' 396 57 11 80 34, mk_yr ''2021'' 365 72 16 102 38,
     mk_yr ''2022'' 410 80 24 68 40, mk_yr ''2023'' 420 95 35 55 42, mk_yr ''2024'' 425 112 52 48 45,
     mk_yr ''2025'' 430 128 68 42 48]"

record demand_row =
  dm_mes :: string
  dm_SE :: int
  dm_S :: int
  dm_NE :: int
  dm_N :: int
  dm_CO :: int

definition mk_dm :: "string \<Rightarrow> int \<Rightarrow> int \<Rightarrow> int \<Rightarrow> int \<Rightarrow> int \<Rightarrow> demand_row" where
  "mk_dm m se s ne n co = \<lparr>dm_mes = m, dm_SE = se, dm_S = s, dm_NE = ne, dm_N = n, dm_CO = co\<rparr>"

definition demandData :: "demand_row list" where
  "demandData =
    [mk_dm ''Jan'' 48500 14200 12800 6500 5800, mk_dm ''Fev'' 50200 14800 13200 6800 6100,
     mk_dm ''Mar'' 49800 14500 13500 7000 6000, mk_dm ''Abr'' 46200 13200 12500 6200 5600,
     mk_dm ''Mai'' 43500 12800 11800 5800 5200, mk_dm ''Jun'' 42000 13500 11200 5500 5000,
     mk_dm ''Jul'' 43800 14000 11500 5600 5100, mk_dm ''Ago'' 45200 13800 12000 5900 5400,
     mk_dm ''Set'' 47500 14200 12800 6200 5600, mk_dm ''Out'' 49000 14500 13200 6500 5900,
     mk_dm ''Nov'' 50500 15000 13800 6800 6200, mk_dm ''Dez'' 51200 15200 14000 7000 6300]"

record page_report =
  pr_id :: nat
  pr_title :: string
  pr_type :: string
  pr_date :: string
  pr_size :: string
  pr_category :: string

definition mk_pr :: "nat \<Rightarrow> string \<Rightarrow> string \<Rightarrow> string \<Rightarrow> string \<Rightarrow> string \<Rightarrow> page_report" where
  "mk_pr i t ty d sz c = \<lparr>pr_id = i, pr_title = t, pr_type = ty, pr_date = d, pr_size = sz, pr_category = c\<rparr>"

definition page_reports :: "page_report list" where
  "page_reports =
    [mk_pr 1 ''Relatorio Mensal do SIN - Janeiro 2026'' ''mensal'' ''05/02/2026'' ''4.2 MB'' ''Operacao'',
     mk_pr 2 ''Boletim Diario de Operacao'' ''diario'' ''06/02/2026'' ''1.8 MB'' ''Operacao'',
     mk_pr 3 ''Analise de Contingencia - Regiao Sudeste'' ''especial'' ''04/02/2026'' ''2.5 MB'' ''Seguranca'',
     mk_pr 4 ''Balanco Energetico Semanal'' ''semanal'' ''03/02/2026'' ''3.1 MB'' ''Energia'',
     mk_pr 5 ''Previsao de Carga - Fevereiro 2026'' ''mensal'' ''01/02/2026'' ''2.8 MB'' ''Planejamento'',
     mk_pr 6 ''Relatorio de Geracao Renovavel'' ''mensal'' ''02/02/2026'' ''5.4 MB'' ''Renovavel'',
     mk_pr 7 ''Situacao dos Reservatorios'' ''semanal'' ''06/02/2026'' ''1.2 MB'' ''Hidro'',
     mk_pr 8 ''Indicadores de Desempenho do SIN'' ''mensal'' ''01/02/2026'' ''3.8 MB'' ''Operacao'']"

record page_kpi =
  pk_label :: string
  pk_value :: string
  pk_trend :: string
  pk_change :: string
  pk_color :: string

definition page_kpis :: "page_kpi list" where
  "page_kpis =
    [\<lparr>pk_label = ''Geracao Total 2025'', pk_value = ''716 TWh'', pk_trend = ''up'', pk_change = ''+4.2%'', pk_color = ''#00b4d8''\<rparr>,
     \<lparr>pk_label = ''Pico de Demanda'', pk_value = ''102.2 GW'', pk_trend = ''up'', pk_change = ''+2.8%'', pk_color = ''#f97316''\<rparr>,
     \<lparr>pk_label = ''Participacao Renovavel'', pk_value = ''88.4%'', pk_trend = ''up'', pk_change = ''+3.1%'', pk_color = ''#4ade80''\<rparr>,
     \<lparr>pk_label = ''Nivel dos Reservatorios'', pk_value = ''62.5%'', pk_trend = ''down'', pk_change = ''-5.4%'', pk_color = ''#3b82f6''\<rparr>]"

record export_option =
  eo_label :: string
  eo_formato :: string
  eo_dados :: string
  eo_desc :: string

definition mk_eo :: "string \<Rightarrow> string \<Rightarrow> string \<Rightarrow> string \<Rightarrow> export_option" where
  "mk_eo l f d ds = \<lparr>eo_label = l, eo_formato = f, eo_dados = d, eo_desc = ds\<rparr>"

definition exportOptions :: "export_option list" where
  "exportOptions =
    [mk_eo ''Excel (CSV)'' ''csv'' ''energia'' ''Dados de geracao em CSV'',
     mk_eo ''Excel (CSV)'' ''csv'' ''transmissao'' ''Linhas de transmissao em CSV'',
     mk_eo ''Excel (CSV)'' ''csv'' ''solar'' ''Usinas solares em CSV'',
     mk_eo ''Excel (CSV)'' ''csv'' ''eolica'' ''Usinas eolicas em CSV'',
     mk_eo ''JSON'' ''json'' ''energia'' ''Dados de geracao em JSON'',
     mk_eo ''Markdown'' ''md'' ''energia'' ''Relatorio de geracao em MD'',
     mk_eo ''Markdown'' ''md'' ''transmissao'' ''Linhas de transmissao em MD'',
     mk_eo ''Markdown'' ''md'' ''relatorios'' ''Lista de relatorios em MD'']"

text \<open>The filter buttons of line 445.\<close>

definition report_filters :: "string list" where
  "report_filters = [''all'', ''diario'', ''semanal'', ''mensal'', ''especial'']"

section \<open>State and events\<close>

record rel_note =
  note_id :: nat
  note_title :: string
  note_content :: string
  note_createdAt :: string

record rel_state =
  filterType :: string
  showExportPanel :: bool
  showNotesPanel :: bool
  rel_notes :: "rel_note list"
  noteTitle :: string
  noteContent :: string
  exportStatus :: "string option"
  rel_now :: nat
  rel_timers :: "nat list"
  rel_pending :: "(string \<times> string) list"
  rel_downloads :: "(string \<times> string) list"

definition rel_init :: rel_state where
  "rel_init = \<lparr>filterType = ''all'', showExportPanel = False, showNotesPanel = False, rel_notes = [],
     noteTitle = [], noteContent = [], exportStatus = None, rel_now = 0, rel_timers = [],
     rel_pending = [], rel_downloads = []\<rparr>"

text \<open>\<open>Resolve i clk\<close>: the \<open>i\<close>-th request in flight is answered by the server at
  clock \<open>clk\<close>; \<open>NetFail i\<close>: it fails without an answer. \<open>SaveNote stamp\<close>
  carries \<open>new Date().toLocaleString("pt-BR")\<close> at the click.\<close>

datatype rel_event =
    SetFilter string | ToggleExport | ToggleNotes | CloseExport | CloseNotes
  | Export string string | EditTitle string | EditContent string | SaveNote string
  | ExportNote rel_note | DeleteNote nat | Resolve nat clock | NetFail nat | RelWait nat

section \<open>Handlers\<close>

text \<open>\<open>filteredReports\<close> (lines 108--110).\<close>

definition filteredReports :: "rel_state \<Rightarrow> page_report list" where
  "filteredReports s =
     (if filterType s = ''all'' then page_reports else filter (\<lambda>r. pr_type r = filterType s) page_reports)"

definition export_query :: "string \<Rightarrow> string \<Rightarrow> query" where
  "export_query formato dados = [(''formato'', formato), (''dados'', dados)]"

text \<open>\<open>handleExport\<close> up to its \<open>await fetch\<close> (lines 123--126).\<close>

definition handleExport :: "string \<Rightarrow> string \<Rightarrow> rel_state \<Rightarrow> rel_state" where
  "handleExport formato dados s =
     s\<lparr>exportStatus := Some (''Exportando '' @ dados @ '' como '' @ formato @ ''...''),
       rel_pending := rel_pending s @ [(formato, dados)]\<rparr>"

definition export_ext :: "string \<Rightarrow> string" where
  "export_ext formato = (if formato = ''csv'' then ''csv'' else if formato = ''json'' then ''json'' else ''md'')"

text \<open>The rest of \<open>handleExport\<close> (lines 127--144) once the answer \<open>r\<close> is there:
  a response that is not \<open>ok\<close> throws into the \<open>catch\<close>; an \<open>ok\<close> one is saved as
  \<open>ons_<dados>_<Date.now()>.<ext>\<close>. Both branches arm the 3 s timeout.\<close>

definition response_text :: "response \<Rightarrow> string" where
  "response_text r = (case r of FileResponse st ct cd body \<Rightarrow> body | JsonResponse st v \<Rightarrow> json_compact v)"

definition export_finish :: "string \<Rightarrow> string \<Rightarrow> response option \<Rightarrow> rel_state \<Rightarrow> rel_state" where
  "export_finish formato dados r s =
     (let s1 = s\<lparr>rel_timers := rel_timers s @ [rel_now s + 3000]\<rparr> in
      case r of
        Some resp \<Rightarrow>
          if 200 \<le> response_status resp \<and> response_status resp \<le> 299 then
            s1\<lparr>rel_downloads := rel_downloads s @
                   [(''ons_'' @ dados @ ''_'' @ show_nat (rel_now s) @ ''.'' @ export_ext formato,
                     response_text resp)],
               exportStatus := Some ''Exportado com sucesso!''\<rparr>
          else s1\<lparr>exportStatus := Some ''Erro ao exportar. Tente novamente.''\<rparr>
      | None \<Rightarrow> s1\<lparr>exportStatus := Some ''Erro ao exportar. Tente novamente.''\<rparr>)"

text \<open>\<open>handleSaveNote\<close> (lines 147--158): nothing unless both fields have a
  non-blank character; the note keeps the untrimmed text, takes \<open>Date.now()\<close> as its
  id and goes first.\<close>

definition note_ready :: "rel_state \<Rightarrow> bool" where
  "note_ready s \<longleftrightarrow> trim (noteTitle s) \<noteq> [] \<and> trim (noteContent s) \<noteq> []"

definition handleSaveNote :: "string \<Rightarrow> rel_state \<Rightarrow> rel_state" where
  "handleSaveNote stamp s =
     (if \<not> note_ready s then s
      else s\<lparr>rel_notes := \<lparr>note_id = rel_now s, note_title = noteTitle s, note_content = noteContent s,
                        note_createdAt = stamp\<rparr> # rel_notes s,
             noteTitle := [], noteContent := []\<rparr>)"

text \<open>\<open>handleExportNoteAsMarkdown\<close> (lines 160--171): the file it downloads.\<close>

definition note_markdown :: "rel_note \<Rightarrow> string" where
  "note_markdown n =
     ''# '' @ note_title n @ newline @ newline @ ''> Criado em: '' @ note_createdAt n @ newline @ newline
     @ note_content n @ newline"

definition handleExportNoteAsMarkdown :: "rel_note \<Rightarrow> rel_state \<Rightarrow> rel_state" where
  "handleExportNoteAsMarkdown n s =
     s\<lparr>rel_downloads := rel_downloads s @ [(''anotacao_'' @ show_nat (note_id n) @ ''.md'', note_markdown n)]\<rparr>"

definition handleDeleteNote :: "nat \<Rightarrow> rel_state \<Rightarrow> rel_state" where
  "handleDeleteNote i s = s\<lparr>rel_notes := filter (\<lambda>n. note_id n \<noteq> i) (rel_notes s)\<rparr>"

text \<open>Time passing: every status timeout due by then clears the status.\<close>

definition rel_wait :: "nat \<Rightarrow> rel_state \<Rightarrow> rel_state" where
  "rel_wait d s =
     (let target = rel_now s + d in
      s\<lparr>exportStatus := (if list_ex (\<lambda>t. t \<le> target) (rel_timers s) then None else exportStatus s),
        rel_timers := filter (\<lambda>t. target < t) (rel_timers s), rel_now := target\<rparr>)"

text \<open>The export requests the page can issue: the export panel's options, and the
  three buttons on each listed report (lines 486, 494, 502), which always export the
  whole \<open>relatorios\<close> dataset.\<close>

definition export_offered :: "rel_state \<Rightarrow> (string \<times> string) list" where
  "export_offered s =
     (if showExportPanel s then map (\<lambda>o'. (eo_formato o', eo_dados o')) exportOptions else [])
     @ concat (map (\<lambda>r. [(''csv'', ''relatorios''), (''md'', ''relatorios''), (''json'', ''relatorios'')])
                (filteredReports s))"

text \<open>One event of the page, against the server's repositories \<open>db\<close>; \<open>None\<close> when
  the control is not rendered or is disabled.\<close>

definition rel_step :: "ons_db \<Rightarrow> rel_state \<Rightarrow> rel_event \<Rightarrow> rel_state option" where
  "rel_step db s e = (case e of
      SetFilter f \<Rightarrow> if f \<in> set report_filters then Some (s\<lparr>filterType := f\<rparr>) else None
    | ToggleExport \<Rightarrow> Some (s\<lparr>showExportPanel := \<not> showExportPanel s, showNotesPanel := False\<rparr>)
    | ToggleNotes \<Rightarrow> Some (s\<lparr>showNotesPanel := \<not> showNotesPanel s, showExportPanel := False\<rparr>)
    | CloseExport \<Rightarrow> if showExportPanel s then Some (s\<lparr>showExportPanel := False\<rparr>) else None
    | CloseNotes \<Rightarrow> if showNotesPanel s then Some (s\<lparr>showNotesPanel := False\<rparr>) else None
    | Export f d \<Rightarrow> if (f, d) \<in> set (export_offered s) then Some (handleExport f d s) else None
    | EditTitle v \<Rightarrow> if showNotesPanel s then Some (s\<lparr>noteTitle := v\<rparr>) else None
    | EditContent v \<Rightarrow> if showNotesPanel s then Some (s\<lparr>noteContent := v\<rparr>) else None
    | SaveNote stamp \<Rightarrow> if showNotesPanel s \<and> note_ready s then Some (handleSaveNote stamp s) else None
    | ExportNote n \<Rightarrow>
        if showNotesPanel s \<and> n \<in> set (rel_notes s) then Some (handleExportNoteAsMarkdown n s) else None
    | DeleteNote i \<Rightarrow>
        if showNotesPanel s \<and> i \<in> set (map note_id (rel_notes s)) then Some (handleDeleteNote i s) else None
    | Resolve i clk \<Rightarrow>
        if i < length (rel_pending s) then
          (let (f, d) = rel_pending s ! i in
           Some (export_finish f d (Some (export_GET db (export_query f d) clk))
                   (s\<lparr>rel_pending := take i (rel_pending s) @ drop (Suc i) (rel_pending s)\<rparr>)))
        else None
    | NetFail i \<Rightarrow>
        if i < length (rel_pending s) then
          (let (f, d) = rel_pending s ! i in
           Some (export_finish f d None
                   (s\<lparr>rel_pending := take i (rel_pending s) @ drop (Suc i) (rel_pending s)\<rparr>)))
        else None
    | RelWait d \<Rightarrow> Some (rel_wait d s))"

fun rel_run :: "ons_db \<Rightarrow> rel_state \<Rightarrow> rel_event list \<Rightarrow> rel_state option" where
  "rel_run db s [] = Some s"
| "rel_run db s (e # es) = (case rel_step db s e of None \<Rightarrow> None | Some s' \<Rightarrow> rel_run db s' es)"

inductive rel_reachable :: "ons_db \<Rightarrow> rel_state \<Rightarrow> bool" where
  init: "rel_reachable db rel_init"
| step: "rel_reachable db s \<Longrightarrow> rel_step db s e = Some s' \<Longrightarrow> rel_reachable db s'"

section \<open>Lemmas\<close>


lemma export_options_pairs:
  "map (\<lambda>o'. (eo_formato o', eo_dados o')) exportOptions =
     [(''csv'', ''energia''), (''csv'', ''transmissao''), (''csv'', ''solar''), (''csv'', ''eolica''),
      (''json'', ''energia''), (''md'', ''energia''), (''md'', ''transmissao''), (''md'', ''relatorios'')]"
  by (simp add: exportOptions_def mk_eo_def)

lemma seed_datasets_nonempty:
  "d \<in> {''energia'', ''transmissao'', ''solar'', ''eolica'', ''relatorios''} \<Longrightarrow>
     \<exists>data title. export_dataset initial_db d = Some (data, title) \<and> data \<noteq> []"
  by (auto simp: export_dataset_def initial_db_def applyFilters_unfold er_findAll_def tr_findAll_def
      usr_findAll_def uer_findAll_def rr_findAll_def energia_seed transmissao_seed usinas_seed relatorios_seed)

lemma export_GET_seed_ok:
  assumes "(f, d) \<in> set (map (\<lambda>o'. (eo_formato o', eo_dados o')) exportOptions)"
  shows "response_status (export_GET initial_db (export_query f d) clk) = 200"
proof -
  have fd: "f \<in> {''csv'', ''json'', ''md''}" "d \<in> {''energia'', ''transmissao'', ''solar'', ''eolica'', ''relatorios''}"
    using assms by (auto simp: export_options_pairs)
  then obtain data title where ds: "export_dataset initial_db d = Some (data, title)" "data \<noteq> []"
    using seed_datasets_nonempty [OF fd(2)] by blast
  have q: "param_or (export_query f d) ''formato'' ''csv'' = f" "param_or (export_query f d) ''dados'' ''energia'' = d"
    using fd by (auto simp: param_or_def export_query_def)
  show ?thesis using export_GET_status_ok [of initial_db "export_query f d" data title clk] ds q fd
    by simp
qed

definition rel_inv :: "rel_state \<Rightarrow> bool" where
  "rel_inv s \<longleftrightarrow>
     sorted (rev (map note_id (rel_notes s)))
     \<and> (\<forall>n \<in> set (rel_notes s). note_id n \<le> rel_now s \<and> trim (note_title n) \<noteq> [] \<and> trim (note_content n) \<noteq> [])
     \<and> (\<forall>t \<in> set (rel_timers s). rel_now s < t)"

lemma export_finish_frame [simp]:
  "rel_notes (export_finish f d r s) = rel_notes s" "rel_now (export_finish f d r s) = rel_now s"
  "set (rel_timers (export_finish f d r s)) = insert (rel_now s + 3000) (set (rel_timers s))"
  by (auto simp: export_finish_def Let_def split: option.split)

lemma sorted_filter_of: "sorted xs \<Longrightarrow> sorted (filter P xs)"
  by (induction xs) auto

lemma map_note_id_filter:
  "map note_id (filter (\<lambda>n. note_id n \<noteq> i) ns) = filter (\<lambda>x. x \<noteq> i) (map note_id ns)"
  by (induction ns) auto

lemma rel_step_inv:
  assumes inv: "rel_inv s" and st: "rel_step db s e = Some s'"
  shows "rel_inv s'"
proof (cases e)
  case (SaveNote stamp)
  then have "s' = handleSaveNote stamp s" "note_ready s" using st by (simp_all add: rel_step_def split: if_splits)
  then show ?thesis using inv
    by (auto simp: handleSaveNote_def rel_inv_def note_ready_def sorted_append)
next
  case (DeleteNote i)
  then have "s' = handleDeleteNote i s" using st by (simp add: rel_step_def split: if_splits)
  then show ?thesis using inv
    using map_note_id_filter [of i "rel_notes s"] sorted_filter_of [of "rev (map note_id (rel_notes s))"]
    by (auto simp: handleDeleteNote_def rel_inv_def rev_filter)
next
  case (Resolve i clk)
  then show ?thesis using inv st
    by (auto simp: rel_step_def rel_inv_def split: if_splits prod.splits)
next
  case (NetFail i)
  then show ?thesis using inv st
    by (auto simp: rel_step_def rel_inv_def split: if_splits prod.splits)
next
  case (RelWait d)
  then show ?thesis using inv st
    by (fastforce simp: rel_step_def rel_wait_def rel_inv_def Let_def)
qed (use inv st in \<open>auto simp: rel_step_def rel_inv_def handleExport_def handleExportNoteAsMarkdown_def
      split: if_splits\<close>)

lemma rel_reachable_inv: "rel_reachable db s \<Longrightarrow> rel_inv s"
proof (induction rule: rel_reachable.induct)
  case (init db)
  then show ?case by (simp add: rel_inv_def rel_init_def)
next
  case (step db s e s')
  then show ?case by (blast intro: rel_step_inv)
qed

lemma rel_run_reachable: "rel_reachable db s \<Longrightarrow> rel_run db s es = Some s' \<Longrightarrow> rel_reachable db s'"
proof (induction db s es rule: rel_run.induct)
  case (1 db s)
  then show ?case by simp
next
  case (2 db s e es)
  then show ?case by (auto split: option.splits intro: rel_reachable.step)
qed

definition rel_export_demo :: rel_state where
  "rel_export_demo = rel_init\<lparr>showExportPanel := True\<rparr>"

definition rel_notes_demo :: "rel_event list" where
  "rel_notes_demo = [ToggleNotes, EditTitle ''Manutencao'', EditContent ''LT 500kV'', SaveNote ''06/02/2026, 10:00:00'',
                     RelWait 60000, EditTitle ''Carga'', EditContent ''Pico as 18h'', SaveNote ''06/02/2026, 10:01:00'']"

section \<open>Properties of the reports page\<close>

text \<open>C37. Page and export route composed: on the seeded repositories, clicking any
  option of the export panel and receiving the route's answer downloads
  \<open>ons_<dados>_<Date.now()>.<ext>\<close> with exactly the body \<open>export_GET\<close> produced,
  and the status reads \<open>Exportado com sucesso!\<close>: every option of the panel names a
  dataset and a format the route accepts.\<close>

theorem rel_export_option_downloads:
  assumes "showExportPanel s" and "o' \<in> set exportOptions"
  shows "map_option (\<lambda>s'. (exportStatus s', rel_downloads s', rel_pending s'))
           (rel_run initial_db s [Export (eo_formato o') (eo_dados o'), Resolve (length (rel_pending s)) clk])
         = Some (Some ''Exportado com sucesso!'',
                 rel_downloads s @ [(''ons_'' @ eo_dados o' @ ''_'' @ show_nat (rel_now s) @ ''.'' @ export_ext (eo_formato o'),
                   response_text (export_GET initial_db (export_query (eo_formato o') (eo_dados o')) clk))],
                 rel_pending s)"
proof -
  let ?f = "eo_formato o'" and ?d = "eo_dados o'"
  have mem: "(?f, ?d) \<in> set (map (\<lambda>o'. (eo_formato o', eo_dados o')) exportOptions)"
    using assms(2) by auto
  then have off: "(?f, ?d) \<in> set (export_offered s)" using assms(1) by (simp add: export_offered_def)
  have ok: "response_status (export_GET initial_db (export_query ?f ?d) clk) = 200"
    by (rule export_GET_seed_ok [OF mem])
  show ?thesis using off ok
    by (simp add: rel_step_def handleExport_def export_finish_def Let_def nth_append)
qed

theorem rel_export_option_downloads_witness:
  "showExportPanel rel_export_demo \<and> mk_eo ''JSON'' ''json'' ''energia'' ''Dados de geracao em JSON'' \<in> set exportOptions
   \<and> map_option (\<lambda>s'. (exportStatus s', rel_downloads s', rel_pending s'))
       (rel_run initial_db rel_export_demo [Export ''json'' ''energia'', Resolve 0 seed_clock])
     = Some (Some ''Exportado com sucesso!'',
             [(''ons_energia_0.json'', response_text (export_GET initial_db (export_query ''json'' ''energia'') seed_clock))], [])"
proof -
  have a: "showExportPanel rel_export_demo" by (simp add: rel_export_demo_def)
  have b: "mk_eo ''JSON'' ''json'' ''energia'' ''Dados de geracao em JSON'' \<in> set exportOptions"
    by (simp add: exportOptions_def)
  have c: "rel_pending rel_export_demo = [] \<and> rel_downloads rel_export_demo = [] \<and> rel_now rel_export_demo = 0"
    by (simp add: rel_export_demo_def rel_init_def)
  from rel_export_option_downloads [OF a b, of seed_clock] c have
    "map_option (\<lambda>s'. (exportStatus s', rel_downloads s', rel_pending s'))
       (rel_run initial_db rel_export_demo [Export ''json'' ''energia'', Resolve 0 seed_clock])
     = Some (Some ''Exportado com sucesso!'',
             [(''ons_energia_'' @ show_nat 0 @ ''.'' @ export_ext ''json'',
               response_text (export_GET initial_db (export_query ''json'' ''energia'') seed_clock))], [])"
    by (simp add: mk_eo_def)
  moreover have "''ons_energia_'' @ show_nat 0 @ ''.'' @ export_ext ''json'' = ''ons_energia_0.json''"
    by (simp add: show_nat_eval export_ext_def)
  ultimately show ?thesis using a b by simp
qed

text \<open>Notes take \<open>Date.now()\<close> as their id: two notes saved in the same
  millisecond share it, and deleting one deletes both.\<close>

theorem rel_note_ids_collide:
  "map_option (\<lambda>s. map note_id (rel_notes s))
     (rel_run db rel_init [ToggleNotes, EditTitle ''A'', EditContent ''x'', SaveNote ''t'',
                          EditTitle ''B'', EditContent ''y'', SaveNote ''t''])
   = Some [0, 0]
   \<and> map_option (\<lambda>s. rel_notes s)
     (rel_run db rel_init [ToggleNotes, EditTitle ''A'', EditContent ''x'', SaveNote ''t'',
                          EditTitle ''B'', EditContent ''y'', SaveNote ''t'', DeleteNote 0])
   = Some []"
  by (simp add: rel_step_def rel_init_def handleSaveNote_def handleDeleteNote_def note_ready_def
      trim_def is_js_space_def)

text \<open>C39. In every reachable state of the reports page the notes are listed newest
  first (ids non-increasing), no note has an id from the future, and no saved note has
  a blank title or content.\<close>

theorem rel_notes_newest_first:
  assumes "rel_reachable db s"
  shows "sorted (rev (map note_id (rel_notes s)))
         \<and> (\<forall>n \<in> set (rel_notes s). note_id n \<le> rel_now s \<and> trim (note_title n) \<noteq> [] \<and> trim (note_content n) \<noteq> [])"
  using rel_reachable_inv [OF assms] by (simp add: rel_inv_def)

theorem rel_notes_newest_first_witness:
  "rel_reachable initial_db (the (rel_run initial_db rel_init rel_notes_demo))
   \<and> map note_id (rel_notes (the (rel_run initial_db rel_init rel_notes_demo))) = [60000, 0]
   \<and> sorted (rev (map note_id (rel_notes (the (rel_run initial_db rel_init rel_notes_demo)))))"
proof -
  let ?s = "the (rel_run initial_db rel_init rel_notes_demo)"
  have run: "rel_run initial_db rel_init rel_notes_demo = Some ?s"
    by (simp add: rel_notes_demo_def rel_step_def rel_init_def handleSaveNote_def note_ready_def trim_def
        is_js_space_def rel_wait_def)
  have r: "rel_reachable initial_db ?s" by (rule rel_run_reachable [OF rel_reachable.init run])
  have ids: "map note_id (rel_notes ?s) = [60000, 0]"
    by (simp add: rel_notes_demo_def rel_step_def rel_init_def handleSaveNote_def note_ready_def trim_def
        is_js_space_def rel_wait_def)
  from r ids rel_notes_newest_first [OF r] show ?thesis by simp
qed

end
