(* ===== verification/RelatoriosView.thy ===== *)
theory RelatoriosView
  imports RelatoriosPage
begin

text \<open>
  The JSX of \<open>app/relatorios/page.jsx\<close> (lines 81--97 and 177--516) as a function of
  the page state. \<open>getTypeBadge\<close> reads \<open>config[type].bg\<close>, which throws a
  \<open>TypeError\<close> for a type outside its table; rendering is therefore partial, and
  \<open>rel_view\<close> returns \<open>None\<close> when it would throw. The charts of \<open>recharts\<close> are
  given by their configuration: the data rows, and per series its key, name and colour.
\<close>

section \<open>Pieces\<close>

definition type_badge_config :: "(string \<times> string \<times> string \<times> string) list" where
  "type_badge_config =
    [(''diario'', ''Diario'', ''bg-[#00b4d8]/20'', ''text-[#00b4d8]''),
     (''semanal'', ''Semanal'', ''bg-[#4ade80]/20'', ''text-[#4ade80]''),
     (''mensal'', ''Mensal'', ''bg-[#facc15]/20'', ''text-[#facc15]''),
     (''especial'', ''Especial'', ''bg-[#f97316]/20'', ''text-[#f97316]'')]"

definition getTypeBadge :: "string \<Rightarrow> rel_event ui option" where
  "getTypeBadge ty = (case map_of type_badge_config ty of
      None \<Rightarrow> None
    | Some (l, bg, tx) \<Rightarrow> Some (El ''span'' [(''class'', cn [''px-2 py-1 rounded-full text-xs font-medium'', bg, tx])] [] [Txt l]))"

text \<open>\<open>CustomTooltip\<close>: nothing unless active with a non-empty payload; numbers go
  through \<open>formatNumber\<close>. A payload entry is \<open>(name, value)\<close>.\<close>

definition custom_tooltip :: "bool \<Rightarrow> (string \<times> jsval) list \<Rightarrow> string \<Rightarrow> rel_event ui option" where
  "custom_tooltip active payload label =
     (if active \<and> payload \<noteq> [] then
        Some (El ''div'' [] []
          (El ''p'' [] [] [Txt label]
           # map (\<lambda>(n, v). El ''div'' [] []
                 [El ''span'' [] [] [Txt (n @ '':'')],
                  El ''span'' [] [] [Txt (case v of JNum x \<Rightarrow> formatNumber v | _ \<Rightarrow> js_string v)]]) payload))
      else None)"

text \<open>The tick formatter of the demand chart: \<open>`${(v/1000).toFixed(0)}k`\<close>, for a
  non-negative integer \<open>v\<close> (half-up rounding of the thousands).\<close>

definition demand_tick :: "nat \<Rightarrow> string" where
  "demand_tick v = show_nat ((v + 500) div 1000) @ ''k''"

definition rel_kpi_cards :: "rel_event ui" where
  "rel_kpi_cards =
     El ''div'' [] []
       (map (\<lambda>k. glass_card
          [El ''div'' [] []
             [El ''div'' [] [] [El ''p'' [] [] [Txt (pk_label k)], El ''p'' [(''style'', ''color: '' @ pk_color k)] [] [Txt (pk_value k)]]],
           El ''div'' [] []
             [El ''span'' [(''class'', cn [''text-sm font-medium'', if pk_trend k = ''up'' then ''text-[#4ade80]'' else ''text-[#f87171]''])]
                [] [Txt (pk_change k)],
              El ''span'' [] [] [Txt ''vs. ano anterior'']]]) page_kpis)"

definition status_class :: "string \<Rightarrow> string" where
  "status_class st =
     (if js_includes st ''sucesso'' then ''bg-[#4ade80]/20 text-[#4ade80]''
      else if js_includes st ''Erro'' then ''bg-[#f87171]/20 text-[#f87171]''
      else ''bg-[#00b4d8]/20 text-[#00b4d8]'')"

definition rel_action_bar :: "rel_state \<Rightarrow> rel_event ui" where
  "rel_action_bar s =
     El ''div'' [] []
       ([El ''button''
           [(''class'', cn [''flex items-center gap-2 px-5 py-3 rounded-xl font-medium text-sm transition-all duration-200'',
              if showExportPanel s then ''bg-[#00b4d8] text-[#0a0f1c]'' else ''glass-card text-[#00b4d8] hover:bg-[#00b4d8]/20''])]
           [OnClick ToggleExport] [Txt ''Exportar Dados''],
         El ''button''
           [(''class'', cn [''flex items-center gap-2 px-5 py-3 rounded-xl font-medium text-sm transition-all duration-200'',
              if showNotesPanel s then ''bg-[#4ade80] text-[#0a0f1c]'' else ''glass-card text-[#4ade80] hover:bg-[#4ade80]/20''])]
           [OnClick ToggleNotes] [Txt (''Anotacoes ('' @ show_nat (length (rel_notes s)) @ '')'')]]
        @ (case exportStatus s of
             None \<Rightarrow> []
           | Some st \<Rightarrow>
               [El ''span'' [(''class'', cn [''flex items-center gap-2 px-4 py-2 rounded-lg text-sm font-medium'', status_class st])]
                  [] [Txt st]]))"

definition rel_export_panel :: "rel_state \<Rightarrow> rel_event ui list" where
  "rel_export_panel s =
     (if showExportPanel s then
        [glass_card
          [glass_card_header
             [glass_card_title ''Exportar Dados do Sistema'', El ''button'' [] [OnClick CloseExport] []],
           El ''p'' [] [] [Txt ''Selecione o formato e o tipo de dados para exportar. Os arquivos CSV podem ser abertos no Excel.''],
           El ''div'' [] []
             (map (\<lambda>o'. El ''button'' [] [OnClick (Export (eo_formato o') (eo_dados o'))]
                  [El ''div'' [] [] [El ''p'' [] [] [Txt (eo_label o')], El ''p'' [] [] [Txt (eo_desc o')]]])
                exportOptions)]]
      else [])"

definition rel_note_item :: "rel_note \<Rightarrow> rel_event ui" where
  "rel_note_item n =
     El ''div'' [(''key'', show_nat (note_id n))] []
       [El ''div'' [] []
          [El ''div'' [] [] [El ''p'' [] [] [Txt (note_title n)], El ''span'' [] [] [Txt (note_createdAt n)]],
           El ''p'' [] [] [Txt (note_content n)]],
        El ''div'' [] []
          [El ''button'' [(''title'', ''Exportar como .md'')] [OnClick (ExportNote n)] [],
           El ''button'' [(''title'', ''Excluir'')] [OnClick (DeleteNote (note_id n))] []]]"

text \<open>The notes panel; the save button's click carries the locale time stamp of the
  moment of the click, so the panel is given it.\<close>

definition rel_notes_panel :: "string \<Rightarrow> rel_state \<Rightarrow> rel_event ui list" where
  "rel_notes_panel stamp s =
     (if showNotesPanel s then
        [glass_card
          [glass_card_header
             [glass_card_title ''Anotacoes e Observacoes'', El ''button'' [] [OnClick CloseNotes] []],
           El ''div'' [] []
             [El ''div'' [] [] [El ''span'' [] [] [Txt ''Nova Anotacao'']],
              El ''input'' [(''type'', ''text''), (''placeholder'', ''Titulo da anotacao...''), (''value'', noteTitle s)]
                [OnChange EditTitle] [],
              El ''textarea'' [(''placeholder'', ''Escreva suas observacoes aqui... (suporta texto livre)''),
                               (''value'', noteContent s), (''rows'', ''4'')]
                [OnChange EditContent] [],
              El ''div'' [] []
                [El ''button'' [(''disabled'', bool_attr (\<not> note_ready s))] [OnClick (SaveNote stamp)]
                   [Txt ''Salvar Anotacao''],
                 El ''span'' [] [] [Txt ''Anotacoes podem ser exportadas como .md'']]],
           if rel_notes s = [] then
             El ''div'' [] [] [El ''p'' [] [] [Txt ''Nenhuma anotacao ainda. Crie sua primeira acima.'']]
           else El ''div'' [] [] (map rel_note_item (rel_notes s))]]
      else [])"

definition rel_charts :: "rel_event ui" where
  "rel_charts =
     El ''div'' [] []
       [glass_card
          [glass_card_header [glass_card_title ''Evolucao da Geracao por Fonte (TWh)''],
           El ''BarChart'' [] []
             (map (\<lambda>(k, n, c). El ''Bar'' [(''dataKey'', k), (''name'', n), (''stackId'', ''a''), (''fill'', c)] [] [])
                [(''hidro'', ''Hidraulica'', ''#3b82f6''), (''eolica'', ''Eolica'', ''#00b4d8''),
                 (''solar'', ''Solar'', ''#facc15''), (''termica'', ''Termica'', ''#f97316''),
                 (''biomassa'', ''Biomassa'', ''#4ade80'')]),
           El ''div'' [] []
             (map (\<lambda>l. El ''div'' [] [] [El ''span'' [] [] [Txt l]]) [''Hidraulica'', ''Eolica'', ''Solar'', ''Termica'', ''Biomassa''])],
        glass_card
          [glass_card_header [glass_card_title ''Demanda Mensal por Regiao (MW med)''],
           El ''ComposedChart'' [] []
             (El ''Area'' [(''dataKey'', ''SE''), (''name'', ''Sudeste''), (''fill'', ''#00b4d8'')] [] []
              # map (\<lambda>(k, n, c). El ''Line'' [(''dataKey'', k), (''name'', n), (''stroke'', c)] [] [])
                  [(''S'', ''Sul'', ''#4ade80''), (''NE'', ''Nordeste'', ''#facc15''),
                   (''N'', ''Norte'', ''#f97316''), (''CO'', ''Centro-Oeste'', ''#3b82f6'')]),
           El ''div'' [] []
             (map (\<lambda>l. El ''div'' [] [] [El ''span'' [] [] [Txt l]]) [''Sudeste'', ''Sul'', ''Nordeste'', ''Norte'', ''Centro-Oeste''])]]"

definition rel_report_row :: "page_report \<Rightarrow> rel_event ui option" where
  "rel_report_row r = (case getTypeBadge (pr_type r) of
      None \<Rightarrow> None
    | Some badge \<Rightarrow> Some (El ''div'' [(''key'', show_nat (pr_id r))] []
        [El ''div'' [] []
           [El ''p'' [] [] [Txt (pr_title r)],
            El ''div'' [] []
              [badge, El ''span'' [] [] [Txt (pr_category r)], El ''span'' [] [] [Txt (pr_date r)],
               El ''span'' [] [] [Txt (pr_size r)]]],
         El ''div'' [] []
           [El ''button'' [(''title'', ''Exportar como CSV'')] [OnClick (Export ''csv'' ''relatorios'')] [El ''span'' [] [] [Txt ''CSV'']],
            El ''button'' [(''title'', ''Exportar como Markdown'')] [OnClick (Export ''md'' ''relatorios'')] [El ''span'' [] [] [Txt ''MD'']],
            El ''button'' [(''title'', ''Exportar como JSON'')] [OnClick (Export ''json'' ''relatorios'')] [El ''span'' [] [] [Txt ''JSON'']]]]))"

definition rel_filter_button :: "rel_state \<Rightarrow> string \<Rightarrow> rel_event ui" where
  "rel_filter_button s f =
     El ''button''
       [(''key'', f),
        (''class'', cn [''px-3 py-1 rounded-lg text-xs font-medium transition-colors'',
           if filterType s = f then ''bg-[#00b4d8]/20 text-[#00b4d8] border border-[#00b4d8]/30''
           else ''text-[#8b9cb8] hover:bg-[#1e293b] border border-transparent''])]
       [OnClick (SetFilter f)] [Txt (if f = ''all'' then ''Todos'' else capitalize f)]"

definition rel_reports_list :: "rel_state \<Rightarrow> rel_event ui option" where
  "rel_reports_list s =
     map_option (\<lambda>rows. glass_card
       [glass_card_header
          [El ''div'' [] [] [glass_card_title ''Relatorios Disponiveis'',
                             El ''span'' [] [] [Txt (show_nat (length (filteredReports s)))]],
           El ''div'' [] [] (map (rel_filter_button s) report_filters)],
        El ''div'' [] [] rows])
       (those (map rel_report_row (filteredReports s)))"

section \<open>The page\<close>

definition rel_view :: "string \<Rightarrow> rel_state \<Rightarrow> rel_event ui list option" where
  "rel_view stamp s =
     map_option (\<lambda>lst. [rel_kpi_cards, rel_action_bar s] @ rel_export_panel s @ rel_notes_panel stamp s
                        @ [rel_charts, lst])
       (rel_reports_list s)"

section \<open>Lemmas\<close>


lemma badge_defined: "pr_type r \<in> set (map fst type_badge_config) \<Longrightarrow> getTypeBadge (pr_type r) \<noteq> None"
  by (auto simp: getTypeBadge_def split: option.split dest: weak_map_of_SomeI)

lemma page_report_types: "r \<in> set page_reports \<Longrightarrow> pr_type r \<in> set (map fst type_badge_config)"
  by (auto simp: page_reports_def mk_pr_def type_badge_config_def)

section \<open>Properties of the view\<close>

text \<open>C40. Rendering the reports page never throws: every report the list can show
  has a type in \<open>getTypeBadge\<close>'s table, although a type outside it (such as
  \<open>anual\<close>) has no badge and would make the render fail.\<close>

theorem rel_view_total:
  "rel_view stamp s \<noteq> None \<and> getTypeBadge ''anual'' = None"
proof -
  have "\<forall>r \<in> set (filteredReports s). rel_report_row r \<noteq> None"
  proof
    fix r assume "r \<in> set (filteredReports s)"
    then have "r \<in> set page_reports" by (auto simp: filteredReports_def split: if_splits)
    then have "getTypeBadge (pr_type r) \<noteq> None" by (intro badge_defined page_report_types)
    then show "rel_report_row r \<noteq> None" by (auto simp: rel_report_row_def)
  qed
  then have "those (map rel_report_row (filteredReports s)) \<noteq> None"
    using those_Some_iff [of "map rel_report_row (filteredReports s)"] by auto
  then show ?thesis by (simp add: rel_view_def rel_reports_list_def getTypeBadge_def type_badge_config_def)
qed

end
