(* ===== verification/Widgets.thy ===== *)
theory Widgets
  imports View
begin

text \<open>
  The presentational widgets of \<open>src/futuristic-ons-dashboard/widgets/\<close> that the
  pages compose. \<open>StatsCard\<close> looks its colour up in a table and reads
  \<open>colors.border\<close>, which throws for a colour outside it: the card is \<open>None\<close> then.
  A sparkline bar's height \<open>(val / Math.max(...sparkline)) * 100%\<close> is kept as the
  exact ratio \<open>val/max\<close> of its two integers.
\<close>

section \<open>StatsCard\<close>

definition stats_colors :: "(string \<times> string \<times> string \<times> string \<times> string) list" where
  "stats_colors =
    [(''cyan'', ''bg-[#00b4d8]/10'', ''text-[#00b4d8]'', ''border-[#00b4d8]/20'', ''glow-cyan''),
     (''green'', ''bg-[#4ade80]/10'', ''text-[#4ade80]'', ''border-[#4ade80]/20'', ''glow-green''),
     (''yellow'', ''bg-[#facc15]/10'', ''text-[#facc15]'', ''border-[#facc15]/20'', ''glow-yellow''),
     (''orange'', ''bg-[#f97316]/10'', ''text-[#f97316]'', ''border-[#f97316]/20'', [])]"

text \<open>\<open>StatsCard({title, value, unit, trend, trendValue, color, sparkline})\<close>; an
  absent \<open>trend\<close> is the empty string (both are falsy).\<close>

definition stats_card ::
  "string \<Rightarrow> string \<Rightarrow> string \<Rightarrow> string \<Rightarrow> string \<Rightarrow> string \<Rightarrow> int list \<Rightarrow> 'e ui option" where
  "stats_card title value unit trend trendValue color sparkline =
     (case map_of stats_colors color of
        None \<Rightarrow> None
      | Some (bg, tx, border, glow) \<Rightarrow> Some
          (El ''div'' [(''class'', cn [''glass-card rounded-xl p-6 transition-all duration-300 hover:border-[#00b4d8]/30 group'', border])] []
            ([El ''div'' [] []
                [El ''div'' [] []
                   [El ''p'' [] [] [Txt title],
                    El ''div'' [] []
                      [El ''span'' [(''class'', cn [''text-3xl font-bold'', tx])] [] [Txt value],
                       El ''span'' [] [] [Txt unit]]],
                 El ''div'' [(''class'', cn [''p-3 rounded-lg transition-all duration-300'', bg, ''group-hover:scale-110''])] [] []]]
             @ (if sparkline \<noteq> [] then
                  [El ''div'' [] []
                     (map (\<lambda>v. El ''div'' [(''class'', cn [''flex-1 rounded-t transition-all duration-300'', bg]),
                                         (''height'', show_int v @ ''/'' @ show_int (Max (set sparkline)))] [] [])
                        sparkline)]
                else [])
             @ (if trend \<noteq> [] then
                  [El ''div'' [] []
                     [El ''div'' [(''class'', cn [''flex items-center gap-1 text-sm font-medium'',
                                     if trend = ''up'' then ''text-[#4ade80]'' else ''text-[#f87171]''])] [] [Txt trendValue],
                      El ''span'' [] [] [Txt ''vs. hora anterior'']]]
                else []))))"

lemma stats_card_defined:
  "color \<in> set (map fst stats_colors) \<Longrightarrow> stats_card t v u tr tv color sp \<noteq> None"
  by (auto simp: stats_card_def split: option.split dest: weak_map_of_SomeI)

end
