(* ===== verification/TransmissaoPage.thy ===== *)
theory TransmissaoPage
  imports Widgets Format
begin

text \<open>
  \<open>src/futuristic-ons-dashboard/app/transmissao/page.jsx\<close>: the transmission page. It
  keeps its own literal data (it does not call \<open>TransmissaoRepository\<close>) and one
  piece of state, the status filter of the lines table. \<open>getStatusBadge\<close> reads
  \<open>config[status].bg\<close> and throws for a status outside its table, so the view is
  partial (\<open>None\<close> when rendering would throw), as is \<open>StatsCard\<close> for an unknown
  colour.
\<close>

section \<open>Constants of the page\<close>

record tx_line =
  tx_id :: nat
  tx_name :: string
  tx_from :: string
  tx_to :: string
  tx_voltage :: int
  tx_length :: int
  tx_capacity :: int
  tx_load :: int
  tx_status :: string
  tx_company :: string

definition mk_tx :: "nat \<Rightarrow> string \<Rightarrow> string \<Rightarrow> string \<Rightarrow> int \<Rightarrow> int \<Rightarrow> int \<Rightarrow> int \<Rightarrow> string \<Rightarrow> string \<Rightarrow> tx_line" where
  "mk_tx i n f t v l c ld st co = \<lparr>tx_id = i, tx_name = n, tx_from = f, tx_to = t, tx_voltage = v,
     tx_length = l, tx_capacity = c, tx_load = ld, tx_status = st, tx_company = co\<rparr>"

definition transmissionLines :: "tx_line list" where
  "transmissionLines =
    [mk_tx 1 ''LT 500kV Tucurui - Macapa'' ''Norte'' ''Norte'' 500 1800 4500 78 ''normal'' ''Eletronorte'',
     mk_tx 2 ''LT 765kV Itaipu - Ibiuna'' ''Sul'' ''Sudeste'' 765 900 12000 85 ''high'' ''Furnas'',
     mk_tx 3 ''LT 500kV Paulo Afonso - Recife'' ''Nordeste'' ''Nordeste'' 500 650 6000 62 ''normal'' ''Chesf'',
     mk_tx 4 ''LT 500kV Serra da Mesa - Samambaia'' ''Centro-Oeste'' ''Sudeste'' 500 420 5500 71 ''normal'' ''Furnas'',
     mk_tx 5 ''LT 500kV Tucurui - Xingu'' ''Norte'' ''Centro-Oeste'' 500 1100 3500 92 ''critical'' ''Eletronorte'',
     mk_tx 6 ''LT 800kV Xingu - Estreito'' ''Norte'' ''Sudeste'' 800 2076 8000 68 ''normal'' ''ISA CTEEP'',
     mk_tx 7 ''LT 500kV Imperatriz - Colinas'' ''Norte'' ''Nordeste'' 500 590 4200 88 ''high'' ''Eletronorte'',
     mk_tx 8 ''LT 500kV Campos Novos - Blumenau'' ''Sul'' ''Sul'' 500 280 3800 45 ''normal'' ''Eletrosul'']"

record flow_row =
  fl_hora :: string
  fl_norte_ne :: int
  fl_ne_se :: int
  fl_se_s :: int
  fl_co_se :: int

definition mk_fl :: "string \<Rightarrow> int \<Rightarrow> int \<Rightarrow> int \<Rightarrow> int \<Rightarrow> flow_row" where
  "mk_fl h a b c d = \<lparr>fl_hora = h, fl_norte_ne = a, fl_ne_se = b, fl_se_s = c, fl_co_se = d\<rparr>"

definition flowData :: "flow_row list" where
  "flowData =
    [mk_fl ''00:00'' 1200 4500 2800 3200, mk_fl ''04:00'' 1400 4200 2600 3000,
     mk_fl ''08:00'' 2100 5800 3500 4100, mk_fl ''12:00'' 2800 6500 4200 4800,
     mk_fl ''16:00'' 2400 6100 3800 4500, mk_fl ''18:00'' 3200 7200 4800 5200,
     mk_fl ''20:00'' 2900 6800 4500 5000, mk_fl ''22:00'' 1800 5200 3200 3800]"

text \<open>Map regions \<open>(name, x, y, power)\<close> and connections \<open>(from, to, load, colour)\<close>.\<close>

definition tx_regions :: "(string \<times> int \<times> int \<times> string) list" where
  "tx_regions =
    [(''Norte'', 25, 15, ''12.5 GW''), (''Nordeste'', 72, 22, ''18.3 GW''), (''Centro-Oeste'', 42, 48, ''9.8 GW''),
     (''Sudeste'', 65, 62, ''45.2 GW''), (''Sul'', 52, 85, ''15.7 GW'')]"

definition tx_connections :: "((int \<times> int) \<times> (int \<times> int) \<times> int \<times> string) list" where
  "tx_connections =
    [((25, 15), (72, 22), 78, ''#00b4d8''), ((72, 22), (65, 62), 85, ''#facc15''),
     ((65, 62), (52, 85), 62, ''#4ade80''), ((42, 48), (65, 62), 71, ''#00b4d8''),
     ((25, 15), (42, 48), 92, ''#ef4444''), ((25, 15), (65, 62), 68, ''#00b4d8'')]"

section \<open>Helpers of the component\<close>

definition getLoadColor :: "int \<Rightarrow> string" where
  "getLoadColor load = (if 90 \<le> load then ''#ef4444'' else if 75 \<le> load then ''#facc15'' else ''#4ade80'')"

definition status_badge_config :: "(string \<times> string \<times> string \<times> string) list" where
  "status_badge_config =
    [(''normal'', ''Normal'', ''bg-[#4ade80]/20'', ''text-[#4ade80]''),
     (''high'', ''Alto'', ''bg-yellow-500/20'', ''text-yellow-500''),
     (''critical'', ''Critico'', ''bg-red-500/20'', ''text-red-500'')]"

definition getStatusBadge :: "string \<Rightarrow> 'e ui option" where
  "getStatusBadge st = (case map_of status_badge_config st of
      None \<Rightarrow> None
    | Some (l, bg, tx) \<Rightarrow> Some (El ''span'' [(''class'', cn [''px-2 py-1 rounded-full text-xs font-medium'', bg, tx])] [] [Txt l]))"

definition line_filters :: "string list" where
  "line_filters = [''all'', ''normal'', ''high'', ''critical'']"

definition filteredLines :: "string \<Rightarrow> tx_line list" where
  "filteredLines f = (if f = ''all'' then transmissionLines else filter (\<lambda>l. tx_status l = f) transmissionLines)"

definition status_count :: "string \<Rightarrow> nat" where
  "status_count st = length (filter (\<lambda>l. tx_status l = st) transmissionLines)"

text \<open>The tooltip of the flow chart: every value through \<open>formatNumber\<close>, with
  \<open>MW\<close>.\<close>

definition tx_tooltip :: "bool \<Rightarrow> (string \<times> jsval) list \<Rightarrow> string \<Rightarrow> 'e ui option" where
  "tx_tooltip active payload label =
     (if active \<and> payload \<noteq> [] then
        Some (El ''div'' [] []
          (El ''p'' [] [] [Txt label]
           # map (\<lambda>(n, v). El ''div'' [] []
                 [El ''span'' [] [] [Txt (n @ '':'')], El ''span'' [] [] [Txt (formatNumber v @ '' MW'')]]) payload))
      else None)"

section \<open>State and events\<close>

datatype tx_event = SetLineFilter string

text \<open>The page state is the \<open>filter\<close> hook; a click on a filter button sets it.\<close>

definition tx_step :: "string \<Rightarrow> tx_event \<Rightarrow> string option" where
  "tx_step f e = (case e of SetLineFilter g \<Rightarrow> if g \<in> set line_filters then Some g else None)"

section \<open>The view\<close>

definition tx_stats :: "tx_event ui option" where
  "tx_stats =
     map_option (El ''div'' [] [])
       (those [stats_card ''Total de Linhas'' ''184'' ''linhas'' [] [] ''cyan'' [],
               stats_card ''Extensao Total'' ''156.284'' ''km'' [] [] ''green'' [],
               stats_card ''Alertas Criticos'' (show_nat (status_count ''critical'')) ''linhas'' ''up'' ''+1'' ''orange'' [],
               stats_card ''Operando Normal'' (show_nat (status_count ''normal'')) ''linhas'' [] [] ''green'' []])"

definition svg_line :: "int \<Rightarrow> int \<Rightarrow> int \<Rightarrow> int \<Rightarrow> string \<Rightarrow> 'e ui" where
  "svg_line x1 y1 x2 y2 stroke =
     El ''line'' [(''x1'', show_int x1), (''y1'', show_int y1), (''x2'', show_int x2), (''y2'', show_int y2),
                  (''stroke'', stroke)] [] []"

text \<open>The interconnection map (lines 123--194). A connection's midpoint marker sits
  at \<open>(from + to) / 2\<close>, kept as the doubled coordinates \<open>from + to\<close> over 2.\<close>

definition tx_map :: "tx_event ui" where
  "tx_map =
     glass_card
       [glass_card_header
          [glass_card_title ''Mapa de Interconexoes'',
           El ''div'' [] [] [El ''span'' [] [] [Txt ''< 75%''], El ''span'' [] [] [Txt ''75-90%''], El ''span'' [] [] [Txt ''> 90%'']]],
        El ''div'' [] []
          (El ''svg'' [(''viewBox'', ''0 0 100 100'')] []
             (map (\<lambda>v. svg_line 0 v 100 v ''#1e293b'') [20, 40, 60, 80]
              @ map (\<lambda>v. svg_line v 0 v 100 ''#1e293b'') [20, 40, 60, 80]
              @ map (\<lambda>((x1, y1), (x2, y2), load, c). El ''g'' [] []
                     [svg_line x1 y1 x2 y2 (getLoadColor load),
                      El ''circle'' [(''cx'', show_int (x1 + x2) @ ''/2''), (''cy'', show_int (y1 + y2) @ ''/2''),
                                     (''r'', ''2.5''), (''fill'', getLoadColor load)] [] []]) tx_connections
              @ map (\<lambda>(n, x, y, p). El ''g'' [(''key'', n)] []
                     (map (\<lambda>r. El ''circle'' [(''cx'', show_int x), (''cy'', show_int y), (''r'', r)] [] []) [''8'', ''4'', ''2''])) tx_regions)
           # map (\<lambda>(n, x, y, p). El ''div'' [(''key'', n), (''left'', show_int x @ ''%''), (''top'', show_int (y + 10) @ ''%'')] []
                  [El ''p'' [] [] [Txt n], El ''p'' [] [] [Txt p]]) tx_regions)]"

definition flow_series :: "(string \<times> string \<times> string) list" where
  "flow_series =
    [(''norte_ne'', ''N '' @ right_arrow @ '' NE'', ''#00b4d8''), (''ne_se'', ''NE '' @ right_arrow @ '' SE'', ''#facc15''),
     (''se_s'', ''SE '' @ right_arrow @ '' S'', ''#4ade80''), (''co_se'', ''CO '' @ right_arrow @ '' SE'', ''#f97316'')]"

definition tx_flow_chart :: "tx_event ui" where
  "tx_flow_chart =
     glass_card
       [glass_card_header [glass_card_title ''Fluxo de Intercambio (24h)''],
        El ''LineChart'' [] [] (map (\<lambda>(k, n, c). El ''Line'' [(''dataKey'', k), (''name'', n), (''stroke'', c)] [] []) flow_series),
        El ''div'' [] [] (map (\<lambda>(k, n, c). El ''div'' [(''key'', n)] [] [El ''span'' [] [] [Txt n]]) flow_series)]"

definition filter_label :: "string \<Rightarrow> string" where
  "filter_label f = (if f = ''all'' then ''Todos'' else if f = ''normal'' then ''Normal'' else if f = ''high'' then ''Alto'' else ''Critico'')"

definition tx_row :: "tx_line \<Rightarrow> tx_event ui option" where
  "tx_row l = map_option (\<lambda>badge.
     El ''tr'' [(''key'', show_nat (tx_id l))] []
       [El ''td'' [] [] [El ''p'' [] [] [Txt (tx_name l)], El ''p'' [] [] [Txt (tx_from l @ '' '' @ right_arrow @ '' '' @ tx_to l)]],
        El ''td'' [] [] [Txt (show_int (tx_voltage l) @ '' kV'')],
        El ''td'' [] [] [Txt (formatNumber (jint (tx_length l)) @ '' km'')],
        El ''td'' [] [] [Txt (formatNumber (jint (tx_capacity l)) @ '' MW'')],
        El ''td'' [] []
          [El ''div'' [(''width'', show_int (tx_load l) @ ''%''), (''backgroundColor'', getLoadColor (tx_load l))] [] [],
           El ''span'' [(''color'', getLoadColor (tx_load l))] [] [Txt (show_int (tx_load l) @ ''%'')]],
        El ''td'' [] [] [badge],
        El ''td'' [] [] [Txt (tx_company l)]])
     (getStatusBadge (tx_status l))"

definition tx_table :: "string \<Rightarrow> tx_event ui option" where
  "tx_table f =
     map_option (\<lambda>rows. glass_card
       [glass_card_header
          [glass_card_title ''Linhas de Transmissao Monitoradas'',
           El ''div'' [] []
             (map (\<lambda>g. El ''button''
                  [(''key'', g), (''class'', cn [''px-3 py-1 rounded-lg text-xs font-medium transition-colors'',
                     if f = g then ''bg-[#00b4d8]/20 text-[#00b4d8] border border-[#00b4d8]/30''
                     else ''text-[#8b9cb8] hover:bg-[#1e293b] border border-transparent''])]
                  [OnClick (SetLineFilter g)] [Txt (filter_label g)]) line_filters)],
        El ''table'' [] []
          [El ''thead'' [] [] [El ''tr'' [] [] (map (\<lambda>h. El ''th'' [] [] [Txt h])
             [''Linha'', ''Tensao'', ''Extensao'', ''Capacidade'', ''Carga'', ''Status'', ''Empresa''])],
           El ''tbody'' [] [] rows]])
       (those (map tx_row (filteredLines f)))"

definition tx_view :: "string \<Rightarrow> tx_event ui list option" where
  "tx_view f = those [tx_stats, Some (El ''div'' [] [] [tx_map, tx_flow_chart]), tx_table f]"

section \<open>Lemmas\<close>

lemma tx_status_known: "l \<in> set transmissionLines \<Longrightarrow> getStatusBadge (tx_status l) \<noteq> None"
  by (auto simp: transmissionLines_def mk_tx_def getStatusBadge_def status_badge_config_def)

text \<open>The page renders whatever the filter: every line's status has a badge and every
  stats card a known colour.\<close>

lemma tx_view_defined: "tx_view f \<noteq> None"
proof -
  have "\<forall>l \<in> set (filteredLines f). tx_row l \<noteq> None"
    using tx_status_known by (auto simp: filteredLines_def tx_row_def split: if_splits)
  then have "those (map tx_row (filteredLines f)) \<noteq> None"
    using those_Some_iff [of "map tx_row (filteredLines f)"] by auto
  moreover have "tx_stats \<noteq> None"
    by (simp add: tx_stats_def stats_card_def stats_colors_def)
  ultimately have "tx_table f \<noteq> None" "tx_stats \<noteq> None" by (simp_all add: tx_table_def)
  then show ?thesis using those_Some_iff [of "[tx_stats, Some (El ''div'' [] [] [tx_map, tx_flow_chart]), tx_table f]"]
    by (simp add: tx_view_def)
qed

text \<open>The two first stats cards are literals: the table it shows has 8 lines of
  7816 km in total, not 184 lines of 156.284 km.\<close>

lemma tx_literal_stats:
  "length transmissionLines = 8 \<and> sum_list (map tx_length transmissionLines) = 7816
   \<and> status_count ''critical'' = 1 \<and> status_count ''normal'' = 5"
  by (simp add: transmissionLines_def mk_tx_def status_count_def)

end
