(* ===== verification/TasksPage.thy ===== *)
theory TasksPage
  imports View
begin

text \<open>
  \<open>src/dashboard-ui-template/src/app/dashboard/tasks/page.js\<close> with its controller
  \<open>src/controllers/tasksController.js\<close>: a task list kept in \<open>localStorage\<close>.
  Tasks are the JavaScript objects the page reads from JSON, so they are objects of
  \<open>JsValue\<close> and are updated by spreading (\<open>obj_set\<close>). The browser's storage
  cell \<open>saas_tasks_v1\<close> outlives the page: \<open>tp_state\<close> holds it with the state of
  the mounted page, if any. A commit that changes \<open>tasks\<close> runs the save effect; the
  first commit runs both effects in order, the save effect seeing the first render's
  empty list.
\<close>

section \<open>The controller\<close>

text \<open>What \<open>localStorage.getItem\<close> returns: nothing, a JSON text (given by its
  value), or a text that does not parse.\<close>

datatype stored = StoredJson jsval | StoredGarbage string

definition STORAGE_KEY :: string where
  "STORAGE_KEY = ''saas_tasks_v1''"

definition loadTasksFromStorage :: "stored option \<Rightarrow> jsval list option" where
  "loadTasksFromStorage raw = (case raw of
      None \<Rightarrow> None
    | Some (StoredGarbage txt) \<Rightarrow> None
    | Some (StoredJson v) \<Rightarrow> (case v of JArr xs \<Rightarrow> Some xs | _ \<Rightarrow> None))"

definition saveTasksToStorage :: "jsval list \<Rightarrow> stored option" where
  "saveTasksToStorage ts = Some (StoredJson (JArr ts))"

text \<open>\<open>fetchInitialTasks\<close>: \<open>data.tasks || []\<close> of a successful response, an error
  otherwise (the page has no \<open>catch\<close>).\<close>

datatype fetch_result = FetchJson jsval | FetchFailed

definition fetchInitialTasks :: "fetch_result \<Rightarrow> jsval list option" where
  "fetchInitialTasks r = (case r of
      FetchFailed \<Rightarrow> None
    | FetchJson data \<Rightarrow>
        (case data of
           JObj kvs \<Rightarrow> (let v = obj_get kvs ''tasks'' in
                         if js_truthy v then (case v of JArr xs \<Rightarrow> Some xs | _ \<Rightarrow> Some []) else Some [])
         | _ \<Rightarrow> Some []))"

section \<open>The page\<close>

definition STATUS :: "(string \<times> string) list" where
  "STATUS = [(''all'', ''All''), (''todo'', ''To do''), (''in_progress'', ''In progress''), (''done'', ''Done'')]"

definition pill :: "string \<Rightarrow> string" where
  "pill priority =
     (case map_of [(''high'', ''bg-rose-50 text-rose-800 border-rose-100 dark:bg-rose-950/30 dark:text-rose-200 dark:border-rose-900''),
                   (''medium'', ''bg-amber-50 text-amber-800 border-amber-100 dark:bg-amber-950/25 dark:text-amber-200 dark:border-amber-900''),
                   (''low'', ''bg-emerald-50 text-emerald-800 border-emerald-100 dark:bg-emerald-950/25 dark:text-emerald-200 dark:border-emerald-900'')]
             priority of
        Some c \<Rightarrow> c
      | None \<Rightarrow> ''bg-slate-50 text-slate-800 border-slate-100 dark:bg-slate-800 dark:text-slate-200 dark:border-slate-700'')"

record tasks_page =
  tasks :: "jsval list"
  loading :: bool
  statusFilter :: string
  query :: string
  newTitle :: string
  fetching :: bool

record tp_state =
  tp_storage :: "stored option"
  tp_page :: "tasks_page option"
  tp_now :: nat

text \<open>Every commit that changes \<open>tasks\<close> is followed by the save effect.\<close>

definition commit :: "tp_state \<Rightarrow> tasks_page \<Rightarrow> tp_state" where
  "commit s p' =
     (case tp_page s of
        Some p \<Rightarrow> if tasks p' \<noteq> tasks p then s\<lparr>tp_page := Some p', tp_storage := saveTasksToStorage (tasks p')\<rparr>
                  else s\<lparr>tp_page := Some p'\<rparr>
      | None \<Rightarrow> s\<lparr>tp_page := Some p'\<rparr>)"

text \<open>Mounting (lines 31--64): the first render has no tasks and is loading; then the
  load effect reads the storage and either takes its list (a second commit, which
  saves it back) or starts the fetch; then the save effect of the first commit writes
  that first render's empty list.\<close>

definition tp_mount :: "tp_state \<Rightarrow> tp_state" where
  "tp_mount s =
     (let p0 = \<lparr>tasks = [], loading = True, statusFilter = ''all'', query = [], newTitle = [], fetching = False\<rparr> in
      case loadTasksFromStorage (tp_storage s) of
        Some xs \<Rightarrow>
          commit (s\<lparr>tp_page := Some p0, tp_storage := saveTasksToStorage []\<rparr>) (p0\<lparr>tasks := xs, loading := False\<rparr>)
      | None \<Rightarrow> s\<lparr>tp_page := Some (p0\<lparr>fetching := True\<rparr>), tp_storage := saveTasksToStorage []\<rparr>)"

text \<open>The fetch's continuations (lines 48--55): \<open>then\<close> sets the tasks, \<open>finally\<close>
  clears \<open>loading\<close>; both do nothing once the page is unmounted (the closure's
  \<open>mounted\<close> flag), which the model reflects by dropping the fetch at unmount.\<close>

definition tp_fetch_done :: "fetch_result \<Rightarrow> tp_state \<Rightarrow> tp_state" where
  "tp_fetch_done r s = (case tp_page s of
      None \<Rightarrow> s
    | Some p \<Rightarrow> (case fetchInitialTasks r of
        Some xs \<Rightarrow> commit s (p\<lparr>tasks := xs, loading := False, fetching := False\<rparr>)
      | None \<Rightarrow> commit s (p\<lparr>loading := False, fetching := False\<rparr>)))"

text \<open>\<open>addTask\<close> (lines 82--99).\<close>

definition new_task :: "nat \<Rightarrow> string \<Rightarrow> jsval" where
  "new_task now title =
     JObj [(''id'', JStr (''t_'' @ show_nat now)), (''title'', JStr title), (''status'', JStr ''todo''),
           (''priority'', JStr ''medium''), (''assignee'', JStr ''You''), (''due'', JStr []), (''done'', JBool False)]"

definition addTask :: "nat \<Rightarrow> tasks_page \<Rightarrow> tasks_page" where
  "addTask now p =
     (let title = trim (newTitle p) in
      if title = [] then p else p\<lparr>tasks := new_task now title # tasks p, newTitle := []\<rparr>)"

definition task_obj :: "jsval \<Rightarrow> obj" where
  "task_obj t = (case t of JObj kvs \<Rightarrow> kvs | _ \<Rightarrow> [])"

text \<open>\<open>prev.map(t => t.id === id ? f(t) : t)\<close>.\<close>

definition map_task :: "jsval \<Rightarrow> (obj \<Rightarrow> obj) \<Rightarrow> jsval list \<Rightarrow> jsval list" where
  "map_task i f ts = map (\<lambda>t. if strict_eq (obj_get (task_obj t) ''id'') i then JObj (f (task_obj t)) else t) ts"

definition toggleDone :: "jsval \<Rightarrow> tasks_page \<Rightarrow> tasks_page" where
  "toggleDone i p = p\<lparr>tasks := map_task i (\<lambda>t.
       let d = js_truthy (obj_get t ''done'') in
       obj_set (obj_set t ''done'' (JBool (\<not> d))) ''status'' (JStr (if \<not> d then ''done'' else ''todo''))) (tasks p)\<rparr>"

definition updateTask :: "jsval \<Rightarrow> string \<Rightarrow> jsval \<Rightarrow> tasks_page \<Rightarrow> tasks_page" where
  "updateTask i k v p = p\<lparr>tasks := map_task i (\<lambda>t. obj_set t k v) (tasks p)\<rparr>"

definition removeTask :: "jsval \<Rightarrow> tasks_page \<Rightarrow> tasks_page" where
  "removeTask i p = p\<lparr>tasks := filter (\<lambda>t. \<not> strict_eq (obj_get (task_obj t) ''id'') i) (tasks p)\<rparr>"

text \<open>\<open>filtered\<close> (lines 66--73): a non-empty query reads \<open>(t.title || '').toLowerCase()\<close>,
  which throws for a title that is truthy but not a string: \<open>None\<close>.\<close>

definition title_matches :: "string \<Rightarrow> jsval \<Rightarrow> bool option" where
  "title_matches q t =
     (if q = [] then Some True
      else (case obj_get (task_obj t) ''title'' of
              JStr s \<Rightarrow> Some (js_includes (to_lower s) q)
            | v \<Rightarrow> if js_truthy v then None else Some (js_includes [] q)))"

definition filtered :: "tasks_page \<Rightarrow> jsval list option" where
  "filtered p =
     (let q = to_lower (trim (query p)) in
      map_option (\<lambda>oks. map fst (filter snd (zip (tasks p) oks)))
        (those (map (\<lambda>t. if statusFilter p = ''all'' \<or> strict_eq (obj_get (task_obj t) ''status'') (JStr (statusFilter p))
                          then title_matches q t else Some False) (tasks p))))"

record task_stats =
  st_total :: nat
  st_done :: nat
  st_inProgress :: nat

definition stats :: "tasks_page \<Rightarrow> task_stats" where
  "stats p =
     \<lparr>st_total = length (tasks p),
      st_done = length (filter (\<lambda>t. js_truthy (obj_get (task_obj t) ''done'')) (tasks p)),
      st_inProgress = length (filter (\<lambda>t. strict_eq (obj_get (task_obj t) ''status'') (JStr ''in_progress'')
                                         \<and> \<not> js_truthy (obj_get (task_obj t) ''done'')) (tasks p))\<rparr>"

text \<open>A row's controls exist only for the tasks the table shows; the selects offer
  their options only.\<close>

definition row_shown :: "jsval \<Rightarrow> tasks_page \<Rightarrow> bool" where
  "row_shown i p = (case filtered p of
      None \<Rightarrow> False
    | Some ts \<Rightarrow> list_ex (\<lambda>t. strict_eq (obj_get (task_obj t) ''id'') i) ts)"

definition edit_allowed :: "string \<Rightarrow> jsval \<Rightarrow> bool" where
  "edit_allowed k v =
     (if k = ''status'' then v \<in> {JStr ''todo'', JStr ''in_progress'', JStr ''done''}
      else if k = ''priority'' then v \<in> {JStr ''high'', JStr ''medium'', JStr ''low''}
      else k \<in> {''title'', ''assignee'', ''due''} \<and> is_js_string v)"

section \<open>Events\<close>

datatype tp_event =
    Mount | Unmount | FetchDone fetch_result | SetNewTitle string | AddTask | SetStatusFilter string
  | SetQuery string | ToggleDone jsval | UpdateTask jsval string jsval | RemoveTask jsval | TpWait nat

definition tp_step :: "tp_state \<Rightarrow> tp_event \<Rightarrow> tp_state option" where
  "tp_step s e = (case e of
      Mount \<Rightarrow> if tp_page s = None then Some (tp_mount s) else None
    | Unmount \<Rightarrow> if tp_page s \<noteq> None then Some (s\<lparr>tp_page := None\<rparr>) else None
    | FetchDone r \<Rightarrow>
        (case tp_page s of Some p \<Rightarrow> if fetching p then Some (tp_fetch_done r s) else None | None \<Rightarrow> None)
    | TpWait d \<Rightarrow> Some (s\<lparr>tp_now := tp_now s + d\<rparr>)
    | _ \<Rightarrow> (case tp_page s of
        None \<Rightarrow> None
      | Some p \<Rightarrow> (case e of
          SetNewTitle v \<Rightarrow> Some (commit s (p\<lparr>newTitle := v\<rparr>))
        | AddTask \<Rightarrow> Some (commit s (addTask (tp_now s) p))
        | SetStatusFilter v \<Rightarrow> if v \<in> set (map fst STATUS) then Some (commit s (p\<lparr>statusFilter := v\<rparr>)) else None
        | SetQuery v \<Rightarrow> Some (commit s (p\<lparr>query := v\<rparr>))
        | ToggleDone i \<Rightarrow> if row_shown i p then Some (commit s (toggleDone i p)) else None
        | UpdateTask i k v \<Rightarrow>
            if row_shown i p \<and> edit_allowed k v then Some (commit s (updateTask i k v p)) else None
        | RemoveTask i \<Rightarrow> if row_shown i p then Some (commit s (removeTask i p)) else None
        | _ \<Rightarrow> None)))"

fun tp_run :: "tp_state \<Rightarrow> tp_event list \<Rightarrow> tp_state option" where
  "tp_run s [] = Some s"
| "tp_run s (e # es) = (case tp_step s e of None \<Rightarrow> None | Some s' \<Rightarrow> tp_run s' es)"


section \<open>The view\<close>

text \<open>\<open>cx(...)\<close> (lines 10--12): the truthy class arguments joined by spaces.\<close>

definition cx :: "string list \<Rightarrow> string" where
  "cx classes = join '' '' (filter (\<lambda>c. c \<noteq> []) classes)"

definition stat_box :: "string \<Rightarrow> nat \<Rightarrow> tp_event ui" where
  "stat_box label n = El ''div'' [] [] [El ''div'' [] [] [Txt label], El ''div'' [] [] [Txt (show_nat n)]]"

definition field_text :: "jsval \<Rightarrow> string" where
  "field_text v = (if js_truthy v then js_string v else [])"

definition task_row :: "jsval \<Rightarrow> tp_event ui" where
  "task_row t =
     (let o' = task_obj t; i = obj_get o' ''id'' in
      El ''tr'' [(''key'', js_string i)] []
        [El ''td'' [] [] [El ''input'' [(''type'', ''checkbox''), (''checked'', bool_attr (js_truthy (obj_get o' ''done'')))]
                            [OnChange (\<lambda>_. ToggleDone i)] []],
         El ''td'' [] [] [El ''input'' [(''value'', js_string (obj_get o' ''title'')),
                            (''class'', cx [''w-full bg-transparent outline-none font-extrabold'',
                               if js_truthy (obj_get o' ''done'') then ''line-through text-slate-400 dark:text-slate-500'' else []])]
                            [OnChange (\<lambda>v. UpdateTask i ''title'' (JStr v))] []],
         El ''td'' [] [] [El ''select'' [(''value'', js_string (obj_get o' ''status''))] [OnChange (\<lambda>v. UpdateTask i ''status'' (JStr v))]
                            (map (\<lambda>(v, l). El ''option'' [(''value'', v)] [] [Txt l])
                               [(''todo'', ''To do''), (''in_progress'', ''In progress''), (''done'', ''Done'')])],
         El ''td'' [] [] [El ''select'' [(''value'', js_string (obj_get o' ''priority'')),
                            (''class'', cx [''px-3 py-2 rounded-xl border'', pill (js_string (obj_get o' ''priority''))])]
                            [OnChange (\<lambda>v. UpdateTask i ''priority'' (JStr v))]
                            (map (\<lambda>(v, l). El ''option'' [(''value'', v)] [] [Txt l])
                               [(''high'', ''High''), (''medium'', ''Medium''), (''low'', ''Low'')])],
         El ''td'' [] [] [El ''input'' [(''value'', field_text (obj_get o' ''assignee'')), (''placeholder'', ''Name'')]
                            [OnChange (\<lambda>v. UpdateTask i ''assignee'' (JStr v))] []],
         El ''td'' [] [] [El ''input'' [(''type'', ''date''), (''value'', field_text (obj_get o' ''due''))]
                            [OnChange (\<lambda>v. UpdateTask i ''due'' (JStr v))] []],
         El ''td'' [] [] [El ''button'' [] [OnClick (RemoveTask i)] [Txt ''Delete'']]])"

text \<open>The page body (lines 123--299); \<open>None\<close> when computing \<open>filtered\<close> throws.\<close>

definition tp_view :: "tasks_page \<Rightarrow> tp_event ui option" where
  "tp_view p = map_option (\<lambda>fs.
     El ''div'' [] []
       [El ''div'' [] []
          [El ''h1'' [] [] [Txt ''Tasks (CRUD)''],
           El ''p'' [] [] [Txt (''Dashboard SaaS: lista de tarefas como centro do sistema (cadastro/relat'' @ [CHR 0xC3, CHR 0xB3] @ ''rios partem daqui).'')]],
        El ''div'' [] []
          [stat_box ''Total'' (st_total (stats p)), stat_box ''In progress'' (st_inProgress (stats p)),
           stat_box ''Done'' (st_done (stats p))],
        El ''div'' [] []
          [El ''div'' [] []
             [El ''div'' [] [] [Txt ''Quick add''],
              El ''div'' [] []
                [El ''input'' [(''value'', newTitle p), (''placeholder'', ''Nova tarefa...'')]
                   [OnChange SetNewTitle, OnKeyDown (\<lambda>k. if k = ''Enter'' then Some AddTask else None)] [],
                 El ''button'' [] [OnClick AddTask] [Txt ''Add'']]],
           El ''div'' [] []
             [El ''div'' [] [] [Txt ''Filters''],
              El ''div'' [] []
                [El ''select'' [(''value'', statusFilter p)] [OnChange SetStatusFilter]
                   (map (\<lambda>(i, l). El ''option'' [(''key'', i), (''value'', i)] [] [Txt l]) STATUS),
                 El ''input'' [(''value'', query p), (''placeholder'', ''Search'')] [OnChange SetQuery] []]]],
        El ''div'' [] []
          [El ''div'' [] [] [El ''div'' [] [] [Txt ''Task list''], El ''div'' [] [] [Txt ''Mobile-first table (scroll horizontal)'']],
           El ''table'' [] []
             [El ''thead'' [] [] [El ''tr'' [] [] (map (\<lambda>h. El ''th'' [] [] [Txt h]) [''Done'', ''Title'', ''Status'', ''Priority'', ''Assignee'', ''Due'', []])],
              El ''tbody'' [] []
                ((if loading p then [El ''tr'' [] [] [El ''td'' [(''colSpan'', ''7'')] [] [Txt ''Loading...'']]] else [])
                 @ map task_row fs
                 @ (if \<not> loading p \<and> fs = [] then [El ''tr'' [] [] [El ''td'' [(''colSpan'', ''7'')] [] [Txt ''No tasks.'']]] else []))]]])
     (filtered p)"

section \<open>Lemmas\<close>

definition tp_fresh :: tp_state where
  "tp_fresh = \<lparr>tp_storage = None, tp_page = None, tp_now = 0\<rparr>"

lemmas tp_eval = tp_step_def tp_mount_def commit_def loadTasksFromStorage_def saveTasksToStorage_def
  tp_fresh_def

text \<open>Once mounted, the page leaves a JSON array in the storage: both mount branches
  and every commit that changes the list write one.\<close>

definition storage_array :: "tp_state \<Rightarrow> bool" where
  "storage_array s \<longleftrightarrow> (\<exists>xs. tp_storage s = Some (StoredJson (JArr xs)))"

lemma commit_array: "storage_array s \<Longrightarrow> storage_array (commit s p)"
  by (auto simp: storage_array_def commit_def saveTasksToStorage_def split: option.splits)

lemma mount_array: "storage_array (tp_mount s)"
  by (auto simp: storage_array_def tp_mount_def commit_def saveTasksToStorage_def Let_def split: option.splits)

lemma tp_step_array: "storage_array s \<Longrightarrow> tp_step s e = Some s' \<Longrightarrow> storage_array s'"
  by (cases e) (auto simp: tp_step_def tp_fetch_done_def storage_array_def commit_array [unfolded storage_array_def]
      mount_array [unfolded storage_array_def] split: option.splits if_splits)

lemma tp_run_array: "storage_array s \<Longrightarrow> tp_run s es = Some s' \<Longrightarrow> storage_array s'"
proof (induction es arbitrary: s)
  case (Cons e es)
  then obtain s1 where "tp_step s e = Some s1" "tp_run s1 es = Some s'" by (auto split: option.splits)
  with Cons.prems(1) Cons.IH show ?case using tp_step_array by blast
qed simp

text \<open>C29. The storage is poisoned by the first mount: mounting on an empty storage
  starts the fetch, but whatever happens next (the fetch answering or not, edits,
  leaving the page), every later mount finds a stored array, takes it as the list and
  never fetches again: a page left before its first fetch answered shows \<open>[]\<close>
  for ever.\<close>

theorem tp_storage_poisoned:
  assumes "tp_run tp_fresh (Mount # es) = Some s" and "tp_step s Mount = Some s'"
  shows "(\<exists>p0. tp_page (tp_mount tp_fresh) = Some p0 \<and> fetching p0)
         \<and> (\<exists>xs p. tp_storage s = Some (StoredJson (JArr xs)) \<and> tp_page s' = Some p
                  \<and> tasks p = xs \<and> \<not> fetching p \<and> \<not> loading p)"
proof -
  have m: "tp_step tp_fresh Mount = Some (tp_mount tp_fresh)" by (simp add: tp_step_def tp_fresh_def)
  then have "tp_run (tp_mount tp_fresh) es = Some s" using assms(1) by simp
  then have "storage_array s" using tp_run_array mount_array by blast
  then obtain xs where xs: "tp_storage s = Some (StoredJson (JArr xs))" by (auto simp: storage_array_def)
  have "tp_page s = None" and s': "s' = tp_mount s" using assms(2) by (simp_all add: tp_step_def split: if_splits)
  then have "tp_page s' = Some \<lparr>tasks = xs, loading = False, statusFilter = ''all'', query = [], newTitle = [], fetching = False\<rparr>"
    using xs by (simp add: tp_mount_def commit_def loadTasksFromStorage_def saveTasksToStorage_def Let_def)
  moreover have "\<exists>p0. tp_page (tp_mount tp_fresh) = Some p0 \<and> fetching p0"
    by (simp add: tp_mount_def tp_fresh_def loadTasksFromStorage_def)
  ultimately show ?thesis using xs by simp
qed

theorem tp_storage_poisoned_witness:
  "tp_run tp_fresh [Mount, Unmount] = Some (the (tp_run tp_fresh [Mount, Unmount]))
   \<and> tp_step (the (tp_run tp_fresh [Mount, Unmount])) Mount = Some (tp_mount (the (tp_run tp_fresh [Mount, Unmount])))
   \<and> tp_storage (the (tp_run tp_fresh [Mount, Unmount])) = Some (StoredJson (JArr []))
   \<and> (\<exists>p. tp_page (tp_mount (the (tp_run tp_fresh [Mount, Unmount]))) = Some p \<and> tasks p = [] \<and> \<not> fetching p)"
proof -
  have r: "tp_run tp_fresh [Mount, Unmount] = Some (the (tp_run tp_fresh [Mount, Unmount]))" by (simp add: tp_eval)
  have m: "tp_step (the (tp_run tp_fresh [Mount, Unmount])) Mount = Some (tp_mount (the (tp_run tp_fresh [Mount, Unmount])))"
    by (simp add: tp_eval)
  have st: "tp_storage (the (tp_run tp_fresh [Mount, Unmount])) = Some (StoredJson (JArr []))" by (simp add: tp_eval)
  show ?thesis using tp_storage_poisoned [of "[Unmount]", OF _ m] r m st by auto
qed

text \<open>Setting a task's status to \<open>done\<close> through the select leaves its \<open>done\<close> flag
  false, so the Done counter does not count it (only the checkbox sets both).\<close>

lemma tp_status_done_not_counted:
  "let t = JObj [(''id'', JStr ''t_1''), (''title'', JStr ''A''), (''status'', JStr ''todo''), (''done'', JBool False)];
       p = \<lparr>tasks = [t], loading = False, statusFilter = ''all'', query = [], newTitle = [], fetching = False\<rparr>
   in st_done (stats (updateTask (JStr ''t_1'') ''status'' (JStr ''done'') p)) = 0
      \<and> st_done (stats (toggleDone (JStr ''t_1'') p)) = 1"
  by (simp add: Let_def stats_def updateTask_def toggleDone_def map_task_def task_obj_def)

end
