(* ===== verification/CustomersPage.thy ===== *)
theory CustomersPage
  imports TasksPage
begin

text \<open>
  \<open>src/dashboard-ui-template/src/app/dashboard/customers/page.js\<close> with its controller
  \<open>src/controllers/customersController.js\<close>: a customer list kept in \<open>localStorage\<close>
  under \<open>saas_customers_v1\<close>. The controller is the tasks controller with another key
  and field, and shares its \<open>stored\<close> and \<open>fetch_result\<close> types; the page's \<open>cx\<close> is
  the same function as the tasks page's. The list state is the JavaScript value the
  page holds: a fetched \<open>data.customers\<close> need not be an array, and then rendering
  throws. Rendering is \<open>None\<close> when it throws; the page's controls, and so its events,
  exist only while it renders.
\<close>

section \<open>The controller\<close>

definition CUSTOMERS_KEY :: string where
  "CUSTOMERS_KEY = ''saas_customers_v1''"

text \<open>\<open>loadCustomersFromStorage\<close> (lines 10--20): \<open>null\<close> for no entry, an empty or
  unparsable text, and a parsed value that is not an array.\<close>

definition loadCustomersFromStorage :: "stored option \<Rightarrow> jsval list option" where
  "loadCustomersFromStorage raw = (case raw of
      None \<Rightarrow> None
    | Some (StoredGarbage txt) \<Rightarrow> None
    | Some (StoredJson v) \<Rightarrow> (case v of JArr xs \<Rightarrow> Some xs | _ \<Rightarrow> None))"

definition saveCustomersToStorage :: "jsval \<Rightarrow> stored option" where
  "saveCustomersToStorage cs = Some (StoredJson cs)"

text \<open>\<open>fetchInitialCustomers\<close> (lines 3--8): \<open>data.customers || []\<close> of a successful
  response. Reading a property of a \<open>null\<close> body throws, so that promise rejects as a
  failed fetch does (\<open>None\<close>); on any other non-object the property is \<open>undefined\<close>.\<close>

definition fetchInitialCustomers :: "fetch_result \<Rightarrow> jsval option" where
  "fetchInitialCustomers r = (case r of
      FetchFailed \<Rightarrow> None
    | FetchJson data \<Rightarrow>
        (case data of
           JNull \<Rightarrow> None
         | JUndef \<Rightarrow> None
         | JObj kvs \<Rightarrow> (let v = obj_get kvs ''customers'' in Some (if js_truthy v then v else JArr []))
         | _ \<Rightarrow> Some (JArr [])))"

section \<open>The page\<close>

text \<open>\<open>badge(status)\<close> (lines 14--21).\<close>

definition badge :: "string \<Rightarrow> string" where
  "badge status =
     (case map_of [(''active'', ''bg-emerald-50 text-emerald-800 border-emerald-100 dark:bg-emerald-950/25 dark:text-emerald-200 dark:border-emerald-900''),
                   (''trial'', ''bg-amber-50 text-amber-800 border-amber-100 dark:bg-amber-950/25 dark:text-amber-200 dark:border-amber-900''),
                   (''churned'', ''bg-rose-50 text-rose-800 border-rose-100 dark:bg-rose-950/25 dark:text-rose-200 dark:border-rose-900'')]
             status of
        Some c \<Rightarrow> c
      | None \<Rightarrow> ''bg-slate-50 text-slate-800 border-slate-100 dark:bg-slate-800 dark:text-slate-200 dark:border-slate-700'')"

record customers_page =
  customers :: jsval
  cp_loading :: bool
  cp_query :: string
  cp_name :: string
  cp_email :: string
  cp_plan :: string
  cp_fetching :: bool

record cp_state =
  cp_storage :: "stored option"
  cp_page :: "customers_page option"
  cp_now :: nat

text \<open>A commit that changes \<open>customers\<close> runs the save effect (lines 57--59).\<close>

definition cp_commit :: "cp_state \<Rightarrow> customers_page \<Rightarrow> cp_state" where
  "cp_commit s p' =
     (case cp_page s of
        Some p \<Rightarrow> if customers p' \<noteq> customers p
                  then s\<lparr>cp_page := Some p', cp_storage := saveCustomersToStorage (customers p')\<rparr>
                  else s\<lparr>cp_page := Some p'\<rparr>
      | None \<Rightarrow> s\<lparr>cp_page := Some p'\<rparr>)"

definition cp_initial :: customers_page where
  "cp_initial = \<lparr>customers = JArr [], cp_loading = True, cp_query = [], cp_name = [], cp_email = [],
                 cp_plan = ''Starter'', cp_fetching = False\<rparr>"

text \<open>Mounting (lines 32--55): the load effect takes a stored array (a second commit,
  whose save effect writes it back) or starts the fetch; the first commit's save
  effect writes the first render's empty list.\<close>

definition cp_mount :: "cp_state \<Rightarrow> cp_state" where
  "cp_mount s =
     (case loadCustomersFromStorage (cp_storage s) of
        Some xs \<Rightarrow> s\<lparr>cp_page := Some (cp_initial\<lparr>customers := JArr xs, cp_loading := False\<rparr>),
                     cp_storage := saveCustomersToStorage (JArr xs)\<rparr>
      | None \<Rightarrow> s\<lparr>cp_page := Some (cp_initial\<lparr>cp_fetching := True\<rparr>),
                  cp_storage := saveCustomersToStorage (JArr [])\<rparr>)"

text \<open>The fetch's \<open>then\<close> and \<open>finally\<close> (lines 42--50); after unmounting the
  \<open>mounted\<close> flag makes both do nothing.\<close>

definition cp_fetch_done :: "fetch_result \<Rightarrow> cp_state \<Rightarrow> cp_state" where
  "cp_fetch_done r s = (case cp_page s of
      None \<Rightarrow> s
    | Some p \<Rightarrow> (case fetchInitialCustomers r of
        Some v \<Rightarrow> cp_commit s (p\<lparr>customers := v, cp_loading := False, cp_fetching := False\<rparr>)
      | None \<Rightarrow> cp_commit s (p\<lparr>cp_loading := False, cp_fetching := False\<rparr>)))"

text \<open>\<open>c.k\<close> on a list element: \<open>None\<close> where it throws (a \<open>null\<close> or \<open>undefined\<close>
  element), \<open>undefined\<close> on a primitive.\<close>

fun js_member :: "jsval \<Rightarrow> string \<Rightarrow> jsval option" where
  "js_member (JObj ob) k = Some (obj_get ob k)"
| "js_member JNull k = None"
| "js_member JUndef k = None"
| "js_member v k = Some JUndef"

text \<open>\<open>(v || '').toLowerCase().includes(q)\<close> of one field: it throws for a truthy
  value that is not a string.\<close>

definition field_matches :: "string \<Rightarrow> jsval \<Rightarrow> bool option" where
  "field_matches q v =
     (case v of
        JStr s \<Rightarrow> Some (js_includes (to_lower s) q)
      | _ \<Rightarrow> if js_truthy v then None else Some (js_includes [] q))"

text \<open>\<open>[c.name, c.email, c.plan].some(...)\<close>: the array literal reads the three
  fields first, then \<open>some\<close> stops at the first match.\<close>

fun some_matches :: "string \<Rightarrow> jsval list \<Rightarrow> bool option" where
  "some_matches q [] = Some False"
| "some_matches q (v # vs) = (case field_matches q v of
      None \<Rightarrow> None
    | Some True \<Rightarrow> Some True
    | Some False \<Rightarrow> some_matches q vs)"

definition customer_matches :: "string \<Rightarrow> jsval \<Rightarrow> bool option" where
  "customer_matches q c =
     (case those [js_member c ''name'', js_member c ''email'', js_member c ''plan''] of
        None \<Rightarrow> None
      | Some vs \<Rightarrow> some_matches q vs)"

text \<open>\<open>filtered\<close> (lines 61--67): the list itself for a blank query; otherwise
  \<open>customers.filter(...)\<close>, which throws on a value that is not an array.\<close>

definition cp_filtered :: "customers_page \<Rightarrow> jsval option" where
  "cp_filtered p =
     (let q = to_lower (trim (cp_query p)) in
      if q = [] then Some (customers p)
      else (case customers p of
              JArr xs \<Rightarrow> map_option (\<lambda>oks. JArr (map fst (filter snd (zip xs oks))))
                           (those (map (customer_matches q) xs))
            | _ \<Rightarrow> None))"

text \<open>\<open>addCustomer\<close> (lines 69--88): both trimmed fields must be non-empty; the new
  customer goes first, on trial, and the form is reset.\<close>

definition new_customer :: "nat \<Rightarrow> string \<Rightarrow> string \<Rightarrow> string \<Rightarrow> jsval" where
  "new_customer now n e plan =
     JObj [(''id'', JStr (''c_'' @ show_nat now)), (''name'', JStr n), (''email'', JStr e),
           (''plan'', JStr plan), (''status'', JStr ''trial'')]"

definition addCustomer :: "nat \<Rightarrow> customers_page \<Rightarrow> customers_page" where
  "addCustomer now p =
     (let n = trim (cp_name p); e = trim (cp_email p) in
      if n = [] \<or> e = [] then p
      else (case customers p of
              JArr xs \<Rightarrow> p\<lparr>customers := JArr (new_customer now n e (cp_plan p) # xs),
                            cp_name := [], cp_email := [], cp_plan := ''Starter''\<rparr>
            | _ \<Rightarrow> p))"

text \<open>\<open>removeCustomer\<close> (line 90): \<open>c.id !== id\<close>.\<close>

definition removeCustomer :: "jsval \<Rightarrow> customers_page \<Rightarrow> customers_page" where
  "removeCustomer i p = (case customers p of
      JArr xs \<Rightarrow> p\<lparr>customers := JArr (filter (\<lambda>c. \<not> strict_eq (case js_member c ''id'' of Some v \<Rightarrow> v | None \<Rightarrow> JUndef) i) xs)\<rparr>
    | _ \<Rightarrow> p)"

section \<open>The view\<close>

text \<open>What React renders for \<open>{v}\<close>: strings and numbers as text, booleans and
  nullish values as nothing, arrays item by item; an object throws.\<close>

fun child_text :: "jsval \<Rightarrow> string option" where
  "child_text (JStr s) = Some s"
| "child_text (JNum n) = Some (show_num n)"
| "child_text (JObj ob) = None"
| "child_text (JArr vs) = map_option concat (those (map child_text vs))"
| "child_text v = Some []"

text \<open>The events of the page's controls and of its lifecycle.\<close>

datatype cp_event =
    CpMount | CpUnmount | CpFetchDone fetch_result | SetName string | SetEmail string | SetPlan string
  | AddCustomer | SetCustomerQuery string | RemoveCustomer jsval | CpWait nat

definition plan_options :: "string list" where
  "plan_options = [''Starter'', ''Pro'', ''Enterprise'']"

text \<open>A row of the table (lines 168--192); \<open>None\<close> when reading the element's
  fields or rendering one of them throws.\<close>

definition customer_row :: "jsval \<Rightarrow> cp_event ui option" where
  "customer_row c =
     (case those [js_member c ''id'', js_member c ''name'', js_member c ''email'', js_member c ''plan'',
                  js_member c ''status''] of
        Some [i, n, e, pl, st] \<Rightarrow>
          (case those [child_text n, child_text e, child_text pl, child_text st] of
             Some [tn, te, tpl, tst] \<Rightarrow>
               Some (El ''tr'' [(''key'', js_string i)] []
                 [El ''td'' [] [] [Txt tn], El ''td'' [] [] [Txt te],
                  El ''td'' [] [] [El ''span'' [] [] [Txt tpl]],
                  El ''td'' [] [] [El ''span'' [(''class'', cx [''text-xs font-extrabold px-2 py-1 rounded-lg border'',
                                                                  badge (js_string st)])] [] [Txt tst]],
                  El ''td'' [] [] [El ''button'' [] [OnClick (RemoveCustomer i)] [Txt ''Delete'']]])
           | _ \<Rightarrow> None)
      | _ \<Rightarrow> None)"

text \<open>The page (lines 92--205): the form, the search box and the table. It throws when
  \<open>filtered\<close> throws or is not an array (\<open>filtered.map\<close>), or a row throws.\<close>

definition cp_view :: "customers_page \<Rightarrow> cp_event ui option" where
  "cp_view p =
     (case cp_filtered p of
        Some (JArr fs) \<Rightarrow> map_option (\<lambda>rows.
          El ''div'' [] []
            [El ''div'' [] []
               [El ''h1'' [] [] [Txt ''Customers (Cadastro)''],
                El ''p'' [] [] [Txt ''CRUD simples de clientes para SaaS: cadastro, plano e status.'']],
             El ''div'' [] []
               [El ''div'' [] []
                  [El ''input'' [(''value'', cp_name p), (''placeholder'', ''Company name'')] [OnChange SetName] [],
                   El ''input'' [(''value'', cp_email p), (''placeholder'', ''billing@email.com'')] [OnChange SetEmail] [],
                   El ''select'' [(''value'', cp_plan p)] [OnChange SetPlan]
                     (map (\<lambda>o'. El ''option'' [] [] [Txt o']) plan_options),
                   El ''button'' [] [OnClick AddCustomer] [Txt ''Add'']],
                El ''div'' [] []
                  [El ''input'' [(''value'', cp_query p), (''placeholder'', ''Search customers'')] [OnChange SetCustomerQuery] []]],
             El ''div'' [] []
               [El ''div'' [] [] [El ''div'' [] [] [Txt ''Customer list''], El ''div'' [] [] [Txt ''Mobile-first table (scroll horizontal)'']],
                El ''table'' [] []
                  [El ''thead'' [] [] [El ''tr'' [] [] (map (\<lambda>h. El ''th'' [] [] [Txt h]) [''Company'', ''Email'', ''Plan'', ''Status'', []])],
                   El ''tbody'' [] []
                     ((if cp_loading p then [El ''tr'' [] [] [El ''td'' [(''colSpan'', ''5'')] [] [Txt ''Loading...'']]] else [])
                      @ rows
                      @ (if \<not> cp_loading p \<and> fs = [] then [El ''tr'' [] [] [El ''td'' [(''colSpan'', ''5'')] [] [Txt ''No customers.'']]] else []))]]])
          (those (map customer_row fs))
      | _ \<Rightarrow> None)"

text \<open>The ids of the rendered rows, whose Delete buttons exist.\<close>

definition shown_ids :: "customers_page \<Rightarrow> jsval list" where
  "shown_ids p = (case cp_filtered p of
      Some (JArr fs) \<Rightarrow> map (\<lambda>c. case js_member c ''id'' of Some i \<Rightarrow> i | None \<Rightarrow> JUndef) fs
    | _ \<Rightarrow> [])"

section \<open>Events\<close>

text \<open>The lifecycle events, then the controls, which exist only while the page
  renders; the plan select offers its three options only.\<close>

definition cp_step :: "cp_state \<Rightarrow> cp_event \<Rightarrow> cp_state option" where
  "cp_step s e = (case e of
      CpMount \<Rightarrow> if cp_page s = None then Some (cp_mount s) else None
    | CpUnmount \<Rightarrow> if cp_page s \<noteq> None then Some (s\<lparr>cp_page := None\<rparr>) else None
    | CpFetchDone r \<Rightarrow>
        (case cp_page s of Some p \<Rightarrow> if cp_fetching p then Some (cp_fetch_done r s) else None | None \<Rightarrow> None)
    | CpWait d \<Rightarrow> Some (s\<lparr>cp_now := cp_now s + d\<rparr>)
    | _ \<Rightarrow> (case cp_page s of
        None \<Rightarrow> None
      | Some p \<Rightarrow> if cp_view p = None then None else (case e of
          SetName v \<Rightarrow> Some (cp_commit s (p\<lparr>cp_name := v\<rparr>))
        | SetEmail v \<Rightarrow> Some (cp_commit s (p\<lparr>cp_email := v\<rparr>))
        | SetPlan v \<Rightarrow> if v \<in> set plan_options then Some (cp_commit s (p\<lparr>cp_plan := v\<rparr>)) else None
        | AddCustomer \<Rightarrow> Some (cp_commit s (addCustomer (cp_now s) p))
        | SetCustomerQuery v \<Rightarrow> Some (cp_commit s (p\<lparr>cp_query := v\<rparr>))
        | RemoveCustomer i \<Rightarrow> if i \<in> set (shown_ids p) then Some (cp_commit s (removeCustomer i p)) else None
        | _ \<Rightarrow> None)))"

fun cp_run :: "cp_state \<Rightarrow> cp_event list \<Rightarrow> cp_state option" where
  "cp_run s [] = Some s"
| "cp_run s (e # es) = (case cp_step s e of None \<Rightarrow> None | Some s' \<Rightarrow> cp_run s' es)"

definition cp_fresh :: cp_state where
  "cp_fresh = \<lparr>cp_storage = None, cp_page = None, cp_now = 0\<rparr>"

inductive cp_reachable :: "cp_state \<Rightarrow> bool" where
  init: "cp_reachable cp_fresh"
| step: "cp_reachable s \<Longrightarrow> cp_step s e = Some s' \<Longrightarrow> cp_reachable s'"

section \<open>Lemmas\<close>

lemmas cp_eval = cp_step_def cp_mount_def cp_commit_def loadCustomersFromStorage_def
  saveCustomersToStorage_def cp_fresh_def cp_initial_def

text \<open>The storage mirrors the mounted page's list: every commit that changes the
  list saves it, and mounting saves what it loaded or the empty first render.\<close>

definition cp_mirror :: "cp_state \<Rightarrow> bool" where
  "cp_mirror s = (case cp_page s of
      None \<Rightarrow> True
    | Some p \<Rightarrow> cp_storage s = saveCustomersToStorage (customers p))"

lemma cp_commit_mirror:
  "cp_mirror s \<Longrightarrow> cp_page s \<noteq> None \<Longrightarrow> cp_mirror (cp_commit s p')"
  by (auto simp: cp_mirror_def cp_commit_def split: option.splits)

lemma cp_mount_mirror: "cp_mirror (cp_mount s)"
  by (simp add: cp_mirror_def cp_mount_def cp_initial_def split: option.split)

lemma cp_fetch_done_mirror:
  "cp_mirror s \<Longrightarrow> cp_mirror (cp_fetch_done r s)"
  by (auto simp: cp_fetch_done_def intro: cp_commit_mirror split: option.split)

lemma cp_mirror_frame [simp]:
  "cp_mirror (s\<lparr>cp_page := None\<rparr>)"
  "cp_mirror (s\<lparr>cp_now := n\<rparr>) = cp_mirror s"
  by (simp_all add: cp_mirror_def split: option.split)

lemma cp_step_mirror:
  assumes "cp_mirror s" and "cp_step s e = Some s'"
  shows "cp_mirror s'"
  using assms
  by (cases e) (auto simp: cp_step_def cp_mount_mirror cp_fetch_done_mirror
                     intro: cp_commit_mirror split: option.splits if_splits)

lemma cp_reachable_mirror: "cp_reachable s \<Longrightarrow> cp_mirror s"
proof (induction rule: cp_reachable.induct)
  case init
  show ?case by (simp add: cp_mirror_def cp_fresh_def)
next
  case (step s e s')
  show ?case by (rule cp_step_mirror [OF step.IH step.hyps(2)])
qed


lemma cp_mount_stored:
  "cp_storage s = saveCustomersToStorage (JArr xs) \<Longrightarrow>
     cp_mount s = s\<lparr>cp_page := Some (cp_initial\<lparr>customers := JArr xs, cp_loading := False\<rparr>)\<rparr>"
  by (simp add: cp_mount_def loadCustomersFromStorage_def saveCustomersToStorage_def)

text \<open>C36. Leaving the customers page and coming back shows the list it held: in every
  reachable state whose list is an array, unmounting and mounting again restores it,
  no longer loading, and leaves the storage as it was (the round trip of the save
  and load effects).\<close>

theorem cp_remount_restores:
  assumes "cp_reachable s" and "cp_page s = Some p" and "customers p = JArr xs"
  shows "\<exists>s'. cp_run s [CpUnmount, CpMount] = Some s'
              \<and> cp_page s' = Some (cp_initial\<lparr>customers := JArr xs, cp_loading := False\<rparr>)
              \<and> cp_storage s' = cp_storage s"
proof -
  have st: "cp_storage s = saveCustomersToStorage (JArr xs)"
    using cp_reachable_mirror [OF assms(1)] assms(2,3) by (simp add: cp_mirror_def)
  then show ?thesis
    using assms(2) cp_mount_stored [of "s\<lparr>cp_page := None\<rparr>" xs] by (simp add: cp_step_def)
qed

theorem cp_remount_restores_witness:
  "cp_reachable (cp_mount cp_fresh) \<and> cp_page (cp_mount cp_fresh) = Some (cp_initial\<lparr>cp_fetching := True\<rparr>)
   \<and> customers (cp_initial\<lparr>cp_fetching := True\<rparr>) = JArr []
   \<and> (\<exists>s'. cp_run (cp_mount cp_fresh) [CpUnmount, CpMount] = Some s'
          \<and> cp_page s' = Some (cp_initial\<lparr>customers := JArr [], cp_loading := False\<rparr>)
          \<and> cp_storage s' = cp_storage (cp_mount cp_fresh))"
proof -
  have st: "cp_step cp_fresh CpMount = Some (cp_mount cp_fresh)" by (simp add: cp_step_def cp_fresh_def)
  have r: "cp_reachable (cp_mount cp_fresh)" by (rule cp_reachable.step [OF cp_reachable.init st])
  have p: "cp_page (cp_mount cp_fresh) = Some (cp_initial\<lparr>cp_fetching := True\<rparr>)" by (simp add: cp_eval)
  have c: "customers (cp_initial\<lparr>cp_fetching := True\<rparr>) = JArr []" by (simp add: cp_initial_def)
  show ?thesis using cp_remount_restores [OF r p c] r p c by simp
qed

text \<open>The tasks page's poisoned storage recurs here: the first mount writes \<open>[]\<close>
  before its fetch answers, and after leaving early the next mount takes that \<open>[]\<close>
  as the stored list and never fetches.\<close>

lemma cp_storage_poisoned:
  "map_option (\<lambda>s. (cp_storage s, map_option (\<lambda>p. (customers p, cp_loading p, cp_fetching p)) (cp_page s)))
     (cp_run cp_fresh [CpMount, CpUnmount, CpMount])
   = Some (Some (StoredJson (JArr [])), Some (JArr [], False, False))"
  by (simp add: cp_eval)

lemma cp_view_array: "cp_view p \<noteq> None \<Longrightarrow> \<exists>xs. customers p = JArr xs"
  by (cases "customers p") (auto simp: cp_view_def cp_filtered_def Let_def split: if_splits)

text \<open>Adding a customer with a non-blank name and e-mail puts it first, on trial, with
  the selected plan, and saves the new list.\<close>

lemma cp_add_customer:
  assumes "cp_reachable s" and "cp_page s = Some p" and "cp_view p \<noteq> None"
    and "trim (cp_name p) \<noteq> []" and "trim (cp_email p) \<noteq> []"
  shows "\<exists>s' p' xs. cp_step s AddCustomer = Some s' \<and> cp_page s' = Some p' \<and> customers p = JArr xs
           \<and> customers p' = JArr (new_customer (cp_now s) (trim (cp_name p)) (trim (cp_email p)) (cp_plan p) # xs)
           \<and> cp_name p' = [] \<and> cp_plan p' = ''Starter''
           \<and> cp_storage s' = saveCustomersToStorage (customers p')"
proof -
  obtain xs where xs: "customers p = JArr xs" using cp_view_array [OF assms(3)] by blast
  then show ?thesis
    using assms(2-5) by (simp add: cp_step_def addCustomer_def cp_commit_def Let_def)
qed

text \<open>The search reads all three fields and stops at the first match: a customer
  whose name matches is kept even with a numeric plan, but a query the name misses
  reaches the plan, and \<open>(5).toLowerCase\<close> throws, so the page fails to render.\<close>

lemma cp_search_numeric_plan:
  "let c = JObj [(''id'', JStr ''c_1''), (''name'', JStr ''Acme''), (''email'', JStr ''a@x.io''), (''plan'', jint 5),
                 (''status'', JStr ''trial'')];
       p = cp_initial\<lparr>customers := JArr [c], cp_loading := False\<rparr>
   in cp_filtered (p\<lparr>cp_query := ''acme''\<rparr>) = Some (JArr [c]) \<and> cp_view (p\<lparr>cp_query := ''acme''\<rparr>) \<noteq> None
      \<and> cp_filtered (p\<lparr>cp_query := ''zz''\<rparr>) = None \<and> cp_view (p\<lparr>cp_query := ''zz''\<rparr>) = None"
  by (simp add: Let_def cp_filtered_def cp_view_def cp_initial_def customer_matches_def field_matches_def
       trim_def to_lower_def lower_char_def is_js_space_def customer_row_def del: js_includes_iff_sublist)


definition row_id :: "jsval \<Rightarrow> jsval" where
  "row_id c = (case js_member c ''id'' of Some i \<Rightarrow> i | None \<Rightarrow> JUndef)"

lemma customer_row_clicks:
  "customer_row c = Some r \<Longrightarrow> ui_clicks r = [RemoveCustomer (row_id c)]"
  by (auto simp: customer_row_def row_id_def cx_def split: option.splits list.splits)

lemma rows_clicks:
  "those (map customer_row fs) = Some rows \<Longrightarrow> concat (map ui_clicks rows) = map (\<lambda>c. RemoveCustomer (row_id c)) fs"
proof (induction fs arbitrary: rows)
  case Nil
  then show ?case by simp
next
  case (Cons c fs)
  then obtain r rs where "customer_row c = Some r" "those (map customer_row fs) = Some rs" "rows = r # rs"
    by (auto split: option.splits)
  with Cons.IH show ?case by (simp add: customer_row_clicks)
qed

text \<open>The clickable controls of the rendered page are the Add button and one Delete
  button per shown row, so \<open>cp_step\<close> accepts a deletion exactly for a rendered row.\<close>

lemma cp_view_clicks:
  "cp_view p = Some v \<Longrightarrow> ui_clicks v = AddCustomer # map RemoveCustomer (shown_ids p)"
  by (auto simp: cp_view_def shown_ids_def rows_clicks row_id_def [symmetric] plan_options_def
           split: option.splits jsval.splits)


lemma cp_remove_iff_rendered:
  "cp_page s = Some p \<Longrightarrow> cp_view p = Some v \<Longrightarrow>
     cp_step s (RemoveCustomer i) \<noteq> None \<longleftrightarrow> RemoveCustomer i \<in> set (ui_clicks v)"
  by (auto simp: cp_step_def cp_view_clicks)

end
