(* ===== verification/MustDashboard.thy ===== *)
theory MustDashboard
  imports Complex_Main EnergiaRepository "HOL-Library.List_Lexorder" "HOL-Library.Multiset"
begin

text \<open>
  \<open>src/dashboard_must_webiste/scripts/script.js\<close>: a static page that fetches a JSON
  array of connection points (\<open>dados\<close>) and writes the KPI cards, one card per company,
  the company filter's options and the table into the DOM; the filter and the search
  box re-render the table, and a click on a row with a remark opens a modal. The DOM
  is the record \<open>must_state\<close>: the \<open>innerHTML\<close> of each section as the value the
  script writes, the two inputs, the options and the modal's class and opacity. The
  HTML page itself is not in the repository; the select's initial \<open>all\<close> option and the
  button that calls \<open>closeModal\<close> are taken from the script's use of them.
  Strings are sequences of code units below 256, which is all \<open>escape\<close> sees here.
\<close>

section \<open>Fields and remarks\<close>

text \<open>\<open>item.Anotacao && String(item.Anotacao).trim() !== 'nan'\<close>, written three times in
  the script (lines 48, 78 and 123).\<close>

definition has_remark :: "obj \<Rightarrow> bool" where
  "has_remark it \<longleftrightarrow>
     js_truthy (obj_get it ''Anotacao'') \<and> trim (js_string (obj_get it ''Anotacao'')) \<noteq> ''nan''"

definition cod_key :: string where
  "cod_key = ''C'' @ [CHR 0xC3, CHR 0xB3] @ ''d ONS''"

definition inst_key :: string where
  "inst_key = ''Instala'' @ [CHR 0xC3, CHR 0xA7, CHR 0xC3, CHR 0xA3] @ ''o''"

definition tensao_key :: string where
  "tensao_key = ''Tens'' @ [CHR 0xC3, CHR 0xA3] @ ''o (kV)''"

text \<open>\<open>new Set(values)\<close> in insertion order. Set membership is SameValueZero, which
  on the value model is \<open>===\<close>: parsed objects are distinct.\<close>

definition set_insert :: "jsval list \<Rightarrow> jsval \<Rightarrow> jsval list" where
  "set_insert acc v = (if list_ex (strict_eq v) acc then acc else acc @ [v])"

definition js_set :: "jsval list \<Rightarrow> jsval list" where
  "js_set vs = foldl set_insert [] vs"

section \<open>escape and unescape\<close>

text \<open>\<open>escape\<close> keeps letters, digits and \<open>@*_+-./\<close> and writes any other code unit
  below 256 as \<open>%XX\<close> in upper-case hex.\<close>

definition escape_unreserved_chars :: string where
  "escape_unreserved_chars = ''ABCDEFGHIJKLMNOPQRSTUVWXYZabcdefghijklmnopqrstuvwxyz0123456789'' @ ''@*_+-./''"

definition escape_unreserved :: "char \<Rightarrow> bool" where
  "escape_unreserved c \<longleftrightarrow> c \<in> set escape_unreserved_chars"

definition upper_hex :: "nat \<Rightarrow> char" where
  "upper_hex d = ''0123456789ABCDEF'' ! d"

definition escape_char :: "char \<Rightarrow> string" where
  "escape_char c =
     (if escape_unreserved c then [c]
      else [CHR ''%'', upper_hex (of_char c div 16), upper_hex (of_char c mod 16)])"

definition escape :: "string \<Rightarrow> string" where
  "escape s = concat (map escape_char s)"

definition hex_val :: "char \<Rightarrow> nat option" where
  "hex_val c =
     (let n = (of_char c :: nat) in
      if 48 \<le> n \<and> n \<le> 57 then Some (n - 48)
      else if 65 \<le> n \<and> n \<le> 70 then Some (n - 55)
      else if 97 \<le> n \<and> n \<le> 102 then Some (n - 87) else None)"

text \<open>\<open>unescape\<close> decodes \<open>%XX\<close> with hex digits of either case and keeps every other
  character; its \<open>%uXXXX\<close> form, for code units above 255, is outside the model.\<close>

fun unescape :: "string \<Rightarrow> string" where
  "unescape (c # h1 # h2 # rest) =
     (if c = CHR ''%'' then
        (case (hex_val h1, hex_val h2) of
           (Some a, Some b) \<Rightarrow> char_of (16 * a + b) # unescape rest
         | _ \<Rightarrow> c # unescape (h1 # h2 # rest))
      else c # unescape (h1 # h2 # rest))"
| "unescape cs = cs"

section \<open>The KPI cards\<close>

record must_kpis =
  uniqueCompanies :: nat
  totalPoints :: nat
  pointsWithRemarks :: nat
  percentageWithRemarks :: string

text \<open>\<open>renderKPIs\<close> (lines 43--68): the percentage is \<open>toFixed(1)\<close> of the ratio, or the
  number \<open>0\<close> (printed \<open>0\<close>) for an empty array.\<close>

definition renderKPIs :: "obj list \<Rightarrow> must_kpis" where
  "renderKPIs dados =
     (let total = length dados; remarks = length (filter has_remark dados) in
      \<lparr>uniqueCompanies = length (js_set (map (\<lambda>it. obj_get it ''EMPRESA'') dados)),
       totalPoints = total, pointsWithRemarks = remarks,
       percentageWithRemarks = (if total > 0 then percent_toFixed1 (int remarks) (int total) else ''0'')\<rparr>)"

section \<open>The company cards\<close>

text \<open>\<open>Object.entries\<close> order: the keys that are array indices (canonical decimals
  below \<open>2^32 - 1\<close>) in ascending order, then the other keys in insertion order.\<close>

definition digits_val :: "string \<Rightarrow> nat" where
  "digits_val k = foldl (\<lambda>n c. 10 * n + (of_char c - 48)) 0 k"

definition is_array_index :: "string \<Rightarrow> bool" where
  "is_array_index k \<longleftrightarrow>
     k \<noteq> [] \<and> list_all (\<lambda>c. c \<in> set ''0123456789'') k \<and> (k = ''0'' \<or> hd k \<noteq> CHR ''0'')
     \<and> digits_val k < 2 ^ 32 - 1"

definition entries_order :: "(string \<times> 'a) list \<Rightarrow> (string \<times> 'a) list" where
  "entries_order kvs =
     sort_key (\<lambda>(k, _). digits_val k) (filter (\<lambda>(k, _). is_array_index k) kvs)
     @ filter (\<lambda>(k, _). \<not> is_array_index k) kvs"

text \<open>The \<open>forEach\<close> of \<open>renderCompanyAnalysis\<close> (lines 72--81): the key is
  \<open>String(item.EMPRESA)\<close>; a new key starts at \<open>{total: 0, withRemarks: 0}\<close>.\<close>

definition company_step :: "(string \<times> nat \<times> nat) list \<Rightarrow> obj \<Rightarrow> (string \<times> nat \<times> nat) list" where
  "company_step acc it =
     (let k = js_string (obj_get it ''EMPRESA'');
          acc' = (if k \<in> set (map fst acc) then acc else acc @ [(k, 0, 0)])
      in map (\<lambda>(c, t, w). if c = k then (c, t + 1, if has_remark it then w + 1 else w) else (c, t, w)) acc')"

definition companyData :: "obj list \<Rightarrow> (string \<times> nat \<times> nat) list" where
  "companyData dados = foldl company_step [] dados"

text \<open>A card (lines 84--100): company, \<open>withRemarks\<close>, \<open>total\<close> and the bar width as the
  exact ratio; its printing by \<open>Number#toString\<close> is not modelled.\<close>

definition company_cards :: "obj list \<Rightarrow> (string \<times> nat \<times> nat \<times> rat) list" where
  "company_cards dados =
     map (\<lambda>(c, t, w). (c, w, t, if t > 0 then of_nat w * 100 / of_nat t else 0))
       (entries_order (companyData dados))"

section \<open>The company filter\<close>

text \<open>\<open>Array.prototype.sort()\<close> without a comparator: a stable sort by \<open>String(v)\<close> in
  code-unit order, with \<open>undefined\<close> values last.\<close>

definition sort_default :: "jsval list \<Rightarrow> jsval list" where
  "sort_default vs =
     sort_key (\<lambda>v. map (of_char :: char \<Rightarrow> nat) (js_string v)) (filter (\<lambda>v. v \<noteq> JUndef) vs)
     @ filter (\<lambda>v. v = JUndef) vs"

text \<open>\<open>populateCompanyFilter\<close> (lines 104--114): one option per distinct company,
  appended after the options the select already has.\<close>

definition populateCompanyFilter :: "obj list \<Rightarrow> string list \<Rightarrow> string list" where
  "populateCompanyFilter dados opts =
     opts @ map js_string (sort_default (js_set (map (\<lambda>it. obj_get it ''EMPRESA'') dados)))"

section \<open>The table\<close>

text \<open>A row of \<open>renderTable\<close> (lines 116--139), without the whitespace between the
  tags of the template. The cells are interpolated as they are; only the remark goes
  through \<open>escape\<close>.\<close>

definition table_row :: "obj \<Rightarrow> string" where
  \<open>table_row it =
     (let hasRemark = has_remark it in
      ''<tr class="bg-gray-800 border-b border-gray-700 hover:bg-gray-600 '' @ (if hasRemark then ''cursor-pointer'' else [])
      @ ''" onclick="'' @ (if hasRemark then ''showModal(this)'' else [])
      @ ''" data-anotacao="'' @ (if hasRemark then escape (js_string (obj_get it ''Anotacao'')) else []) @ ''">''
      @ ''<td class="px-6 py-4 font-medium text-white">'' @ js_string (obj_get it ''EMPRESA'') @ ''</td>''
      @ ''<td class="px-6 py-4">'' @ js_string (obj_get it cod_key) @ ''</td>''
      @ ''<td class="px-6 py-4">'' @ js_string (obj_get it inst_key) @ ''</td>''
      @ ''<td class="px-6 py-4">'' @ js_string (obj_get it tensao_key) @ ''</td>''
      @ ''<td class="px-6 py-4 text-center">''
      @ (if hasRemark then ''<span class="text-yellow-400 font-bold">Sim</span>''
         else ''<span class="text-gray-500">N'' @ [CHR 0xC3, CHR 0xA3] @ ''o</span>'')
      @ ''</td></tr>'')\<close>

definition renderTable :: "obj list \<Rightarrow> string" where
  \<open>renderTable dados =
     (if dados = [] then ''<tr><td colspan="5" class="text-center py-8 text-gray-400">Nenhum resultado encontrado.</td></tr>''
      else concat (map table_row dados))\<close>

text \<open>\<open>filterData\<close> (lines 142--156): the company compares \<open>item.EMPRESA\<close> with the
  select's string value by \<open>===\<close>; the search term is the lower-cased input, matched
  against the code, the installation and a truthy remark.\<close>

definition filterData :: "string \<Rightarrow> string \<Rightarrow> obj list \<Rightarrow> obj list" where
  "filterData companyFilter searchValue dados =
     (let searchTerm = to_lower searchValue in
      filter (\<lambda>it. (companyFilter = ''all'' \<or> strict_eq (obj_get it ''EMPRESA'') (JStr companyFilter))
                  \<and> (searchTerm = []
                     \<or> js_includes (to_lower (js_string (obj_get it cod_key))) searchTerm
                     \<or> js_includes (to_lower (js_string (obj_get it inst_key))) searchTerm
                     \<or> (js_truthy (obj_get it ''Anotacao'')
                        \<and> js_includes (to_lower (js_string (obj_get it ''Anotacao''))) searchTerm))) dados)"

section \<open>The page\<close>

datatype modal_task = ShowOpacity | HideModal

record must_state =
  must_dados :: "obj list option"
  kpi_section :: "must_kpis option"
  company_section :: "(string \<times> nat \<times> nat \<times> rat) list"
  filter_options :: "string list"
  company_filter :: string
  search_input :: string
  table_body :: string
  table_rows :: "obj list"
  load_error :: bool
  modal_content :: string
  modal_hidden :: bool
  modal_opacity :: nat
  must_now :: nat
  must_timers :: "(nat \<times> modal_task) list"

definition must_init :: must_state where
  "must_init =
     \<lparr>must_dados = None, kpi_section = None, company_section = [], filter_options = [''all''],
      company_filter = ''all'', search_input = [], table_body = [], table_rows = [], load_error = False,
      modal_content = [], modal_hidden = True, modal_opacity = 0, must_now = 0, must_timers = []\<rparr>"

text \<open>\<open>initializeApp\<close> (lines 30--40).\<close>

definition initializeApp :: "obj list \<Rightarrow> must_state \<Rightarrow> must_state" where
  "initializeApp dados s =
     s\<lparr>must_dados := Some dados, kpi_section := Some (renderKPIs dados), company_section := company_cards dados,
       filter_options := populateCompanyFilter dados (filter_options s),
       table_body := renderTable dados, table_rows := dados\<rparr>"

text \<open>The outcome of the fetch chain (lines 2--28): a response that is not ok, a body
  that is not JSON or a failed request all reach the \<open>catch\<close>, which replaces the
  page by the error message. The parsed value reaches \<open>initializeApp\<close>, which throws
  (into the same \<open>catch\<close>) unless it is an array of non-nullish elements; a primitive
  element has no fields.\<close>

datatype must_fetch = FetchOk jsval | FetchNotOk | FetchError

fun item_obj :: "jsval \<Rightarrow> obj option" where
  "item_obj (JObj kvs) = Some kvs"
| "item_obj JNull = None"
| "item_obj JUndef = None"
| "item_obj v = Some []"

definition must_load :: "must_fetch \<Rightarrow> must_state \<Rightarrow> must_state" where
  "must_load r s = (case r of
      FetchOk (JArr vs) \<Rightarrow> (case those (map item_obj vs) of
          Some dados \<Rightarrow> initializeApp dados s
        | None \<Rightarrow> s\<lparr>load_error := True\<rparr>)
    | _ \<Rightarrow> s\<lparr>load_error := True\<rparr>)"

definition refilter :: "must_state \<Rightarrow> must_state" where
  "refilter s = (case must_dados s of
      None \<Rightarrow> s
    | Some dados \<Rightarrow> (let rows = filterData (company_filter s) (search_input s) dados in
                      s\<lparr>table_body := renderTable rows, table_rows := rows\<rparr>))"

text \<open>\<open>showModal\<close> (lines 159--167) reads the row's \<open>data-anotacao\<close> back through
  \<open>unescape\<close>; \<open>closeModal\<close> (lines 169--173). Each arms a timeout that is never
  cancelled.\<close>

definition showModal :: "obj \<Rightarrow> must_state \<Rightarrow> must_state" where
  "showModal it s =
     (let annotation = unescape (if has_remark it then escape (js_string (obj_get it ''Anotacao'')) else []) in
      if annotation = [] \<or> annotation = ''null'' then s
      else s\<lparr>modal_content := annotation, modal_hidden := False,
             must_timers := must_timers s @ [(must_now s + 10, ShowOpacity)]\<rparr>)"

definition closeModal :: "must_state \<Rightarrow> must_state" where
  "closeModal s = s\<lparr>modal_opacity := 0, must_timers := must_timers s @ [(must_now s + 300, HideModal)]\<rparr>"

definition modal_fire :: "must_state \<Rightarrow> modal_task \<Rightarrow> must_state" where
  "modal_fire s t = (case t of ShowOpacity \<Rightarrow> s\<lparr>modal_opacity := 1\<rparr> | HideModal \<Rightarrow> s\<lparr>modal_hidden := True\<rparr>)"

text \<open>Waiting fires the due timeouts in order of their due time, ties in the order
  they were armed.\<close>

definition must_wait :: "nat \<Rightarrow> must_state \<Rightarrow> must_state" where
  "must_wait d s =
     (let target = must_now s + d;
          due = sort_key fst (filter (\<lambda>(t, _). t \<le> target) (must_timers s))
      in foldl (\<lambda>s' (t, k). modal_fire s' k)
           (s\<lparr>must_timers := filter (\<lambda>(t, _). \<not> t \<le> target) (must_timers s), must_now := target\<rparr>) due)"

datatype must_event =
    DomLoaded must_fetch | SelectCompany string | InputSearch string | ClickRow nat | CloseModal | MustWait nat

text \<open>The listeners exist once \<open>initializeApp\<close> has run; a click on a row without a
  remark runs its empty \<open>onclick\<close>.\<close>

definition must_step :: "must_state \<Rightarrow> must_event \<Rightarrow> must_state option" where
  "must_step s e = (case e of
      DomLoaded r \<Rightarrow> if must_dados s = None \<and> \<not> load_error s then Some (must_load r s) else None
    | MustWait d \<Rightarrow> Some (must_wait d s)
    | _ \<Rightarrow> if must_dados s = None then None else (case e of
        SelectCompany v \<Rightarrow> if v \<in> set (filter_options s) then Some (refilter (s\<lparr>company_filter := v\<rparr>)) else None
      | InputSearch v \<Rightarrow> Some (refilter (s\<lparr>search_input := v\<rparr>))
      | ClickRow i \<Rightarrow> if i < length (table_rows s) then Some (showModal (table_rows s ! i) s) else None
      | CloseModal \<Rightarrow> Some (closeModal s)
      | _ \<Rightarrow> None))"

fun must_run :: "must_state \<Rightarrow> must_event list \<Rightarrow> must_state option" where
  "must_run s [] = Some s"
| "must_run s (e # es) = (case must_step s e of None \<Rightarrow> None | Some s' \<Rightarrow> must_run s' es)"

section \<open>Lemmas\<close>

subsection \<open>The remark survives the attribute\<close>

lemma hex_val_upper_hex [simp]: "d < 16 \<Longrightarrow> hex_val (upper_hex d) = Some d"
  by (auto simp: upper_hex_def hex_val_def less_Suc_eq numeral_eq_Suc)

lemma of_char_div16 [simp]: "(of_char c :: nat) div 16 < 16"
  by (rule less_mult_imp_div_less) (use nat_of_char_less_256 [of c] in simp)

lemma unescape_Cons_other: "c \<noteq> CHR ''%'' \<Longrightarrow> unescape (c # cs) = c # unescape cs"
proof (cases cs)
  case (Cons a cs')
  then show "c \<noteq> CHR ''%'' \<Longrightarrow> unescape (c # cs) = c # unescape cs" by (cases cs') simp_all
qed simp

lemma unescape_escape_char: "unescape (escape_char c @ cs) = c # unescape cs"
proof (cases "escape_unreserved c")
  case True
  then have "c \<noteq> CHR ''%''" by (auto simp: escape_unreserved_def escape_unreserved_chars_def)
  with True show ?thesis by (simp add: escape_char_def unescape_Cons_other)
next
  case False
  have "of_char c < (256::nat)" by (rule nat_of_char_less_256)
  then have "16 * (of_char c div 16) + of_char c mod 16 = (of_char c :: nat)" by simp
  with False show ?thesis by (simp add: escape_char_def)
qed

theorem unescape_escape: "unescape (escape s) = s"
  by (induction s) (simp_all add: escape_def unescape_escape_char [of _ "concat _", simplified])

lemma upper_hex_mem: "d < 16 \<Longrightarrow> upper_hex d \<in> set ''0123456789ABCDEF''"
  unfolding upper_hex_def by (rule nth_mem) simp

lemma escape_char_safe:
  "set (escape_char c) \<subseteq> set escape_unreserved_chars \<union> {CHR ''%''} \<union> set ''0123456789ABCDEF''"
  using upper_hex_mem [of "of_char c div 16"] upper_hex_mem [of "of_char c mod 16"]
  by (auto simp: escape_char_def escape_unreserved_def simp del: set_append)

lemma escape_subset: "(\<And>c. set (escape_char c) \<subseteq> T) \<Longrightarrow> set (escape s) \<subseteq> T"
  by (induction s) (auto simp: escape_def)

text \<open>What \<open>escape\<close> writes into \<open>data-anotacao="..."\<close> has no quote, angle bracket or
  ampersand, so the attribute cannot be closed or decoded by the HTML parser.\<close>

lemma escape_attr_safe:
  "set (escape s) \<inter> {dquote, CHR ''<'', CHR ''>'', CHR ''&'', CHR 0x27} = {}"
proof -
  let ?S = "set escape_unreserved_chars \<union> {CHR ''%''} \<union> set ''0123456789ABCDEF''"
  have "set (escape s) \<subseteq> ?S"
    by (rule escape_subset) (rule escape_char_safe)
  moreover have "dquote \<notin> ?S" "CHR ''<'' \<notin> ?S" "CHR ''>'' \<notin> ?S" "CHR ''&'' \<notin> ?S" "CHR 0x27 \<notin> ?S"
    by (simp_all add: dquote_def escape_unreserved_chars_def)
  ultimately show ?thesis by blast
qed


subsection \<open>The cards add up to the KPIs\<close>

lemma sum_update_unique:
  assumes "distinct (map fst xs)" and "k \<in> set (map fst xs)"
    and "\<And>x. fst x = k \<Longrightarrow> g (F x) = g x + d" and "\<And>x. fst x \<noteq> k \<Longrightarrow> g (F x) = g x"
  shows "sum_list (map (\<lambda>y. g (F y)) xs) = sum_list (map g xs) + (d::nat)"
  using assms(1,2)
proof (induction xs)
  case (Cons x xs)
  show ?case
  proof (cases "fst x = k")
    case True
    with Cons.prems have "\<And>y. y \<in> set xs \<Longrightarrow> fst y \<noteq> k" by (auto simp: image_iff)
    then have eq: "map (\<lambda>y. g (F y)) xs = map g xs" by (auto intro!: map_cong simp: assms(4))
    have "sum_list (map (\<lambda>y. g (F y)) (x # xs)) = g (F x) + sum_list (map (\<lambda>y. g (F y)) xs)" by simp
    also have "\<dots> = g x + d + sum_list (map g xs)" unfolding eq using assms(3) [OF True] by simp
    also have "\<dots> = sum_list (map g (x # xs)) + d" by simp
    finally show ?thesis .
  next
    case False
    with Cons.prems have "distinct (map fst xs)" "k \<in> set (map fst xs)" by auto
    then have "sum_list (map (\<lambda>y. g (F y)) xs) = sum_list (map g xs) + d" by (rule Cons.IH)
    then show ?thesis using assms(4) [OF False] by simp
  qed
qed simp

lemma company_step_keys:
  "map fst (company_step acc it) =
     (let k = js_string (obj_get it ''EMPRESA'') in if k \<in> set (map fst acc) then map fst acc else map fst acc @ [k])"
  by (simp add: company_step_def Let_def case_prod_unfold comp_def)

lemma company_step_distinct: "distinct (map fst acc) \<Longrightarrow> distinct (map fst (company_step acc it))"
  by (simp add: company_step_keys Let_def)

lemma company_step_sums:
  assumes "distinct (map fst acc)"
  shows "sum_list (map (\<lambda>(c, t, w). t) (company_step acc it)) = sum_list (map (\<lambda>(c, t, w). t) acc) + 1"
    and "sum_list (map (\<lambda>(c, t, w). w) (company_step acc it))
           = sum_list (map (\<lambda>(c, t, w). w) acc) + (if has_remark it then 1 else 0)"
proof -
  define k where "k = js_string (obj_get it ''EMPRESA'')"
  define acc' where "acc' = (if k \<in> set (map fst acc) then acc else acc @ [(k, 0, 0)])"
  have d: "distinct (map fst acc')" "k \<in> set (map fst acc')"
    using assms by (auto simp: acc'_def)
  have s: "sum_list (map (\<lambda>(c, t, w). t) acc') = sum_list (map (\<lambda>(c, t, w). t) acc)"
          "sum_list (map (\<lambda>(c, t, w). w) acc') = sum_list (map (\<lambda>(c, t, w). w) acc)"
    by (auto simp: acc'_def)
  define F :: "string \<times> nat \<times> nat \<Rightarrow> string \<times> nat \<times> nat"
    where "F = (\<lambda>(c, t, w). if c = k then (c, t + 1, if has_remark it then w + 1 else w) else (c, t, w))"
  have st: "company_step acc it = map F acc'"
    by (simp add: company_step_def k_def acc'_def F_def Let_def)
  have "sum_list (map (\<lambda>(c, t, w). t) (company_step acc it))
          = sum_list (map (\<lambda>y. (\<lambda>(c, t, w). t) (F y)) acc')"
    by (simp only: st map_map comp_def)
  also have "\<dots> = sum_list (map (\<lambda>(c, t, w). t) acc') + 1"
    by (rule sum_update_unique [OF d]) (auto simp: F_def case_prod_unfold)
  finally show "sum_list (map (\<lambda>(c, t, w). t) (company_step acc it)) = sum_list (map (\<lambda>(c, t, w). t) acc) + 1"
    using s(1) by simp
  have "sum_list (map (\<lambda>(c, t, w). w) (company_step acc it))
          = sum_list (map (\<lambda>y. (\<lambda>(c, t, w). w) (F y)) acc')"
    by (simp only: st map_map comp_def)
  also have "\<dots> = sum_list (map (\<lambda>(c, t, w). w) acc') + (if has_remark it then 1 else 0)"
    by (rule sum_update_unique [OF d]) (auto simp: F_def case_prod_unfold)
  finally show "sum_list (map (\<lambda>(c, t, w). w) (company_step acc it))
          = sum_list (map (\<lambda>(c, t, w). w) acc) + (if has_remark it then 1 else 0)"
    using s(2) by simp
qed

lemma companyData_foldl:
  "distinct (map fst acc) \<Longrightarrow>
     distinct (map fst (foldl company_step acc dados))
     \<and> sum_list (map (\<lambda>(c, t, w). t) (foldl company_step acc dados)) = sum_list (map (\<lambda>(c, t, w). t) acc) + length dados
     \<and> sum_list (map (\<lambda>(c, t, w). w) (foldl company_step acc dados))
         = sum_list (map (\<lambda>(c, t, w). w) acc) + length (filter has_remark dados)"
proof (induction dados arbitrary: acc)
  case (Cons it dados)
  from Cons.prems have "distinct (map fst (company_step acc it))" by (rule company_step_distinct)
  from Cons.IH [OF this] company_step_sums [OF Cons.prems, of it] show ?case by simp
qed simp

lemma mset_entries_order: "mset (entries_order kvs) = mset kvs"
  unfolding entries_order_def mset_append mset_sort by (induction kvs) auto

lemma sum_list_map_mset:
  assumes "mset xs = mset ys"
  shows "sum_list (map f xs) = sum_list (map f ys :: nat list)"
proof -
  have "mset (map f xs) = mset (map f ys)" using assms by simp
  then have "sum_mset (mset (map f xs)) = sum_mset (mset (map f ys))" by (rule arg_cong)
  then show ?thesis by (simp only: sum_mset_sum_list)
qed

text \<open>The company cards count every point once: their totals add up to the
  \<open>Total de Pontos\<close> card and their remarks to the \<open>Pontos com Ressalvas\<close> card.\<close>

theorem must_cards_add_up:
  "sum_list (map (\<lambda>(c, w, t, p). t) (company_cards dados)) = totalPoints (renderKPIs dados)
   \<and> sum_list (map (\<lambda>(c, w, t, p). w) (company_cards dados)) = pointsWithRemarks (renderKPIs dados)"
proof -
  have m: "mset (entries_order (companyData dados)) = mset (companyData dados)" by (rule mset_entries_order)
  have f: "sum_list (map (\<lambda>(c, t, w). t) (companyData dados)) = length dados"
          "sum_list (map (\<lambda>(c, t, w). w) (companyData dados)) = length (filter has_remark dados)"
    using companyData_foldl [of "[]" dados] by (simp_all add: companyData_def)
  have c: "map (\<lambda>(c, w, t, p). t) (company_cards dados) = map (\<lambda>(c, t, w). t) (entries_order (companyData dados))"
          "map (\<lambda>(c, w, t, p). w) (company_cards dados) = map (\<lambda>(c, t, w). w) (entries_order (companyData dados))"
    by (simp_all add: company_cards_def case_prod_unfold)
  have k: "totalPoints (renderKPIs dados) = length dados"
          "pointsWithRemarks (renderKPIs dados) = length (filter has_remark dados)"
    by (simp_all add: renderKPIs_def Let_def)
  show ?thesis
    unfolding c k using sum_list_map_mset [OF m, of "\<lambda>(c, t, w). t"] sum_list_map_mset [OF m, of "\<lambda>(c, t, w). w"] f
    by simp
qed


subsection \<open>Companies, the filter and the table\<close>

text \<open>The KPI counts companies by value, the cards group them by \<open>String(value)\<close> and
  the options list each value: a company stored once as the number 1 and once as
  the string "1" is two companies, one card and two identical options, and the
  option selects only the string.\<close>

lemma must_company_keys_diverge:
  "let dados = [[(''EMPRESA'', jint 1)], [(''EMPRESA'', JStr ''1'')]] in
     uniqueCompanies (renderKPIs dados) = 2 \<and> length (company_cards dados) = 1
     \<and> populateCompanyFilter dados [''all''] = [''all'', ''1'', ''1'']
     \<and> filterData ''1'' [] dados = [[(''EMPRESA'', JStr ''1'')]]"
proof -
  let ?d = "[[(''EMPRESA'', jint 1)], [(''EMPRESA'', JStr ''1'')]]"
  have one: "js_string (jint 1) = ''1''" by (simp add: show_int_def show_nat_eval)
  have set: "js_set (map (\<lambda>it. obj_get it ''EMPRESA'') ?d) = [jint 1, JStr ''1'']"
    by (simp add: js_set_def set_insert_def)
  have cd: "companyData ?d = [(''1'', 2, 0)]"
    by (simp add: companyData_def company_step_def show_int_def show_nat_eval has_remark_def Let_def)
  have "uniqueCompanies (renderKPIs ?d) = 2" by (simp add: renderKPIs_def js_set_def set_insert_def)
  moreover have "length (company_cards ?d) = 1" by (simp add: company_cards_def cd entries_order_def)
  moreover have "populateCompanyFilter ?d [''all''] = [''all'', ''1'', ''1'']"
    by (simp add: populateCompanyFilter_def js_set_def set_insert_def sort_default_def show_int_def show_nat_eval)
  moreover have "filterData ''1'' [] ?d = [[(''EMPRESA'', JStr ''1'')]]"
    by (simp add: filterData_def to_lower_def)
  ultimately show ?thesis by (simp add: Let_def)
qed

text \<open>A numeric \<open>EMPRESA\<close> is never matched by its own option: the select's value is
  a string and the filter compares with \<open>===\<close>.\<close>

lemma filterData_numeric_company:
  "c \<noteq> ''all'' \<Longrightarrow> obj_get it ''EMPRESA'' = JNum n \<Longrightarrow> it \<notin> set (filterData c q dados)"
  by (simp add: filterData_def Let_def)

lemma filterData_all: "filterData ''all'' [] dados = dados"
  by (simp add: filterData_def to_lower_def)

lemma filterData_subseq: "subseq (filterData c q dados) dados"
  by (simp add: filterData_def Let_def)

text \<open>Outside the remark, the cells are interpolated into \<open>innerHTML\<close> as they are:
  a company name is markup in the table.\<close>

lemma sublist_under_prefix: "sublist x ys \<Longrightarrow> sublist x (zs @ ys)"
  unfolding sublist_def by (metis append.assoc)

lemma table_row_company_verbatim: "sublist (js_string (obj_get it ''EMPRESA'')) (table_row it)"
  unfolding table_row_def Let_def
  apply (rule sublist_under_prefix, rule sublist_under_prefix, rule sublist_under_prefix, rule sublist_under_prefix)
  apply (rule sublist_under_prefix, rule sublist_under_prefix, rule sublist_under_prefix, rule sublist_under_prefix)
  apply (rule sublist_append_rightI)
  done


subsection \<open>The modal\<close>

text \<open>A row with a remark opens the modal with exactly the remark's text: the
  attribute's \<open>escape\<close> is undone by \<open>unescape\<close>.\<close>

lemma showModal_content:
  assumes "has_remark it" and "js_string (obj_get it ''Anotacao'') \<notin> {[], ''null''}"
  shows "modal_content (showModal it s) = js_string (obj_get it ''Anotacao'')
         \<and> \<not> modal_hidden (showModal it s)
         \<and> must_timers (showModal it s) = must_timers s @ [(must_now s + 10, ShowOpacity)]"
  using assms by (simp add: showModal_def unescape_escape)

text \<open>A remark whose text is \<open>null\<close> marks its row \<open>Sim\<close> and makes it clickable,
  but \<open>showModal\<close> returns on it and the modal never opens.\<close>

lemma showModal_null_remark:
  "obj_get it ''Anotacao'' = JStr ''null'' \<Longrightarrow> has_remark it \<and> showModal it s = s"
  by (simp add: has_remark_def showModal_def unescape_escape trim_def is_js_space_def)

definition must_demo_row :: jsval where
  "must_demo_row = JObj [(''EMPRESA'', JStr ''A''), (''Anotacao'', JStr ''ok'')]"

text \<open>The timeouts are never cancelled: closing the modal and reopening it within
  300 ms lets the close's timeout hide the reopened modal, whose opacity is 1.\<close>

lemma must_modal_reopen_hidden:
  "map_option (\<lambda>s. (modal_hidden s, modal_opacity s, modal_content s, must_now s))
     (must_run must_init [DomLoaded (FetchOk (JArr [must_demo_row])), ClickRow 0, MustWait 10,
                          CloseModal, MustWait 100, ClickRow 0, MustWait 250])
   = Some (True, 1, ''ok'', 360)"
proof -
  let ?it = "[(''EMPRESA'', JStr ''A''), (''Anotacao'', JStr ''ok'')]"
  have r: "has_remark ?it" by (simp add: has_remark_def trim_def is_js_space_def)
  have m: "showModal ?it s = s\<lparr>modal_content := ''ok'', modal_hidden := False,
             must_timers := must_timers s @ [(must_now s + 10, ShowOpacity)]\<rparr>" for s
    using r by (simp add: showModal_def unescape_escape)
  show ?thesis
    by (simp add: must_demo_row_def must_step_def must_load_def initializeApp_def must_init_def m
                  closeModal_def must_wait_def modal_fire_def)
qed

end
