(* ===== verification/NewsSite.thy ===== *)
theory NewsSite
  imports TasksPage
begin

text \<open>
  \<open>src/static-websites/templates projetcts HTML_CSS_JS/website-noticias-template/main.js\<close>:
  a single-page site whose router fetches \<open>pages/<page>.html\<close> into \<open>#content\<close>, starts
  a carousel on the home page and a to-do list, kept in \<open>localStorage\<close>, on the
  dashboard page. The pages are not in the repository; a page is given by what the
  script queries in it (\<open>page_html\<close>). Each \<open>loadPage\<close> is a pending fetch that a
  later event answers, so two navigations may complete in either order. The
  carousel and the list are the state their closures hold; replacing \<open>#content\<close>
  detaches them, but the carousel's \<open>setInterval\<close> is never cleared.
\<close>

section \<open>Pages and state\<close>

text \<open>What the script reads from a fetched page: the HTML, the number of
  \<open>.carousel-item\<close>s of its \<open>.carousel\<close> (\<open>None\<close> without one), whether the carousel
  has both \<open>.carousel-control\<close> buttons, and whether it has \<open>#todo-section\<close>. The
  pages are taken to have the \<open>.carousel-inner\<close>, form, input, list and counters
  that the code then uses.\<close>

record page_html =
  ph_html :: string
  ph_carousel :: "nat option"
  ph_controls :: bool
  ph_todo :: bool

text \<open>The server: the page served for a name, \<open>None\<close> for a response that is not ok.\<close>

type_synonym site = "string \<Rightarrow> page_html option"

datatype content = Blank | Loaded string | LoadError

record carousel =
  car_index :: "int option"
  car_total :: nat

record news_state =
  ns_content :: content
  ns_active :: "string option"
  ns_hist :: "string option list"
  ns_pos :: nat
  ns_pending :: "string list"
  ns_carousel :: "carousel option"
  ns_intervals :: nat
  ns_todo :: "jsval list option"
  ns_storage :: "stored option"
  ns_now :: nat

section \<open>The carousel\<close>

text \<open>JavaScript's \<open>%\<close> on integers: the remainder takes the sign of the dividend,
  and \<open>x % 0\<close> is \<open>NaN\<close> (\<open>None\<close>); \<open>NaN\<close> stays \<open>NaN\<close> under arithmetic.\<close>

definition js_rem :: "int \<Rightarrow> int \<Rightarrow> int option" where
  "js_rem a b = (if b = 0 then None else Some (sgn a * (\<bar>a\<bar> mod \<bar>b\<bar>)))"

text \<open>The two click handlers (lines 22--30).\<close>

definition car_next :: "carousel \<Rightarrow> carousel" where
  "car_next c = c\<lparr>car_index := Option.bind (car_index c) (\<lambda>i. js_rem (i + 1) (int (car_total c)))\<rparr>"

definition car_prev :: "carousel \<Rightarrow> carousel" where
  "car_prev c =
     c\<lparr>car_index := Option.bind (car_index c) (\<lambda>i. js_rem (i - 1 + int (car_total c)) (int (car_total c)))\<rparr>"

text \<open>\<open>updateCarousel\<close> (lines 18--20): the transform written to \<open>.carousel-inner\<close>.\<close>

definition car_transform :: "carousel \<Rightarrow> string" where
  "car_transform c =
     ''translateX(-'' @ (case car_index c of Some i \<Rightarrow> show_int (i * 100) | None \<Rightarrow> ''NaN'') @ ''%)''"

text \<open>\<open>initCarousel\<close> (lines 6--36): nothing without a carousel; a missing control
  makes \<open>addEventListener\<close> throw (\<open>None\<close>) before the interval is set; otherwise
  the index starts at 0 and one more interval runs.\<close>

definition initCarousel :: "page_html \<Rightarrow> news_state \<Rightarrow> news_state option" where
  "initCarousel h s = (case ph_carousel h of
      None \<Rightarrow> Some s
    | Some n \<Rightarrow> if \<not> ph_controls h then None
                else Some (s\<lparr>ns_carousel := Some \<lparr>car_index = Some 0, car_total = n\<rparr>,
                             ns_intervals := ns_intervals s + 1\<rparr>))"

section \<open>The to-do list\<close>

text \<open>A property of a list element; the elements the list keeps are never
  \<open>null\<close> (rendering would throw), and a primitive has no own properties.\<close>

fun task_prop :: "jsval \<Rightarrow> string \<Rightarrow> jsval" where
  "task_prop (JObj ob) k = obj_get ob k"
| "task_prop v k = JUndef"

definition nullish :: "jsval \<Rightarrow> bool" where
  "nullish v \<longleftrightarrow> v = JNull \<or> v = JUndef"

text \<open>\<open>JSON.parse(localStorage.getItem(key)) || []\<close> followed by the first
  \<open>renderTasks\<close> (lines 48 and 54--92): no entry parses as \<open>null\<close>, hence \<open>[]\<close>; a text
  that does not parse throws; a truthy value that is not an array has no
  \<open>forEach\<close>; a \<open>null\<close> element throws at \<open>task.completed\<close>.\<close>

definition load_tasks :: "stored option \<Rightarrow> jsval list option" where
  "load_tasks raw = (case raw of
      None \<Rightarrow> Some []
    | Some (StoredGarbage txt) \<Rightarrow> None
    | Some (StoredJson v) \<Rightarrow>
        if \<not> js_truthy v then Some []
        else (case v of JArr xs \<Rightarrow> if list_ex nullish xs then None else Some xs | _ \<Rightarrow> None))"

definition save_tasks :: "jsval list \<Rightarrow> stored option" where
  "save_tasks ts = Some (StoredJson (JArr ts))"

text \<open>\<open>initTodoList\<close> (lines 39--138): nothing without the section.\<close>

definition initTodoList :: "page_html \<Rightarrow> news_state \<Rightarrow> news_state option" where
  "initTodoList h s =
     (if \<not> ph_todo h then Some s
      else map_option (\<lambda>ts. s\<lparr>ns_todo := Some ts\<rparr>) (load_tasks (ns_storage s)))"

text \<open>\<open>addTask\<close> (lines 102--111), with \<open>Date.now()\<close> as the id.\<close>

definition new_todo :: "nat \<Rightarrow> string \<Rightarrow> jsval" where
  "new_todo now text = JObj [(''id'', jint (int now)), (''text'', JStr text), (''completed'', JBool False)]"

text \<open>\<open>{...task, completed: !task.completed}\<close>: the own enumerable properties of the
  element (a string spreads its characters by index), with \<open>completed\<close> set.\<close>

definition spread :: "jsval \<Rightarrow> obj" where
  "spread v = (case v of
      JObj ob \<Rightarrow> ob
    | JStr s \<Rightarrow> map (\<lambda>(i, c). (show_nat i, JStr [c])) (enumerate 0 s)
    | JArr vs \<Rightarrow> map (\<lambda>(i, x). (show_nat i, x)) (enumerate 0 vs)
    | _ \<Rightarrow> [])"

definition toggle_task :: "jsval \<Rightarrow> jsval" where
  "toggle_task t = JObj (obj_set (spread t) ''completed'' (JBool (\<not> js_truthy (task_prop t ''completed''))))"

text \<open>\<open>toggleComplete\<close> and \<open>deleteTask\<close> (lines 113--125) compare ids with \<open>===\<close>.\<close>

definition toggleComplete :: "jsval \<Rightarrow> jsval list \<Rightarrow> jsval list" where
  "toggleComplete i ts = map (\<lambda>t. if strict_eq (task_prop t ''id'') i then toggle_task t else t) ts"

definition deleteTask :: "jsval \<Rightarrow> jsval list \<Rightarrow> jsval list" where
  "deleteTask i ts = filter (\<lambda>t. \<not> strict_eq (task_prop t ''id'') i) ts"

text \<open>\<open>updateStats\<close> (lines 94--100): completed, pending and total.\<close>

definition todo_stats :: "jsval list \<Rightarrow> nat \<times> nat \<times> nat" where
  "todo_stats ts =
     (let c = length (filter (\<lambda>t. js_truthy (task_prop t ''completed'')) ts) in (c, length ts - c, length ts))"

section \<open>Loading a page\<close>

text \<open>Lines 149--162 once a fetch answers ok: the page replaces \<open>#content\<close>, which
  detaches the previous carousel and list; the links whose \<open>href\<close> is the page
  become active; then the home page starts its carousel and the dashboard its list.
  A throw there is caught (lines 163--166) and shows the error message.\<close>

definition page_shown :: "string \<Rightarrow> page_html \<Rightarrow> news_state \<Rightarrow> news_state" where
  "page_shown page h s =
     (let s1 = s\<lparr>ns_content := Loaded (ph_html h), ns_active := Some page,
                 ns_carousel := None, ns_todo := None\<rparr>;
          r = (if page = ''home'' then initCarousel h s1
               else if page = ''dashboard'' then initTodoList h s1 else Some s1)
      in case r of Some s2 \<Rightarrow> s2 | None \<Rightarrow> s1\<lparr>ns_content := LoadError\<rparr>)"

text \<open>The fetches in flight, one per pending \<open>loadPage\<close>; answering the \<open>i\<close>-th
  removes it.\<close>

definition drop_nth :: "nat \<Rightarrow> 'a list \<Rightarrow> 'a list" where
  "drop_nth i xs = take i xs @ drop (Suc i) xs"

text \<open>Lines 143--148: a response that is not ok starts \<open>loadPage('home')\<close>, a new
  fetch, instead of showing anything.\<close>

definition fetch_answered :: "site \<Rightarrow> nat \<Rightarrow> news_state \<Rightarrow> news_state" where
  "fetch_answered site i s =
     (let page = ns_pending s ! i; s1 = s\<lparr>ns_pending := drop_nth i (ns_pending s)\<rparr> in
      case site page of
        None \<Rightarrow> s1\<lparr>ns_pending := ns_pending s1 @ [''home'']\<rparr>
      | Some h \<Rightarrow> page_shown page h s1)"

text \<open>The earlier copy of the script,
  \<open>src/frontend_project/templates projetcts HTML_CSS_JS/main.js\<close>, has the same
  carousel, router and history code but no to-do list: its \<open>loadPage\<close> (lines
  39--62) starts the carousel on the home page and nothing on the dashboard.\<close>

definition page_shown_v1 :: "string \<Rightarrow> page_html \<Rightarrow> news_state \<Rightarrow> news_state" where
  "page_shown_v1 page h s =
     (let s1 = s\<lparr>ns_content := Loaded (ph_html h), ns_active := Some page,
                 ns_carousel := None, ns_todo := None\<rparr>;
          r = (if page = ''home'' then initCarousel h s1 else Some s1)
      in case r of Some s2 \<Rightarrow> s2 | None \<Rightarrow> s1\<lparr>ns_content := LoadError\<rparr>)"

definition fetch_answered_v1 :: "site \<Rightarrow> nat \<Rightarrow> news_state \<Rightarrow> news_state" where
  "fetch_answered_v1 site i s =
     (let page = ns_pending s ! i; s1 = s\<lparr>ns_pending := drop_nth i (ns_pending s)\<rparr> in
      case site page of
        None \<Rightarrow> s1\<lparr>ns_pending := ns_pending s1 @ [''home'']\<rparr>
      | Some h \<Rightarrow> page_shown_v1 page h s1)"

text \<open>Line 192: the last segment of the path, or \<open>home\<close>; line 193 loads it. The
  history starts with one entry whose state is \<open>null\<close>.\<close>

definition initial_page :: "string \<Rightarrow> string" where
  "initial_page path = (let seg = last (split_on CHR ''/'' path) in if seg = [] then ''home'' else seg)"

definition news_init :: "string \<Rightarrow> stored option \<Rightarrow> news_state" where
  "news_init path st =
     \<lparr>ns_content = Blank, ns_active = None, ns_hist = [None], ns_pos = 0,
      ns_pending = [initial_page path], ns_carousel = None, ns_intervals = 0,
      ns_todo = None, ns_storage = st, ns_now = 0\<rparr>"

section \<open>Events\<close>

text \<open>A click on a link (the router, lines 170--178), the back and forward buttons
  (\<open>popstate\<close>, lines 186--189), the answer or the network failure of the
  \<open>i\<close>-th fetch, a tick of the live carousel's interval, the carousel buttons, a
  submit of the to-do form, the checkbox and delete button of the \<open>n\<close>-th
  rendered task, and time passing.\<close>

datatype news_event =
    NavClick string
  | GoBack
  | GoForward
  | FetchOk nat
  | FetchFail nat
  | Tick
  | CarouselPrev
  | CarouselNext
  | TodoSubmit string
  | TodoCheck nat
  | TodoDelete nat
  | NewsWait nat

definition history_go :: "nat \<Rightarrow> news_state \<Rightarrow> news_state" where
  "history_go j s =
     s\<lparr>ns_pos := j,
       ns_pending := ns_pending s @ [case ns_hist s ! j of Some p \<Rightarrow> p | None \<Rightarrow> ''home'']\<rparr>"

definition todo_commit :: "jsval list \<Rightarrow> news_state \<Rightarrow> news_state" where
  "todo_commit ts s = s\<lparr>ns_todo := Some ts, ns_storage := save_tasks ts\<rparr>"

definition news_step :: "site \<Rightarrow> news_event \<Rightarrow> news_state \<Rightarrow> news_state option" where
  "news_step site e s = (case e of
      NavClick p \<Rightarrow>
        Some (s\<lparr>ns_hist := take (Suc (ns_pos s)) (ns_hist s) @ [Some p], ns_pos := Suc (ns_pos s),
                ns_pending := ns_pending s @ [p]\<rparr>)
    | GoBack \<Rightarrow> if 0 < ns_pos s then Some (history_go (ns_pos s - 1) s) else None
    | GoForward \<Rightarrow> if Suc (ns_pos s) < length (ns_hist s) then Some (history_go (Suc (ns_pos s)) s) else None
    | FetchOk i \<Rightarrow> if i < length (ns_pending s) then Some (fetch_answered site i s) else None
    | FetchFail i \<Rightarrow>
        if i < length (ns_pending s)
        then Some (s\<lparr>ns_pending := drop_nth i (ns_pending s), ns_content := LoadError\<rparr>) else None
    | Tick \<Rightarrow> map_option (\<lambda>c. s\<lparr>ns_carousel := Some (car_next c)\<rparr>) (ns_carousel s)
    | CarouselNext \<Rightarrow> map_option (\<lambda>c. s\<lparr>ns_carousel := Some (car_next c)\<rparr>) (ns_carousel s)
    | CarouselPrev \<Rightarrow> map_option (\<lambda>c. s\<lparr>ns_carousel := Some (car_prev c)\<rparr>) (ns_carousel s)
    | TodoSubmit v \<Rightarrow> map_option (\<lambda>ts.
        if trim v = [] then s else todo_commit (ts @ [new_todo (ns_now s) (trim v)]) s) (ns_todo s)
    | TodoCheck n \<Rightarrow> (case ns_todo s of
        Some ts \<Rightarrow> if n < length ts then Some (todo_commit (toggleComplete (task_prop (ts ! n) ''id'') ts) s) else None
      | None \<Rightarrow> None)
    | TodoDelete n \<Rightarrow> (case ns_todo s of
        Some ts \<Rightarrow> if n < length ts then Some (todo_commit (deleteTask (task_prop (ts ! n) ''id'') ts) s) else None
      | None \<Rightarrow> None)
    | NewsWait d \<Rightarrow> Some (s\<lparr>ns_now := ns_now s + d\<rparr>))"

fun news_run :: "site \<Rightarrow> news_event list \<Rightarrow> news_state \<Rightarrow> news_state option" where
  "news_run site [] s = Some s"
| "news_run site (e # es) s = (case news_step site e s of None \<Rightarrow> None | Some s' \<Rightarrow> news_run site es s')"

inductive news_reachable :: "site \<Rightarrow> news_state \<Rightarrow> bool" for site where
  init: "news_reachable site (news_init path st)"
| step: "news_reachable site s \<Longrightarrow> news_step site e s = Some s' \<Longrightarrow> news_reachable site s'"

section \<open>Invariant and examples\<close>

text \<open>A carousel index in range: \<open>0 \<le> i < total\<close>, or the starting 0 or \<open>NaN\<close> of a
  carousel without items.\<close>

definition car_ok :: "carousel \<Rightarrow> bool" where
  "car_ok c \<longleftrightarrow> (case car_index c of
      Some i \<Rightarrow> 0 \<le> i \<and> (i < int (car_total c) \<or> car_total c = 0 \<and> i = 0)
    | None \<Rightarrow> car_total c = 0)"

text \<open>The invariant of the page: a live carousel is in range and has its interval
  running, and a live list is what a reload would read from storage.\<close>

definition news_inv :: "news_state \<Rightarrow> bool" where
  "news_inv s \<longleftrightarrow>
     (case ns_carousel s of Some c \<Rightarrow> car_ok c \<and> 0 < ns_intervals s | None \<Rightarrow> True) \<and>
     (case ns_todo s of Some ts \<Rightarrow> load_tasks (ns_storage s) = Some ts | None \<Rightarrow> True)"

text \<open>Network failures among the events, and the pending loads of pages the
  server does not serve.\<close>

fun fetch_failure :: "news_event \<Rightarrow> bool" where
  "fetch_failure (FetchFail i) = True"
| "fetch_failure e = False"

definition stuck_loads :: "site \<Rightarrow> news_state \<Rightarrow> nat" where
  "stuck_loads site s = length (filter (\<lambda>p. site p = None) (ns_pending s))"

text \<open>A server with a home page holding a three-item carousel, an about page and a
  dashboard with the list; and a server that serves nothing.\<close>

definition demo_site :: site where
  "demo_site p =
     (if p = ''home'' then Some \<lparr>ph_html = ''<h1>Home</h1>'', ph_carousel = Some 3, ph_controls = True, ph_todo = False\<rparr>
      else if p = ''about'' then Some \<lparr>ph_html = ''<h1>About</h1>'', ph_carousel = None, ph_controls = False, ph_todo = False\<rparr>
      else if p = ''dashboard'' then Some \<lparr>ph_html = ''<h1>Dashboard</h1>'', ph_carousel = None, ph_controls = False, ph_todo = True\<rparr>
      else None)"

definition no_site :: site where
  "no_site p = None"

section \<open>Properties\<close>


lemma js_rem_nonneg: "0 \<le> a \<Longrightarrow> 0 < b \<Longrightarrow> js_rem a b = Some (a mod b)"
  by (cases "a = 0") (simp_all add: js_rem_def)

lemma js_rem_zero [simp]: "js_rem a 0 = None"
  by (simp add: js_rem_def)

lemma car_next_ok: "car_ok c \<Longrightarrow> car_ok (car_next c)"
  by (auto simp: car_ok_def car_next_def js_rem_nonneg split: option.splits)

lemma car_prev_ok: "car_ok c \<Longrightarrow> car_ok (car_prev c)"
  by (auto simp: car_ok_def car_prev_def js_rem_nonneg split: option.splits)

lemma car_in_range: "car_ok c \<Longrightarrow> 0 < car_total c \<Longrightarrow> \<exists>i. car_index c = Some i \<and> 0 \<le> i \<and> i < int (car_total c)"
  by (auto simp: car_ok_def split: option.splits)

text \<open>C31. Carousel round trip: on a carousel in range with at least one item,
  a click on next followed by a click on prev restores the index, including the
  wrap from the last item to the first and back.\<close>

theorem carousel_prev_next:
  "car_ok c \<Longrightarrow> 0 < car_total c \<Longrightarrow> car_prev (car_next c) = c"
proof -
  assume ok: "car_ok c" and pos: "0 < car_total c"
  then obtain i where i: "car_index c = Some i" "0 \<le> i" "i < int (car_total c)"
    using car_in_range by blast
  define n where "n = int (car_total c)"
  have n: "0 < n" "i < n" using pos i(3) by (auto simp: n_def)
  have "((i + 1) mod n - 1 + n) mod n = i"
  proof (cases "i + 1 < n")
    case True then show ?thesis using i(2) n by simp
  next
    case False then have "i + 1 = n" using n by simp
    then have "(i + 1) mod n - 1 + n = i" by simp
    then show ?thesis using i(2) n by simp
  qed
  moreover have "0 \<le> (i + 1) mod n - 1 + n" using n by (smt (verit) pos_mod_sign)
  ultimately show ?thesis
    using i n by (simp add: car_prev_def car_next_def js_rem_nonneg n_def[symmetric])
qed

text \<open>A carousel without items: the first click computes \<open>x % 0\<close> and writes
  \<open>translateX(-NaN%)\<close>.\<close>

lemma carousel_empty_nan:
  "car_total c = 0 \<Longrightarrow> car_transform (car_next c) = ''translateX(-NaN%)''"
  by (simp add: car_next_def car_transform_def split: option.splits)


lemma load_tasks_clean: "load_tasks r = Some ts \<Longrightarrow> \<not> list_ex nullish ts"
  by (auto simp: load_tasks_def split: option.splits stored.splits if_splits jsval.splits)

lemma load_save_tasks: "\<not> list_ex nullish ts \<Longrightarrow> load_tasks (save_tasks ts) = Some ts"
  by (simp add: load_tasks_def save_tasks_def)

lemma task_objects_not_nullish [simp]:
  "\<not> nullish (toggle_task t)" "\<not> nullish (new_todo n v)"
  by (simp_all add: toggle_task_def new_todo_def nullish_def)

lemma todo_ops_clean:
  "\<not> list_ex nullish ts \<Longrightarrow> \<not> list_ex nullish (toggleComplete i ts)"
  "\<not> list_ex nullish ts \<Longrightarrow> \<not> list_ex nullish (deleteTask i ts)"
  "\<not> list_ex nullish ts \<Longrightarrow> \<not> list_ex nullish (ts @ [new_todo n v])"
  by (auto simp: toggleComplete_def deleteTask_def list_ex_iff)

lemma todo_commit_inv:
  "news_inv s \<Longrightarrow> \<not> list_ex nullish ts \<Longrightarrow> news_inv (todo_commit ts s)"
  by (simp add: news_inv_def todo_commit_def load_save_tasks split: option.splits)

lemma page_shown_inv: "news_inv s \<Longrightarrow> news_inv (page_shown p h s)"
  by (auto simp: news_inv_def page_shown_def Let_def initCarousel_def initTodoList_def car_ok_def
           split: option.splits)

lemma news_inv_frame [simp]:
  "news_inv (s\<lparr>ns_pending := p\<rparr>) = news_inv s"
  "news_inv (s\<lparr>ns_pos := j, ns_pending := p\<rparr>) = news_inv s"
  "news_inv (s\<lparr>ns_hist := hs, ns_pos := j\<rparr>) = news_inv s"
  "news_inv (s\<lparr>ns_pending := p, ns_content := ct\<rparr>) = news_inv s"
  "news_inv (s\<lparr>ns_now := t\<rparr>) = news_inv s"
  by (simp_all add: news_inv_def split: option.split)

lemma news_inv_todo_clean: "news_inv s \<Longrightarrow> ns_todo s = Some ts \<Longrightarrow> \<not> list_ex nullish ts"
  by (rule load_tasks_clean [of "ns_storage s"]) (simp add: news_inv_def)

lemma news_inv_carousel:
  "news_inv s \<Longrightarrow> ns_carousel s = Some c \<Longrightarrow> news_inv (s\<lparr>ns_carousel := Some (car_next c)\<rparr>)"
  "news_inv s \<Longrightarrow> ns_carousel s = Some c \<Longrightarrow> news_inv (s\<lparr>ns_carousel := Some (car_prev c)\<rparr>)"
  by (simp_all add: news_inv_def car_next_ok car_prev_ok split: option.splits)

lemma fetch_answered_inv: "news_inv s \<Longrightarrow> news_inv (fetch_answered site i s)"
  by (simp add: fetch_answered_def Let_def page_shown_inv split: option.split)

lemma history_go_inv: "news_inv (history_go j s) = news_inv s"
  by (simp add: history_go_def news_inv_def split: option.split)

lemma news_step_inv:
  assumes inv: "news_inv s" and st: "news_step site e s = Some s'"
  shows "news_inv s'"
proof (cases e)
  case (FetchOk i) then show ?thesis using st inv
    by (auto simp: news_step_def fetch_answered_inv split: if_splits)
next
qed (use st inv in \<open>auto simp: news_step_def history_go_inv news_inv_todo_clean todo_ops_clean
         intro!: todo_commit_inv news_inv_carousel split: option.splits if_splits\<close>)

lemma news_reachable_inv: "news_reachable site s \<Longrightarrow> news_inv s"
proof (induction rule: news_reachable.induct)
  case (init path st) then show ?case by (simp add: news_init_def news_inv_def)
qed (rule news_step_inv)


lemma news_run_append:
  "news_run site (xs @ ys) s = (case news_run site xs s of None \<Rightarrow> None | Some s' \<Rightarrow> news_run site ys s')"
  by (induction xs arbitrary: s) (simp_all split: option.split)

lemma news_run_reachable:
  "news_reachable site s \<Longrightarrow> news_run site es s = Some s' \<Longrightarrow> news_reachable site s'"
  by (induction es arbitrary: s) (auto split: option.splits intro: news_reachable.step)

lemma drop_nth_length [simp]: "i < length xs \<Longrightarrow> length (drop_nth i xs) = length xs - 1"
  by (simp add: drop_nth_def)

lemma drop_nth_last [simp]: "drop_nth (length xs) (xs @ [x]) = xs"
  by (simp add: drop_nth_def)

lemma drop_nth_filter:
  "i < length xs \<Longrightarrow> length (filter P (drop_nth i xs)) + (if P (xs ! i) then 1 else 0) = length (filter P xs)"
  by (subst (3) id_take_nth_drop [of i xs]) (simp_all add: drop_nth_def)

lemma page_shown_frame [simp]:
  "ns_pending (page_shown p h s) = ns_pending s"
  "ns_active (page_shown p h s) = Some p"
  "ns_hist (page_shown p h s) = ns_hist s"
  "ns_pos (page_shown p h s) = ns_pos s"
  by (simp_all add: page_shown_def Let_def initCarousel_def initTodoList_def split: option.split)

lemma page_shown_plain:
  "p \<noteq> ''home'' \<Longrightarrow> p \<noteq> ''dashboard'' \<Longrightarrow> ns_content (page_shown p h s) = Loaded (ph_html h)"
  by (simp add: page_shown_def)

text \<open>In every reachable state, the live carousel's index of a carousel with items
  is in range.\<close>

lemma news_carousel_in_range:
  "news_reachable site s \<Longrightarrow> ns_carousel s = Some c \<Longrightarrow> 0 < car_total c
   \<Longrightarrow> \<exists>i. car_index c = Some i \<and> 0 \<le> i \<and> i < int (car_total c)"
  using news_reachable_inv [of site s] car_in_range by (simp add: news_inv_def)

text \<open>C16. In every reachable state of the site, the list the dashboard holds is
  exactly what \<open>JSON.parse(localStorage.getItem('my-todo-tasks')) || []\<close> reads
  back: every handler saves after changing the list, and the list never holds a
  \<open>null\<close> element that would make rendering throw.\<close>

theorem news_todo_storage_mirror:
  "news_reachable site s \<Longrightarrow> ns_todo s = Some ts \<Longrightarrow> load_tasks (ns_storage s) = Some ts"
  using news_reachable_inv [of site s] by (simp add: news_inv_def split: option.splits)

lemma home_visit:
  assumes "site ''home'' = Some h"
  shows "news_run site [NavClick ''home'', FetchOk (length (ns_pending s))] s
       = Some (page_shown ''home'' h (s\<lparr>ns_hist := take (Suc (ns_pos s)) (ns_hist s) @ [Some ''home''],
                                      ns_pos := Suc (ns_pos s)\<rparr>))"
  using assms by (simp add: news_step_def fetch_answered_def Let_def)

text \<open>Each visit to the home page starts one more \<open>setInterval\<close>, which is never
  cleared: after \<open>k\<close> visits \<open>k\<close> more intervals run, one of them for the carousel
  shown.\<close>

lemma news_home_visits_leak_intervals:
  assumes "site ''home'' = Some h" "ph_carousel h = Some n" "ph_controls h"
  shows "\<exists>s'. news_run site (concat (replicate k [NavClick ''home'', FetchOk (length (ns_pending s))])) s = Some s'
           \<and> ns_pending s' = ns_pending s \<and> ns_intervals s' = ns_intervals s + k"
proof (induction k arbitrary: s)
  case (Suc k)
  let ?s1 = "page_shown ''home'' h (s\<lparr>ns_hist := take (Suc (ns_pos s)) (ns_hist s) @ [Some ''home''],
                                    ns_pos := Suc (ns_pos s)\<rparr>)"
  have s1: "ns_pending ?s1 = ns_pending s" "ns_intervals ?s1 = Suc (ns_intervals s)"
    using assms by (simp_all add: page_shown_def initCarousel_def)
  obtain s' where "news_run site (concat (replicate k [NavClick ''home'', FetchOk (length (ns_pending ?s1))])) ?s1 = Some s'"
    "ns_pending s' = ns_pending ?s1" "ns_intervals s' = ns_intervals ?s1 + k"
    using Suc.IH by blast
  then show ?case using home_visit [where site=site and h=h and s=s, OF assms(1)] s1
    by (simp only: replicate_Suc concat.simps news_run_append) simp
qed simp


text \<open>C7. When the server has a home page, every pending \<open>loadPage\<close> settles: its
  answer shows the page, or, for a page that is not found, the one retry of
  \<open>home\<close> shows the home page; after at most two answers the load is no longer
  pending and the active link is the page shown.\<close>

theorem news_load_settles:
  assumes home: "site ''home'' \<noteq> None" and i: "i < length (ns_pending s)"
  shows "\<exists>s'. news_run site (FetchOk i # (if site (ns_pending s ! i) = None
                                   then [FetchOk (length (ns_pending s) - 1)] else [])) s = Some s'
           \<and> length (ns_pending s') = length (ns_pending s) - 1
           \<and> ns_active s' = Some (if site (ns_pending s ! i) = None then ''home'' else ns_pending s ! i)"
proof (cases "site (ns_pending s ! i)")
  case None
  obtain h where h: "site ''home'' = Some h" using home by blast
  obtain q where q: "drop_nth i (ns_pending s) = q" by blast
  have lq: "length (ns_pending s) - Suc 0 = length q" using i q by auto
  show ?thesis using None h i by (simp add: news_step_def fetch_answered_def Let_def q lq)
next
  case (Some h)
  then show ?thesis using i by (simp add: news_step_def fetch_answered_def Let_def)
qed

lemma stuck_loads_step:
  assumes home: "site ''home'' = None" and ok: "\<not> fetch_failure e"
    and st: "news_step site e s = Some s'"
  shows "stuck_loads site s \<le> stuck_loads site s'"
proof (cases e)
  case (FetchOk i)
  then have i: "i < length (ns_pending s)" using st by (simp add: news_step_def split: if_splits)
  show ?thesis
  proof (cases "site (ns_pending s ! i)")
    case None then show ?thesis
      using FetchOk st i home drop_nth_filter [OF i, of "\<lambda>p. site p = None"]
      by (auto simp: news_step_def fetch_answered_def stuck_loads_def)
  next
    case (Some h) then show ?thesis
      using FetchOk st i drop_nth_filter [OF i, of "\<lambda>p. site p = None"]
      by (auto simp: news_step_def fetch_answered_def stuck_loads_def)
  qed
qed (use ok st in \<open>auto simp: news_step_def stuck_loads_def history_go_def todo_commit_def
       split: option.splits if_splits\<close>)

text \<open>C9. When the server has no home page, \<open>loadPage\<close> of a missing page never
  ends: each not-ok answer starts another fetch of \<open>home\<close>, which is not found
  either, so without network failures the number of pending loads of missing
  pages never decreases, whatever the events.\<close>

theorem news_missing_home_never_settles:
  "site ''home'' = None \<Longrightarrow> \<not> list_ex fetch_failure es \<Longrightarrow> news_run site es s = Some s'
   \<Longrightarrow> stuck_loads site s \<le> stuck_loads site s'"
proof (induction es arbitrary: s)
  case (Cons e es)
  then obtain s1 where s1: "news_step site e s = Some s1" "news_run site es s1 = Some s'"
    by (auto split: option.splits)
  then show ?case using Cons stuck_loads_step [of site e s s1] by fastforce
qed simp

text \<open>Two navigations whose fetches answer in the opposite order: the page of the
  first click is shown and its link is active, while the address bar holds the
  second.\<close>

lemma news_out_of_order:
  assumes a: "site a = Some ha" "a \<noteq> ''home''" "a \<noteq> ''dashboard''" and b: "site b = Some hb"
    and pos: "ns_pos s < length (ns_hist s)"
  shows "\<exists>s'. news_run site [NavClick a, NavClick b, FetchOk (Suc (length (ns_pending s))),
                               FetchOk (length (ns_pending s))] s = Some s'
           \<and> ns_content s' = Loaded (ph_html ha) \<and> ns_active s' = Some a
           \<and> ns_hist s' ! ns_pos s' = Some b"
  using a b pos by (simp add: news_step_def fetch_answered_def Let_def drop_nth_def page_shown_plain
      nth_append min_def)

text \<open>A stored list that does not parse, or parses to a truthy non-array, makes
  the dashboard show the loading error message instead of the page.\<close>

lemma news_corrupt_storage_error:
  assumes "load_tasks (ns_storage s) = None" "site ''dashboard'' = Some h" "ph_todo h"
    "i < length (ns_pending s)" "ns_pending s ! i = ''dashboard''"
  shows "\<exists>s'. news_step site (FetchOk i) s = Some s' \<and> ns_content s' = LoadError
           \<and> ns_todo s' = None \<and> ns_active s' = Some ''dashboard''"
  using assms by (simp add: news_step_def fetch_answered_def page_shown_def initTodoList_def)

text \<open>Two tasks added in the same millisecond get the same \<open>Date.now()\<close> id:
  deleting the first deletes both.\<close>

lemma news_same_millisecond_delete:
  assumes "ns_todo s = Some ts" "trim a \<noteq> []" "trim b \<noteq> []"
  shows "\<exists>s'. news_run site [TodoSubmit a, TodoSubmit b, TodoDelete (length ts)] s = Some s'
           \<and> ns_todo s' = Some (deleteTask (jint (int (ns_now s))) ts)"
  using assms by (simp add: news_step_def todo_commit_def deleteTask_def new_todo_def obj_get_def)



text \<open>The earlier copy answers a fetch exactly as the current script does on a
  server none of whose pages has a to-do section.\<close>

lemma page_shown_v1_eq: "\<not> ph_todo h \<Longrightarrow> page_shown_v1 p h s = page_shown p h s"
  by (simp add: page_shown_v1_def page_shown_def Let_def initTodoList_def)

lemma fetch_answered_v1_eq:
  "\<forall>p h. site p = Some h \<longrightarrow> \<not> ph_todo h \<Longrightarrow> fetch_answered_v1 site i s = fetch_answered site i s"
  by (simp add: fetch_answered_v1_def fetch_answered_def Let_def page_shown_v1_eq split: option.split)

section \<open>Witnesses\<close>

theorem carousel_prev_next_witness:
  "car_ok \<lparr>car_index = Some 2, car_total = 3\<rparr> \<and> (0::nat) < 3
   \<and> car_prev (car_next \<lparr>car_index = Some 2, car_total = 3\<rparr>) = \<lparr>car_index = Some 2, car_total = 3\<rparr>"
  using carousel_prev_next [of "\<lparr>car_index = Some 2, car_total = 3\<rparr>"] by (simp add: car_ok_def)

theorem news_todo_storage_mirror_witness:
  "news_reachable demo_site (the (news_run demo_site [NavClick ''dashboard'', FetchOk 1, TodoSubmit '' tarefa '']
      (news_init ''/'' None)))
   \<and> load_tasks (ns_storage (the (news_run demo_site [NavClick ''dashboard'', FetchOk 1, TodoSubmit '' tarefa '']
      (news_init ''/'' None)))) = Some [new_todo 0 ''tarefa'']"
proof -
  have run: "news_run demo_site [NavClick ''dashboard'', FetchOk 1, TodoSubmit '' tarefa ''] (news_init ''/'' None)
      = Some ((news_init ''/'' None)\<lparr>ns_content := Loaded ''<h1>Dashboard</h1>'', ns_active := Some ''dashboard'',
              ns_hist := [None, Some ''dashboard''], ns_pos := 1, ns_pending := [''home''],
              ns_todo := Some [new_todo 0 ''tarefa''], ns_storage := save_tasks [new_todo 0 ''tarefa'']\<rparr>)"
    by (simp add: news_step_def fetch_answered_def page_shown_def initTodoList_def load_tasks_def
        news_init_def initial_page_def demo_site_def drop_nth_def todo_commit_def trim_def is_js_space_def Let_def)
  have reach: "news_reachable demo_site (the (news_run demo_site [NavClick ''dashboard'', FetchOk 1, TodoSubmit '' tarefa '']
      (news_init ''/'' None)))"
    using news_run_reachable [OF news_reachable.init run] by (simp only: run option.sel)
  show ?thesis
    using reach news_todo_storage_mirror [OF reach] by (simp only: run option.sel) simp
qed

theorem news_load_settles_witness:
  "demo_site ''home'' \<noteq> None \<and> 0 < length (ns_pending (news_init ''/contact'' None))
   \<and> (\<exists>s'. news_run demo_site [FetchOk 0, FetchOk 0] (news_init ''/contact'' None) = Some s'
       \<and> ns_pending s' = [] \<and> ns_active s' = Some ''home'')"
  using news_load_settles [of demo_site 0 "news_init ''/contact'' None"]
  by (simp add: demo_site_def news_init_def initial_page_def)

theorem news_missing_home_never_settles_witness:
  "no_site ''home'' = None \<and> \<not> list_ex fetch_failure [FetchOk 0, NavClick ''about'', FetchOk 0]
   \<and> (\<exists>s'. news_run no_site [FetchOk 0, NavClick ''about'', FetchOk 0] (news_init ''/'' None) = Some s'
        \<and> 1 \<le> stuck_loads no_site s')"
proof -
  obtain s' where run: "news_run no_site [FetchOk 0, NavClick ''about'', FetchOk 0] (news_init ''/'' None) = Some s'"
    by (simp add: news_step_def fetch_answered_def no_site_def news_init_def initial_page_def)
  have "stuck_loads no_site (news_init ''/'' None) \<le> stuck_loads no_site s'"
    using news_missing_home_never_settles [OF _ _ run] by (simp add: no_site_def)
  then show ?thesis using run by (simp add: stuck_loads_def no_site_def news_init_def initial_page_def)
qed

end
