(* ===== verification/OnsPages.thy ===== *)
theory OnsPages
  imports Complex_Main Format UsinasRepository
begin

text \<open>
  The overview, energy, solar and wind pages of \<open>src/futuristic-ons-dashboard/app\<close>
  and the \<open>RealtimeGauge\<close> widget they share (\<open>widgets/RealtimeGauge.jsx\<close>). The
  pages render literal tables; what they compute is their KPIs (sums, a rounded
  average), the proportional bars of a per-state or per-region card, the tooltip
  of their charts and the arguments of their gauges. The gauge is a component with
  state: \<open>animatedValue\<close> starts at 0 and a \<open>setTimeout\<close> of 100 ms, re-armed with a
  cleanup whenever the \<open>value\<close> prop changes, sets it to the value.
\<close>

section \<open>RealtimeGauge\<close>

text \<open>The value of an exact decimal.\<close>

definition num_rat :: "num \<Rightarrow> rat" where
  "num_rat n = (case n of Num m e \<Rightarrow> of_int m / of_nat (10 ^ e))"

text \<open>The state of one mounted gauge: the \<open>value\<close> prop of the last render, the
  \<open>animatedValue\<close> hook, and the timeout armed by the effect with the value its
  closure captured (lines 8--13).\<close>

record gauge_state =
  g_value :: num
  g_animated :: num
  g_timer :: "num option"

text \<open>The first render shows 0; the effect then arms the timeout.\<close>

definition gauge_mount :: "num \<Rightarrow> gauge_state" where
  "gauge_mount v = \<lparr>g_value = v, g_animated = int_num 0, g_timer = Some v\<rparr>"

text \<open>A render with a new \<open>value\<close> prop, and the timeout firing. The effect depends on
  \<open>[value]\<close>, compared as numbers: a changed value runs the cleanup
  (\<open>clearTimeout\<close>) and arms a new timeout; an equal one does nothing.\<close>

datatype gauge_event = GaugeProps num | GaugeTimeout

definition gauge_step :: "gauge_event \<Rightarrow> gauge_state \<Rightarrow> gauge_state option" where
  "gauge_step e g = (case e of
      GaugeProps v \<Rightarrow>
        Some (if num_eq v (g_value g) then g\<lparr>g_value := v\<rparr> else g\<lparr>g_value := v, g_timer := Some v\<rparr>)
    | GaugeTimeout \<Rightarrow> (case g_timer g of
        Some w \<Rightarrow> Some (g\<lparr>g_animated := w, g_timer := None\<rparr>)
      | None \<Rightarrow> None))"

inductive gauge_reachable :: "gauge_state \<Rightarrow> bool" where
  mount: "gauge_reachable (gauge_mount v)"
| step: "gauge_reachable g \<Longrightarrow> gauge_step e g = Some g' \<Longrightarrow> gauge_reachable g'"

text \<open>Lines 15--17 and 27--50: the progress circle's dash offset is
  \<open>C - (percentage / 100) * C * 0.75\<close> for the circumference \<open>C\<close>, so the arc drawn
  covers \<open>0.75 * animatedValue / maxValue\<close> of the circle; the background track,
  with offset \<open>C * 0.25\<close>, covers \<open>3/4\<close>. A zero \<open>maxValue\<close> gives \<open>NaN\<close> or
  \<open>Infinity\<close> (\<open>None\<close>).\<close>

definition gauge_arc :: "num \<Rightarrow> num \<Rightarrow> rat option" where
  "gauge_arc animated maxValue =
     (if num_rat maxValue = 0 then None else Some (3 / 4 * (num_rat animated / num_rat maxValue)))"

definition gauge_track :: rat where
  "gauge_track = 3 / 4"

text \<open>The texts of the gauge (lines 53--74): the animated value and the scale's end.\<close>

definition gauge_texts :: "gauge_state \<Rightarrow> num \<Rightarrow> string \<Rightarrow> string list" where
  "gauge_texts g maxValue unit =
     [formatNumber (JNum (g_animated g)), unit, ''0'', formatNumber (JNum maxValue) @ '' '' @ unit]"

section \<open>Shared computations of the pages\<close>

text \<open>\<open>Math.round\<close>: the nearest integer, halves rounded up.\<close>

definition js_round :: "rat \<Rightarrow> int" where
  "js_round x = \<lfloor>x + 1 / 2\<rfloor>"

text \<open>\<open>Math.round(xs.reduce((s, x) => s + x, 0) / xs.length)\<close>; an empty list
  gives \<open>NaN\<close> (\<open>None\<close>).\<close>

definition avg_round :: "int list \<Rightarrow> int option" where
  "avg_round xs = (if xs = [] then None else Some (js_round (of_int (sum_list xs) / of_nat (length xs))))"

text \<open>\<open>(v / 1000).toFixed(1)\<close> for a non-negative integer \<open>v\<close>: the tenths rounded
  half up. On a tie the double nearest to \<open>v / 1000\<close> may lie below it; no value the
  pages print falls on a tie (the literal lists are checked below).\<close>

definition kilo_toFixed1 :: "int \<Rightarrow> string" where
  "kilo_toFixed1 v = show_nat (nat ((v + 50) div 100) div 10) @ ''.'' @ [digit_char (nat ((v + 50) div 100) mod 10)]"

text \<open>The proportional bars of "Capacidade por Estado" (wind page, lines 252--268) and
  "Consumo por Regiao" (energy page, lines 243--262): each row prints its value in
  GW and a bar of width \<open>valor / max * 100\<close> percent, \<open>max\<close> being the largest value.\<close>

definition capacity_bars :: "(string \<times> int \<times> string) list \<Rightarrow> (string \<times> string \<times> rat) list" where
  "capacity_bars rows =
     (let mx = Max (set (map (\<lambda>(e, v, c). v) rows)) in
      map (\<lambda>(e, v, c). (e, kilo_toFixed1 v @ '' GW'', of_int v / of_int mx * 100)) rows)"

text \<open>The total line under the bars: \<open>(rows.reduce((s, r) => s + r.valor, 0) / 1000).toFixed(1)\<close>.\<close>

definition bars_total :: "(string \<times> int \<times> string) list \<Rightarrow> string" where
  "bars_total rows = kilo_toFixed1 (sum_list (map (\<lambda>(e, v, c). v) rows)) @ '' GW''"

text \<open>A gauge placed on a page: title, \<open>value\<close> and \<open>maxValue\<close>.\<close>

type_synonym gauge_use = "string \<times> num \<times> num"

section \<open>The wind page\<close>

text \<open>\<open>app/eolica/page.jsx\<close>: the wind farms (lines 72--81), the capacity per
  state (83--90) and the wind rose (61--70).\<close>

record wind_farm =
  wf_id :: int
  wf_name :: string
  wf_state :: string
  wf_turbines :: int
  wf_capacity :: int
  wf_generation :: int
  wf_windSpeed :: num
  wf_factorCap :: int
  wf_status :: string

definition mk_wf :: "int \<Rightarrow> string \<Rightarrow> string \<Rightarrow> int \<Rightarrow> int \<Rightarrow> int \<Rightarrow> num \<Rightarrow> int \<Rightarrow> string \<Rightarrow> wind_farm" where
  "mk_wf i n st t c g w f stat =
     \<lparr>wf_id = i, wf_name = n, wf_state = st, wf_turbines = t, wf_capacity = c, wf_generation = g,
      wf_windSpeed = w, wf_factorCap = f, wf_status = stat\<rparr>"

definition windFarms :: "wind_farm list" where
  "windFarms =
    [mk_wf 1 ''Complexo Eolico Alto Sertao'' ''BA'' 184 386 312 (Num 84 1) 42 ''online'',
     mk_wf 2 ''Parque Eolico Ventos do Araripe'' ''PE'' 156 354 298 (Num 78 1) 38 ''online'',
     mk_wf 3 ''Complexo Eolico Lagoa dos Ventos'' ''PI'' 230 716 585 (Num 92 1) 45 ''online'',
     mk_wf 4 ''Parque Eolico Tucano'' ''BA'' 120 312 248 (Num 75 1) 36 ''online'',
     mk_wf 5 ''Complexo Eolico Chafariz'' ''PB'' 136 471 395 (Num 88 1) 41 ''online'',
     mk_wf 6 ''Parque Eolico Caetite'' ''BA'' 92 294 210 (Num 68 1) 33 ''maintenance'',
     mk_wf 7 ''Complexo Eolico Trairi'' ''CE'' 108 324 275 (Num 81 1) 39 ''online'',
     mk_wf 8 ''Parque Eolico Santa Luzia'' ''PB'' 78 234 198 (Num 86 1) 43 ''online'']"

definition stateCapacity :: "(string \<times> int \<times> string) list" where
  "stateCapacity =
    [(''BA'', 6800, ''#00b4d8''), (''PI'', 4200, ''#facc15''), (''RN'', 3800, ''#4ade80''),
     (''CE'', 2900, ''#f97316''), (''PB'', 2400, ''#3b82f6''), (''PE'', 1800, ''#a855f7'')]"

definition windRose :: "(string \<times> num) list" where
  "windRose =
    [(''N'', Num 62 1), (''NE'', Num 85 1), (''E'', Num 98 1), (''SE'', Num 82 1),
     (''S'', Num 55 1), (''SO'', Num 42 1), (''O'', Num 38 1), (''NO'', Num 45 1)]"

text \<open>The literal under the wind rose (line 217).\<close>

definition predominant_label :: string where
  "predominant_label = ''Leste (E) - 9.8 m/s''"

text \<open>The four KPIs (lines 113--116): total capacity, generation and turbines, and
  the rounded mean capacity factor.\<close>

record wind_kpis =
  wk_capacity :: int
  wk_generation :: int
  wk_turbines :: int
  wk_factor :: "int option"

definition eolica_kpis :: "wind_farm list \<Rightarrow> wind_kpis" where
  "eolica_kpis fs =
     \<lparr>wk_capacity = sum_list (map wf_capacity fs), wk_generation = sum_list (map wf_generation fs),
      wk_turbines = sum_list (map wf_turbines fs), wk_factor = avg_round (map wf_factorCap fs)\<rparr>"

text \<open>\<open>${x}\<close> of a rounded mean: an integer, or \<open>NaN\<close>.\<close>

definition show_round :: "int option \<Rightarrow> string" where
  "show_round r = (case r of Some i \<Rightarrow> show_int i | None \<Rightarrow> ''NaN'')"

text \<open>The values of the four \<open>StatsCard\<close>s (lines 122--158).\<close>

definition eolica_stat_values :: "wind_kpis \<Rightarrow> string list" where
  "eolica_stat_values k =
     [kilo_toFixed1 (wk_capacity k), formatNumber (jint (wk_generation k)),
      formatNumber (jint (wk_turbines k)), show_round (wk_factor k)]"

text \<open>The gauges of the page (lines 283--286); the factor gauge takes the rounded
  mean, \<open>NaN\<close> for no farm.\<close>

definition eolica_gauges :: "wind_kpis \<Rightarrow> gauge_use list option" where
  "eolica_gauges k = map_option (\<lambda>f.
     [(''Geracao vs Capacidade'', int_num (wk_generation k), int_num (wk_capacity k)),
      (''Vel. Media do Vento'', Num 84 1, int_num 15),
      (''Fator de Capacidade'', int_num f, int_num 100),
      (''Disponibilidade'', int_num 94, int_num 100)]) (wk_factor k)"

text \<open>The farms table (lines 309--348): name, state, turbines, capacity, generation,
  wind speed, the capacity-factor bar with its colour, and the status badge.\<close>

definition factor_color :: "int \<Rightarrow> string" where
  "factor_color f = (if 40 \<le> f then ''#4ade80'' else if 30 \<le> f then ''#facc15'' else ''#f97316'')"

definition status_badge :: "string \<Rightarrow> string \<times> string" where
  "status_badge st =
     (if st = ''online'' then (''bg-[#4ade80]/20 text-[#4ade80]'', ''Online'')
      else (''bg-yellow-500/20 text-yellow-500'', ''Manutencao''))"

definition wind_row :: "wind_farm \<Rightarrow> string list \<times> (int \<times> string) \<times> string \<times> string" where
  "wind_row f =
     ([wf_name f, wf_state f, show_int (wf_turbines f), show_int (wf_capacity f) @ '' MW'',
       show_int (wf_generation f) @ '' MW'', show_num (wf_windSpeed f) @ '' m/s'', show_int (wf_factorCap f) @ ''%''],
      (wf_factorCap f, factor_color (wf_factorCap f)), status_badge (wf_status f))"

text \<open>\<open>CustomTooltip\<close> of the wind page (lines 91--110): \<open>null\<close> (\<open>None\<close>) unless active
  with a non-empty payload; each entry shows its name and its value, a number
  through \<open>formatNumber\<close>, with a unit chosen by its \<open>dataKey\<close>.\<close>

definition eolica_tooltip_unit :: "string \<Rightarrow> string" where
  "eolica_tooltip_unit k =
     (if k = ''velocidade'' \<or> k = ''windSpeed'' then '' m/s'' else if k = ''fatorCap'' then ''%'' else '' MW'')"

fun is_js_number :: "jsval \<Rightarrow> bool" where
  "is_js_number (JNum n) = True"
| "is_js_number v = False"

definition eolica_tooltip :: "bool \<Rightarrow> (string \<times> jsval \<times> string) list \<Rightarrow> (string \<times> string) list option" where
  "eolica_tooltip active payload =
     (if active \<and> payload \<noteq> [] then
        Some (map (\<lambda>(name, v, k). (name @ '':'',
                     (if is_js_number v then formatNumber v else js_string v) @ eolica_tooltip_unit k)) payload)
      else None)"

section \<open>The solar page\<close>

text \<open>\<open>app/solar/page.jsx\<close>: the plants (lines 59--68) and the irradiance per region
  (70--76).\<close>

record solar_plant =
  sp_id :: int
  sp_name :: string
  sp_state :: string
  sp_capacity :: int
  sp_generation :: int
  sp_efficiency :: int
  sp_irradiance :: num
  sp_panels :: int
  sp_area :: int
  sp_status :: string

definition mk_sp ::
  "int \<Rightarrow> string \<Rightarrow> string \<Rightarrow> int \<Rightarrow> int \<Rightarrow> int \<Rightarrow> num \<Rightarrow> int \<Rightarrow> int \<Rightarrow> string \<Rightarrow> solar_plant" where
  "mk_sp i n st c g ef ir pn ar stat =
     \<lparr>sp_id = i, sp_name = n, sp_state = st, sp_capacity = c, sp_generation = g, sp_efficiency = ef,
      sp_irradiance = ir, sp_panels = pn, sp_area = ar, sp_status = stat\<rparr>"

definition solarPlants :: "solar_plant list" where
  "solarPlants =
    [mk_sp 1 ''Parque Solar Nova Olinda'' ''PI'' 292 245 84 (Num 58 1) 850000 690 ''online'',
     mk_sp 2 ''Usina Solar Pirapora'' ''MG'' 321 278 87 (Num 55 1) 1200000 800 ''online'',
     mk_sp 3 ''Parque Solar Bom Jesus da Lapa'' ''BA'' 158 132 84 (Num 59 1) 480000 350 ''online'',
     mk_sp 4 ''Complexo Solar Coremas'' ''PB'' 210 175 83 (Num 57 1) 620000 480 ''online'',
     mk_sp 5 ''UFV Guanambi Solar'' ''BA'' 150 118 79 (Num 56 1) 450000 320 ''maintenance'',
     mk_sp 6 ''Parque Solar Sao Goncalo'' ''PI'' 475 395 83 (Num 59 1) 1420000 1100 ''online'',
     mk_sp 7 ''UFV Janauba'' ''MG'' 180 155 86 (Num 54 1) 540000 390 ''online'',
     mk_sp 8 ''Parque Solar Lapa'' ''BA'' 158 130 82 (Num 58 1) 475000 345 ''online'']"

definition regionIrradiance :: "(string \<times> num \<times> string) list" where
  "regionIrradiance =
    [(''Nordeste'', Num 59 1, ''#facc15''), (''Sudeste'', Num 52 1, ''#f97316''),
     (''Centro-Oeste'', Num 54 1, ''#00b4d8''), (''Norte'', Num 48 1, ''#4ade80''),
     (''Sul'', Num 45 1, ''#3b82f6'')]"

text \<open>"Irradiancia por Regiao" (lines 190--204): the value in kWh/m2 and a bar of
  width \<open>valor / 6.5 * 100\<close> percent, on a fixed scale of 6.5.\<close>

definition irradiance_bars :: "(string \<times> num \<times> string) list \<Rightarrow> (string \<times> string \<times> rat) list" where
  "irradiance_bars rows =
     map (\<lambda>(r, v, c). (r, show_num v @ '' kWh/m2'', num_rat v / (13 / 2) * 100)) rows"

text \<open>The KPIs (lines 99--101) and the values of the four \<open>StatsCard\<close>s (107--144);
  the irradiance card is a literal.\<close>

record solar_kpis =
  sk_capacity :: int
  sk_generation :: int
  sk_efficiency :: "int option"

definition solar_kpis_of :: "solar_plant list \<Rightarrow> solar_kpis" where
  "solar_kpis_of ps =
     \<lparr>sk_capacity = sum_list (map sp_capacity ps), sk_generation = sum_list (map sp_generation ps),
      sk_efficiency = avg_round (map sp_efficiency ps)\<rparr>"

definition solar_stat_values :: "solar_kpis \<Rightarrow> string list" where
  "solar_stat_values k =
     [formatNumber (jint (sk_capacity k)), formatNumber (jint (sk_generation k)), ''5.6'', show_round (sk_efficiency k)]"

text \<open>The gauge under the irradiance card (line 211).\<close>

definition solar_gauges :: "solar_kpis \<Rightarrow> gauge_use list" where
  "solar_gauges k = [(''Geracao Atual vs Pico'', int_num (sk_generation k), int_num (sk_capacity k))]"

text \<open>The plants table (lines 259--299): the efficiency bar is green from 85, yellow
  from 80; the panels column is \<open>(panels / 1000).toFixed(0)\<close> thousands.\<close>

definition efficiency_color :: "int \<Rightarrow> string" where
  "efficiency_color f = (if 85 \<le> f then ''#4ade80'' else if 80 \<le> f then ''#facc15'' else ''#f97316'')"

definition kilo_toFixed0 :: "int \<Rightarrow> string" where
  "kilo_toFixed0 v = show_int ((v + 500) div 1000)"

definition solar_row :: "solar_plant \<Rightarrow> string list \<times> (int \<times> string) \<times> string \<times> string" where
  "solar_row p =
     ([sp_name p, sp_state p @ '' - '' @ show_int (sp_area p) @ '' ha'', show_int (sp_capacity p) @ '' MW'',
       show_int (sp_generation p) @ '' MW'', show_int (sp_efficiency p) @ ''%'',
       show_num (sp_irradiance p) @ '' kWh/m2'', kilo_toFixed0 (sp_panels p) @ ''k''],
      (sp_efficiency p, efficiency_color (sp_efficiency p)), status_badge (sp_status p))"

text \<open>\<open>CustomTooltip\<close> of the solar page (lines 79--96): irradiance in W/m2 as
  \<open>${value}\<close>, everything else through \<open>formatNumber\<close> in MW.\<close>

definition solar_tooltip :: "bool \<Rightarrow> (string \<times> jsval \<times> string) list \<Rightarrow> (string \<times> string) list option" where
  "solar_tooltip active payload =
     (if active \<and> payload \<noteq> [] then
        Some (map (\<lambda>(name, v, k). (name @ '':'',
                     if k = ''irradiancia'' then js_string v @ '' W/m2'' else formatNumber v @ '' MW'')) payload)
      else None)"

section \<open>The energy and overview pages\<close>

text \<open>\<open>app/energia/page.jsx\<close>: the consumption per region (lines 51--57), shown by
  the same bars as the wind page's states, and the four gauges (275--278).\<close>

definition regionData :: "(string \<times> int \<times> string) list" where
  "regionData =
    [(''Sudeste'', 45200, ''#00b4d8''), (''Sul'', 15700, ''#4ade80''), (''Nordeste'', 18300, ''#facc15''),
     (''Norte'', 12500, ''#f97316''), (''Centro-Oeste'', 9800, ''#3b82f6'')]"

definition energia_gauges :: "gauge_use list" where
  "energia_gauges =
    [(''Carga do Sistema'', int_num 74892, int_num 100000), (''Reserva Operativa'', int_num 8500, int_num 15000),
     (''Frequencia'', int_num 60, int_num 62), (''Fator de Carga'', int_num 87, int_num 100)]"

text \<open>\<open>app/page.jsx\<close>: the overview's gauge row (lines 67--96).\<close>

definition overview_gauges :: "gauge_use list" where
  "overview_gauges =
    [(''Carga do Sistema'', int_num 74892, int_num 100000), (''Reserva Operativa'', int_num 8500, int_num 15000),
     (''Freq. do Sistema'', int_num 60, int_num 62), (''Fator de Carga'', int_num 87, int_num 100)]"

text \<open>Every gauge the four pages place, from their data.\<close>

definition ons_page_gauges :: "gauge_use list option" where
  "ons_page_gauges =
     map_option (\<lambda>wg. overview_gauges @ energia_gauges @ solar_gauges (solar_kpis_of solarPlants) @ wg)
       (eolica_gauges (eolica_kpis windFarms))"

section \<open>Invariant\<close>

text \<open>A pending timeout carries the current prop; with none pending, the gauge shows it.\<close>

definition gauge_inv :: "gauge_state \<Rightarrow> bool" where
  "gauge_inv g \<longleftrightarrow> (case g_timer g of Some w \<Rightarrow> num_eq w (g_value g) | None \<Rightarrow> num_eq (g_animated g) (g_value g))"

section \<open>Properties\<close>


text \<open>Two decimals are \<open>===\<close> exactly when they denote the same number.\<close>

lemma num_eq_rat: "num_eq a b \<longleftrightarrow> num_rat a = num_rat b"
proof (cases a; cases b)
  fix m e n f assume ab: "a = Num m e" "b = Num n f"
  have "(of_int m / of_nat (10 ^ e) :: rat) = of_int n / of_nat (10 ^ f)
        \<longleftrightarrow> (of_int m * of_nat (10 ^ f) :: rat) = of_int n * of_nat (10 ^ e)"
    by (simp add: field_simps)
  also have "\<dots> \<longleftrightarrow> m * 10 ^ f = n * 10 ^ e"
    by (metis (mono_tags) of_int_eq_iff of_int_mult of_int_of_nat_eq of_nat_numeral of_nat_power of_int_numeral of_int_power)
  finally show ?thesis using ab by (simp add: num_rat_def)
qed

lemma gauge_step_inv: "gauge_inv g \<Longrightarrow> gauge_step e g = Some g' \<Longrightarrow> gauge_inv g'"
  by (cases e) (auto simp: gauge_step_def gauge_inv_def num_eq_rat split: option.splits if_splits)

lemma gauge_reachable_inv: "gauge_reachable g \<Longrightarrow> gauge_inv g"
proof (induction rule: gauge_reachable.induct)
  case (mount v) then show ?case by (simp add: gauge_mount_def gauge_inv_def)
next
  case (step g e g') then show ?case using gauge_step_inv by blast
qed

text \<open>C27. The gauge never shows a superseded value: in every reachable state of a
  mounted \<open>RealtimeGauge\<close>, when the pending timeout fires, \<open>animatedValue\<close> becomes
  the current \<open>value\<close> prop, since each change of the prop clears the old timeout
  and arms one with the new value.\<close>

theorem gauge_timeout_current:
  "gauge_reachable g \<Longrightarrow> gauge_step GaugeTimeout g = Some g' \<Longrightarrow> num_rat (g_animated g') = num_rat (g_value g')"
  using gauge_reachable_inv [of g]
  by (auto simp: gauge_step_def gauge_inv_def num_eq_rat split: option.splits)

text \<open>For a positive \<open>maxValue\<close>, the progress arc lies within the background
  track exactly when \<open>0 \<le> value \<le> maxValue\<close>; a larger value draws past the end of the
  track, since the percentage is not clamped.\<close>

lemma gauge_arc_within_track:
  assumes "0 < num_rat m"
  shows "\<exists>f. gauge_arc a m = Some f \<and> (0 \<le> f \<longleftrightarrow> 0 \<le> num_rat a) \<and> (f \<le> gauge_track \<longleftrightarrow> num_rat a \<le> num_rat m)"
  using assms by (simp add: gauge_arc_def gauge_track_def zero_le_mult_iff zero_le_divide_iff pos_divide_le_eq)

text \<open>\<open>Math.round\<close> of a quotient in integer arithmetic.\<close>

lemma js_round_div:
  assumes "0 < n"
  shows "js_round (of_int s / of_nat n) = (2 * s + int n) div (2 * int n)"
proof -
  have "of_int s / of_nat n + 1 / 2 = (of_int (2 * s + int n) / of_int (2 * int n) :: rat)"
    using assms by (simp add: field_simps)
  then show ?thesis by (simp only: js_round_def floor_divide_of_int_eq)
qed

lemma avg_round_div:
  "xs \<noteq> [] \<Longrightarrow> avg_round xs = Some ((2 * sum_list xs + int (length xs)) div (2 * int (length xs)))"
  by (simp add: avg_round_def js_round_div)

text \<open>The wind page's cards: 3.1 GW installed, 2.521 MW generated, 1.104 turbines and
  a mean capacity factor of 40 percent (317 / 8 = 39.625).\<close>

lemma eolica_stats:
  "eolica_stat_values (eolica_kpis windFarms) = [''3.1'', ''2.521'', ''1.104'', ''40'']"
  by (simp add: eolica_stat_values_def eolica_kpis_def windFarms_def mk_wf_def avg_round_div
      kilo_toFixed1_def show_round_def formatNumber_def thousandths_def Let_def group_thousands_def
      show_int_def show_nat_eval digit_char_def)


text \<open>The solar page's cards: 1.944 MW installed, 1.628 MW generated, the literal
  5.6 and a mean efficiency of 84 percent: \<open>Math.round(83.5)\<close> rounds the half up.\<close>

lemma solar_stats:
  "solar_stat_values (solar_kpis_of solarPlants) = [''1.944'', ''1.628'', ''5.6'', ''84'']"
  by (simp add: solar_stat_values_def solar_kpis_of_def solarPlants_def mk_sp_def avg_round_div
      show_round_def formatNumber_def thousandths_def Let_def group_thousands_def show_int_def show_nat_eval)

text \<open>C38. The proportional bars of the wind and energy pages: for a non-empty table
  of positive values every bar's width lies in \<open>(0, 100]\<close> percent, and a row
  holding the maximum is drawn at exactly 100 percent.\<close>

theorem capacity_bars_bounds:
  assumes ne: "rows \<noteq> []" and pos: "list_all (\<lambda>(e, v, c). 0 < v) rows"
  shows "list_all (\<lambda>(e, t, w). 0 < w \<and> w \<le> 100) (capacity_bars rows)
         \<and> (\<exists>e t. (e, t, 100) \<in> set (capacity_bars rows))"
proof -
  define vs where "vs = map (\<lambda>(e, v, c). v) rows"
  define M where "M = Max (set vs)"
  have mem: "\<And>e v c. (e, v, c) \<in> set rows \<Longrightarrow> v \<in> set vs" by (force simp: vs_def)
  have fin: "finite (set vs)" "set vs \<noteq> {}" using ne by (auto simp: vs_def)
  then have M_in: "M \<in> set vs" and le: "\<And>v. v \<in> set vs \<Longrightarrow> v \<le> M" by (simp_all add: M_def)
  have vpos: "\<And>v. v \<in> set vs \<Longrightarrow> 0 < v" using pos by (auto simp: vs_def list_all_iff)
  then have Mpos: "0 < M" using M_in by blast
  have w: "\<And>v. v \<in> set vs \<Longrightarrow> 0 < (of_int v / of_int M * 100 :: rat) \<and> of_int v / of_int M * 100 \<le> (100 :: rat)"
  proof -
    fix v assume v: "v \<in> set vs"
    have "(of_int v :: rat) \<le> of_int M" using le [OF v] by simp
    then show "0 < (of_int v / of_int M * 100 :: rat) \<and> of_int v / of_int M * 100 \<le> (100 :: rat)"
      using vpos [OF v] Mpos by (simp add: pos_divide_le_eq)
  qed
  have bars: "capacity_bars rows = map (\<lambda>(e, v, c). (e, kilo_toFixed1 v @ '' GW'', of_int v / of_int M * 100)) rows"
    by (simp add: capacity_bars_def M_def vs_def)
  obtain e c where ec: "(e, M, c) \<in> set rows" using M_in by (auto simp: vs_def)
  have "(e, kilo_toFixed1 M @ '' GW'', 100) \<in> set (capacity_bars rows)"
    using bars ec Mpos by force
  moreover have "list_all (\<lambda>(e, t, w). 0 < w \<and> w \<le> 100) (capacity_bars rows)"
    using w mem by (auto simp: bars list_all_iff)
  ultimately show ?thesis by blast
qed

text \<open>All thirteen gauges of the four pages get a value between 0 and a positive
  maximum, so none of their arcs leaves its track.\<close>

lemma ons_gauges_in_range:
  "\<exists>gs. ons_page_gauges = Some gs \<and> length gs = 13
     \<and> list_all (\<lambda>(t, v, m). 0 < num_rat m \<and> 0 \<le> num_rat v \<and> num_rat v \<le> num_rat m) gs"
  by (simp add: ons_page_gauges_def eolica_gauges_def eolica_kpis_def windFarms_def mk_wf_def avg_round_div
      solar_gauges_def solar_kpis_of_def solarPlants_def mk_sp_def energia_gauges_def overview_gauges_def num_rat_def)

text \<open>The solar page's fixed 6.5 scale holds its literal irradiances.\<close>

lemma irradiance_bars_within:
  "list_all (\<lambda>(r, t, w). 0 < w \<and> w \<le> 100) (irradiance_bars regionIrradiance)"
  by (simp add: irradiance_bars_def regionIrradiance_def num_rat_def)

text \<open>The wind and solar pages do not read the repositories: their totals (3091 and
  1944 MW installed) differ from the summaries of \<open>/api/usinas\<close> (3204 and 2015 MW),
  and their status values (\<open>online\<close>, \<open>maintenance\<close>) are not the repositories'
  (\<open>operando\<close>, \<open>manutencao\<close>).\<close>

lemma pages_disagree_with_api:
  "wk_capacity (eolica_kpis windFarms) = 3091 \<and> eo_totalCapacidade (uer_getSummary new_usinas_eolicas_repository) = 3204
   \<and> sk_capacity (solar_kpis_of solarPlants) = 1944 \<and> ss_totalCapacidade (usr_getSummary new_usinas_solares_repository) = 2015
   \<and> set (map wf_status windFarms) \<inter> set (map pe_status (uer_parques new_usinas_eolicas_repository)) = {}"
  by (simp add: eolica_kpis_def windFarms_def mk_wf_def solar_kpis_of_def solarPlants_def mk_sp_def
      uer_getSummary_def usr_getSummary_def usinas_seed)


section \<open>Witnesses\<close>

theorem gauge_timeout_current_witness:
  "gauge_reachable (gauge_mount (int_num 5))
   \<and> gauge_step GaugeTimeout (gauge_mount (int_num 5))
       = Some \<lparr>g_value = int_num 5, g_animated = int_num 5, g_timer = None\<rparr>
   \<and> num_rat (g_animated \<lparr>g_value = int_num 5, g_animated = int_num 5, g_timer = None\<rparr>)
       = num_rat (g_value \<lparr>g_value = int_num 5, g_animated = int_num 5, g_timer = None\<rparr>)"
proof -
  have st: "gauge_step GaugeTimeout (gauge_mount (int_num 5))
      = Some \<lparr>g_value = int_num 5, g_animated = int_num 5, g_timer = None\<rparr>"
    by (simp add: gauge_step_def gauge_mount_def)
  show ?thesis
    using gauge_timeout_current [OF gauge_reachable.mount st] st gauge_reachable.mount by blast
qed

theorem capacity_bars_bounds_witness:
  "stateCapacity \<noteq> [] \<and> list_all (\<lambda>(e, v, c). 0 < v) stateCapacity
   \<and> list_all (\<lambda>(e, t, w). 0 < w \<and> w \<le> 100) (capacity_bars stateCapacity)
   \<and> (\<exists>e t. (e, t, 100) \<in> set (capacity_bars stateCapacity))"
proof -
  have h: "stateCapacity \<noteq> []" "list_all (\<lambda>(e, v, c). 0 < v) stateCapacity"
    by (simp_all add: stateCapacity_def)
  show ?thesis using capacity_bars_bounds [OF h] h by blast
qed

end
