(* ===== verification/OnsWidgets.thy ===== *)
theory OnsWidgets
  imports OnsPages TransmissaoPage
begin

text \<open>
  Three widgets of \<open>src/futuristic-ons-dashboard/widgets\<close> placed on the overview
  page: \<open>PowerPlantList.jsx\<close>, \<open>AlertsPanel.jsx\<close> and \<open>TransmissionMap.jsx\<close>. Each
  renders a literal table; a row looks its type up in a configuration object, and
  a missing entry makes \<open>config.icon\<close> throw (\<open>None\<close>). Icons are left out; a
  row is given by its texts and the classes and colours that depend on its data.
  Strings are the UTF-8 bytes of the source text: a letter outside ASCII, such
  as \<open>o\<close> with an acute accent, is its two bytes \<open>CHR 0xC3, CHR 0xB3\<close>.
\<close>

section \<open>PowerPlantList\<close>

text \<open>The plants (lines 8--75) and \<open>typeConfig\<close> (77--83), as colour and label.\<close>

record power_plant =
  pl_id :: int
  pl_name :: string
  pl_type :: string
  pl_state :: string
  pl_capacity :: int
  pl_generation :: int
  pl_efficiency :: int
  pl_trend :: string
  pl_status :: string

definition mk_pl ::
  "int \<Rightarrow> string \<Rightarrow> string \<Rightarrow> string \<Rightarrow> int \<Rightarrow> int \<Rightarrow> int \<Rightarrow> string \<Rightarrow> string \<Rightarrow> power_plant" where
  "mk_pl i n ty st c g ef tr stat =
     \<lparr>pl_id = i, pl_name = n, pl_type = ty, pl_state = st, pl_capacity = c, pl_generation = g,
      pl_efficiency = ef, pl_trend = tr, pl_status = stat\<rparr>"

definition powerPlants :: "power_plant list" where
  "powerPlants =
    [mk_pl 1 ''Parque Solar Nova Olinda'' ''solar'' ''PI'' 292 245 84 ''up'' ''online'',
     mk_pl 2 (''Complexo E'' @ [CHR 0xC3, CHR 0xB3] @ ''lico Alto Sert'' @ [CHR 0xC3, CHR 0xA3] @ ''o'') ''wind'' ''BA'' 386 312 81 ''up'' ''online'',
     mk_pl 3 ''UHE Belo Monte'' ''hydro'' ''PA'' 11233 8450 75 ''down'' ''online'',
     mk_pl 4 (''Parque E'' @ [CHR 0xC3, CHR 0xB3] @ ''lico Ventos do Araripe'') ''wind'' ''PE'' 354 298 84 ''up'' ''online'',
     mk_pl 5 ''Usina Solar Pirapora'' ''solar'' ''MG'' 321 278 87 ''up'' ''online'',
     mk_pl 6 ''UTE Biomassa Jalles'' ''biomass'' ''GO'' 175 142 81 ''down'' ''maintenance'']"

definition typeConfig :: "(string \<times> string \<times> string) list" where
  "typeConfig =
    [(''solar'', ''#facc15'', ''Solar''), (''wind'', ''#00b4d8'', (''E'' @ [CHR 0xC3, CHR 0xB3] @ ''lica'')),
     (''hydro'', ''#3b82f6'', (''Hidrel'' @ [CHR 0xC3, CHR 0xA9] @ ''trica'')), (''biomass'', ''#4ade80'', ''Biomassa''),
     (''nuclear'', ''#a855f7'', ''Nuclear'')]"

text \<open>A row of the table (lines 109--189): name and state, the type's label and
  colour, capacity and generation through \<open>formatNumber\<close>, the trend icon, the
  efficiency bar (green from 80, yellow from 60, red below) and the status badge.\<close>

definition plant_efficiency_color :: "int \<Rightarrow> string" where
  "plant_efficiency_color e = (if 80 \<le> e then ''#4ade80'' else if 60 \<le> e then ''#facc15'' else ''#f87171'')"

definition manutencao :: string where
  "manutencao = ''Manuten'' @ [CHR 0xC3, CHR 0xA7, CHR 0xC3, CHR 0xA3] @ ''o''"

definition plant_row :: "power_plant \<Rightarrow> (string list \<times> string \<times> string \<times> string) option" where
  "plant_row p = map_option (\<lambda>(color, label).
     ([pl_name p, pl_state p, label, formatNumber (jint (pl_capacity p)) @ '' MW'',
       formatNumber (jint (pl_generation p)) @ '' MW'', show_int (pl_efficiency p) @ ''%'',
       if pl_status p = ''online'' then ''Online'' else manutencao],
      color, if pl_trend p = ''up'' then ''TrendingUp'' else ''TrendingDown'', plant_efficiency_color (pl_efficiency p)))
     (map_of typeConfig (pl_type p))"

definition plant_rows :: "power_plant list \<Rightarrow> (string list \<times> string \<times> string \<times> string) list option" where
  "plant_rows ps = those (map plant_row ps)"

section \<open>AlertsPanel\<close>

text \<open>The alerts (lines 7--40) and \<open>alertConfig\<close> (42--71), as background, border,
  icon and dot classes.\<close>

record alert =
  al_id :: int
  al_type :: string
  al_title :: string
  al_message :: string
  al_time :: string
  al_region :: string

definition alerts :: "alert list" where
  "alerts =
    [\<lparr>al_id = 1, al_type = ''critical'', al_title = ''Sobrecarga na Linha Norte-CO'',
      al_message = ''Capacidade em 92% - A'' @ [CHR 0xC3, CHR 0xA7, CHR 0xC3, CHR 0xA3] @ ''o imediata necess'' @ [CHR 0xC3, CHR 0xA1] @ ''ria'',
      al_time = ''2 min atr'' @ [CHR 0xC3, CHR 0xA1] @ ''s'', al_region = ''Norte''\<rparr>,
     \<lparr>al_id = 2, al_type = ''warning'', al_title = ''Alta Demanda Prevista'',
      al_message = ''Pico esperado '' @ [CHR 0xC3, CHR 0xA0] @ ''s 19h - Regi'' @ [CHR 0xC3, CHR 0xA3] @ ''o Sudeste'',
      al_time = ''15 min atr'' @ [CHR 0xC3, CHR 0xA1] @ ''s'', al_region = ''Sudeste''\<rparr>,
     \<lparr>al_id = 3, al_type = ''info'', al_title = manutencao @ '' Programada'',
      al_message = ''UTE Biomassa Jalles - Retorno em 4h'',
      al_time = ''1h atr'' @ [CHR 0xC3, CHR 0xA1] @ ''s'', al_region = ''Centro-Oeste''\<rparr>,
     \<lparr>al_id = 4, al_type = ''success'', al_title = ''Usina Solar Reconectada'',
      al_message = ''Parque Solar Nova Olinda operando normalmente'',
      al_time = ''2h atr'' @ [CHR 0xC3, CHR 0xA1] @ ''s'', al_region = ''Nordeste''\<rparr>]"

definition alertConfig :: "(string \<times> string \<times> string \<times> string \<times> string) list" where
  "alertConfig =
    [(''critical'', ''bg-red-500/10'', ''border-red-500/30'', ''text-red-500'', ''bg-red-500''),
     (''warning'', ''bg-yellow-500/10'', ''border-yellow-500/30'', ''text-yellow-500'', ''bg-yellow-500''),
     (''info'', ''bg-[#00b4d8]/10'', ''border-[#00b4d8]/30'', ''text-[#00b4d8]'', ''bg-[#00b4d8]''),
     (''success'', ''bg-[#4ade80]/10'', ''border-[#4ade80]/30'', ''text-[#4ade80]'', ''bg-[#4ade80]'')]"

text \<open>The badge next to the title counts the critical alerts (line 80); a row
  (lines 89--127) shows title, message, time and region with its type's classes.\<close>

definition critical_count :: "alert list \<Rightarrow> nat" where
  "critical_count as = length (filter (\<lambda>a. al_type a = ''critical'') as)"

definition alert_row :: "alert \<Rightarrow> (string list \<times> string \<times> string) option" where
  "alert_row a = map_option (\<lambda>(bg, border, icon, dot).
     ([al_title a, al_message a, al_time a, al_region a], cn [''p-4 rounded-lg border transition-all duration-200 hover:scale-[1.02]'', bg, border], dot))
     (map_of alertConfig (al_type a))"

definition alert_rows :: "alert list \<Rightarrow> (string list \<times> string \<times> string) list option" where
  "alert_rows as = those (map alert_row as)"

section \<open>TransmissionMap\<close>

text \<open>The lines (lines 6--12) and regions (14--20) of the widget.\<close>

record tm_line =
  tl_id :: int
  tl_from :: string
  tl_to :: string
  tl_capacity :: int
  tl_load :: int
  tl_status :: string

definition tm_lines :: "tm_line list" where
  "tm_lines =
    [\<lparr>tl_id = 1, tl_from = ''Norte'', tl_to = ''Nordeste'', tl_capacity = 4500, tl_load = 78, tl_status = ''normal''\<rparr>,
     \<lparr>tl_id = 2, tl_from = ''Nordeste'', tl_to = ''Sudeste'', tl_capacity = 8000, tl_load = 85, tl_status = ''high''\<rparr>,
     \<lparr>tl_id = 3, tl_from = ''Sudeste'', tl_to = ''Sul'', tl_capacity = 6000, tl_load = 62, tl_status = ''normal''\<rparr>,
     \<lparr>tl_id = 4, tl_from = ''Centro-Oeste'', tl_to = ''Sudeste'', tl_capacity = 5500, tl_load = 71, tl_status = ''normal''\<rparr>,
     \<lparr>tl_id = 5, tl_from = ''Norte'', tl_to = ''Centro-Oeste'', tl_capacity = 3500, tl_load = 92, tl_status = ''critical''\<rparr>]"

definition tm_regions :: "(string \<times> int \<times> int \<times> string) list" where
  "tm_regions =
    [(''Norte'', 25, 15, ''12.5 GW''), (''Nordeste'', 70, 20, ''18.3 GW''), (''Centro-Oeste'', 40, 45, ''9.8 GW''),
     (''Sudeste'', 65, 60, ''45.2 GW''), (''Sul'', 50, 85, ''15.7 GW'')]"

text \<open>The two colour functions of the component (lines 23--35).\<close>

definition getStatusColor :: "string \<Rightarrow> string" where
  "getStatusColor st =
     (if st = ''critical'' then ''text-red-500 bg-red-500/20''
      else if st = ''high'' then ''text-yellow-500 bg-yellow-500/20''
      else ''text-[#4ade80] bg-[#4ade80]/20'')"

definition map_load_color :: "int \<Rightarrow> string" where
  "map_load_color load = (if 90 \<le> load then ''#ef4444'' else if 75 \<le> load then ''#facc15'' else ''#4ade80'')"

text \<open>\<open>s.replace(a, b)\<close> with a string pattern: the first occurrence only.\<close>

fun replace_first :: "string \<Rightarrow> string \<Rightarrow> string \<Rightarrow> string" where
  "replace_first a b [] = (if a = [] then b else [])"
| "replace_first a b (c # cs) = (if take (length a) (c # cs) = a then b @ drop (length a) (c # cs) else c # replace_first a b cs)"

text \<open>The dot of a line (line 115):
  \<open>getStatusColor(status).split(' ')[0].replace('text-', 'bg-')\<close>.\<close>

definition status_dot :: "string \<Rightarrow> string" where
  "status_dot st = replace_first ''text-'' ''bg-'' (hd (split_on CHR '' '' (getStatusColor st)))"

text \<open>The legend's three dots (lines 41--54) with their labels.\<close>

definition tm_legend :: "(string \<times> string) list" where
  "tm_legend = [(''bg-[#4ade80]'', ''Normal''), (''bg-yellow-500'', ''Alto''), (''bg-red-500'', ''Cr'' @ [CHR 0xC3, CHR 0xAD] @ ''tico'')]"

text \<open>The connection lines drawn in the SVG (lines 61--65), with their literal strokes.\<close>

definition tm_svg_lines :: "(int \<times> int \<times> int \<times> int \<times> string) list" where
  "tm_svg_lines =
    [(25, 15, 70, 20, ''#1e293b''), (70, 20, 65, 60, ''#facc15''), (65, 60, 50, 85, ''#1e293b''),
     (40, 45, 65, 60, ''#1e293b''), (25, 15, 40, 45, ''#ef4444'')]"

text \<open>A row of the lines list (lines 109--137) and a region label (95--103).\<close>

definition tm_line_row :: "tm_line \<Rightarrow> string \<times> string list \<times> int \<times> string" where
  "tm_line_row l =
     (status_dot (tl_status l), [tl_from l @ '' '' @ [CHR 0xE2, CHR 0x86, CHR 0x92] @ '' '' @ tl_to l, show_int (tl_capacity l) @ '' MW'',
       show_int (tl_load l) @ ''%''], tl_load l, map_load_color (tl_load l))"

definition tm_region_label :: "string \<times> int \<times> int \<times> string \<Rightarrow> int \<times> int \<times> string list" where
  "tm_region_label r = (case r of (n, x, y, pw) \<Rightarrow> (x, y + 8, [n, pw]))"

section \<open>Properties\<close>


text \<open>Every plant's type is in \<open>typeConfig\<close>, so the table renders its six rows.\<close>

lemma plant_rows_defined: "\<exists>rs. plant_rows powerPlants = Some rs \<and> length rs = 6"
  by (simp add: plant_rows_def powerPlants_def plant_row_def typeConfig_def mk_pl_def)

text \<open>A plant of a type outside \<open>typeConfig\<close> (such as a thermal plant) makes the
  whole list throw.\<close>

lemma plant_row_unknown_type: "pl_type p \<notin> fst ` set typeConfig \<Longrightarrow> plant_row p = None"
  by (simp add: plant_row_def map_of_eq_None_iff)

text \<open>The solar and wind plants the list shares with the solar and wind pages have
  the same capacity and generation there.\<close>

lemma plants_agree_with_pages:
  "map (\<lambda>i. (pl_capacity (powerPlants ! i), pl_generation (powerPlants ! i))) [0, 1, 3, 4]
   = [(sp_capacity (solarPlants ! 0), sp_generation (solarPlants ! 0)), (wf_capacity (windFarms ! 0), wf_generation (windFarms ! 0)),
      (wf_capacity (windFarms ! 1), wf_generation (windFarms ! 1)), (sp_capacity (solarPlants ! 1), sp_generation (solarPlants ! 1))]"
  by (simp add: powerPlants_def solarPlants_def windFarms_def mk_pl_def mk_sp_def mk_wf_def)

text \<open>One critical alert; every alert's type has its configuration.\<close>

lemma alerts_rendered: "critical_count alerts = 1 \<and> (\<exists>rs. alert_rows alerts = Some rs \<and> length rs = 4)"
  by (simp add: critical_count_def alerts_def alert_rows_def alert_row_def alertConfig_def)

text \<open>The dot computed from \<open>getStatusColor\<close> by \<open>split\<close> and \<open>replace\<close> is the
  legend's dot of the status: red for critical, yellow for high, green otherwise.\<close>

lemma status_dot_legend:
  "status_dot st = (if st = ''critical'' then ''bg-red-500'' else if st = ''high'' then ''bg-yellow-500'' else ''bg-[#4ade80]'')"
  by (simp add: status_dot_def getStatusColor_def)

lemma status_dot_in_legend: "status_dot st \<in> fst ` set tm_legend"
  by (simp add: status_dot_legend tm_legend_def)

text \<open>The widget's \<open>getLoadColor\<close> is the transmission page's.\<close>

lemma map_load_color_eq: "map_load_color = getLoadColor"
  by (simp add: fun_eq_iff map_load_color_def getLoadColor_def)

text \<open>The map's literal strokes disagree with the lines' loads: the Norte--Nordeste
  line (load 78) is drawn in the neutral colour, although its load bar is yellow, and
  its status is \<open>normal\<close>.\<close>

lemma tm_svg_strokes_vs_loads:
  "map (\<lambda>l. map_load_color (tl_load l)) tm_lines = [''#facc15'', ''#facc15'', ''#4ade80'', ''#4ade80'', ''#ef4444'']
   \<and> map (\<lambda>(x1, y1, x2, y2, c). c) tm_svg_lines = [''#1e293b'', ''#facc15'', ''#1e293b'', ''#1e293b'', ''#ef4444'']
   \<and> map tl_status tm_lines = [''normal'', ''high'', ''normal'', ''normal'', ''critical'']"
  by (simp add: map_load_color_def tm_lines_def tm_svg_lines_def)

text \<open>The powers printed on the map's regions are the energy page's regional bars.\<close>

lemma tm_regions_match_energia:
  "set (map (\<lambda>(n, x, y, pw). (n, pw)) tm_regions) = set (map (\<lambda>(r, t, w). (r, t)) (capacity_bars regionData))"
  by (simp add: tm_regions_def capacity_bars_def regionData_def kilo_toFixed1_def show_nat_eval digit_char_def insert_commute)


end
