(* ===== verification/DashboardShell.thy ===== *)
theory DashboardShell
  imports NewsSite
begin

text \<open>
  \<open>src/dashboard-ui-template/src/app/dashboard/layout.js\<close>: the shell around every
  dashboard page. \<open>DashboardLayout\<close> holds the sidebar flag and the theme, read from
  \<open>localStorage\<close> (or the colour-scheme preference) and written back by an effect;
  its child \<open>NotificationsButton\<close> fetches \<open>/backend/dashboard.json\<close>, keeps the
  notifications in \<open>localStorage\<close> and counts the unread ones. Mounting runs the
  effects of one commit in React's order: the child's before the parent's, each
  component's in declaration order; a \<open>setState\<close> in an effect takes effect in the
  next commit, whose effects run only where a dependency changed. Property reads and
  object spreads of list elements are those of \<open>NewsSite\<close> (\<open>task_prop\<close>,
  \<open>spread\<close>).
\<close>

section \<open>Theme\<close>

text \<open>\<open>getInitialTheme\<close> (lines 19--24) in the browser: a saved \<open>dark\<close> or \<open>light\<close>,
  otherwise the \<open>prefers-color-scheme\<close> query (false when \<open>matchMedia\<close> is absent).\<close>

definition getInitialTheme :: "string option \<Rightarrow> bool \<Rightarrow> string" where
  "getInitialTheme saved prefersDark =
     (case saved of
        Some t \<Rightarrow> if t = ''dark'' \<or> t = ''light'' then t else if prefersDark then ''dark'' else ''light''
      | None \<Rightarrow> if prefersDark then ''dark'' else ''light'')"

definition toggle_theme :: "string \<Rightarrow> string" where
  "toggle_theme t = (if t = ''dark'' then ''light'' else ''dark'')"

section \<open>State\<close>

text \<open>The browser's storage and root element, and the two components' hooks. The
  fetch of the notifications is pending from the mount until it answers; the
  \<open>mounted\<close> flag of its closure is the component being mounted.\<close>

record shell_state =
  st_theme :: "string option"
  st_notifs :: "stored option"
  root_dark :: bool
  prefers_dark :: bool
  pathname :: string
  sidebarOpen :: bool
  theme :: string
  notif_open :: bool
  items :: "jsval list"
  notif_fetch :: bool

text \<open>The theme effect (lines 35--42): the \<open>dark\<close> class and the saved theme follow
  \<open>theme\<close>.\<close>

definition apply_theme :: "shell_state \<Rightarrow> shell_state" where
  "apply_theme s = s\<lparr>root_dark := (theme s = ''dark''), st_theme := Some (theme s)\<rparr>"

text \<open>The save effect of the notifications (lines 164--167).\<close>

definition save_notifs :: "shell_state \<Rightarrow> shell_state" where
  "save_notifs s = s\<lparr>st_notifs := Some (StoredJson (JArr (items s)))\<rparr>"

text \<open>A change of \<open>items\<close>: the new list and, in the next commit, its save effect.\<close>

definition set_items :: "jsval list \<Rightarrow> shell_state \<Rightarrow> shell_state" where
  "set_items xs s = save_notifs (s\<lparr>items := xs\<rparr>)"

text \<open>Mounting the layout (a load of any dashboard page): the first commit has
  \<open>theme = 'light'\<close> and no items. Its effects run in order: the child's fetch
  (lines 143--162) and save effect, then the parent's \<open>setTheme(getInitialTheme())\<close>
  and theme effect. The second commit has the theme read, and its theme effect runs
  again when that theme differs from \<open>light\<close>.\<close>

definition shell_mount :: "string option \<Rightarrow> stored option \<Rightarrow> bool \<Rightarrow> string \<Rightarrow> shell_state" where
  "shell_mount savedTheme savedNotifs prefersDark path =
     (let s0 = \<lparr>st_theme = savedTheme, st_notifs = savedNotifs, root_dark = False,
                prefers_dark = prefersDark, pathname = path, sidebarOpen = False, theme = ''light'',
                notif_open = False, items = [], notif_fetch = True\<rparr>;
          s1 = save_notifs s0;
          t = getInitialTheme (st_theme s1) (prefers_dark s1);
          s2 = apply_theme s1
      in if t = ''light'' then s2 else apply_theme (s2\<lparr>theme := t\<rparr>))"

section \<open>Notifications\<close>

text \<open>The fetch's continuation (lines 147--157), while mounted: a non-empty stored
  text that parses wins (\<open>return\<close>); otherwise \<open>data.notifications || []\<close>. A value
  that is not an array would make \<open>items.filter\<close> throw in the next render (\<open>None\<close>).\<close>

definition as_items :: "jsval \<Rightarrow> jsval list option" where
  "as_items v = (case v of JArr xs \<Rightarrow> Some xs | _ \<Rightarrow> None)"

definition notifs_loaded :: "jsval \<Rightarrow> stored option \<Rightarrow> jsval list option" where
  "notifs_loaded data raw =
     (case raw of
        Some (StoredJson v) \<Rightarrow> as_items v
      | _ \<Rightarrow> (let n = task_prop data ''notifications'' in if js_truthy n then as_items n else Some []))"

text \<open>\<open>unreadCount\<close> (line 169) and the two ways of reading (lines 171 and 207).\<close>

definition unreadCount :: "jsval list \<Rightarrow> nat" where
  "unreadCount xs = length (filter (\<lambda>n. \<not> js_truthy (task_prop n ''read'')) xs)"

definition mark_read :: "jsval \<Rightarrow> jsval" where
  "mark_read n = JObj (obj_set (spread n) ''read'' (JBool True))"

definition markAllRead :: "jsval list \<Rightarrow> jsval list" where
  "markAllRead xs = map mark_read xs"

definition markOneRead :: "jsval \<Rightarrow> jsval list \<Rightarrow> jsval list" where
  "markOneRead i xs = map (\<lambda>x. if strict_eq (task_prop x ''id'') i then mark_read x else x) xs"

section \<open>Events\<close>

text \<open>The sidebar's buttons, overlay and links (lines 60--110), the theme button
  (119--125), the notifications button, panel, items and close button (175--231),
  the fetch answering or failing, and a reload of the page, which remounts the
  layout with the storage kept.\<close>

datatype shell_event =
    OpenSidebar
  | CloseSidebar
  | NavLink string
  | ToggleTheme
  | ToggleNotifs
  | CloseNotifs
  | MarkAll
  | MarkOne nat
  | NotifsFetched fetch_result
  | Reload

definition shell_step :: "shell_event \<Rightarrow> shell_state \<Rightarrow> shell_state option" where
  "shell_step e s = (case e of
      OpenSidebar \<Rightarrow> Some (s\<lparr>sidebarOpen := True\<rparr>)
    | CloseSidebar \<Rightarrow> Some (s\<lparr>sidebarOpen := False\<rparr>)
    | NavLink h \<Rightarrow> Some (s\<lparr>sidebarOpen := False, pathname := h\<rparr>)
    | ToggleTheme \<Rightarrow> Some (apply_theme (s\<lparr>theme := toggle_theme (theme s)\<rparr>))
    | ToggleNotifs \<Rightarrow> Some (s\<lparr>notif_open := \<not> notif_open s\<rparr>)
    | CloseNotifs \<Rightarrow> if notif_open s then Some (s\<lparr>notif_open := False\<rparr>) else None
    | MarkAll \<Rightarrow> if notif_open s then Some (set_items (markAllRead (items s)) s) else None
    | MarkOne k \<Rightarrow>
        if notif_open s \<and> k < length (items s)
        then Some (set_items (markOneRead (task_prop (items s ! k) ''id'') (items s)) s) else None
    | NotifsFetched r \<Rightarrow>
        if \<not> notif_fetch s then None
        else (case r of
          FetchFailed \<Rightarrow> Some (s\<lparr>notif_fetch := False\<rparr>)
        | FetchJson data \<Rightarrow>
            map_option (\<lambda>xs. set_items xs (s\<lparr>notif_fetch := False\<rparr>)) (notifs_loaded data (st_notifs s)))
    | Reload \<Rightarrow> Some (shell_mount (st_theme s) (st_notifs s) (prefers_dark s) (pathname s)))"

fun shell_run :: "shell_event list \<Rightarrow> shell_state \<Rightarrow> shell_state option" where
  "shell_run [] s = Some s"
| "shell_run (e # es) s = (case shell_step e s of None \<Rightarrow> None | Some s' \<Rightarrow> shell_run es s')"

inductive shell_reachable :: "shell_state \<Rightarrow> bool" where
  mount: "shell_reachable (shell_mount th ns pd path)"
| step: "shell_reachable s \<Longrightarrow> shell_step e s = Some s' \<Longrightarrow> shell_reachable s'"

section \<open>The view\<close>

text \<open>The texts that depend on state: the theme button (line 124), the unread badge
  (181--185) and the panel's rows or its empty message (200--223); a link is active
  when the path is its \<open>href\<close> (line 70).\<close>

definition NAV :: "(string \<times> string) list" where
  "NAV = [(''/dashboard'', ''Overview''), (''/dashboard/tasks'', ''Tasks''), (''/dashboard/customers'', ''Customers''),
          (''/dashboard/reports'', ''Reports''), (''/dashboard/settings'', ''Settings'')]"

definition active_links :: "string \<Rightarrow> string list" where
  "active_links path = map snd (filter (\<lambda>(h, l). path = h) NAV)"

definition theme_button :: "string \<Rightarrow> string" where
  "theme_button t = (if t = ''dark'' then ''Light'' else ''Dark'')"

definition unread_badge :: "jsval list \<Rightarrow> string option" where
  "unread_badge xs = (if 0 < unreadCount xs then Some (show_nat (unreadCount xs)) else None)"

text \<open>A value as a React child: strings and numbers print, booleans, \<open>null\<close> and
  \<open>undefined\<close> render nothing, an array renders its elements, and an object throws
  (\<open>None\<close>).\<close>

fun react_text :: "jsval \<Rightarrow> string option" where
  "react_text (JStr s) = Some s"
| "react_text (JNum n) = Some (show_num n)"
| "react_text (JArr vs) = map_option concat (those (map react_text vs))"
| "react_text (JObj kvs) = None"
| "react_text v = Some []"

definition notif_rows :: "jsval list \<Rightarrow> (string list \<times> bool) list option" where
  "notif_rows xs =
     those (map (\<lambda>n. map_option (\<lambda>ts. (ts, \<not> js_truthy (task_prop n ''read'')))
                     (those (map (\<lambda>k. react_text (task_prop n k)) [''title'', ''body'', ''time'']))) xs)"

definition notif_panel :: "jsval list \<Rightarrow> (string list \<times> bool) list option" where
  "notif_panel xs = (if xs = [] then Some [([''No notifications.''], False)] else notif_rows xs)"

section \<open>Invariant\<close>

text \<open>No notification, the stored list is \<open>[]\<close>, and the theme is \<open>dark\<close> or
  \<open>light\<close>, saved and applied to the root element.\<close>

definition shell_inv :: "shell_state \<Rightarrow> bool" where
  "shell_inv s \<longleftrightarrow> items s = [] \<and> st_notifs s = Some (StoredJson (JArr []))
     \<and> (theme s = ''dark'' \<or> theme s = ''light'') \<and> st_theme s = Some (theme s) \<and> root_dark s = (theme s = ''dark'')"

section \<open>Properties\<close>


lemma getInitialTheme_cases: "getInitialTheme saved pd = ''dark'' \<or> getInitialTheme saved pd = ''light''"
  by (simp add: getInitialTheme_def split: option.split)

lemma getInitialTheme_saved: "t = ''dark'' \<or> t = ''light'' \<Longrightarrow> getInitialTheme (Some t) pd = t"
  by (auto simp: getInitialTheme_def)

text \<open>Mounting writes \<open>'[]'\<close> over the stored notifications before anything is
  read from them, and saves the theme it read.\<close>

lemma shell_mount_inv: "shell_inv (shell_mount th ns pd path)"
  using getInitialTheme_cases [of th pd]
  by (auto simp: shell_mount_def Let_def shell_inv_def save_notifs_def apply_theme_def)

lemma notifs_loaded_stored_empty: "notifs_loaded data (Some (StoredJson (JArr []))) = Some []"
  by (simp add: notifs_loaded_def as_items_def)

lemma shell_step_inv:
  assumes inv: "shell_inv s" and st: "shell_step e s = Some s'"
  shows "shell_inv s'"
proof (cases e)
  case Reload then show ?thesis using st by (auto simp: shell_step_def intro: shell_mount_inv)
next
  case (NotifsFetched r) then show ?thesis using st inv
    by (auto simp: shell_step_def shell_inv_def set_items_def save_notifs_def notifs_loaded_stored_empty
        split: if_splits fetch_result.splits)
qed (use st inv in \<open>auto simp: shell_step_def shell_inv_def apply_theme_def toggle_theme_def set_items_def
        save_notifs_def markAllRead_def split: if_splits\<close>)

lemma shell_reachable_inv: "shell_reachable s \<Longrightarrow> shell_inv s"
proof (induction rule: shell_reachable.induct)
  case (mount th ns pd path) then show ?case by (rule shell_mount_inv)
next
  case (step s e s') then show ?case using shell_step_inv by blast
qed

text \<open>C25. The notifications of \<open>dashboard.json\<close> are never shown: in every reachable
  state of the dashboard shell, whatever the file and the storage held before, the
  list is empty, no unread badge is drawn and the panel says "No notifications.".
  The save effect writes \<open>'[]'\<close> on the mount commit, so when the fetch answers the
  stored text is the truthy \<open>'[]'\<close>, which parses and wins over the fetched data.\<close>

theorem shell_notifications_never_shown:
  "shell_reachable s \<Longrightarrow> items s = [] \<and> unread_badge (items s) = None
     \<and> notif_panel (items s) = Some [([''No notifications.''], False)]"
  using shell_reachable_inv [of s] by (simp add: shell_inv_def unread_badge_def unreadCount_def notif_panel_def)

text \<open>The theme survives a reload: the mount reads the saved theme before its own
  theme effect writes \<open>light\<close>, then saves the theme read.\<close>

lemma shell_reload_keeps_theme:
  "shell_reachable s \<Longrightarrow> shell_step Reload s = Some s' \<Longrightarrow> theme s' = theme s \<and> root_dark s' = root_dark s"
  using shell_reachable_inv [of s]
  by (auto simp: shell_step_def shell_mount_def Let_def shell_inv_def getInitialTheme_saved save_notifs_def apply_theme_def)

text \<open>A file with one notification: after its fetch answers, the open panel is
  still empty.\<close>

lemma shell_demo_notifications:
  "shell_run [NotifsFetched (FetchJson (JObj [(''notifications'', JArr [JObj [(''id'', jint 1), (''title'', JStr ''Deploy'')]])])),
              ToggleNotifs] (shell_mount None None False ''/dashboard'')
   = Some ((shell_mount None None False ''/dashboard'')\<lparr>notif_fetch := False, notif_open := True\<rparr>)"
  by (simp add: shell_step_def shell_mount_def Let_def save_notifs_def apply_theme_def getInitialTheme_def
      notifs_loaded_def as_items_def set_items_def)


section \<open>Witnesses\<close>

theorem shell_notifications_never_shown_witness:
  "shell_reachable (shell_mount (Some ''dark'') (Some (StoredJson (JArr [JObj [(''id'', jint 1)]]))) True ''/dashboard'')
   \<and> items (shell_mount (Some ''dark'') (Some (StoredJson (JArr [JObj [(''id'', jint 1)]]))) True ''/dashboard'') = []"
  using shell_notifications_never_shown [OF shell_reachable.mount] shell_reachable.mount by blast

end
