(* ===== verification/SaasPages.thy ===== *)
theory SaasPages
  imports DashboardShell CustomersPage
begin

text \<open>
  The remaining pages of \<open>src/dashboard-ui-template/src/app/dashboard\<close>: the reports
  page (\<open>reports/page.js\<close>) with its CSV export, and the settings page
  (\<open>settings/page.js\<close>), which keeps a theme of its own beside the layout's. The
  reports page reads the stores of the tasks and customers controllers
  (\<open>TasksPage\<close>, \<open>CustomersPage\<close>); the settings page runs inside the layout of
  \<open>DashboardShell\<close>, and the two are composed into one state.
\<close>

section \<open>The reports page: CSV export\<close>

text \<open>\<open>csvEscape\<close> (lines 7--11): \<open>String(v ?? '')\<close>, quoted with doubled quotes when
  it contains a comma, a quote or a newline. The reader below (\<open>csv_rows\<close>) is the
  specification: a field is quoted, with \<open>""\<close> for a quote, or runs to the next comma
  or newline; each reader returns what it read and how many characters it used.\<close>

definition csv_special :: "char \<Rightarrow> bool" where
  "csv_special c \<longleftrightarrow> c = CHR '','' \<or> c = CHR 0x22 \<or> c = CHR 0x0A"

definition double_quotes :: "string \<Rightarrow> string" where
  "double_quotes s = concat (map (\<lambda>c. if c = CHR 0x22 then [CHR 0x22, CHR 0x22] else [c]) s)"

definition csv_escape_str :: "string \<Rightarrow> string" where
  "csv_escape_str s = (if list_ex csv_special s then CHR 0x22 # double_quotes s @ [CHR 0x22] else s)"

fun unquoted :: "string \<Rightarrow> string \<times> nat" where
  "unquoted [] = ([], 0)"
| "unquoted (c # cs) =
     (if c = CHR '','' \<or> c = CHR 0x0A then ([], 0) else (case unquoted cs of (f, n) \<Rightarrow> (c # f, Suc n)))"

fun quoted :: "string \<Rightarrow> string \<times> nat" where
  "quoted [] = ([], 0)"
| "quoted (c # cs) =
     (if c = CHR 0x22 then
        (case cs of
           d # ds \<Rightarrow> if d = CHR 0x22 then (case quoted ds of (f, n) \<Rightarrow> (c # f, Suc (Suc n))) else ([], 1)
         | [] \<Rightarrow> ([], 1))
      else (case quoted cs of (f, n) \<Rightarrow> (c # f, Suc n)))"

definition csv_field :: "string \<Rightarrow> string \<times> nat" where
  "csv_field s =
     (case s of c # cs \<Rightarrow> if c = CHR 0x22 then (case quoted cs of (f, n) \<Rightarrow> (f, Suc n)) else unquoted s
              | [] \<Rightarrow> ([], 0))"

function csv_fields :: "string \<Rightarrow> string list \<times> nat" where
  "csv_fields s =
     (case csv_field s of (f, n) \<Rightarrow>
        (case drop n s of
           c # r \<Rightarrow> if c = CHR '','' then (case csv_fields r of (fs, m) \<Rightarrow> (f # fs, n + 1 + m)) else ([f], n)
         | [] \<Rightarrow> ([f], n)))"
  by pat_completeness auto
termination
proof (relation "measure length")
  fix s f n c r
  assume "(f, n) = csv_field s" "drop n s = c # r"
  then have "length (c # r) \<le> length s" by (metis length_drop diff_le_self)
  then show "(r, s) \<in> measure length" by simp
qed simp

function csv_rows :: "string \<Rightarrow> string list list" where
  "csv_rows s =
     (case csv_fields s of (fs, n) \<Rightarrow>
        (case drop n s of c # r \<Rightarrow> if c = CHR 0x0A then fs # csv_rows r else [fs] | [] \<Rightarrow> [fs]))"
  by pat_completeness auto
termination
proof (relation "measure length")
  fix s fs n c r
  assume "(fs, n) = csv_fields s" "drop n s = c # r"
  then have "length (c # r) \<le> length s" by (metis length_drop diff_le_self)
  then show "(r, s) \<in> measure length" by simp
qed simp

text \<open>A field ends at the end of the text, a comma or a newline.\<close>

definition field_end :: "string \<Rightarrow> bool" where
  "field_end r \<longleftrightarrow> r = [] \<or> hd r = CHR '','' \<or> hd r = CHR 0x0A"

definition csvEscape :: "jsval \<Rightarrow> string" where
  "csvEscape v = csv_escape_str (cell_string v)"

text \<open>\<open>downloadCSV\<close> (lines 36--51): the header and one line per task, each cell
  \<open>csvEscape(t[k])\<close>, joined by commas and the lines by newlines, downloaded as
  \<open>tasks_report.csv\<close>.\<close>

definition csv_header :: "string list" where
  "csv_header = [''id'', ''title'', ''status'', ''priority'', ''assignee'', ''due'', ''done'']"

definition tasks_csv :: "jsval list \<Rightarrow> string" where
  "tasks_csv ts =
     join [CHR 0x0A] (join '','' csv_header # map (\<lambda>t. join '','' (map (\<lambda>k. csvEscape (task_prop t k)) csv_header)) ts)"

section \<open>The reports page: state\<close>

text \<open>The page's hooks, the two pending fetches and the files downloaded.\<close>

record rp_state =
  rp_tasks :: "jsval list"
  rp_customers :: jsval
  rp_tasks_fetch :: bool
  rp_customers_fetch :: bool
  rp_downloads :: "(string \<times> string) list"

text \<open>The mount effect (lines 17--26): a stored array is used at once, otherwise
  the controller's fetch is started. The page never writes the stores.\<close>

definition rp_mount :: "stored option \<Rightarrow> stored option \<Rightarrow> rp_state" where
  "rp_mount tr cr =
     \<lparr>rp_tasks = (case loadTasksFromStorage tr of Some t \<Rightarrow> t | None \<Rightarrow> []),
      rp_customers = JArr (case loadCustomersFromStorage cr of Some c \<Rightarrow> c | None \<Rightarrow> []),
      rp_tasks_fetch = (loadTasksFromStorage tr = None),
      rp_customers_fetch = (loadCustomersFromStorage cr = None),
      rp_downloads = []\<rparr>"

datatype rp_event = RpTasksFetched fetch_result | RpCustomersFetched fetch_result | RpDownload

text \<open>A fetch that fails rejects without a handler and leaves the list empty.\<close>

definition rp_step :: "rp_event \<Rightarrow> rp_state \<Rightarrow> rp_state option" where
  "rp_step e s = (case e of
      RpTasksFetched r \<Rightarrow>
        if \<not> rp_tasks_fetch s then None
        else Some ((case fetchInitialTasks r of Some xs \<Rightarrow> s\<lparr>rp_tasks := xs\<rparr> | None \<Rightarrow> s)\<lparr>rp_tasks_fetch := False\<rparr>)
    | RpCustomersFetched r \<Rightarrow>
        if \<not> rp_customers_fetch s then None
        else Some ((case fetchInitialCustomers r of Some v \<Rightarrow> s\<lparr>rp_customers := v\<rparr> | None \<Rightarrow> s)\<lparr>rp_customers_fetch := False\<rparr>)
    | RpDownload \<Rightarrow> Some (s\<lparr>rp_downloads := rp_downloads s @ [(''tasks_report.csv'', tasks_csv (rp_tasks s))]\<rparr>))"

text \<open>\<open>taskStats\<close> (lines 28--34): total, done, and the open tasks to do and in
  progress.\<close>

definition report_stats :: "jsval list \<Rightarrow> nat \<times> nat \<times> nat \<times> nat" where
  "report_stats ts =
     (length ts, length (filter (\<lambda>t. js_truthy (task_prop t ''done'')) ts),
      length (filter (\<lambda>t. strict_eq (task_prop t ''status'') (JStr ''todo'') \<and> \<not> js_truthy (task_prop t ''done'')) ts),
      length (filter (\<lambda>t. strict_eq (task_prop t ''status'') (JStr ''in_progress'') \<and> \<not> js_truthy (task_prop t ''done'')) ts))"

text \<open>The customers card prints \<open>customers.length\<close> (line 65): an array's or a
  string's length, an object's \<open>length\<close> property, nothing otherwise.\<close>

definition customers_count :: "jsval \<Rightarrow> string option" where
  "customers_count v = (case v of
      JArr xs \<Rightarrow> Some (show_nat (length xs))
    | JStr s \<Rightarrow> Some (show_nat (length s))
    | JObj kvs \<Rightarrow> react_text (obj_get kvs ''length'')
    | _ \<Rightarrow> Some [])"

section \<open>The settings page inside the layout\<close>

text \<open>\<open>settings/page.js\<close> keeps its own \<open>theme\<close> hook. Its first effect (lines 8--11)
  reads the saved theme; its second (13--18) saves the page's theme and sets the root
  element's class. Both run on the mount commit, the read first, so the second
  writes \<open>light\<close> before the theme read takes effect in the next commit.\<close>

definition valid_theme :: "string option \<Rightarrow> string" where
  "valid_theme t = (case t of Some x \<Rightarrow> if x = ''dark'' \<or> x = ''light'' then x else ''light'' | None \<Rightarrow> ''light'')"

definition settings_effect :: "string \<Rightarrow> shell_state \<Rightarrow> shell_state" where
  "settings_effect t s = s\<lparr>st_theme := Some t, root_dark := (t = ''dark'')\<rparr>"

text \<open>The layout and, when it is shown, the settings page with its theme.\<close>

record app_state =
  app_shell :: shell_state
  app_settings :: "string option"

text \<open>Opening the settings page inside a mounted layout: the mount commit's two
  effects, then the second commit's save when the theme read is not \<open>light\<close>.\<close>

definition settings_mount :: "shell_state \<Rightarrow> string \<times> shell_state" where
  "settings_mount sh =
     (let t = valid_theme (st_theme sh); sh1 = settings_effect ''light'' sh
      in (t, if t = ''light'' then sh1 else settings_effect t sh1))"

text \<open>Reloading on the settings page mounts everything in one commit. The effects
  run children first: the notifications button's, then the settings page's (its
  read, then its save of \<open>light\<close>), then the layout's, which therefore reads the
  \<open>light\<close> just written. In the second commit only the settings page's theme
  changed, so only its save effect runs again.\<close>

definition app_reload_settings :: "shell_state \<Rightarrow> app_state" where
  "app_reload_settings sh =
     (let t = valid_theme (st_theme sh);
          sh1 = shell_mount (Some ''light'') (st_notifs sh) (prefers_dark sh) (pathname sh)
      in \<lparr>app_shell = (if t = ''light'' then sh1 else settings_effect t sh1), app_settings = Some t\<rparr>)"

datatype app_event = AppShell shell_event | OpenSettings | SettingsToggle

text \<open>The layout's events, the sidebar's link to the settings page, and the page's
  own toggle (line 35). Any other link leaves the settings page; a reload on it
  remounts both.\<close>

definition app_step :: "app_event \<Rightarrow> app_state \<Rightarrow> app_state option" where
  "app_step e a = (case e of
      AppShell Reload \<Rightarrow>
        (case app_settings a of
           None \<Rightarrow> map_option (\<lambda>sh. a\<lparr>app_shell := sh\<rparr>) (shell_step Reload (app_shell a))
         | Some t \<Rightarrow> Some (app_reload_settings (app_shell a)))
    | AppShell (NavLink h) \<Rightarrow>
        if h = ''/dashboard/settings'' then None
        else map_option (\<lambda>sh. \<lparr>app_shell = sh, app_settings = None\<rparr>) (shell_step (NavLink h) (app_shell a))
    | AppShell ev \<Rightarrow> map_option (\<lambda>sh. a\<lparr>app_shell := sh\<rparr>) (shell_step ev (app_shell a))
    | OpenSettings \<Rightarrow>
        (case app_settings a of
           None \<Rightarrow> (case settings_mount ((app_shell a)\<lparr>sidebarOpen := False, pathname := ''/dashboard/settings''\<rparr>) of
                      (t, sh) \<Rightarrow> Some \<lparr>app_shell = sh, app_settings = Some t\<rparr>)
         | Some t \<Rightarrow> None)
    | SettingsToggle \<Rightarrow>
        (case app_settings a of
           None \<Rightarrow> None
         | Some t \<Rightarrow> Some \<lparr>app_shell = settings_effect (toggle_theme t) (app_shell a), app_settings = Some (toggle_theme t)\<rparr>))"

fun app_run :: "app_event list \<Rightarrow> app_state \<Rightarrow> app_state option" where
  "app_run [] a = Some a"
| "app_run (e # es) a = (case app_step e a of None \<Rightarrow> None | Some a' \<Rightarrow> app_run es a')"

section \<open>The CSV export reads back\<close>

lemma unquoted_plain:
  "\<not> list_ex csv_special s \<Longrightarrow> field_end r \<Longrightarrow> unquoted (s @ r) = (s, length s)"
proof (induction s)
  case Nil then show ?case by (cases r) (auto simp: field_end_def)
qed (simp add: csv_special_def)

lemma quoted_double:
  "r = [] \<or> hd r \<noteq> CHR 0x22 \<Longrightarrow> quoted (double_quotes s @ CHR 0x22 # r) = (s, Suc (length (double_quotes s)))"
proof (induction s)
  case Nil then show ?case by (cases r) (auto simp: double_quotes_def)
next
  case (Cons x xs)
  then show ?case by (simp add: double_quotes_def)
qed

lemma csv_field_escape:
  assumes e: "field_end r"
  shows "csv_field (csv_escape_str s @ r) = (s, length (csv_escape_str s))"
proof (cases "list_ex csv_special s")
  case True
  have "r = [] \<or> hd r \<noteq> CHR 0x22" using e by (auto simp: field_end_def)
  then show ?thesis using True quoted_double [of r s] by (simp add: csv_escape_str_def csv_field_def)
next
  case False
  show ?thesis
  proof (cases s)
    case Nil then show ?thesis using e
      by (cases r) (auto simp: csv_escape_str_def csv_field_def field_end_def)
  next
    case (Cons c cs)
    then have "c \<noteq> CHR 0x22" using False by (simp add: csv_special_def)
    then show ?thesis using False Cons unquoted_plain [OF False e]
      by (simp add: csv_escape_str_def csv_field_def)
  qed
qed

lemma csv_fields_escape:
  "cs \<noteq> [] \<Longrightarrow> r = [] \<or> hd r = CHR 0x0A
   \<Longrightarrow> csv_fields (join '','' (map csv_escape_str cs) @ r) = (cs, length (join '','' (map csv_escape_str cs)))"
proof (induction cs)
  case (Cons x xs)
  show ?case
  proof (cases xs)
    case Nil
    have "field_end r" using Cons(3) by (auto simp: field_end_def)
    then have f: "csv_field (csv_escape_str x @ r) = (x, length (csv_escape_str x))" by (rule csv_field_escape)
    show ?thesis using Nil Cons(3) f by (cases r) (auto simp: csv_fields.simps [of "csv_escape_str x @ r"])
  next
    case (Cons y zs)
    let ?j = "join '','' (map csv_escape_str xs)"
    let ?rest = "?j @ r"
    have "field_end (CHR '','' # ?rest)" by (simp add: field_end_def)
    then have f: "csv_field (csv_escape_str x @ CHR '','' # ?rest) = (x, length (csv_escape_str x))"
      by (rule csv_field_escape)
    have ih: "csv_fields ?rest = (xs, length ?j)" using Cons.IH Cons.prems(2) \<open>xs = y # zs\<close> by simp
    have "join '','' (map csv_escape_str (x # xs)) = csv_escape_str x @ CHR '','' # ?j"
      using \<open>xs = y # zs\<close> by simp
    then show ?thesis using f ih by (simp add: csv_fields.simps [of "csv_escape_str x @ CHR '','' # ?rest"])
  qed
qed simp

lemma csv_rows_escape:
  "rows \<noteq> [] \<Longrightarrow> list_all (\<lambda>row. row \<noteq> []) rows
   \<Longrightarrow> csv_rows (join [CHR 0x0A] (map (\<lambda>row. join '','' (map csv_escape_str row)) rows)) = rows"
proof (induction rows)
  case (Cons row rows)
  let ?l = "join '','' (map csv_escape_str row)"
  show ?case
  proof (cases rows)
    case Nil
    have "csv_fields (?l @ []) = (row, length ?l)" using Cons.prems by (intro csv_fields_escape) auto
    then show ?thesis using Nil by (simp add: csv_rows.simps [of ?l])
  next
    case (Cons row' rows')
    let ?rest = "join [CHR 0x0A] (map (\<lambda>row. join '','' (map csv_escape_str row)) rows)"
    have f: "csv_fields (?l @ CHR 0x0A # ?rest) = (row, length ?l)"
      using Cons.prems by (intro csv_fields_escape) auto
    have ih: "csv_rows ?rest = rows" using Cons.IH Cons.prems \<open>rows = row' # rows'\<close> by simp
    have "join [CHR 0x0A] (map (\<lambda>row. join '','' (map csv_escape_str row)) (row # rows)) = ?l @ CHR 0x0A # ?rest"
      using \<open>rows = row' # rows'\<close> by simp
    then show ?thesis using f ih by (simp add: csv_rows.simps [of "?l @ CHR 0x0A # ?rest"])
  qed
qed simp

section \<open>The reports page\<close>

lemma csv_escape_plain: "\<not> list_ex csv_special s \<Longrightarrow> csv_escape_str s = s"
  by (simp add: csv_escape_str_def)

lemma tasks_csv_rows:
  "tasks_csv ts = join [CHR 0x0A] (map (\<lambda>row. join '','' (map csv_escape_str row))
       (csv_header # map (\<lambda>t. map (\<lambda>k. cell_string (task_prop t k)) csv_header) ts))"
proof -
  have "map csv_escape_str csv_header = csv_header"
    by (simp add: csv_header_def csv_escape_str_def csv_special_def)
  then show ?thesis by (simp add: tasks_csv_def csvEscape_def comp_def)
qed

text \<open>C2. The exported file reads back, by a standard CSV reader, as the header and
  one row per task holding \<open>String(t[k] ?? '')\<close> for each column.\<close>

theorem tasks_csv_roundtrip:
  "csv_rows (tasks_csv ts) = csv_header # map (\<lambda>t. map (\<lambda>k. cell_string (task_prop t k)) csv_header) ts"
  unfolding tasks_csv_rows by (rule csv_rows_escape) (auto simp: csv_header_def list_all_iff)

lemma filter3_le:
  "(\<And>x. \<not> (P x \<and> Q x)) \<Longrightarrow> (\<And>x. \<not> (P x \<and> R x)) \<Longrightarrow> (\<And>x. \<not> (Q x \<and> R x))
   \<Longrightarrow> length (filter P xs) + length (filter Q xs) + length (filter R xs) \<le> length xs"
  by (induction xs) auto

text \<open>The done, to-do and in-progress counts never exceed the total.\<close>

lemma report_stats_bounded:
  "report_stats ts = (n, d, t, p) \<Longrightarrow> d + t + p \<le> n"
  unfolding report_stats_def by (auto intro!: filter3_le)

section \<open>The settings page and the layout's theme\<close>

text \<open>Reloading on the settings page with \<open>dark\<close> saved: the root is dark and the
  file still says \<open>dark\<close>, but the layout's theme is \<open>light\<close>, so its button offers
  \<open>Dark\<close>, and pressing it sets the theme to \<open>dark\<close> and leaves the page dark.\<close>

lemma settings_reload_desync:
  assumes "app_settings a \<noteq> None" "st_theme (app_shell a) = Some ''dark''"
  defines "a' \<equiv> app_reload_settings (app_shell a)"
  shows "app_step (AppShell Reload) a = Some a' \<and> root_dark (app_shell a') \<and> st_theme (app_shell a') = Some ''dark''
           \<and> theme (app_shell a') = ''light'' \<and> theme_button (theme (app_shell a')) = ''Dark''
           \<and> (\<exists>a''. app_step (AppShell ToggleTheme) a' = Some a'' \<and> root_dark (app_shell a''))"
proof -
  have m: "theme (shell_mount (Some ''light'') n p d) = ''light''" for n p d
    by (simp add: shell_mount_def Let_def getInitialTheme_def apply_theme_def save_notifs_def)
  have a': "app_shell a' = settings_effect ''dark'' (shell_mount (Some ''light'') (st_notifs (app_shell a)) (prefers_dark (app_shell a)) (pathname (app_shell a)))"
    using assms(2) by (simp add: a'_def app_reload_settings_def valid_theme_def Let_def)
  have step: "app_step (AppShell Reload) a = Some a'" using assms(1) by (auto simp: app_step_def a'_def)
  show ?thesis
    using step a' m by (simp add: settings_effect_def theme_button_def app_step_def shell_step_def toggle_theme_def apply_theme_def)
qed

text \<open>The page's own toggle flips the root and the saved theme but not the layout's
  theme.\<close>

lemma settings_toggle_desync:
  "app_settings a = Some t \<Longrightarrow> app_step SettingsToggle a = Some a'
   \<Longrightarrow> theme (app_shell a') = theme (app_shell a) \<and> root_dark (app_shell a') = (toggle_theme t = ''dark'')"
  by (auto simp: app_step_def settings_effect_def)

end
