(* ===== verification/SaasOverview.thy ===== *)
theory SaasOverview
  imports OnsPages DashboardShell
begin

text \<open>
  The overview page of the SaaS dashboard (\<open>dashboard-ui-template/src/app/dashboard/page.js\<close>)
  with its controller (\<open>controllers/dashboardController.js\<close>): one fetch of
  \<open>dashboard.json\<close> on mount, guarded by a \<open>mounted\<close> flag the cleanup clears, and a
  view of the answer's \<open>kpis\<close>, \<open>throughput\<close> and \<open>recent\<close> lists. The answer is any
  JSON value, so the view is partial: reading a property of \<open>null\<close>, mapping over a
  value that is not an array and rendering an object as a child throw (\<open>None\<close>).
\<close>

section \<open>Reading the fetched value\<close>

text \<open>\<open>v.k\<close> for the fixed property names of the page, none of which is a property
  of the prototypes of strings, numbers, booleans or arrays: \<open>null\<close> and
  \<open>undefined\<close> throw.\<close>

fun js_get :: "jsval \<Rightarrow> string \<Rightarrow> jsval option" where
  "js_get JUndef k = None"
| "js_get JNull k = None"
| "js_get (JObj ob) k = Some (obj_get ob k)"
| "js_get v k = Some JUndef"

text \<open>\<open>data?.k || []\<close> (lines 143--145), then \<open>.map\<close>: a JSON value has a \<open>map\<close>
  method only when it is an array.\<close>

definition data_list :: "jsval \<Rightarrow> string \<Rightarrow> jsval list option" where
  "data_list d k =
     (let v = (if d = JNull \<or> d = JUndef then JUndef else the (js_get d k));
          w = (if js_truthy v then v else JArr [])
      in case w of JArr xs \<Rightarrow> Some xs | _ \<Rightarrow> None)"

section \<open>Numbers of \<open>Math.max\<close> and the bar width\<close>

text \<open>\<open>Number(s)\<close> of a string: surrounding white space is dropped, the empty
  string is 0, and a decimal with an optional sign and point is read exactly.
  Every other string is \<open>NaN\<close> (\<open>None\<close>); the exponent, hexadecimal and
  \<open>Infinity\<close> forms are read as \<open>NaN\<close> too.\<close>

definition is_digit :: "char \<Rightarrow> bool" where
  "is_digit c \<longleftrightarrow> 48 \<le> (of_char c :: nat) \<and> (of_char c :: nat) \<le> 57"

definition digits_nat :: "string \<Rightarrow> nat" where
  "digits_nat ds = foldl (\<lambda>n c. 10 * n + (of_char c - 48)) 0 ds"

definition unsigned_dec :: "string \<Rightarrow> rat option" where
  "unsigned_dec s =
     (let ip = takeWhile is_digit s; r = drop (length ip) s
      in case r of
           [] \<Rightarrow> if ip = [] then None else Some (of_nat (digits_nat ip))
         | c # fp \<Rightarrow>
             if c = CHR ''.'' \<and> list_all is_digit fp \<and> (ip \<noteq> [] \<or> fp \<noteq> [])
             then Some (of_nat (digits_nat ip) + of_nat (digits_nat fp) / 10 ^ length fp)
             else None)"

definition str_number :: "string \<Rightarrow> rat option" where
  "str_number s =
     (let t = trim s
      in case t of
           [] \<Rightarrow> Some 0
         | c # r \<Rightarrow> if c = CHR ''-'' then map_option uminus (unsigned_dec r)
                   else if c = CHR ''+'' then unsigned_dec r else unsigned_dec t)"

text \<open>\<open>Number(v)\<close>, as \<open>Math.max\<close> converts its arguments: arrays and objects
  through their string.\<close>

fun to_number :: "jsval \<Rightarrow> rat option" where
  "to_number JUndef = None"
| "to_number JNull = Some 0"
| "to_number (JBool b) = Some (if b then 1 else 0)"
| "to_number (JNum n) = Some (num_rat n)"
| "to_number v = str_number (js_string v)"

text \<open>\<open>Math.max(...values, 1)\<close> (line 72): \<open>NaN\<close> if any argument is.\<close>

definition js_max1 :: "jsval list \<Rightarrow> rat option" where
  "js_max1 vs = map_option (\<lambda>xs. Max (insert 1 (set xs))) (those (map to_number vs))"

text \<open>\<open>(i.value / max) * 100\<close> (line 84), \<open>None\<close> for \<open>NaN\<close> and for the
  infinities of a division by zero; the printing of the number in the style is not
  modelled.\<close>

definition bar_width :: "rat option \<Rightarrow> jsval \<Rightarrow> rat option" where
  "bar_width mx v =
     (case (mx, to_number v) of (Some m, Some x) \<Rightarrow> if m = 0 then None else Some (x / m * 100) | _ \<Rightarrow> None)"

section \<open>Tones\<close>

definition toneToClasses :: "jsval \<Rightarrow> string" where
  "toneToClasses tone =
     (if strict_eq tone (JStr ''bad'') then ''bg-rose-50 text-rose-700 border-rose-100 dark:bg-rose-950/40 dark:text-rose-200 dark:border-rose-900''
      else if strict_eq tone (JStr ''neutral'') then ''bg-slate-50 text-slate-700 border-slate-100 dark:bg-slate-800 dark:text-slate-200 dark:border-slate-700''
      else ''bg-emerald-50 text-emerald-700 border-emerald-100 dark:bg-emerald-950/30 dark:text-emerald-200 dark:border-emerald-900'')"

text \<open>\<open>map[tone] || default\<close> of \<open>barTone\<close> and \<open>statusTone\<close>: the key is
  \<open>String(tone)\<close>. Keys inherited from \<open>Object.prototype\<close> are not modelled.\<close>

definition bar_tones :: "(string \<times> string) list" where
  "bar_tones = [(''emerald'', ''bg-emerald-500''), (''indigo'', ''bg-indigo-500''), (''fuchsia'', ''bg-fuchsia-500''),
                (''cyan'', ''bg-cyan-500''), (''amber'', ''bg-amber-500''), (''rose'', ''bg-rose-500'')]"

definition barTone :: "jsval \<Rightarrow> string" where
  "barTone tone = (case map_of bar_tones (js_string tone) of Some c \<Rightarrow> c | None \<Rightarrow> ''bg-slate-500'')"

definition status_tones :: "(string \<times> string) list" where
  "status_tones =
     [(''emerald'', ''bg-emerald-50 text-emerald-800 border-emerald-100 dark:bg-emerald-950/30 dark:text-emerald-200 dark:border-emerald-900''),
      (''amber'', ''bg-amber-50 text-amber-800 border-amber-100 dark:bg-amber-950/20 dark:text-amber-200 dark:border-amber-900''),
      (''cyan'', ''bg-cyan-50 text-cyan-800 border-cyan-100 dark:bg-cyan-950/20 dark:text-cyan-200 dark:border-cyan-900''),
      (''indigo'', ''bg-indigo-50 text-indigo-800 border-indigo-100 dark:bg-indigo-950/25 dark:text-indigo-200 dark:border-indigo-900'')]"

definition statusTone :: "jsval \<Rightarrow> string" where
  "statusTone tone =
     (case map_of status_tones (js_string tone) of Some c \<Rightarrow> c
      | None \<Rightarrow> ''bg-slate-50 text-slate-800 border-slate-100 dark:bg-slate-800 dark:text-slate-200 dark:border-slate-700'')"

section \<open>The view\<close>

text \<open>A property of a list element, read where the element is known not to be
  \<open>null\<close> or \<open>undefined\<close>.\<close>

definition js_prop :: "jsval \<Rightarrow> string \<Rightarrow> jsval" where
  "js_prop v k = (case js_get v k of Some w \<Rightarrow> w | None \<Rightarrow> JUndef)"

text \<open>\<open>KpiCard\<close> (lines 38--54) of one element of \<open>kpis\<close> (line 164): the title,
  value and delta as React children, and the delta's classes.\<close>

definition kpi_card :: "jsval \<Rightarrow> (string \<times> string \<times> string \<times> string) option" where
  "kpi_card k =
     (if nullish k then None
      else case (react_text (js_prop k ''title''), react_text (js_prop k ''value''), react_text (js_prop k ''delta'')) of
             (Some t, Some v, Some d) \<Rightarrow>
               Some (t, v, d, cx [''text-xs font-bold px-2 py-1 rounded-lg border'', toneToClasses (js_prop k ''deltaTone'')])
           | _ \<Rightarrow> None)"

text \<open>\<open>SimpleBarChart\<close> (lines 71--91): each bar's label, value, classes and
  width in percent; the maximum reads every item's \<open>value\<close> first.\<close>

definition bar_rows :: "jsval list \<Rightarrow> (string \<times> string \<times> string \<times> rat option) list option" where
  "bar_rows xs =
     (if list_ex nullish xs then None
      else let mx = js_max1 (map (\<lambda>i. js_prop i ''value'') xs)
           in those (map (\<lambda>i. case (react_text (js_prop i ''label''), react_text (js_prop i ''value'')) of
                                (Some l, Some v) \<Rightarrow>
                                  Some (l, v, cx [''h-full rounded-full'', barTone (js_prop i ''tone'')],
                                        bar_width mx (js_prop i ''value''))
                              | _ \<Rightarrow> None) xs))"

text \<open>\<open>RecentTable\<close> (lines 93--120): name, status classes, status and update time.\<close>

definition recent_row :: "jsval \<Rightarrow> (string \<times> string \<times> string \<times> string) option" where
  "recent_row r =
     (if nullish r then None
      else case (react_text (js_prop r ''name''), react_text (js_prop r ''status''), react_text (js_prop r ''updated'')) of
             (Some n, Some st, Some u) \<Rightarrow>
               Some (n, cx [''text-xs font-bold px-2 py-1 rounded-lg border'', statusTone (js_prop r ''statusTone'')], st, u)
           | _ \<Rightarrow> None)"

section \<open>The page's state\<close>

text \<open>\<open>data\<close> and \<open>loading\<close> (lines 123--124), the effect's \<open>mounted\<close> flag, whether
  the fetch is pending, and the rejections left unhandled (\<open>.finally\<close> passes a
  rejection on and nothing catches it).\<close>

record ov_state =
  ov_data :: jsval
  ov_loading :: bool
  ov_mounted :: bool
  ov_pending :: bool
  ov_unhandled :: nat

definition ov_mount :: ov_state where
  "ov_mount = \<lparr>ov_data = JNull, ov_loading = True, ov_mounted = True, ov_pending = True, ov_unhandled = 0\<rparr>"

text \<open>The answer of \<open>fetchDashboardData\<close> (the JSON body, or a rejection for a
  status that is not ok or a body that is not JSON), and the cleanup on unmount.\<close>

datatype ov_event = OvFetched fetch_result | OvUnmount

definition ov_step :: "ov_event \<Rightarrow> ov_state \<Rightarrow> ov_state option" where
  "ov_step e s = (case e of
      OvFetched r \<Rightarrow>
        if \<not> ov_pending s then None
        else let s1 = s\<lparr>ov_pending := False\<rparr> in
             (case r of
                FetchJson d \<Rightarrow> Some (if ov_mounted s then s1\<lparr>ov_data := d, ov_loading := False\<rparr> else s1)
              | FetchFailed \<Rightarrow>
                  Some ((if ov_mounted s then s1\<lparr>ov_loading := False\<rparr> else s1)\<lparr>ov_unhandled := Suc (ov_unhandled s)\<rparr>))
    | OvUnmount \<Rightarrow> if ov_mounted s then Some (s\<lparr>ov_mounted := False\<rparr>) else None)"

fun ov_run :: "ov_event list \<Rightarrow> ov_state \<Rightarrow> ov_state option" where
  "ov_run [] s = Some s"
| "ov_run (e # es) s = (case ov_step e s of None \<Rightarrow> None | Some s' \<Rightarrow> ov_run es s')"

inductive ov_reachable :: "ov_state \<Rightarrow> bool" where
  ov_init: "ov_reachable ov_mount"
| ov_next: "ov_reachable s \<Longrightarrow> ov_step e s = Some s' \<Longrightarrow> ov_reachable s'"

text \<open>The rendered page (lines 147--216): the loading box, the KPI cards, the bars
  and the recent rows; \<open>None\<close> when rendering throws.\<close>

record ov_page =
  shows_loading :: bool
  kpi_cards :: "(string \<times> string \<times> string \<times> string) list"
  bars :: "(string \<times> string \<times> string \<times> rat option) list"
  recent_rows :: "(string \<times> string \<times> string \<times> string) list"

definition ov_view :: "ov_state \<Rightarrow> ov_page option" where
  "ov_view s =
     (case (data_list (ov_data s) ''kpis'', data_list (ov_data s) ''throughput'', data_list (ov_data s) ''recent'') of
        (Some ks, Some ts, Some rs) \<Rightarrow>
          (case (those (map kpi_card ks), bar_rows ts, those (map recent_row rs)) of
             (Some kc, Some bs, Some rr) \<Rightarrow>
               Some \<lparr>shows_loading = ov_loading s, kpi_cards = kc, bars = bs, recent_rows = rr\<rparr>
           | _ \<Rightarrow> None)
      | _ \<Rightarrow> None)"

text \<open>The invariant: while mounted, the loading box is shown exactly while the
  fetch is pending; data arrives only with the end of loading; at most one
  rejection.\<close>

definition ov_inv :: "ov_state \<Rightarrow> bool" where
  "ov_inv s \<longleftrightarrow> (ov_mounted s \<longrightarrow> ov_loading s = ov_pending s) \<and> (ov_loading s \<longrightarrow> ov_data s = JNull)
                \<and> (ov_pending s \<longrightarrow> ov_unhandled s = 0) \<and> ov_unhandled s \<le> 1"

text \<open>A sample \<open>throughput\<close> answer.\<close>

definition demo_throughput :: "jsval list" where
  "demo_throughput =
     [JObj [(''label'', JStr ''Sales''), (''value'', jint 30), (''tone'', JStr ''emerald'')],
      JObj [(''label'', JStr ''Ops''), (''value'', JNum (Num 5 1)), (''tone'', JStr ''teal'')]]"

section \<open>Lemmas\<close>

lemma those_map_Some_elem:
  "those (map f xs) = Some ys \<Longrightarrow> y \<in> set ys \<Longrightarrow> \<exists>x\<in>set xs. f x = Some y"
  by (induction xs arbitrary: ys) (auto split: option.splits)

lemma those_map_Some:
  "(\<And>x. x \<in> set xs \<Longrightarrow> f x = Some (g x)) \<Longrightarrow> those (map f xs) = Some (map g xs)"
  by (induction xs) auto

lemma js_max1_bound:
  assumes "\<forall>v\<in>set vs. to_number v \<noteq> None"
  shows "\<exists>m. js_max1 vs = Some m \<and> 1 \<le> m \<and> (\<forall>v\<in>set vs. the (to_number v) \<le> m)"
proof -
  have t: "those (map to_number vs) = Some (map (\<lambda>v. the (to_number v)) vs)"
    using assms by (intro those_map_Some) auto
  let ?m = "Max (insert 1 (set (map (\<lambda>v. the (to_number v)) vs)))"
  have "1 \<le> ?m" by simp
  moreover have "\<forall>v\<in>set vs. the (to_number v) \<le> ?m" by simp
  ultimately show ?thesis using t by (simp add: js_max1_def)
qed

lemma js_max1_nan:
  "v \<in> set vs \<Longrightarrow> to_number v = None \<Longrightarrow> js_max1 vs = None"
  using those_Some_iff [of "map to_number vs"] by (force simp: js_max1_def)

lemma bar_width_bounds:
  "js_max1 vs = Some m \<Longrightarrow> 1 \<le> m \<Longrightarrow> to_number v = Some x \<Longrightarrow> 0 \<le> x \<Longrightarrow> x \<le> m
   \<Longrightarrow> \<exists>w. bar_width (Some m) v = Some w \<and> 0 \<le> w \<and> w \<le> 100"
  by (simp add: bar_width_def pos_divide_le_eq)

lemma bar_rows_elem:
  assumes "bar_rows xs = Some bs" "(l, v, c, w) \<in> set bs"
  shows "\<exists>i\<in>set xs. w = bar_width (js_max1 (map (\<lambda>i. js_prop i ''value'') xs)) (js_prop i ''value'')"
proof -
  let ?mx = "js_max1 (map (\<lambda>i. js_prop i ''value'') xs)"
  let ?f = "\<lambda>i. case (react_text (js_prop i ''label''), react_text (js_prop i ''value'')) of
              (Some l, Some v) \<Rightarrow> Some (l, v, cx [''h-full rounded-full'', barTone (js_prop i ''tone'')], bar_width ?mx (js_prop i ''value''))
            | _ \<Rightarrow> None"
  have "those (map ?f xs) = Some bs" using assms(1) unfolding bar_rows_def Let_def by (simp split: if_splits)
  then obtain i where i: "i \<in> set xs" "?f i = Some (l, v, c, w)" using assms(2) by (blast dest: those_map_Some_elem)
  then show ?thesis by (auto split: option.splits)
qed

text \<open>C26. When every throughput value converts to a non-negative number, every bar
  of the overview chart has a width between 0 and 100 percent: \<open>Math.max(..., 1)\<close>
  keeps the divisor at least 1 and at least every value.\<close>

theorem bar_rows_widths:
  assumes "bar_rows xs = Some bs"
    and "\<forall>i\<in>set xs. \<exists>x. to_number (js_prop i ''value'') = Some x \<and> 0 \<le> x"
  shows "\<forall>(l, v, c, w)\<in>set bs. \<exists>x. w = Some x \<and> 0 \<le> x \<and> x \<le> 100"
proof -
  let ?vs = "map (\<lambda>i. js_prop i ''value'') xs"
  obtain m where m: "js_max1 ?vs = Some m" "1 \<le> m" "\<forall>v\<in>set ?vs. the (to_number v) \<le> m"
    using js_max1_bound [of ?vs] assms(2) by force
  show ?thesis
  proof (clarify)
    fix l v c w
    assume "(l, v, c, w) \<in> set bs"
    then obtain i where i: "i \<in> set xs" "w = bar_width (Some m) (js_prop i ''value'')"
      using bar_rows_elem [OF assms(1)] m(1) by metis
    obtain x where "to_number (js_prop i ''value'') = Some x" "0 \<le> x" using assms(2) i(1) by blast
    moreover have "x \<le> m" using m(3) i(1) calculation(1) by force
    ultimately show "\<exists>x. w = Some x \<and> 0 \<le> x \<and> x \<le> 100"
      using bar_width_bounds [OF m(1,2)] i(2) by blast
  qed
qed

text \<open>One value that is not a number makes \<open>Math.max\<close> \<open>NaN\<close>, and every bar's width
  with it.\<close>

lemma bar_rows_nan:
  assumes "bar_rows xs = Some bs" "i \<in> set xs" "to_number (js_prop i ''value'') = None"
  shows "\<forall>(l, v, c, w)\<in>set bs. w = None"
proof -
  have "js_max1 (map (\<lambda>i. js_prop i ''value'') xs) = None" using assms(2,3) by (intro js_max1_nan [of "js_prop i ''value''"]) auto
  then show ?thesis using bar_rows_elem [OF assms(1)] by (fastforce simp: bar_width_def)
qed

lemma ov_inv_mount: "ov_inv ov_mount"
  by (simp add: ov_inv_def ov_mount_def)

lemma ov_step_inv: "ov_inv s \<Longrightarrow> ov_step e s = Some s' \<Longrightarrow> ov_inv s'"
  by (auto simp: ov_inv_def ov_step_def Let_def split: ov_event.splits fetch_result.splits if_splits)

lemma ov_reachable_inv: "ov_reachable s \<Longrightarrow> ov_inv s"
  by (induction rule: ov_reachable.induct) (auto intro: ov_inv_mount ov_step_inv)

text \<open>C14. While the overview page is mounted, in every reachable state the rendered
  page shows the loading box exactly while the dashboard fetch is pending: the box
  goes away when the fetch answers, with data or with a rejection (the \<open>finally\<close>
  of the effect), and not before.\<close>

theorem ov_view_loading:
  "ov_reachable s \<Longrightarrow> ov_mounted s \<Longrightarrow> ov_view s = Some p \<Longrightarrow> shows_loading p = ov_pending s"
  using ov_reachable_inv by (auto simp: ov_inv_def ov_view_def split: option.splits prod.splits)

text \<open>After unmounting, the answer changes none of the component's state.\<close>

theorem ov_view_loading_witness:
  "ov_reachable ov_mount \<and> ov_mounted ov_mount
   \<and> ov_view ov_mount = Some \<lparr>shows_loading = True, kpi_cards = [], bars = [], recent_rows = []\<rparr>
   \<and> shows_loading \<lparr>shows_loading = True, kpi_cards = [], bars = [], recent_rows = []\<rparr> = ov_pending ov_mount"
proof -
  have v: "ov_view ov_mount = Some \<lparr>shows_loading = True, kpi_cards = [], bars = [], recent_rows = []\<rparr>"
    by (simp add: ov_view_def ov_mount_def data_list_def bar_rows_def)
  have m: "ov_mounted ov_mount" by (simp add: ov_mount_def)
  show ?thesis using ov_view_loading [OF ov_reachable.ov_init m v] v m ov_reachable.ov_init by simp
qed

lemma ov_unmounted_untouched:
  "ov_reachable s \<Longrightarrow> \<not> ov_mounted s \<Longrightarrow> ov_step e s = Some s'
   \<Longrightarrow> ov_data s' = ov_data s \<and> ov_loading s' = ov_loading s \<and> \<not> ov_mounted s'"
  by (auto simp: ov_step_def Let_def split: ov_event.splits fetch_result.splits if_splits)

text \<open>A failed fetch ends loading and leaves an empty dashboard with no message;
  the rejection is unhandled.\<close>

lemma ov_failed_fetch_empty:
  "ov_run [OvFetched FetchFailed] ov_mount = Some s
   \<Longrightarrow> ov_view s = Some \<lparr>shows_loading = False, kpi_cards = [], bars = [], recent_rows = []\<rparr> \<and> ov_unhandled s = 1"
  by (auto simp: ov_mount_def ov_step_def ov_view_def data_list_def bar_rows_def)

text \<open>A truthy \<open>kpis\<close> that is not an array makes the page throw.\<close>

lemma ov_kpis_not_array_throws:
  "js_truthy v \<Longrightarrow> (\<forall>ys. v \<noteq> JArr ys) \<Longrightarrow> ov_data s = JObj [(''kpis'', v)] \<Longrightarrow> ov_view s = None"
  by (cases v) (auto simp: ov_view_def data_list_def obj_get_def)

lemma demo_bars:
  "bar_rows demo_throughput =
     Some [(''Sales'', ''30'', ''h-full rounded-full bg-emerald-500'', Some 100),
           (''Ops'', ''0.5'', ''h-full rounded-full bg-slate-500'', Some (5 / 3))]"
  by (simp add: demo_throughput_def bar_rows_def js_max1_def bar_width_def js_prop_def nullish_def
      num_rat_def barTone_def bar_tones_def cx_def show_nat_eval show_int_def)

text \<open>The floor of 1 in the maximum: a chart whose values are all below 1 has no
  full bar.\<close>

lemma single_small_bar:
  "bar_rows [JObj [(''label'', JStr ''A''), (''value'', JNum (Num 5 1))]] =
     Some [(''A'', ''0.5'', ''h-full rounded-full bg-slate-500'', Some 50)]"
  by (simp add: bar_rows_def js_max1_def bar_width_def js_prop_def nullish_def
      num_rat_def barTone_def bar_tones_def cx_def show_nat_eval show_int_def obj_get_def)

theorem bar_rows_widths_witness:
  "bar_rows demo_throughput = Some [(''Sales'', ''30'', ''h-full rounded-full bg-emerald-500'', Some 100),
           (''Ops'', ''0.5'', ''h-full rounded-full bg-slate-500'', Some (5 / 3))]
   \<and> list_all (\<lambda>i. \<exists>x. to_number (js_prop i ''value'') = Some x \<and> 0 \<le> x) demo_throughput
   \<and> list_all (\<lambda>(l, v, c, w). \<exists>x. w = Some x \<and> 0 \<le> x \<and> x \<le> 100)
        [(''Sales'', ''30'', ''h-full rounded-full bg-emerald-500'', Some (100::rat)),
         (''Ops'', ''0.5'', ''h-full rounded-full bg-slate-500'', Some (5 / 3))]"
proof -
  have v: "\<forall>i\<in>set demo_throughput. \<exists>x. to_number (js_prop i ''value'') = Some x \<and> 0 \<le> x"
    by (simp add: demo_throughput_def js_prop_def obj_get_def num_rat_def) (rule exI [of _ "1 / 2"], simp)
  show ?thesis using bar_rows_widths [OF demo_bars v] demo_bars v by (simp add: list_all_iff)
qed

end
