(* ===== verification/JsDate.thy ===== *)
theory JsDate
  imports SaasOverview
begin

text \<open>
  The \<open>Date\<close> of ECMA-262 as far as \<open>new Date(v).getMonth()\<close> needs it: time values
  are integer milliseconds from the epoch (21.4.1.1), the proleptic Gregorian calendar
  of \<open>DayFromYear\<close>, \<open>YearFromTime\<close>, \<open>MonthFromTime\<close> and \<open>MakeDay\<close>
  (21.4.1.3--21.4.1.28), \<open>TimeClip\<close>, and the string parser on the Date Time String
  Format (21.4.1.32). The local time zone is a fixed offset \<open>tz\<close> in minutes east of
  UTC, so \<open>LocalTime(t) = t + tz * 60000\<close>: daylight saving is not modelled. A string
  outside the format is \<open>NaN\<close> (\<open>None\<close>); engines may accept more forms by
  implementation-specific heuristics, which are not modelled.
\<close>

section \<open>The calendar\<close>

definition msPerDay :: int where
  "msPerDay = 86400000"

text \<open>\<open>DayFromYear(y)\<close>: the day number of the first day of year \<open>y\<close>.\<close>

definition day_from_year :: "int \<Rightarrow> int" where
  "day_from_year y = 365 * (y - 1970) + (y - 1969) div 4 - (y - 1901) div 100 + (y - 1601) div 400"

text \<open>\<open>DaysInYear(y)\<close>.\<close>

definition days_in_year :: "int \<Rightarrow> int" where
  "days_in_year y =
     (if y mod 4 \<noteq> 0 then 365 else if y mod 100 \<noteq> 0 then 366 else if y mod 400 \<noteq> 0 then 365 else 366)"

definition in_leap_year :: "int \<Rightarrow> bool" where
  "in_leap_year y \<longleftrightarrow> days_in_year y = 366"

text \<open>The first day within the year of February to December; \<open>MonthFromTime\<close> is the
  number of them a day within the year has reached.\<close>

definition month_starts :: "bool \<Rightarrow> int list" where
  "month_starts leap = 31 # map (\<lambda>c. c + (if leap then 1 else 0)) [59, 90, 120, 151, 181, 212, 243, 273, 304, 334]"

definition month_from_dwy :: "bool \<Rightarrow> int \<Rightarrow> nat" where
  "month_from_dwy leap dwy = length (filter (\<lambda>c. c \<le> dwy) (month_starts leap))"

text \<open>The day within the year of the first of month \<open>m\<close> (0 for January), and the
  month lengths.\<close>

definition month_start :: "bool \<Rightarrow> nat \<Rightarrow> int" where
  "month_start leap m = (0 # month_starts leap) ! m"

definition days_in_month :: "int \<Rightarrow> nat \<Rightarrow> int" where
  "days_in_month y m = [31, if in_leap_year y then 29 else 28, 31, 30, 31, 30, 31, 31, 30, 31, 30, 31] ! m"

text \<open>\<open>MakeDay(y, m, d)\<close> for a month \<open>m\<close> in 0--11.\<close>

definition make_day :: "int \<Rightarrow> nat \<Rightarrow> int \<Rightarrow> int" where
  "make_day y m d = day_from_year y + month_start (in_leap_year y) m + d - 1"

text \<open>\<open>YearFromTime\<close> on a day number: the largest \<open>y\<close> with \<open>DayFromYear(y) \<le> d\<close>. The
  search starts at a year no later than that one (a year has at most 366 days after
  1970 and at least 365 before) and tries at most \<open>k\<close> further years.\<close>

definition year_from_day :: "int \<Rightarrow> int" where
  "year_from_day d =
     (let y0 = 1970 + (if 0 \<le> d then d div 366 else d div 365);
          k = nat \<bar>d div 365 - d div 366\<bar> + 2
      in y0 + int (length (takeWhile (\<lambda>i. day_from_year (y0 + int i + 1) \<le> d) [0..<k])))"

text \<open>\<open>MonthFromTime\<close> on a day number.\<close>

definition month_from_day :: "int \<Rightarrow> nat" where
  "month_from_day d = (let y = year_from_day d in month_from_dwy (in_leap_year y) (d - day_from_year y))"

text \<open>\<open>MonthFromTime(LocalTime(t))\<close>, as \<open>getMonth\<close> computes it.\<close>

definition month_from_time :: "int \<Rightarrow> int \<Rightarrow> nat" where
  "month_from_time tz t = month_from_day ((t + tz * 60000) div msPerDay)"

section \<open>The string parser\<close>

text \<open>Exactly \<open>n\<close> decimal digits.\<close>

definition take_digits :: "nat \<Rightarrow> string \<Rightarrow> (nat \<times> string) option" where
  "take_digits n s = (if n \<le> length s \<and> list_all is_digit (take n s) then Some (digits_nat (take n s), drop n s) else None)"

definition parse_sep2 :: "char \<Rightarrow> string \<Rightarrow> (nat \<times> string) option" where
  "parse_sep2 c s = (case s of d # r \<Rightarrow> if d = c then take_digits 2 r else None | [] \<Rightarrow> None)"

text \<open>\<open>YYYY\<close>, or a sign and six digits (\<open>-000000\<close> is not a year).\<close>

definition parse_year :: "string \<Rightarrow> (int \<times> string) option" where
  "parse_year s =
     (case s of
        c # r \<Rightarrow>
          if c = CHR ''+'' \<or> c = CHR ''-'' then
            (case take_digits 6 r of
               None \<Rightarrow> None
             | Some (v, r') \<Rightarrow> if c = CHR ''-'' \<and> v = 0 then None else Some (if c = CHR ''-'' then - int v else int v, r'))
          else map_option (\<lambda>(v, r'). (int v, r')) (take_digits 4 s)
      | [] \<Rightarrow> None)"

text \<open>\<open>YYYY\<close>, \<open>YYYY-MM\<close> or \<open>YYYY-MM-DD\<close>; a missing month or day is 1.\<close>

definition parse_date :: "string \<Rightarrow> ((int \<times> nat \<times> nat) \<times> string) option" where
  "parse_date s =
     (case parse_year s of
        None \<Rightarrow> None
      | Some (y, r) \<Rightarrow>
          if r \<noteq> [] \<and> hd r = CHR ''-'' then
            (case parse_sep2 CHR ''-'' r of
               None \<Rightarrow> None
             | Some (mo, r2) \<Rightarrow>
                 if r2 \<noteq> [] \<and> hd r2 = CHR ''-'' then
                   (case parse_sep2 CHR ''-'' r2 of None \<Rightarrow> None | Some (d, r3) \<Rightarrow> Some ((y, mo, d), r3))
                 else Some ((y, mo, 1), r2))
          else Some ((y, 1, 1), r))"

text \<open>\<open>THH:mm\<close>, \<open>THH:mm:ss\<close> or \<open>THH:mm:ss.sss\<close>.\<close>

definition parse_time :: "string \<Rightarrow> ((nat \<times> nat \<times> nat \<times> nat) \<times> string) option" where
  "parse_time s =
     (case s of
        c # r1 \<Rightarrow>
          if c \<noteq> CHR ''T'' then None
          else (case take_digits 2 r1 of
                  None \<Rightarrow> None
                | Some (h, r2) \<Rightarrow>
                    (case parse_sep2 CHR '':'' r2 of
                       None \<Rightarrow> None
                     | Some (mi, r3) \<Rightarrow>
                         if r3 \<noteq> [] \<and> hd r3 = CHR '':'' then
                           (case parse_sep2 CHR '':'' r3 of
                              None \<Rightarrow> None
                            | Some (sec, r4) \<Rightarrow>
                                if r4 \<noteq> [] \<and> hd r4 = CHR ''.'' then
                                  (case take_digits 3 (tl r4) of None \<Rightarrow> None | Some (ms, r5) \<Rightarrow> Some ((h, mi, sec, ms), r5))
                                else Some ((h, mi, sec, 0), r4))
                         else Some ((h, mi, 0, 0), r3)))
      | [] \<Rightarrow> None)"

text \<open>Nothing, \<open>Z\<close>, or \<open>+HH:mm\<close> / \<open>-HH:mm\<close> in minutes, ending the string.\<close>

definition parse_offset :: "string \<Rightarrow> int option option" where
  "parse_offset s =
     (if s = [] then Some None
      else if s = ''Z'' then Some (Some 0)
      else if hd s = CHR ''+'' \<or> hd s = CHR ''-'' then
        (case take_digits 2 (tl s) of
           None \<Rightarrow> None
         | Some (h, r) \<Rightarrow>
             (case parse_sep2 CHR '':'' r of
                Some (mi, []) \<Rightarrow>
                  if h \<le> 23 \<and> mi \<le> 59 then Some (Some ((if hd s = CHR ''-'' then -1 else 1) * int (h * 60 + mi)))
                  else None
              | _ \<Rightarrow> None))
      else None)"

text \<open>The fields read: year, month, day, the time if any, and the offset if any.\<close>

datatype iso = Iso int nat nat "(nat \<times> nat \<times> nat \<times> nat) option" "int option"

definition parse_iso :: "string \<Rightarrow> iso option" where
  "parse_iso s =
     (case parse_date s of
        None \<Rightarrow> None
      | Some ((y, mo, d), r) \<Rightarrow>
          if r = [] then Some (Iso y mo d None None)
          else (case parse_time r of
                  None \<Rightarrow> None
                | Some (tm, r') \<Rightarrow> map_option (\<lambda>off. Iso y mo d (Some tm) off) (parse_offset r')))"

text \<open>\<open>TimeClip\<close>: beyond 8.64e15 ms from the epoch the time value is \<open>NaN\<close>.\<close>

definition time_clip :: "int \<Rightarrow> int option" where
  "time_clip t = (if \<bar>t\<bar> \<le> 8640000000000000 then Some t else None)"

text \<open>The time value of the fields: out-of-range fields are \<open>NaN\<close>; a date-only form is
  UTC, a date-time form without offset is local time.\<close>

definition iso_time :: "int \<Rightarrow> iso \<Rightarrow> int option" where
  "iso_time tz i = (case i of Iso y mo d tm off \<Rightarrow>
     (let (h, mi, sec, ms) = (case tm of None \<Rightarrow> (0, 0, 0, 0) | Some x \<Rightarrow> x);
          t = make_day y (mo - 1) (int d) * msPerDay + int (((h * 60 + mi) * 60 + sec) * 1000 + ms);
          u = (case (tm, off) of (None, _) \<Rightarrow> t | (Some _, None) \<Rightarrow> t - tz * 60000 | (Some _, Some ofs) \<Rightarrow> t - ofs * 60000)
      in if 1 \<le> mo \<and> mo \<le> 12 \<and> 1 \<le> d \<and> int d \<le> days_in_month y (mo - 1)
            \<and> ((h < 24 \<and> mi \<le> 59 \<and> sec \<le> 59) \<or> (h = 24 \<and> mi = 0 \<and> sec = 0 \<and> ms = 0))
         then time_clip u else None))"

definition date_parse :: "int \<Rightarrow> string \<Rightarrow> int option" where
  "date_parse tz s = (case parse_iso s of None \<Rightarrow> None | Some i \<Rightarrow> iso_time tz i)"

text \<open>\<open>new Date(v)\<close> of one argument: \<open>undefined\<close> is \<open>NaN\<close>, \<open>null\<close> and booleans
  are numbers, a number is clipped and truncated toward zero, and a string, an array or
  an object (through \<open>ToPrimitive\<close>, hence its string) is parsed.\<close>

definition num_trunc :: "num \<Rightarrow> int option" where
  "num_trunc n = (case n of Num m e \<Rightarrow>
     if 8640000000000000 * 10 ^ e < \<bar>m\<bar> then None
     else Some (if 0 \<le> m then m div 10 ^ e else - ((- m) div 10 ^ e)))"

fun date_value :: "int \<Rightarrow> jsval \<Rightarrow> int option" where
  "date_value tz JUndef = None"
| "date_value tz JNull = Some 0"
| "date_value tz (JBool b) = Some (if b then 1 else 0)"
| "date_value tz (JNum n) = num_trunc n"
| "date_value tz v = date_parse tz (js_string v)"

text \<open>The date-only string of a year in 0--9999, a month and a day, zero-padded: the
  specification side of the parser's round trip.\<close>

fun pad_digits :: "nat \<Rightarrow> nat \<Rightarrow> string" where
  "pad_digits 0 k = []"
| "pad_digits (Suc n) k = pad_digits n (k div 10) @ [digit_char (k mod 10)]"

definition iso_date :: "int \<Rightarrow> nat \<Rightarrow> nat \<Rightarrow> string" where
  "iso_date y mo d = pad_digits 4 (nat y) @ ''-'' @ pad_digits 2 mo @ ''-'' @ pad_digits 2 d"

section \<open>Lemmas of the calendar\<close>

lemma div_succ_wrap:
  assumes n: "0 < (n::int)" and w: "a mod n + 1 = n"
  shows "(a + 1) div n = a div n + 1 \<and> (a + 1) mod n = 0"
proof -
  have eq: "a + 1 = n * (a div n + 1) + 0"
    using mult_div_mod_eq [of n a] w by (simp only: distrib_left mult_1_right add_0_right)
  have d: "(a + 1) div n = a div n + 1" using n by (intro int_div_pos_eq [OF eq]) simp_all
  have "n * ((a + 1) div n) + (a + 1) mod n = a + 1" by (rule mult_div_mod_eq)
  then have "(a + 1) mod n = 0" unfolding d using eq by linarith
  with d show ?thesis by simp
qed

lemma div_succ_nowrap:
  assumes n: "0 < (n::int)" and w: "a mod n + 1 \<noteq> n"
  shows "(a + 1) div n = a div n \<and> (a + 1) mod n = a mod n + 1"
proof -
  have r: "0 \<le> a mod n" "a mod n < n" using n by simp_all
  have eq: "a + 1 = n * (a div n) + (a mod n + 1)" using mult_div_mod_eq [of n a] by linarith
  have b: "0 \<le> a mod n + 1" "a mod n + 1 < n" using r w by linarith+
  have d: "(a + 1) div n = a div n" by (rule int_div_pos_eq [OF eq b])
  have "n * ((a + 1) div n) + (a + 1) mod n = a + 1" by (rule mult_div_mod_eq)
  then have "(a + 1) mod n = a mod n + 1" unfolding d using eq by linarith
  with d show ?thesis by simp
qed

lemma div_succ: "0 < (n::int) \<Longrightarrow> (a + 1) div n = a div n + (if (a + 1) mod n = 0 then 1 else 0)"
proof (cases "a mod n + 1 = n")
  case True
  moreover assume "0 < n"
  ultimately show ?thesis using div_succ_wrap by simp
next
  case False
  moreover assume n: "0 < n"
  have "0 \<le> a mod n" using n by simp
  then have "a mod n + 1 \<noteq> 0" by linarith
  then show ?thesis using div_succ_nowrap [OF n False] by simp
qed

lemma mod_shift: "(y - k * n) mod n = (y::int) mod n"
  by (metis mod_mult_self1 diff_conv_add_uminus mult_minus_left)

lemma div_shift_succ:
  assumes "0 < n" "a + 1 = y - k * n"
  shows "(a + 1) div n = a div n + (if (y::int) mod n = 0 then 1 else 0)"
  using div_succ [OF assms(1), of a] mod_shift [of y k n] assms(2) by simp

lemma day_from_year_succ: "day_from_year (y + 1) = day_from_year y + days_in_year y"
proof -
  have a: "(y - 1968) div 4 = (y - 1969) div 4 + (if y mod 4 = 0 then 1 else 0)"
    using div_shift_succ [of 4 "y - 1969" y 492] by simp
  have b: "(y - 1900) div 100 = (y - 1901) div 100 + (if y mod 100 = 0 then 1 else 0)"
    using div_shift_succ [of 100 "y - 1901" y 19] by simp
  have c: "(y - 1600) div 400 = (y - 1601) div 400 + (if y mod 400 = 0 then 1 else 0)"
    using div_shift_succ [of 400 "y - 1601" y 4] by simp
  have d: "y mod 100 mod 4 = y mod 4" "y mod 400 mod 100 = y mod 100" by (rule mod_mod_cancel, simp)+
  have s: "y + 1 - 1970 = y - 1969" "y + 1 - 1969 = y - 1968" "y + 1 - 1901 = y - 1900" "y + 1 - 1601 = y - 1600" by simp_all
  have e: "day_from_year (y + 1) - day_from_year y
       = 365 + ((y - 1968) div 4 - (y - 1969) div 4) - ((y - 1900) div 100 - (y - 1901) div 100) + ((y - 1600) div 400 - (y - 1601) div 400)"
    unfolding day_from_year_def s right_diff_distrib by linarith
  have f: "day_from_year (y + 1) = day_from_year y + 365 + (if y mod 4 = 0 then 1 else 0)
             - (if y mod 100 = 0 then 1 else 0) + (if y mod 400 = 0 then 1 else 0)"
    using e a b c by linarith
  show ?thesis unfolding f days_in_year_def using d
    by (cases "y mod 4 = 0"; cases "y mod 100 = 0"; cases "y mod 400 = 0") simp_all
qed

lemma days_in_year_range: "365 \<le> days_in_year y \<and> days_in_year y \<le> 366"
  by (simp add: days_in_year_def)

lemma day_from_year_1970: "day_from_year 1970 = 0"
  by (simp add: day_from_year_def)

lemma day_from_year_mono_nat: "day_from_year y + 365 * int k \<le> day_from_year (y + int k)"
proof (induction k)
  case (Suc k)
  have "day_from_year (y + int (Suc k)) = day_from_year (y + int k) + days_in_year (y + int k)"
    using day_from_year_succ [of "y + int k"] by (simp add: algebra_simps)
  then show ?case using Suc days_in_year_range [of "y + int k"] by simp
qed simp

lemma day_from_year_less: "y < y' \<Longrightarrow> day_from_year y + 365 \<le> day_from_year y'"
proof -
  assume "y < y'"
  then obtain k where k: "y' = (y + 1) + int k" by (metis zle_iff_zadd zless_imp_add1_zle)
  have "day_from_year (y + 1) = day_from_year y + days_in_year y" by (rule day_from_year_succ)
  then show ?thesis using day_from_year_mono_nat [of "y + 1" k] days_in_year_range [of y] k by simp
qed

lemma day_from_year_mono: "y \<le> y' \<Longrightarrow> day_from_year y \<le> day_from_year y'"
  using day_from_year_less [of y y'] by (cases "y = y'") auto

lemma day_from_year_up: "day_from_year (1970 + int k) \<le> 366 * int k"
proof (induction k)
  case (Suc k)
  have "day_from_year (1970 + int (Suc k)) = day_from_year (1970 + int k) + days_in_year (1970 + int k)"
    using day_from_year_succ [of "1970 + int k"] by (simp add: algebra_simps)
  then show ?case using Suc days_in_year_range [of "1970 + int k"] by simp
qed (simp add: day_from_year_1970)

lemma day_from_year_down: "day_from_year (1970 - int k) \<le> - 365 * int k"
proof (induction k)
  case (Suc k)
  have "day_from_year (1970 - int k) = day_from_year (1970 - int (Suc k)) + days_in_year (1970 - int (Suc k))"
    using day_from_year_succ [of "1970 - int (Suc k)"] by simp
  then show ?case using Suc days_in_year_range [of "1970 - int (Suc k)"] by simp
qed (simp add: day_from_year_1970)

lemma day_from_year_up_lower: "365 * int k \<le> day_from_year (1970 + int k)"
  using day_from_year_mono_nat [of 1970 k] day_from_year_1970 by simp

lemma day_from_year_down_lower: "- 366 * int k \<le> day_from_year (1970 - int k)"
proof (induction k)
  case (Suc k)
  have "day_from_year (1970 - int k) = day_from_year (1970 - int (Suc k)) + days_in_year (1970 - int (Suc k))"
    using day_from_year_succ [of "1970 - int (Suc k)"] by simp
  then show ?case using Suc days_in_year_range [of "1970 - int (Suc k)"] by simp
qed (simp add: day_from_year_1970)

lemma year_start_le: "day_from_year (1970 + (if 0 \<le> d then d div 366 else d div 365)) \<le> d"
proof (cases "0 \<le> d")
  case True
  have "day_from_year (1970 + int (nat (d div 366))) \<le> 366 * int (nat (d div 366))" by (rule day_from_year_up)
  moreover have "366 * (d div 366) \<le> d" using mult_div_mod_eq [of 366 d] pos_mod_sign [of 366 d] by linarith 
  moreover have "0 \<le> d div 366" using True by simp
  ultimately show ?thesis using True by simp
next
  case False
  have "day_from_year (1970 - int (nat (- (d div 365)))) \<le> - 365 * int (nat (- (d div 365)))" by (rule day_from_year_down)
  moreover have "365 * (d div 365) \<le> d" using mult_div_mod_eq [of 365 d] pos_mod_sign [of 365 d] by linarith
  moreover have "d div 365 \<le> 0" using False by simp
  ultimately show ?thesis using False by simp
qed

lemma year_search_end:
  "d < day_from_year (1970 + (if 0 \<le> d then d div 366 else d div 365) + int (nat \<bar>d div 365 - d div 366\<bar> + 2))"
proof (cases "0 \<le> d")
  case True
  have le: "d div 366 \<le> d div 365" using True by (simp add: zdiv_mono2)
  have "365 * int (nat (d div 365 + 2)) \<le> day_from_year (1970 + int (nat (d div 365 + 2)))" by (rule day_from_year_up_lower)
  moreover have "d < 365 * (d div 365) + 730" using mult_div_mod_eq [of 365 d] pos_mod_bound [of 365 d] by linarith
  moreover have "0 \<le> d div 365" using True by simp
  ultimately show ?thesis using True le by (simp add: algebra_simps)
next
  case False
  have le: "d div 365 \<le> d div 366" using False by (simp add: zdiv_mono2_neg)
  show ?thesis
  proof (cases "0 \<le> d div 366 + 2")
    case True
    have "0 \<le> day_from_year (1970 + (d div 366 + 2))"
      using day_from_year_up_lower [of "nat (d div 366 + 2)"] True by simp
    then show ?thesis using False le True by (simp add: algebra_simps)
  next
    case c: False
    have "- 366 * int (nat (- (d div 366 + 2))) \<le> day_from_year (1970 - int (nat (- (d div 366 + 2))))"
      by (rule day_from_year_down_lower)
    moreover have "d < 366 * (d div 366) + 732" using mult_div_mod_eq [of 366 d] pos_mod_bound [of 366 d] by linarith
    ultimately show ?thesis using False le c by (simp add: algebra_simps)
  qed
qed

lemma year_from_day_spec:
  "day_from_year (year_from_day d) \<le> d \<and> d < day_from_year (year_from_day d + 1)"
proof -
  define y0 where "y0 = 1970 + (if 0 \<le> d then d div 366 else d div 365)"
  define k where "k = nat \<bar>d div 365 - d div 366\<bar> + 2"
  define P where "P = (\<lambda>i. day_from_year (y0 + int i + 1) \<le> d)"
  define n where "n = length (takeWhile P [0..<k])"
  have y: "year_from_day d = y0 + int n" by (simp add: year_from_day_def y0_def k_def P_def n_def Let_def)
  have "\<not> P (k - 1)" using year_search_end [of d] by (simp add: P_def y0_def k_def algebra_simps)
  moreover have nk0: "n \<le> k" unfolding n_def using length_takeWhile_le [of P "[0..<k]"] by simp
  moreover have "n \<noteq> k"
  proof
    assume "n = k"
    have "length (takeWhile P [0..<k] @ dropWhile P [0..<k]) = k" by (simp only: takeWhile_dropWhile_id) simp
    then have "length (takeWhile P [0..<k]) + length (dropWhile P [0..<k]) = k" by (simp only: length_append)
    then have "dropWhile P [0..<k] = []" using \<open>n = k\<close> unfolding n_def by simp
    then have "\<forall>x\<in>set [0..<k]. P x" by simp
    then show False using \<open>\<not> P (k - 1)\<close> by (simp add: k_def)
  qed
  ultimately have nk: "n < k" by simp
  have all: "P i" if "i < n" for i
  proof -
    have "takeWhile P [0..<k] ! i \<in> set (takeWhile P [0..<k])" using that unfolding n_def by (rule nth_mem)
    then have "P (takeWhile P [0..<k] ! i)" by (rule set_takeWhileD [THEN conjunct2])
    moreover have "takeWhile P [0..<k] ! i = [0..<k] ! i" using that unfolding n_def by (rule takeWhile_nth)
    moreover have "i < k" using that nk by simp
    ultimately show ?thesis by simp
  qed
  have stop: "\<not> P n" unfolding n_def using nk n_def nth_length_takeWhile [of P "[0..<k]"] by simp
  have lo: "day_from_year (y0 + int n) \<le> d"
  proof (cases n)
    case 0 then show ?thesis using year_start_le [of d] by (simp add: y0_def)
  next
    case (Suc m) then show ?thesis using all [of m] by (simp add: P_def algebra_simps)
  qed
  show ?thesis using lo stop y by (simp add: P_def algebra_simps)
qed

lemma year_from_day_eq:
  assumes "day_from_year y \<le> d" "d < day_from_year (y + 1)"
  shows "year_from_day d = y"
proof -
  let ?y = "year_from_day d"
  have s: "day_from_year ?y \<le> d" "d < day_from_year (?y + 1)" using year_from_day_spec by blast+
  show ?thesis
  proof (rule ccontr)
    assume "?y \<noteq> y"
    then have "?y + 1 \<le> y \<or> y + 1 \<le> ?y" by linarith
    then show False
    proof
      assume "?y + 1 \<le> y"
      then have "day_from_year (?y + 1) \<le> day_from_year y"
        using day_from_year_less [of "?y + 1" y] by (cases "?y + 1 = y") auto
      then show False using s assms by linarith
    next
      assume "y + 1 \<le> ?y"
      then have "day_from_year (y + 1) \<le> day_from_year ?y"
        using day_from_year_less [of "y + 1" ?y] by (cases "y + 1 = ?y") auto
      then show False using s assms by linarith
    qed
  qed
qed

lemma month_from_dwy_start:
  assumes "m < 12" "0 \<le> k" "k < days_in_month y m"
  shows "month_from_dwy (in_leap_year y) (month_start (in_leap_year y) m + k) = m"
proof -
  have "m \<in> {0,1,2,3,4,5,6,7,8,9,10,11}" using assms(1) by (simp add: numeral_eq_Suc less_Suc_eq)
  then show ?thesis using assms(2,3)
    by (cases "in_leap_year y"; auto simp: month_from_dwy_def month_start_def month_starts_def days_in_month_def)
qed

lemma month_days_in_year:
  assumes "m < 12" "1 \<le> d" "d \<le> days_in_month y m"
  shows "0 \<le> month_start (in_leap_year y) m + d - 1 \<and> month_start (in_leap_year y) m + d - 1 < days_in_year y"
proof -
  have "m \<in> {0,1,2,3,4,5,6,7,8,9,10,11}" using assms(1) by (simp add: numeral_eq_Suc less_Suc_eq)
  then show ?thesis using assms(2,3)
    by (cases "in_leap_year y"; auto simp: month_start_def month_starts_def days_in_month_def in_leap_year_def days_in_year_def split: if_splits)
qed

theorem make_day_month:
  assumes "m < 12" "1 \<le> d" "d \<le> days_in_month y m"
  shows "year_from_day (make_day y m d) = y \<and> month_from_day (make_day y m d) = m"
proof -
  have r: "0 \<le> month_start (in_leap_year y) m + d - 1" "month_start (in_leap_year y) m + d - 1 < days_in_year y"
    using month_days_in_year [OF assms] by blast+
  have y: "year_from_day (make_day y m d) = y"
    using r day_from_year_succ [of y] by (intro year_from_day_eq) (simp_all add: make_day_def)
  have "month_from_dwy (in_leap_year y) (month_start (in_leap_year y) m + (d - 1)) = m"
    using assms by (intro month_from_dwy_start) simp_all
  then show ?thesis using y by (simp add: month_from_day_def make_day_def Let_def algebra_simps)
qed

lemma month_start_range:
  "m < 12 \<Longrightarrow> 0 \<le> month_start l m \<and> month_start l m \<le> 335"
proof -
  assume "m < 12"
  then have "m \<in> {0,1,2,3,4,5,6,7,8,9,10,11}" by (simp add: numeral_eq_Suc less_Suc_eq)
  then show ?thesis by (cases l) (auto simp: month_start_def month_starts_def)
qed

lemma days_in_month_le: "m < 12 \<Longrightarrow> days_in_month y m \<le> 31"
proof -
  assume "m < 12"
  then have "m \<in> {0,1,2,3,4,5,6,7,8,9,10,11}" by (simp add: numeral_eq_Suc less_Suc_eq)
  then show ?thesis by (auto simp: days_in_month_def)
qed

lemma days_in_month_ge: "m < 12 \<Longrightarrow> 28 \<le> days_in_month y m"
proof -
  assume "m < 12"
  then have "m \<in> {0,1,2,3,4,5,6,7,8,9,10,11}" by (simp add: numeral_eq_Suc less_Suc_eq)
  then show ?thesis by (auto simp: days_in_month_def)
qed

lemma make_day_bounds:
  assumes "0 \<le> y" "y < 10000" "m < 12" "1 \<le> d" "d \<le> days_in_month y m"
  shows "-719528 \<le> make_day y m d \<and> make_day y m d \<le> 2932897"
proof -
  have "day_from_year 0 \<le> day_from_year y" "day_from_year y \<le> day_from_year 9999"
    using assms by (simp_all add: day_from_year_mono)
  moreover have "day_from_year 0 = -719528" "day_from_year 9999 = 2932532" by (simp_all add: day_from_year_def)
  ultimately show ?thesis using month_start_range [OF assms(3), of "in_leap_year y"] days_in_month_le [OF assms(3), of y] assms
    by (simp add: make_day_def)
qed

lemma local_day:
  "0 \<le> k \<Longrightarrow> k < msPerDay \<Longrightarrow> (D * msPerDay + k) div msPerDay = D"
  by (simp add: msPerDay_def)

lemma local_day_before:
  "- msPerDay \<le> k \<Longrightarrow> k < 0 \<Longrightarrow> (D * msPerDay + k) div msPerDay = D - 1"
  by (simp add: msPerDay_def)

lemma make_day_prev:
  assumes "1 \<le> m" "m < 12"
  shows "make_day y m 1 - 1 = make_day y (m - 1) (days_in_month y (m - 1))"
proof -
  have "m \<in> {1,2,3,4,5,6,7,8,9,10,11}" using assms by (simp add: numeral_eq_Suc less_Suc_eq)
  then show ?thesis by (cases "in_leap_year y") (auto simp: make_day_def month_start_def month_starts_def days_in_month_def)
qed

lemma make_day_prev_year: "make_day y 0 1 - 1 = make_day (y - 1) 11 31"
proof -
  have "day_from_year y = day_from_year (y - 1) + days_in_year (y - 1)" using day_from_year_succ [of "y - 1"] by simp
  then show ?thesis
    by (simp add: make_day_def month_start_def month_starts_def in_leap_year_def days_in_year_def)
qed

lemma month_from_time_lt: "month_from_time tz t < 12"
proof -
  have b: "month_from_dwy l dwy < 12" for dwy l
    using length_filter_le [of _ "month_starts l"] by (simp add: month_from_dwy_def month_starts_def)
  show ?thesis unfolding month_from_time_def month_from_day_def Let_def by (rule b)
qed

section \<open>Lemmas of the parser\<close>

lemma pad_digits_length [simp]: "length (pad_digits n k) = n"
  by (induction n arbitrary: k) auto

lemma of_char_digit_char: "d < 10 \<Longrightarrow> of_char (digit_char d) = 48 + d"
proof -
  assume "d < 10"
  then have "d \<in> {0,1,2,3,4,5,6,7,8,9}" by (simp add: numeral_eq_Suc less_Suc_eq)
  then show ?thesis by (auto simp: digit_char_def)
qed

lemma pad_digits_numeral:
  "pad_digits (numeral n) k = pad_digits (pred_numeral n) (k div 10) @ [digit_char (k mod 10)]"
  by (subst numeral_eq_Suc) (rule pad_digits.simps(2))

lemma pad_digits_digits: "list_all is_digit (pad_digits n k)"
  by (induction n arbitrary: k) (auto simp: is_digit_def of_char_digit_char)

lemma digits_nat_snoc: "digits_nat (ds @ [c]) = 10 * digits_nat ds + (of_char c - 48)"
  by (simp add: digits_nat_def)

lemma digits_nat_pad: "k < 10 ^ n \<Longrightarrow> digits_nat (pad_digits n k) = k"
proof (induction n arbitrary: k)
  case 0 then show ?case by (simp add: digits_nat_def)
next
  case (Suc n)
  have "k div 10 < 10 ^ n" using Suc.prems by (simp add: less_mult_imp_div_less mult.commute)
  then have "digits_nat (pad_digits n (k div 10)) = k div 10" by (rule Suc.IH)
  moreover have "of_char (digit_char (k mod 10)) = 48 + k mod 10" by (simp add: of_char_digit_char)
  ultimately show ?case by (simp add: digits_nat_snoc)
qed

lemma take_digits_pad: "k < 10 ^ n \<Longrightarrow> take_digits n (pad_digits n k @ r) = Some (k, r)"
  by (simp add: take_digits_def pad_digits_digits digits_nat_pad)

lemma parse_iso_date:
  assumes "0 \<le> y" "y < 10000" "mo < 100" "d < 100"
  shows "parse_iso (iso_date y mo d) = Some (Iso y mo d None None)"
proof -
  have y: "take_digits 4 (pad_digits 4 (nat y) @ r) = Some (nat y, r)" for r using assms by (intro take_digits_pad) simp
  have m: "take_digits 2 (pad_digits 2 mo @ r) = Some (mo, r)" for r using assms by (intro take_digits_pad) simp
  have d: "take_digits 2 (pad_digits 2 d @ r) = Some (d, r)" for r using assms by (intro take_digits_pad) simp
  have h: "hd (pad_digits 4 (nat y) @ r) \<noteq> CHR ''+'' \<and> hd (pad_digits 4 (nat y) @ r) \<noteq> CHR ''-''" for r
    using pad_digits_digits [of 4 "nat y"] pad_digits_length [of 4 "nat y"]
    by (cases "pad_digits 4 (nat y)") (auto simp: is_digit_def)
  have py: "parse_year (pad_digits 4 (nat y) @ r) = Some (y, r)" for r
  proof -
    have "length (pad_digits 4 (nat y) @ r) \<noteq> 0" by simp
    then obtain c cs where c: "pad_digits 4 (nat y) @ r = c # cs" by (cases "pad_digits 4 (nat y) @ r") auto
    show ?thesis using h [of r] y [of r] assms(1) unfolding parse_year_def c by auto
  qed
  show ?thesis
    using py [of "''-'' @ pad_digits 2 mo @ ''-'' @ pad_digits 2 d"] m [of "''-'' @ pad_digits 2 d"] d [of "[]"]
    by (simp add: parse_iso_def iso_date_def parse_date_def parse_sep2_def)
qed

lemma date_parse_iso_date:
  assumes "0 \<le> y" "y < 10000" "1 \<le> mo" "mo \<le> 12" "1 \<le> d" "int d \<le> days_in_month y (mo - 1)"
  shows "date_parse tz (iso_date y mo d) = Some (make_day y (mo - 1) (int d) * msPerDay)"
proof -
  have "days_in_month y (mo - 1) \<le> 31" using assms by (intro days_in_month_le) simp
  then have "parse_iso (iso_date y mo d) = Some (Iso y mo d None None)"
    using assms by (intro parse_iso_date) simp_all
  moreover have "-719528 \<le> make_day y (mo - 1) (int d) \<and> make_day y (mo - 1) (int d) \<le> 2932897"
    using assms by (intro make_day_bounds) simp_all
  ultimately show ?thesis using assms
    by (simp add: date_parse_def iso_time_def time_clip_def msPerDay_def abs_le_iff)
qed

text \<open>C10. A task date written \<open>YYYY-MM-DD\<close> (a valid date of the years 0--9999) is
  read as UTC midnight, and \<open>getMonth()\<close> in a time zone from UTC to UTC+23:59 gives
  back its month \<open>MM - 1\<close>.\<close>

theorem iso_date_month:
  assumes "0 \<le> y" "y < 10000" "1 \<le> mo" "mo \<le> 12" "1 \<le> d" "int d \<le> days_in_month y (mo - 1)"
    and "0 \<le> tz" "tz < 1440"
  shows "map_option (month_from_time tz) (date_parse tz (iso_date y mo d)) = Some (mo - 1)"
proof -
  have "(make_day y (mo - 1) (int d) * msPerDay + tz * 60000) div msPerDay = make_day y (mo - 1) (int d)"
    using assms(7,8) by (intro local_day) (simp_all add: msPerDay_def)
  then show ?thesis using date_parse_iso_date [OF assms(1-6)] make_day_month [of "mo - 1" "int d" y] assms(3-6)
    by (simp add: month_from_time_def)
qed

lemma iso_mar: "iso_date 2024 3 15 = ''2024-03-15''"
  by (simp add: iso_date_def pad_digits_numeral digit_char_def)

theorem iso_date_month_witness:
  "0 \<le> (2024::int) \<and> (2024::int) < 10000 \<and> 1 \<le> (3::nat) \<and> (3::nat) \<le> 12 \<and> 1 \<le> (15::nat)
   \<and> int 15 \<le> days_in_month 2024 (3 - 1) \<and> 0 \<le> (60::int) \<and> (60::int) < 1440
   \<and> map_option (month_from_time 60) (date_parse 60 ''2024-03-15'') = Some 2"
proof -
  have d: "int 15 \<le> days_in_month 2024 (3 - 1)" by (simp add: days_in_month_def)
  have "map_option (month_from_time 60) (date_parse 60 (iso_date 2024 3 15)) = Some (3 - 1)"
    using d by (intro iso_date_month) simp_all
  then show ?thesis using d by (simp add: iso_mar)
qed

theorem iso_date_month_west:
  assumes "0 \<le> y" "y < 10000" "1 \<le> mo" "mo \<le> 12" "- 1440 \<le> tz" "tz < 0"
  shows "map_option (month_from_time tz) (date_parse tz (iso_date y mo 1)) = Some ((mo + 10) mod 12)"
proof -
  have "mo - 1 < 12" using assms(3,4) by simp
  then have "28 \<le> days_in_month y (mo - 1)" by (rule days_in_month_ge)
  then have dim: "1 \<le> days_in_month y (mo - 1)" by simp
  have p: "date_parse tz (iso_date y mo 1) = Some (make_day y (mo - 1) 1 * msPerDay)"
    using date_parse_iso_date [of y mo 1] assms dim by simp
  have l: "(make_day y (mo - 1) 1 * msPerDay + tz * 60000) div msPerDay = make_day y (mo - 1) 1 - 1"
    using assms(5,6) by (intro local_day_before) (simp_all add: msPerDay_def)
  show ?thesis
  proof (cases "mo = 1")
    case True
    have "month_from_day (make_day (y - 1) 11 31) = 11"
      using make_day_month [of 11 31 "y - 1"] by (simp add: days_in_month_def)
    then show ?thesis using p l True make_day_prev_year [of y] by (simp add: month_from_time_def)
  next
    case False
    then have "make_day y (mo - 1) 1 - 1 = make_day y (mo - 2) (days_in_month y (mo - 2))"
      using make_day_prev [of "mo - 1" y] assms(3,4) by (simp add: numeral_2_eq_2 diff_diff_add)
    moreover have "month_from_day (make_day y (mo - 2) (days_in_month y (mo - 2))) = mo - 2"
    proof -
      have "mo - 2 < 12" using assms(4) by simp
      then show ?thesis using make_day_month [of "mo - 2" "days_in_month y (mo - 2)" y] days_in_month_ge [of "mo - 2" y]
        by simp
    qed
    moreover have "(mo + 10) mod 12 = mo - 2" using False assms(3,4) by presburger
    ultimately show ?thesis using p l by (simp add: month_from_time_def)
  qed
qed

end
