(* ===== verification/TailAdminTasks.thy ===== *)
theory TailAdminTasks
  imports JsDate
begin

text \<open>
  The task service of the TailAdmin template (\<open>free-nextjs-admin-dashboard-main/src\<close>):
  the route \<open>GET /api/tasks\<close> (\<open>app/api/tasks/route.ts\<close>) answers the \<open>tasks\<close> of
  \<open>db.json\<close> or a 500; the client \<open>RepositoryController.getTasks\<close>
  (\<open>services/RepositoryController.ts\<close>) turns every failure into \<open>[]\<close>; and
  \<open>BarChartOne\<close> (\<open>components/charts/bar/BarChartOne.tsx\<close>) counts the tasks per month
  of \<open>new Date(task.date).getMonth()\<close> (\<open>JsDate\<close>), completed apart from the rest.
\<close>

section \<open>The route\<close>

text \<open>\<open>db.json\<close>: missing or unreadable, a text that is not JSON, or a JSON value.\<close>

datatype db_file = DbMissing | DbText string | DbJson jsval

record api_response =
  resp_status :: nat
  resp_body :: jsval

definition db_error :: api_response where
  "db_error = \<lparr>resp_status = 500, resp_body = JObj [(''error'', JStr ''Error reading database'')]\<rparr>"

text \<open>\<open>GET\<close> (lines 5--16): every step is inside the \<open>try\<close>. Reading \<open>tasks\<close> of
  \<open>null\<close> throws, and so does \<open>NextResponse.json(undefined)\<close>, since
  \<open>Response.json\<close> refuses a value that \<open>JSON.stringify\<close> does not serialise.\<close>

definition tasks_GET :: "db_file \<Rightarrow> api_response" where
  "tasks_GET db = (case db of
      DbJson v \<Rightarrow>
        (case js_get v ''tasks'' of
           None \<Rightarrow> db_error
         | Some t \<Rightarrow> if t = JUndef then db_error else \<lparr>resp_status = 200, resp_body = t\<rparr>)
    | _ \<Rightarrow> db_error)"

section \<open>The client\<close>

text \<open>The outcome of \<open>fetch('/api/tasks')\<close>: a network error or the route's response.\<close>

datatype fetch_outcome = NetworkError | Response api_response

text \<open>\<open>getTasks\<close> (lines 7--18): the body of an ok response, \<open>[]\<close> on any error.\<close>

definition getTasks :: "fetch_outcome \<Rightarrow> jsval" where
  "getTasks r = (case r of
      Response resp \<Rightarrow> if 200 \<le> resp_status resp \<and> resp_status resp \<le> 299 then resp_body resp else JArr []
    | NetworkError \<Rightarrow> JArr [])"

section \<open>The chart\<close>

text \<open>\<open>arr[month]++\<close> for a month in 0--11.\<close>

definition bump :: "nat \<Rightarrow> nat list \<Rightarrow> nat list" where
  "bump m xs = xs[m := xs ! m + 1]"

text \<open>The \<open>forEach\<close> of \<open>fetchTasks\<close> (lines 23--30): a \<open>null\<close> task throws; an invalid
  date gives the month \<open>NaN\<close>, and \<open>arr[NaN]++\<close> only adds a property \<open>NaN\<close> to the
  array, which the chart does not read.\<close>

fun count_tasks :: "int \<Rightarrow> jsval list \<Rightarrow> nat list \<times> nat list \<Rightarrow> (nat list \<times> nat list) option" where
  "count_tasks tz [] cp = Some cp"
| "count_tasks tz (t # ts) (c, p) =
     (if nullish t then None
      else count_tasks tz ts
             (case date_value tz (js_prop t ''date'') of
                None \<Rightarrow> (c, p)
              | Some tv \<Rightarrow>
                  if strict_eq (js_prop t ''status'') (JStr ''completed'')
                  then (bump (month_from_time tz tv) c, p) else (c, bump (month_from_time tz tv) p)))"

definition bar_categories :: "string list" where
  "bar_categories = [''Jan'', ''Feb'', ''Mar'', ''Apr'', ''May'', ''Jun'', ''Jul'', ''Aug'', ''Sep'', ''Oct'', ''Nov'', ''Dec'']"

text \<open>The series passed to \<open>setSeries\<close> (lines 20--41); \<open>None\<close> when \<open>fetchTasks\<close>
  throws, a value that is not an array having no \<open>forEach\<close>.\<close>

definition chart_series :: "int \<Rightarrow> jsval \<Rightarrow> (string \<times> nat list) list option" where
  "chart_series tz v = (case v of
      JArr ts \<Rightarrow> map_option (\<lambda>(c, p). [(''Completed Tasks'', c), (''Pending Tasks'', p)])
                   (count_tasks tz ts (replicate 12 0, replicate 12 0))
    | _ \<Rightarrow> None)"

text \<open>The component: the series, whether \<open>fetchTasks\<close> is still running, and the
  rejections it left unhandled (\<open>fetchTasks()\<close> is called without \<open>catch\<close>).\<close>

record bc_state =
  bc_series :: "(string \<times> nat list) list"
  bc_pending :: bool
  bc_unhandled :: nat

definition bc_mount :: bc_state where
  "bc_mount = \<lparr>bc_series = [], bc_pending = True, bc_unhandled = 0\<rparr>"

definition bc_step :: "int \<Rightarrow> fetch_outcome \<Rightarrow> bc_state \<Rightarrow> bc_state option" where
  "bc_step tz r s =
     (if \<not> bc_pending s then None
      else Some (case chart_series tz (getTasks r) of
                   Some ser \<Rightarrow> s\<lparr>bc_series := ser, bc_pending := False\<rparr>
                 | None \<Rightarrow> s\<lparr>bc_pending := False, bc_unhandled := Suc (bc_unhandled s)\<rparr>))"

text \<open>The chart of a mount against a server holding \<open>db\<close>.\<close>

definition tasks_chart :: "int \<Rightarrow> db_file \<Rightarrow> bc_state option" where
  "tasks_chart tz db = bc_step tz (Response (tasks_GET db)) bc_mount"

definition zero_series :: "(string \<times> nat list) list" where
  "zero_series = [(''Completed Tasks'', replicate 12 0), (''Pending Tasks'', replicate 12 0)]"

text \<open>A task whose \<open>date\<close> makes a valid \<open>Date\<close>.\<close>

definition dated :: "int \<Rightarrow> jsval \<Rightarrow> bool" where
  "dated tz t \<longleftrightarrow> date_value tz (js_prop t ''date'') \<noteq> None"

text \<open>A sample answer: a task of the first of February, one with a \<open>null\<close> date, and one
  with a date that is not a date.\<close>

definition demo_tasks :: "jsval list" where
  "demo_tasks =
     [JObj [(''id'', jint 1), (''date'', JStr ''2024-02-01''), (''status'', JStr ''completed'')],
      JObj [(''id'', jint 2), (''date'', JNull), (''status'', JStr ''pending'')],
      JObj [(''id'', jint 3), (''date'', JStr ''soon''), (''status'', JStr ''completed'')]]"

section \<open>Lemmas\<close>

lemma bump_length [simp]: "length (bump m xs) = length xs"
  by (simp add: bump_def)

lemma sum_list_bump: "m < length xs \<Longrightarrow> sum_list (bump m xs) = Suc (sum_list xs)"
proof (induction xs arbitrary: m)
  case (Cons x xs)
  then show ?case by (cases m) (auto simp: bump_def)
qed simp

lemma count_tasks_total:
  "count_tasks tz ts (c, p) = Some (c', p') \<Longrightarrow> length c = 12 \<Longrightarrow> length p = 12
   \<Longrightarrow> length c' = 12 \<and> length p' = 12
       \<and> sum_list c' + sum_list p' = sum_list c + sum_list p + length (filter (dated tz) ts)"
proof (induction ts arbitrary: c p)
  case (Cons t ts)
  have nn: "\<not> nullish t" using Cons.prems(1) by (auto split: if_splits)
  show ?case
  proof (cases "date_value tz (js_prop t ''date'')")
    case None
    then show ?thesis using Cons nn by (simp add: dated_def)
  next
    case (Some tv)
    have m: "month_from_time tz tv < 12" by (rule month_from_time_lt)
    show ?thesis
    proof (cases "strict_eq (js_prop t ''status'') (JStr ''completed'')")
      case True
      then have "count_tasks tz ts (bump (month_from_time tz tv) c, p) = Some (c', p')" using Cons.prems(1) nn Some by simp
      then show ?thesis using Cons.IH [of "bump (month_from_time tz tv) c" p] Cons.prems m Some sum_list_bump [of _ c]
        by (simp add: dated_def)
    next
      case False
      then have "count_tasks tz ts (c, bump (month_from_time tz tv) p) = Some (c', p')" using Cons.prems(1) nn Some by simp
      then show ?thesis using Cons.IH [of c "bump (month_from_time tz tv) p"] Cons.prems m Some sum_list_bump [of _ p]
        by (simp add: dated_def)
    qed
  qed
qed simp

text \<open>C18. The chart's two series have one entry per category (month), and together
  they count exactly the tasks whose date is valid: a \<open>NaN\<close> month adds nothing.\<close>

theorem chart_counts_total:
  "chart_series tz (JArr ts) = Some [(a, c), (b, p)]
   \<Longrightarrow> length c = length bar_categories \<and> length p = length bar_categories
       \<and> sum_list c + sum_list p = length (filter (dated tz) ts)"
  using count_tasks_total [of tz ts "replicate 12 0" "replicate 12 0"]
  by (auto simp: chart_series_def bar_categories_def)

text \<open>Every failure of the route (no file, no JSON, \<open>null\<close>, no \<open>tasks\<close>) reaches the
  chart as \<open>[]\<close>: twelve zeros in each series, as for a database without tasks.\<close>

lemma chart_db_error:
  "tasks_GET db = db_error \<Longrightarrow> tasks_chart tz db = Some \<lparr>bc_series = zero_series, bc_pending = False, bc_unhandled = 0\<rparr>"
  by (simp add: tasks_chart_def bc_step_def bc_mount_def getTasks_def db_error_def chart_series_def zero_series_def)

lemma tasks_GET_errors:
  "tasks_GET DbMissing = db_error" "tasks_GET (DbText s) = db_error" "tasks_GET (DbJson JNull) = db_error"
  "(\<forall>ob. v \<noteq> JObj ob) \<Longrightarrow> tasks_GET (DbJson v) = db_error"
  "tasks_GET (DbJson (JObj [])) = db_error"
  by (cases v; simp add: tasks_GET_def obj_get_def)+

lemma chart_empty_db:
  "tasks_chart tz (DbJson (JObj [(''tasks'', JArr [])])) = Some \<lparr>bc_series = zero_series, bc_pending = False, bc_unhandled = 0\<rparr>"
  by (simp add: tasks_chart_def bc_step_def bc_mount_def getTasks_def tasks_GET_def obj_get_def chart_series_def zero_series_def)

text \<open>A \<open>tasks\<close> value that is not an array makes \<open>forEach\<close> throw: the series stay
  empty and the rejection is unhandled.\<close>

lemma chart_tasks_not_array:
  "tasks_chart tz (DbJson (JObj [(''tasks'', JObj kvs)])) = Some \<lparr>bc_series = [], bc_pending = False, bc_unhandled = 1\<rparr>"
  by (simp add: tasks_chart_def bc_step_def bc_mount_def getTasks_def tasks_GET_def obj_get_def chart_series_def)

lemma iso_feb: "iso_date 2024 2 1 = ''2024-02-01''"
  by (simp add: iso_date_def pad_digits_numeral digit_char_def)

text \<open>West of UTC a date-only string is the evening before in local time: in UTC-3 the
  first of February is counted in January, and a \<open>null\<close> date (the epoch) in December.\<close>

lemma demo_feb: "map_option (month_from_time (-180)) (date_parse (-180) ''2024-02-01'') = Some 0"
proof -
  have "map_option (month_from_time (-180)) (date_parse (-180) (iso_date 2024 2 1)) = Some ((2 + 10) mod 12)"
    by (rule iso_date_month_west) simp_all
  then show ?thesis by (simp only: iso_feb) simp
qed

lemma demo_epoch: "month_from_time (-180) 0 = 11"
  by (simp add: month_from_time_def msPerDay_def month_from_day_def year_from_day_def day_from_year_def
      month_from_dwy_def month_starts_def in_leap_year_def days_in_year_def)

lemma demo_soon: "date_parse tz ''soon'' = None"
  by (simp add: date_parse_def parse_iso_def parse_date_def parse_year_def take_digits_def is_digit_def)

lemma demo_chart:
  "chart_series (-180) (JArr demo_tasks) =
     Some [(''Completed Tasks'', [1, 0, 0, 0, 0, 0, 0, 0, 0, 0, 0, 0]),
           (''Pending Tasks'', [0, 0, 0, 0, 0, 0, 0, 0, 0, 0, 0, 1])]"
proof -
  obtain t where t: "date_parse (-180) ''2024-02-01'' = Some t" "month_from_time (-180) t = 0" using demo_feb by auto
  show ?thesis using t demo_epoch demo_soon [of "-180"]
    by (simp add: chart_series_def demo_tasks_def js_prop_def obj_get_def nullish_def bump_def) (simp add: numeral_eq_Suc)
qed

theorem chart_counts_total_witness:
  "chart_series (-180) (JArr demo_tasks) =
     Some [(''Completed Tasks'', [1, 0, 0, 0, 0, 0, 0, 0, 0, 0, 0, 0]),
           (''Pending Tasks'', [0, 0, 0, 0, 0, 0, 0, 0, 0, 0, 0, 1])]
   \<and> length [1, 0, 0, 0, 0, 0, 0, 0, 0, 0, 0, (0::nat)] = length bar_categories
   \<and> sum_list [1, 0, 0, 0, 0, 0, 0, 0, 0, 0, 0, (0::nat)] + sum_list [0, 0, 0, 0, 0, 0, 0, 0, 0, 0, 0, (1::nat)]
       = length (filter (dated (-180)) demo_tasks)"
  using chart_counts_total [OF demo_chart] demo_chart by simp

end
