(* ===== verification/MustTauri.thy ===== *)
theory MustTauri
  imports SaasOverview
begin

text \<open>
  The MUST desktop app (\<open>src/dashboard-must-tauri-app/src\<close>): the repository
  \<open>controllers/repository.js\<close>, which calls the Rust backend through Tauri's
  \<open>invoke\<close> or falls back to two literal KPIs, and \<open>views/DashboardView.js\<close>, which
  computes the four KPI cards from the activities it is given. The charts
  (\<open>GenericChart\<close>), \<open>DashboardExtension\<close> and \<open>Icons\<close> are globals defined outside
  the repository and are not modelled. Numbers are exact: \<open>Math.round((done/total)*100)\<close>
  is rounded from the exact quotient, where floating point may fall on the other side
  of a half (29 of 200 gives 14 in JavaScript).
\<close>

section \<open>The backend repository\<close>

text \<open>The outcome of \<open>invoke('get_dashboard_kpis')\<close>: the value it resolves to, or a
  rejection (also when \<open>invoke\<close> is missing and the call throws).\<close>

datatype invoke_result = InvokeOk jsval | InvokeErr

text \<open>\<open>isTauri\<close> (line 9) for the value of \<open>window.__TAURI__\<close>.\<close>

definition repo_isTauri :: "jsval \<Rightarrow> bool" where
  "repo_isTauri w \<longleftrightarrow> js_truthy w \<and> js_truthy (js_prop w ''tauri'')"

text \<open>The fallback KPIs (lines 23--26); \<open>a\<close> with acute accent is \<open>C3 A1\<close> in UTF-8.\<close>

definition fallback_kpis :: jsval where
  "fallback_kpis = JArr
     [JObj [(''title'', JStr (''Novos Usu'' @ [CHR 0xC3, CHR 0xA1] @ ''rios (Web)'')), (''value'', JStr ''500''),
            (''icon'', JStr ''Users''), (''color'', JStr ''indigo'')],
      JObj [(''title'', JStr ''Receita (Web)''), (''value'', JStr ''R$ 10k''), (''icon'', JStr ''BarChart''),
            (''color'', JStr ''emerald'')]]"

text \<open>\<open>getDashboardKpis\<close> (lines 20--36).\<close>

definition getDashboardKpis :: "jsval \<Rightarrow> invoke_result \<Rightarrow> jsval" where
  "getDashboardKpis w r =
     (if \<not> repo_isTauri w then fallback_kpis
      else case r of InvokeOk v \<Rightarrow> v | InvokeErr \<Rightarrow> JArr [])"

section \<open>The dashboard view\<close>

text \<open>\<open>(t.status || '').toLowerCase()\<close> (line 5): a truthy value that is not a
  string has no \<open>toLowerCase\<close> and throws (\<open>None\<close>), as does an activity that is
  \<open>null\<close> or \<open>undefined\<close>.\<close>

definition status_text :: "jsval \<Rightarrow> string option" where
  "status_text v = (if js_truthy v then (case v of JStr s \<Rightarrow> Some (to_lower s) | _ \<Rightarrow> None) else Some [])"

definition is_done :: "jsval \<Rightarrow> bool option" where
  "is_done t = (if nullish t then None else map_option (\<lambda>s. js_includes s ''conclu'') (status_text (js_prop t ''status'')))"

text \<open>\<open>new Set(xs).size\<close> (line 8): elements are equal by SameValueZero, which on the
  values here is \<open>===\<close>; objects and arrays are distinct objects.\<close>

fun set_size :: "jsval list \<Rightarrow> nat" where
  "set_size [] = 0"
| "set_size (x # xs) = (if list_ex (strict_eq x) xs then set_size xs else Suc (set_size xs))"

record must_stats =
  ms_total :: nat
  ms_resp :: nat
  ms_pending :: int
  ms_efficiency :: int

text \<open>The KPIs (lines 4--8); \<open>None\<close> when the \<open>filter\<close> throws.\<close>

definition dashboard_stats :: "jsval list \<Rightarrow> must_stats option" where
  "dashboard_stats acts =
     (case those (map is_done acts) of
        None \<Rightarrow> None
      | Some ds \<Rightarrow>
          (let n = length acts; d = length (filter id ds)
           in Some \<lparr>ms_total = n,
                    ms_resp = set_size (filter js_truthy (map (\<lambda>a. js_prop a ''responsavel'') acts)),
                    ms_pending = int n - int d,
                    ms_efficiency = (if 0 < n then js_round (of_nat d / of_nat n * 100) else 0)\<rparr>))"

text \<open>The four cards' values (lines 15--18).\<close>

definition kpi_texts :: "must_stats \<Rightarrow> string list" where
  "kpi_texts s = [show_nat (ms_total s), show_nat (ms_resp s), show_int (ms_pending s), show_int (ms_efficiency s) @ ''%'']"

text \<open>Three sample activities.\<close>

definition demo_activities :: "jsval list" where
  "demo_activities =
     [JObj [(''status'', JStr (''Conclu'' @ [CHR 0xC3, CHR 0xAD] @ ''do'')), (''responsavel'', JStr ''Ana'')],
      JObj [(''status'', JStr ''Pendente''), (''responsavel'', JStr ''Ana'')],
      JObj [(''status'', JStr ''CONCLUIDA''), (''responsavel'', JNull)]]"

section \<open>Lemmas\<close>

lemma set_size_le: "set_size xs \<le> length xs"
  by (induction xs) auto

lemma js_round_range: "0 \<le> q \<Longrightarrow> q \<le> 100 \<Longrightarrow> 0 \<le> js_round q \<and> js_round q \<le> 100"
  unfolding js_round_def by (auto intro: floor_mono [where y = "101 / 2 + 100 - 1 / 2 - 1/2", simplified] simp: le_floor_iff floor_le_iff)

text \<open>C6. The dashboard's KPI cards stay in range for every list of activities the
  view accepts: the pending count is neither negative nor above the total, there are
  no more people responsible than activities, and the efficiency is between 0 and
  100 percent (an empty list included, where the code guards the division).\<close>

theorem dashboard_stats_bounds:
  assumes "dashboard_stats acts = Some s"
  shows "0 \<le> ms_pending s \<and> ms_pending s \<le> int (ms_total s) \<and> ms_resp s \<le> ms_total s
         \<and> 0 \<le> ms_efficiency s \<and> ms_efficiency s \<le> 100"
proof -
  obtain ds where ds: "those (map is_done acts) = Some ds" using assms by (auto simp: dashboard_stats_def split: option.splits)
  have len: "length ds = length acts" using ds by (induction acts arbitrary: ds) (auto split: option.splits)
  let ?n = "length acts" and ?d = "length (filter id ds)"
  have dn: "?d \<le> ?n" using length_filter_le [of id ds] len by simp
  have r: "set_size (filter js_truthy (map (\<lambda>a. js_prop a ''responsavel'') acts)) \<le> ?n"
    by (rule order_trans [OF set_size_le]) (metis length_filter_le length_map)
  have e: "0 < ?n \<Longrightarrow> 0 \<le> js_round (of_nat ?d / of_nat ?n * 100) \<and> js_round (of_nat ?d / of_nat ?n * 100) \<le> 100"
  proof -
    assume n: "0 < ?n"
    have "of_nat ?d * 100 / of_nat ?n \<le> (100::rat)" using dn n by (simp add: pos_divide_le_eq)
    then have "of_nat ?d / of_nat ?n * 100 \<le> (100::rat)" by simp
    then show ?thesis by (intro js_round_range) simp_all
  qed
  show ?thesis using assms ds dn r e by (auto simp: dashboard_stats_def Let_def)
qed

lemma floor_403_6: "\<lfloor>(403::rat) / 6\<rfloor> = 67"
  using floor_divide_of_int_eq [of 403 6, where 'a = rat] by simp

text \<open>A sample: \<open>Conclu\<close> in any case counts as done, \<open>null\<close> is no one.\<close>

lemma demo_stats:
  "dashboard_stats demo_activities = Some \<lparr>ms_total = 3, ms_resp = 1, ms_pending = 1, ms_efficiency = 67\<rparr>"
  by (simp add: dashboard_stats_def demo_activities_def is_done_def status_text_def js_prop_def obj_get_def
      nullish_def to_lower_def lower_char_def prefix_def js_round_def floor_403_6 del: js_includes_iff_sublist)

lemma demo_kpi_texts: "kpi_texts \<lparr>ms_total = 3, ms_resp = 1, ms_pending = 1, ms_efficiency = 67\<rparr> = [''3'', ''1'', ''1'', ''67%'']"
  by (simp add: kpi_texts_def show_nat_eval show_int_def)

theorem dashboard_stats_bounds_witness:
  "dashboard_stats demo_activities = Some \<lparr>ms_total = 3, ms_resp = 1, ms_pending = 1, ms_efficiency = 67\<rparr>
   \<and> 0 \<le> (1::int) \<and> (1::int) \<le> int 3 \<and> (1::nat) \<le> 3 \<and> 0 \<le> (67::int) \<and> (67::int) \<le> 100"
  using dashboard_stats_bounds [OF demo_stats] demo_stats by simp

text \<open>A truthy status that is not a string (a number, \<open>true\<close>, an object) makes the
  view throw.\<close>

lemma numeric_status_throws: "js_truthy v \<Longrightarrow> (\<forall>s. v \<noteq> JStr s) \<Longrightarrow> dashboard_stats [JObj [(''status'', v)]] = None"
  by (cases v) (auto simp: dashboard_stats_def is_done_def status_text_def js_prop_def obj_get_def nullish_def)

text \<open>Outside Tauri the repository answers the two literal KPIs whatever the backend
  would say; inside, a failed call answers no KPI at all.\<close>

lemma kpis_outside_tauri: "\<not> js_truthy w \<Longrightarrow> getDashboardKpis w r = fallback_kpis"
  by (simp add: getDashboardKpis_def repo_isTauri_def)

lemma kpis_invoke_error: "repo_isTauri w \<Longrightarrow> getDashboardKpis w InvokeErr = JArr []"
  by (simp add: getDashboardKpis_def)

end
