(* ===== verification/OnsEnergia.thy ===== *)
theory OnsEnergia
  imports OnsPages Widgets
begin

text \<open>
  The energy page of the ONS dashboard (\<open>src/futuristic-ons-dashboard/app/energia/page.jsx\<close>)
  beyond what \<open>OnsPages\<close> holds: its literal series (hourly generation by source, the
  week's demand and generation, the energy matrix), its four \<open>StatsCard\<close>s, the tooltips,
  the axis ticks, the stacked areas, the matrix legend and the regional bars. The page has
  no state; \<open>recharts\<close> draws the series and is not modelled beyond the values it is
  given.
\<close>

section \<open>Data\<close>

record hour_row =
  h_hora :: string
  h_geracao :: int
  h_consumo :: int
  h_hidro :: int
  h_termica :: int
  h_renovavel :: int

definition mk_hour :: "string \<Rightarrow> int \<Rightarrow> int \<Rightarrow> int \<Rightarrow> int \<Rightarrow> int \<Rightarrow> hour_row" where
  "mk_hour h g c hi te re = \<lparr>h_hora = h, h_geracao = g, h_consumo = c, h_hidro = hi, h_termica = te, h_renovavel = re\<rparr>"

text \<open>\<open>hourlyData\<close> (lines 26--39).\<close>

definition hourlyData :: "hour_row list" where
  "hourlyData =
    [mk_hour ''00:00'' 52000 48000 35000 8000 9000, mk_hour ''02:00'' 48000 42000 33000 7500 7500,
     mk_hour ''04:00'' 45000 40000 32000 7000 6000, mk_hour ''06:00'' 52000 48000 34000 7000 11000,
     mk_hour ''08:00'' 62000 58000 36000 6500 19500, mk_hour ''10:00'' 72000 68000 38000 5000 29000,
     mk_hour ''12:00'' 78000 74000 39000 4500 34500, mk_hour ''14:00'' 76000 72000 38500 5000 32500,
     mk_hour ''16:00'' 70000 66000 37000 6000 27000, mk_hour ''18:00'' 74000 78000 40000 8500 25500,
     mk_hour ''20:00'' 72000 76000 42000 10000 20000, mk_hour ''22:00'' 58000 54000 36000 8500 13500]"

text \<open>\<open>weeklyData\<close> (lines 41--49): day, demand, generation.\<close>

definition weeklyData :: "(string \<times> int \<times> int) list" where
  "weeklyData =
    [(''Seg'', 76000, 78000), (''Ter'', 78500, 80000), (''Qua'', 74000, 76500), (''Qui'', 79000, 81000),
     (''Sex'', 77000, 79500), (''Sab'', 62000, 64000), (''Dom'', 55000, 57000)]"

text \<open>\<open>pieData\<close> (lines 59--66): source, percentage, colour.\<close>

definition pieData :: "(string \<times> int \<times> string) list" where
  "pieData =
    [(''Hidraulica'', 62, ''#3b82f6''), (''Solar'', 14, ''#facc15''), (''Eolica'', 12, ''#00b4d8''),
     (''Termica'', 8, ''#f97316''), (''Biomassa'', 3, ''#4ade80''), (''Nuclear'', 1, ''#a855f7'')]"

section \<open>The view\<close>

text \<open>The stats row (lines 90--131).\<close>

definition energia_stats_cards :: "'e ui list option" where
  "energia_stats_cards =
     those [stats_card ''Geracao Total'' ''78.456'' ''MW'' ''up'' ''+2.4%'' ''cyan'' [45, 52, 48, 61, 55, 67, 72, 68, 74, 78, 82, 76],
            stats_card ''Consumo Nacional'' ''74.892'' ''MW'' ''up'' ''+1.8%'' ''orange'' [42, 48, 52, 58, 62, 65, 68, 72, 75, 78, 74, 76],
            stats_card ''Superavit'' ''3.564'' ''MW'' ''up'' ''+8.2%'' ''green'' [3, 10, 8, 3, -7, -1, 4, -4, 4, -4, 6, 3],
            stats_card ''Pico Diario'' ''81.230'' ''MW'' ''up'' ''+0.5%'' ''yellow'' [78, 79, 80, 79, 81, 80, 82, 81, 80, 81, 82, 81]]"

text \<open>\<open>CustomTooltip\<close> (lines 68--84): the label, then each entry's name and
  \<open>formatNumber(value)\<close> in MW; nothing when inactive or empty.\<close>

definition energia_tooltip :: "bool \<Rightarrow> string \<Rightarrow> (string \<times> jsval) list \<Rightarrow> (string \<times> (string \<times> string) list) option" where
  "energia_tooltip active label payload =
     (if active \<and> payload \<noteq> [] then Some (label, map (\<lambda>(name, v). (name @ '':'', formatNumber v @ '' MW'')) payload)
      else None)"

text \<open>The Y axes' \<open>tickFormatter\<close>, \<open>${(v/1000).toFixed(0)}k\<close> (lines 158 and 228).\<close>

definition energia_tick :: "int \<Rightarrow> string" where
  "energia_tick v = kilo_toFixed0 v @ ''k''"

text \<open>The three stacked areas of an hour (lines 160--162), in stacking order.\<close>

definition stack_layers :: "hour_row \<Rightarrow> (string \<times> int) list" where
  "stack_layers h = [(''Hidraulica'', h_hidro h), (''Termica'', h_termica h), (''Renovavel'', h_renovavel h)]"

text \<open>The matrix legend (lines 205--213) and the pie's tooltip (190--201).\<close>

definition pie_legend :: "(string \<times> string \<times> string) list" where
  "pie_legend = map (\<lambda>(n, v, f). (n, show_int v @ ''%'', f)) pieData"

definition pie_tooltip :: "bool \<Rightarrow> (string \<times> jsval) list \<Rightarrow> string option" where
  "pie_tooltip active payload =
     (case payload of (n, v) # _ \<Rightarrow> if active then Some (n @ '': '' @ js_string v @ ''%'') else None | [] \<Rightarrow> None)"

text \<open>"Consumo por Regiao" (lines 243--269): the bars and the national total.\<close>

definition energia_region_bars :: "(string \<times> string \<times> rat) list" where
  "energia_region_bars = capacity_bars regionData"

definition energia_region_total :: string where
  "energia_region_total = bars_total regionData"

section \<open>Lemmas\<close>

text \<open>The three stacked areas add up to the hour's generation at every hour.\<close>

lemma stacks_sum_generation: "list_all (\<lambda>h. sum_list (map snd (stack_layers h)) = h_geracao h) hourlyData"
  by (simp add: hourlyData_def stack_layers_def mk_hour_def)

text \<open>The matrix percentages add up to 100.\<close>

lemma pie_total: "sum_list (map (\<lambda>(n, v, f). v) pieData) = 100"
  by (simp add: pieData_def)

text \<open>At 18:00 and 20:00 the consumption exceeds the generation, while the "Superavit" card
  shows a surplus of 3.564 MW.\<close>

lemma deficit_hours: "map h_hora (filter (\<lambda>h. h_geracao h < h_consumo h) hourlyData) = [''18:00'', ''20:00'']"
  by (simp add: hourlyData_def mk_hour_def)

text \<open>The "Pico Diario" card (81.230 MW) is neither a demand nor a generation of the week.\<close>

lemma peak_not_in_week: "\<forall>(d, dem, g) \<in> set weeklyData. formatNumber (jint g) \<noteq> ''81.230'' \<and> formatNumber (jint dem) \<noteq> ''81.230''"
  by (simp add: weeklyData_def formatNumber_def thousandths_def group_thousands_def strip_trailing_zeros_def show_nat_eval)

text \<open>Every card's colour is in StatsCard's table, so the stats row renders.\<close>

lemma energia_cards_defined: "energia_stats_cards \<noteq> None"
  by (simp add: energia_stats_cards_def stats_card_def stats_colors_def)

text \<open>The tooltip in pt-BR notation.\<close>

lemma tooltip_example:
  "energia_tooltip True ''18:00'' [(''Hidraulica'', jint 40000), (''Termica'', jint 8500)]
     = Some (''18:00'', [(''Hidraulica:'', ''40.000 MW''), (''Termica:'', ''8.500 MW'')])"
  by (simp add: energia_tooltip_def formatNumber_def thousandths_def group_thousands_def strip_trailing_zeros_def show_nat_eval)

text \<open>The axis ticks in thousands.\<close>

lemma ticks_example: "map energia_tick [0, 20000, 45000, 78000] = [''0k'', ''20k'', ''45k'', ''78k'']"
  by (simp add: energia_tick_def kilo_toFixed0_def show_int_def show_nat_eval)

end
