(* ===== verification/OnsOverview.thy ===== *)
theory OnsOverview
  imports OnsEnergia
begin

text \<open>
  The overview page of the ONS dashboard (\<open>src/futuristic-ons-dashboard/app/page.jsx\<close>)
  and the two chart widgets only it places: \<open>widgets/EnergyChart.jsx\<close> (generation and
  consumption over the day) and \<open>widgets/RenewableChart.jsx\<close> (generation per source
  against its target). The gauges are in \<open>OnsPages\<close>, the map, alerts and plant list
  in \<open>OnsWidgets\<close>. Accented names are written in UTF-8 bytes.
\<close>

section \<open>The overview's stats row\<close>

text \<open>Lines 17--58.\<close>

definition overview_stats_cards :: "'e ui list option" where
  "overview_stats_cards =
     those [stats_card ''Geracao Total'' ''78.456'' ''MW'' ''up'' ''+2.4%'' ''cyan'' [45, 52, 48, 61, 55, 67, 72, 68, 74, 78, 82, 76],
            stats_card ''Consumo Atual'' ''74.892'' ''MW'' ''up'' ''+1.8%'' ''orange'' [42, 48, 52, 58, 62, 65, 68, 72, 75, 78, 74, 76],
            stats_card ''Energia Solar'' ''28.543'' ''MW'' ''up'' ''+12.5%'' ''yellow'' [0, 5, 15, 28, 42, 58, 68, 62, 48, 25, 8, 0],
            stats_card ''Energia Eolica'' ''22.847'' ''MW'' ''down'' ''-3.2%'' ''green'' [55, 62, 58, 48, 52, 45, 38, 42, 48, 52, 58, 55]]"

section \<open>EnergyChart\<close>

text \<open>\<open>data\<close> (lines 16--29): hour, generation, consumption, solar, wind.\<close>

definition energy_chart_data :: "(string \<times> int \<times> int \<times> int \<times> int) list" where
  "energy_chart_data =
    [(''00:00'', 52000, 48000, 0, 8500), (''02:00'', 48000, 42000, 0, 9200), (''04:00'', 45000, 40000, 0, 10100),
     (''06:00'', 52000, 48000, 2500, 11500), (''08:00'', 62000, 58000, 12000, 9800), (''10:00'', 72000, 68000, 22000, 7200),
     (''12:00'', 78000, 74000, 28000, 6500), (''14:00'', 76000, 72000, 26000, 7800), (''16:00'', 70000, 66000, 18000, 9500),
     (''18:00'', 74000, 78000, 5000, 11200), (''20:00'', 72000, 76000, 0, 12500), (''22:00'', 58000, 54000, 0, 10800)]"

text \<open>\<open>CustomTooltip\<close> (lines 31--52): the label, each entry's name and
  \<open>formatNumber(value)\<close> in MW.\<close>

definition energy_chart_tooltip :: "bool \<Rightarrow> string \<Rightarrow> (string \<times> jsval) list \<Rightarrow> (string \<times> (string \<times> string) list) option" where
  "energy_chart_tooltip active label payload =
     (if active \<and> payload \<noteq> [] then Some (label, map (\<lambda>(name, v). (name @ '':'', formatNumber v @ '' MW'')) payload)
      else None)"

text \<open>The plotted series (lines 98--115): generation and consumption per hour.\<close>

definition energy_chart_series :: "(string \<times> int \<times> int) list" where
  "energy_chart_series = map (\<lambda>(h, g, c, s, w). (h, g, c)) energy_chart_data"

section \<open>RenewableChart\<close>

text \<open>\<open>data\<close> (lines 16--22): source, generation, target, colour; the names are
  UTF-8 bytes.\<close>

definition renewable_data :: "(string \<times> int \<times> int \<times> string) list" where
  "renewable_data =
    [(''Solar'', 28500, 35000, ''#facc15''), (''E'' @ [CHR 0xC3, CHR 0xB3] @ ''lica'', 22800, 25000, ''#00b4d8''),
     (''Hidr'' @ [CHR 0xC3, CHR 0xA1] @ ''ulica'', 68000, 75000, ''#3b82f6''), (''Biomassa'', 8500, 10000, ''#4ade80''),
     (''Nuclear'', 2000, 2000, ''#a855f7'')]"

text \<open>\<open>CustomTooltip\<close> (lines 24--48): the first entry's value and its row's target.\<close>

definition renewable_tooltip :: "bool \<Rightarrow> string \<Rightarrow> (jsval \<times> obj) list \<Rightarrow> (string \<times> string \<times> string) option" where
  "renewable_tooltip active label payload =
     (case payload of
        (v, row) # _ \<Rightarrow>
          if active then Some (label, formatNumber v @ '' MW'', formatNumber (obj_get row ''meta'') @ '' MW'') else None
      | [] \<Rightarrow> None)"

text \<open>The legend (lines 96--107): the first three sources and
  \<open>((valor / meta) * 100).toFixed(0)\<close> percent, rounded half up.\<close>

definition renewable_legend :: "(string \<times> string) list" where
  "renewable_legend =
     map (\<lambda>(n, v, m, c). (n, show_int (js_round (of_int v / of_int m * 100)) @ ''%'')) (take 3 renewable_data)"

section \<open>Lemmas\<close>

text \<open>The stats row renders: every colour is in StatsCard's table.\<close>

lemma overview_cards_defined: "overview_stats_cards \<noteq> None"
  by (simp add: overview_stats_cards_def stats_card_def stats_colors_def)

text \<open>The overview chart plots the same generation and consumption as the energy page's
  hourly series.\<close>

lemma energy_chart_matches_energia:
  "energy_chart_series = map (\<lambda>h. (h_hora h, h_geracao h, h_consumo h)) hourlyData"
  by (simp add: energy_chart_series_def energy_chart_data_def hourlyData_def mk_hour_def)

text \<open>Rounding of literal quotients.\<close>

lemma floor_numeral_div: "\<lfloor>(numeral a :: rat) / numeral b\<rfloor> = numeral a div numeral b"
  using floor_divide_of_int_eq [of "numeral a" "numeral b", where 'a = rat] by simp

text \<open>The legend reads 81, 91 and 91 percent of the targets.\<close>

lemma renewable_legend_values:
  "map snd renewable_legend = [''81%'', ''91%'', ''91%'']"
  by (simp add: renewable_legend_def renewable_data_def js_round_def floor_numeral_div show_int_def show_nat_eval)

text \<open>The solar and wind cards (28.543 and 22.847 MW) are not the generation the chart
  beside them shows for the same sources (28.500 and 22.800 MW).\<close>

lemma cards_vs_renewable:
  "formatNumber (jint 28500) = ''28.500'' \<and> formatNumber (jint 22800) = ''22.800''
   \<and> ''28.500'' \<noteq> ''28.543'' \<and> ''22.800'' \<noteq> ''22.847''"
  by (simp add: formatNumber_def thousandths_def group_thousands_def show_nat_eval)

text \<open>The tooltip of the solar bar.\<close>

lemma renewable_tooltip_example:
  "renewable_tooltip True ''Solar'' [(jint 28500, [(''name'', JStr ''Solar''), (''valor'', jint 28500), (''meta'', jint 35000)])]
     = Some (''Solar'', ''28.500 MW'', ''35.000 MW'')"
  by (simp add: renewable_tooltip_def obj_get_def formatNumber_def thousandths_def group_thousands_def show_nat_eval)

end
