(* ===== verification/OnsLayout.thy ===== *)
theory OnsLayout
  imports JsDate Widgets
begin

text \<open>
  The frame of every ONS page: \<open>widgets/DashboardLayout.jsx\<close> holds the sidebar's
  collapsed flag and places \<open>widgets/Sidebar.jsx\<close> (the menu, with the entry of the
  current path highlighted) and \<open>widgets/Header.jsx\<close> (the title, and the subtitle or
  else a clock refreshed by an interval of 60 s). Time values and the calendar are
  those of \<open>JsDate\<close>; \<open>toLocaleDateString\<close> and \<open>toLocaleTimeString\<close> in \<open>pt-BR\<close>
  are modelled for the years 1--9999 with their long weekday and month names.
\<close>

section \<open>Sidebar\<close>

text \<open>\<open>menuItems\<close> (lines 19--26): label and \<open>href\<close>.\<close>

definition menuItems :: "(string \<times> string) list" where
  "menuItems =
    [(''Visao Geral'', ''/''), (''Energia Eletrica'', ''/energia''), (''Linhas de Transmissao'', ''/transmissao''),
     (''Usinas Solares'', ''/solar''), (''Usinas Eolicas'', ''/eolica''), (''Relatorios'', ''/relatorios'')]"

text \<open>\<open>isActive\<close> (lines 57--59): the root only on itself, any other entry on every path
  that starts with its \<open>href\<close>.\<close>

definition is_active :: "string \<Rightarrow> string \<Rightarrow> bool" where
  "is_active path href \<longleftrightarrow> (if href = ''/'' then path = ''/'' else prefix href path)"

text \<open>The menu's links (lines 56--77): \<open>href\<close>, classes, and the label unless collapsed.\<close>

definition sidebar_links :: "bool \<Rightarrow> string \<Rightarrow> (string \<times> string \<times> string option) list" where
  "sidebar_links collapsed path =
     map (\<lambda>(l, h). (h, cn [''w-full flex items-center gap-3 px-4 py-3 rounded-lg transition-all duration-200'',
                            if is_active path h then ''bg-[#00b4d8]/20 text-[#00b4d8] border border-[#00b4d8]/30''
                            else ''text-[#8b9cb8] hover:bg-[#1e293b] hover:text-white border border-transparent''],
                   if collapsed then None else Some l)) menuItems"

section \<open>The clock of the header\<close>

text \<open>\<open>toLocaleTimeString('pt-BR', {hour: '2-digit', minute: '2-digit'})\<close> (lines 20--23).\<close>

definition time_text :: "int \<Rightarrow> int \<Rightarrow> string" where
  "time_text tz t =
     (let lt = t + tz * 60000 in pad_digits 2 (nat ((lt div 3600000) mod 24)) @ '':'' @ pad_digits 2 (nat ((lt div 60000) mod 60)))"

text \<open>\<open>DateFromTime\<close> on a day number.\<close>

definition date_in_month :: "int \<Rightarrow> int" where
  "date_in_month d =
     (let y = year_from_day d; l = in_leap_year y; dwy = d - day_from_year y
      in dwy - month_start l (month_from_dwy l dwy) + 1)"

definition weekday_names :: "string list" where
  "weekday_names =
    [''domingo'', ''segunda-feira'', ''ter'' @ [CHR 0xC3, CHR 0xA7] @ ''a-feira'', ''quarta-feira'', ''quinta-feira'',
     ''sexta-feira'', ''s'' @ [CHR 0xC3, CHR 0xA1] @ ''bado'']"

definition month_names :: "string list" where
  "month_names =
    [''janeiro'', ''fevereiro'', ''mar'' @ [CHR 0xC3, CHR 0xA7] @ ''o'', ''abril'', ''maio'', ''junho'', ''julho'',
     ''agosto'', ''setembro'', ''outubro'', ''novembro'', ''dezembro'']"

text \<open>\<open>toLocaleDateString('pt-BR', {weekday: 'long', year: 'numeric', month: 'long',
  day: 'numeric'})\<close> (lines 14--19), e.g. \<open>segunda-feira, 15 de janeiro de 2024\<close>.\<close>

definition date_text :: "int \<Rightarrow> int \<Rightarrow> string" where
  "date_text tz t =
     (let d = (t + tz * 60000) div msPerDay
      in weekday_names ! nat ((d + 4) mod 7) @ '', '' @ show_int (date_in_month d) @ '' de ''
         @ month_names ! month_from_day d @ '' de '' @ show_int (year_from_day d))"

section \<open>The layout's state\<close>

text \<open>The collapsed flag (DashboardLayout, line 9), the header's two strings
  (Header, lines 8--9), the time, and when the interval fires next. The mount effect
  runs \<open>update()\<close> at once and arms the interval (lines 25--26).\<close>

record ons_layout =
  lay_collapsed :: bool
  hdr_date :: string
  hdr_time :: string
  lay_now :: int
  lay_next :: int

definition lay_mount :: "int \<Rightarrow> int \<Rightarrow> ons_layout" where
  "lay_mount tz t0 =
     \<lparr>lay_collapsed = False, hdr_date = date_text tz t0, hdr_time = time_text tz t0, lay_now = t0, lay_next = t0 + 60000\<rparr>"

text \<open>The sidebar's toggle (line 23), time passing up to the next firing, and the
  interval's \<open>update()\<close>.\<close>

datatype lay_event = ToggleSidebar | Elapse int | IntervalFire

definition lay_step :: "int \<Rightarrow> lay_event \<Rightarrow> ons_layout \<Rightarrow> ons_layout option" where
  "lay_step tz e s = (case e of
      ToggleSidebar \<Rightarrow> Some (s\<lparr>lay_collapsed := \<not> lay_collapsed s\<rparr>)
    | Elapse d \<Rightarrow> if 0 \<le> d \<and> lay_now s + d < lay_next s then Some (s\<lparr>lay_now := lay_now s + d\<rparr>) else None
    | IntervalFire \<Rightarrow>
        Some (s\<lparr>lay_now := lay_next s, hdr_date := date_text tz (lay_next s), hdr_time := time_text tz (lay_next s),
                lay_next := lay_next s + 60000\<rparr>))"

inductive lay_reachable :: "int \<Rightarrow> ons_layout \<Rightarrow> bool" for tz where
  lay_init: "lay_reachable tz (lay_mount tz t0)"
| lay_next_step: "lay_reachable tz s \<Longrightarrow> lay_step tz e s = Some s' \<Longrightarrow> lay_reachable tz s'"

text \<open>The header's second line (line 42) and the classes that follow the flag
  (Sidebar line 35, Header line 34, DashboardLayout line 33).\<close>

definition header_line :: "string \<Rightarrow> ons_layout \<Rightarrow> string" where
  "header_line subtitle s = (if subtitle \<noteq> [] then subtitle else hdr_date s @ '' - '' @ hdr_time s)"

definition layout_classes :: "ons_layout \<Rightarrow> string \<times> string \<times> string" where
  "layout_classes s =
     (if lay_collapsed s then (''w-20'', ''left-20'', ''ml-20'') else (''w-64'', ''left-64'', ''ml-64''))"

text \<open>The invariant: the header shows the time of the last update, which is less
  than a minute ago.\<close>

definition lay_inv :: "int \<Rightarrow> ons_layout \<Rightarrow> bool" where
  "lay_inv tz s \<longleftrightarrow> lay_next s - 60000 \<le> lay_now s \<and> lay_now s < lay_next s
     \<and> hdr_time s = time_text tz (lay_next s - 60000) \<and> hdr_date s = date_text tz (lay_next s - 60000)"

section \<open>Lemmas\<close>

lemma length_filter_le1:
  assumes "distinct xs" "\<And>x y. x \<in> set xs \<Longrightarrow> y \<in> set xs \<Longrightarrow> P x \<Longrightarrow> P y \<Longrightarrow> x = y"
  shows "length (filter P xs) \<le> 1"
proof -
  have "card (set (filter P xs)) \<le> Suc 0" using assms(2) by (subst card_le_Suc0_iff_eq) auto
  then show ?thesis using distinct_card [OF distinct_filter [OF assms(1)], of P] by simp
qed

lemma lay_step_inv: "lay_inv tz s \<Longrightarrow> lay_step tz e s = Some s' \<Longrightarrow> lay_inv tz s'"
  by (cases e) (auto simp: lay_step_def lay_inv_def split: if_splits)

lemma lay_reachable_inv: "lay_reachable tz s \<Longrightarrow> lay_inv tz s"
  by (induction rule: lay_reachable.induct) (simp add: lay_mount_def lay_inv_def, blast intro: lay_step_inv)

lemma menu_hrefs_incomparable:
  "(l1, h1) \<in> set menuItems \<Longrightarrow> (l2, h2) \<in> set menuItems \<Longrightarrow> h1 \<noteq> ''/'' \<Longrightarrow> prefix h1 h2 \<Longrightarrow> (l1, h1) = (l2, h2)"
  by (simp add: menuItems_def) (elim disjE; simp)

lemma menu_prefix_root: "(l, h) \<in> set menuItems \<Longrightarrow> prefix h ''/'' \<Longrightarrow> (l, h) = (''Visao Geral'', ''/'')"
  by (auto simp: menuItems_def)

lemma menu_active_unique:
  assumes x: "(l1, h1) \<in> set menuItems" and y: "(l2, h2) \<in> set menuItems"
    and a1: "is_active path h1" and a2: "is_active path h2"
  shows "(l1, h1) = (l2, h2)"
proof (cases "h1 = ''/'' \<or> h2 = ''/''")
  case True
  then have "path = ''/''" "prefix h1 ''/''" "prefix h2 ''/''"
    using a1 a2 by (auto simp: is_active_def split: if_splits)
  then show ?thesis
    using menu_prefix_root [OF x] menu_prefix_root [OF y] by simp
next
  case False
  then have "prefix h1 path" "prefix h2 path" using a1 a2 by (auto simp: is_active_def)
  then have "prefix h1 h2 \<or> prefix h2 h1" by (auto dest: prefix_same_cases)
  then show ?thesis using False menu_hrefs_incomparable [OF x y] menu_hrefs_incomparable [OF y x] by auto
qed

section \<open>Properties\<close>

text \<open>C5. The sidebar highlights at most one menu entry, whatever the path.\<close>

theorem sidebar_one_active: "length (filter (\<lambda>(l, h). is_active path h) menuItems) \<le> 1"
proof (rule length_filter_le1)
  show "distinct menuItems" by (simp add: menuItems_def)
next
  fix x y assume "x \<in> set menuItems" "y \<in> set menuItems"
    "(\<lambda>(l, h). is_active path h) x" "(\<lambda>(l, h). is_active path h) y"
  moreover obtain l1 h1 l2 h2 where "x = (l1, h1)" "y = (l2, h2)" by fastforce
  ultimately show "x = y" using menu_active_unique [of l1 h1 l2 h2 path] by simp
qed

text \<open>C22. Without a subtitle the header shows the date and time of an instant less
  than a minute before the present.\<close>

theorem header_clock_fresh:
  assumes "lay_reachable tz s"
  shows "\<exists>u. lay_now s - 60000 < u \<and> u \<le> lay_now s \<and> header_line [] s = date_text tz u @ '' - '' @ time_text tz u"
  using lay_reachable_inv [OF assms] by (intro exI [of _ "lay_next s - 60000"]) (auto simp: lay_inv_def header_line_def)

theorem header_clock_fresh_witness:
  "lay_reachable 0 (lay_mount 0 0) \<and>
   (\<exists>u. lay_now (lay_mount 0 0) - 60000 < u \<and> u \<le> lay_now (lay_mount 0 0)
        \<and> header_line [] (lay_mount 0 0) = date_text 0 u @ '' - '' @ time_text 0 u)"
  using header_clock_fresh [of 0 "lay_mount 0 0"] lay_reachable.lay_init [of 0 0] by blast



text \<open>The header's strings on 15 January 2024 at midnight UTC: the long date in
  \<open>pt-BR\<close>, and the time in UTC and in Brasilia (UTC-3).\<close>

lemma day_from_year_2024: "day_from_year 2024 = 19723" "day_from_year 2025 = 20089"
  by (simp_all add: day_from_year_def)

lemma header_text_example:
  "date_text 0 1705276800000 = ''segunda-feira, 15 de janeiro de 2024''
   \<and> time_text 0 1705276800000 = ''00:00'' \<and> time_text (-180) 1705276800000 = ''21:00''"
proof -
  have y: "year_from_day 19737 = 2024" by (rule year_from_day_eq) (simp_all add: day_from_year_2024)
  show ?thesis
    by (simp add: date_text_def msPerDay_def date_in_month_def month_from_day_def y day_from_year_2024
        weekday_names_def month_names_def month_from_dwy_def month_starts_def month_start_def in_leap_year_def
        show_int_def show_nat_eval time_text_def pad_digits_numeral digit_char_def)
qed

text \<open>The interval counts 60 s from the mount, not from the start of a minute: mounted
  at 00:00:30 UTC, the header still shows \<open>00:00\<close> at 00:01:10, when the time is
  \<open>00:01\<close>.\<close>

lemma header_clock_lags:
  "lay_reachable 0 ((lay_mount 0 30000)\<lparr>lay_now := 70000\<rparr>)
   \<and> time_text 0 70000 = ''00:01''
   \<and> header_line [] ((lay_mount 0 30000)\<lparr>lay_now := 70000\<rparr>) = date_text 0 0 @ '' - 00:00''"
proof -
  have "lay_step 0 (Elapse 40000) (lay_mount 0 30000) = Some ((lay_mount 0 30000)\<lparr>lay_now := 70000\<rparr>)"
    by (simp add: lay_step_def lay_mount_def)
  then have "lay_reachable 0 ((lay_mount 0 30000)\<lparr>lay_now := 70000\<rparr>)"
    by (rule lay_reachable.lay_next_step [OF lay_reachable.lay_init])
  moreover have "date_text 0 30000 = date_text 0 0" by (simp add: date_text_def msPerDay_def)
  ultimately show ?thesis
    by (simp add: header_line_def lay_mount_def time_text_def pad_digits_numeral
        digit_char_def)
qed

text \<open>The sidebar, the header and the main area change their width classes together.\<close>

lemma layout_toggle_classes:
  "lay_step tz ToggleSidebar s = Some s' \<Longrightarrow> layout_classes s' \<noteq> layout_classes s \<and> lay_collapsed s' = (\<not> lay_collapsed s)"
  by (auto simp: lay_step_def layout_classes_def)

end
