(* ===== verification/Spec2Isabelle.thy ===== *)
theory Spec2Isabelle
  imports DataRoutes Format ConfiguracoesView RelatoriosView TransmissaoPage CustomersPage MustDashboard NewsSite OnsPages OnsWidgets SaasPages SaasOverview TailAdminTasks MustTauri OnsOverview OnsLayout
begin

text \<open>
  \<^bold>\<open>A verification development of the dashboard templates.\<close>

  \<^bold>\<open>The program.\<close> The repository holds several front-end templates. The one with
  program logic is \<open>src/futuristic-ons-dashboard\<close>, a Next.js dashboard of the
  Brazilian grid operator (ONS). Its parts are these:
  \<^item> the repositories of \<open>lib/repositories/\<close> hold seeded in-memory data;
  \<^item> the base class provides the generic filter engine \<open>applyFilters\<close>;
  \<^item> the API route \<open>app/api/export\<close> serialises a dataset as CSV, JSON or Markdown;
  \<^item> \<open>lib/format.js\<close> prints numbers;
  \<^item> the pages in \<open>app/\<close> render the data and keep interactive state.
  The reports page calls the export route through \<open>fetch\<close>; the other API
  routes serve the repositories as JSON.
  A second template, \<open>src/dashboard-ui-template\<close>, has task and customer list
  pages. Their controllers keep the lists in \<open>localStorage\<close>.

  \<^bold>\<open>How the code is modelled.\<close>
  \<^item> Values are JavaScript values (theory \<open>JsValue\<close>):
    \<^item> numbers are exact decimals;
    \<^item> objects are association lists in property order;
    \<^item> \<open>===\<close>, truthiness, \<open>String()\<close> and \<open>JSON.stringify\<close> are functions of their own.
  \<^item> A class becomes a \<open>record\<close> with its seeded constructor and one definition per
    method. A thrown error becomes an \<open>Inl\<close> value.
  \<^item> A React page becomes two parts:
    \<^item> the record of its \<open>useState\<close> hooks with a step function over a \<open>datatype\<close>
      of the events its controls dispatch, where \<open>None\<close> means the control is not
      rendered or is disabled;
    \<^item> a view function into the element trees of theory \<open>View\<close>.
  \<^item> Reachable states are an \<open>inductive\<close> predicate. Invariants are proved on them by
    rule induction.
  \<^item> Asynchrony is explicit:
    \<^item> pending timers of the settings page are fired in due order by a terminating
      function (\<open>Configuracoes.run_timers\<close>, with a measure over the pending weight);
    \<^item> a \<open>fetch\<close> of the reports page or the news template is answered by a later
      event, in any order.
  \<^item> Clock readings (\<open>Date.now()\<close>, \<open>new Date()\<close>) are arguments or explicit state.

  \<^bold>\<open>Theories, files and claims.\<close>
  \<^item> \<open>Prelude\<close>: strings, decimal printing and list lemmas. \<open>JsValue\<close>: the value
    model. \<open>View\<close>: element trees, \<open>GlassCard\<close> and the clickable events of a tree.
    \<open>Widgets\<close>: \<open>StatsCard\<close>.
  \<^item> \<open>BaseRepository\<close> (\<open>BaseRepository.js\<close>): \<open>applyFilters\<close> equals a single
    \<open>filter\<close> by the conjunction of the entries (C1, C4); a single string filter on a
    string field keeps the rows containing it, ignoring case (lemma).
  \<^item> \<open>TransmissaoRepository\<close>, \<open>EnergiaRepository\<close>, \<open>UsinasRepository\<close> and
    \<open>RelatoriosRepository\<close>: the seeds, queries and summaries (C8, C11, C13, C15, C17, C20). These include:
    \<^item> the plant summaries' \<open>operando\<close> counts equal the rows the list returns for
      \<open>status=operando\<close>, when no other status contains that word (C20);
    \<^item> the annotation store as reachable states, with ids \<open>1..n\<close> (C11);
    \<^item> the id override of \<open>addAnotacao\<close> (C13);
    \<^item> the energy summary, where \<open>toFixed(1)\<close> is modelled on the exact ratio.
  \<^item> \<open>ExportRoute\<close> (\<open>app/api/export/route.js\<close> and \<open>lib/repositories/index.js\<close>): the
    400 error paths, the CSV/Markdown line structure and the JSON envelope (C21, C28).
  \<^item> \<open>DataRoutes\<close> (\<open>app/api/energia\<close>, \<open>transmissao\<close>, \<open>usinas\<close>, \<open>relatorios\<close>): the
    \<open>GET\<close> switches with their filters, and the \<open>POST\<close> of annotations with its errors.
    The store reached by \<open>POST\<close>s is an \<open>inductive\<close> predicate; through it the
    annotation ids stay \<open>1..n\<close> (C12), since the handler never forwards a body's \<open>id\<close>.
    \<^item> the transmission list turns \<open>status\<close> and \<open>regiao\<close> into filters and answers
      exactly the matching lines (C19);
    \<^item> on every reachable store each dataset exports in each format with 200, so the
      export's 404 branch is dead (C23);
    \<^item> the first line of a CSV export splits into the first record's keys (C24).
  \<^item> \<open>Format\<close> (\<open>lib/format.js\<close>): \<open>toLocaleString("pt-BR")\<close>, with a round trip of the
    grouping (C30).
  \<^item> \<open>Configuracoes\<close> and \<open>ConfiguracoesView\<close> (\<open>app/configuracoes/page.jsx\<close>):
    \<^item> the busy flags track the pending work (C32);
    \<^item> the page is quiescent after 7 s (C33);
    \<^item> the banner timeouts are never cancelled (C34);
    \<^item> the connection test captures its source (C35);
    \<^item> the handlers are the code's (\<open>cfg_handle\<close>, no guards); a step applies the
      handler of an event the rendered page offers (\<open>cfg_offered\<close>), and the offered
      click events are exactly the enabled \<open>onClick\<close>s of the view (lemma);
    \<^item> the timer loop runs its body at most \<open>timers_weight\<close> times (lemma).
  \<^item> \<open>RelatoriosPage\<close> and \<open>RelatoriosView\<close> (\<open>app/relatorios/page.jsx\<close>):
    \<^item> the page composed with the export route downloads exactly the route's file (C37);
    \<^item> note ids collide;
    \<^item> the notes invariant (C39);
    \<^item> rendering never throws (C40).
  \<^item> \<open>TransmissaoPage\<close> (\<open>app/transmissao/page.jsx\<close>): the page's own data, its filter
    and its view. The view is always defined, and the stats cards are literals.
  \<^item> \<open>TasksPage\<close> (\<open>dashboard-ui-template\<close> tasks page and \<open>tasksController.js\<close>): the
    storage is poisoned by the first save effect: after any run, every later mount
    takes the stored array and never fetches the seed again (C29).
  \<^item> \<open>CustomersPage\<close> (the customers page and \<open>customersController.js\<close>): the same
    storage pattern, with the list held as the raw JavaScript value. The lemmas show
    these properties:
    \<^item> the storage mirrors the mounted list in every reachable state;
    \<^item> a remount restores an array list (C36);
    \<^item> the rendered Delete buttons are exactly the rows \<open>cp_step\<close> deletes;
    \<^item> the search throws on a non-string field once the query misses the earlier
      fields.

  \<^item> \<open>MustDashboard\<close> (\<open>src/dashboard_must_webiste/scripts/script.js\<close>): a DOM script
    over a fetched array. The DOM sections are the record \<open>must_state\<close>, and the
    listeners and timeouts form the step function \<open>must_step\<close>. The lemmas show:
    \<^item> \<open>unescape\<close> undoes \<open>escape\<close>, so the modal shows the remark as stored;
    \<^item> the escaped attribute holds no quote, angle bracket or ampersand;
    \<^item> the other cells reach \<open>innerHTML\<close> verbatim;
    \<^item> the company cards add up to the KPI counts;
    \<^item> grouping by \<open>String(EMPRESA)\<close> and the filter's \<open>===\<close> disagree on numeric companies;
    \<^item> an uncancelled timeout hides a modal reopened within 300 ms.
  \<^item> \<open>OnsPages\<close> (\<open>app/page.jsx\<close>, \<open>energia\<close>, \<open>solar\<close>, \<open>eolica\<close> and
    \<open>widgets/RealtimeGauge.jsx\<close>): the pages' literal tables, KPIs, proportional bars,
    table rows, tooltips and gauge arguments; the gauge's \<open>animatedValue\<close> and
    cleaned-up timeout as a step function with reachable states.
    \<^item> a firing timeout always shows the current prop (C27);
    \<^item> the proportional bars lie in \<open>(0, 100]\<close> percent, the largest at 100 (C38).
    Lemmas show:
    \<^item> the arc stays on its track exactly for \<open>0 \<le> value \<le> maxValue\<close>;
    \<^item> all thirteen gauges of the pages are in range;
    \<^item> the KPI values, with \<open>Math.round(83.5) = 84\<close>;
    \<^item> that the pages' totals and statuses differ from the repositories behind the API.
  \<^item> \<open>OnsWidgets\<close> (\<open>PowerPlantList\<close>, \<open>AlertsPanel\<close>, \<open>TransmissionMap\<close>): the
    widgets' tables and configuration lookups. Lemmas show:
    \<^item> every row renders, and an unknown type throws;
    \<^item> the status dot computed by \<open>split\<close> and \<open>replace\<close> is the legend's;
    \<^item> the map's load colour is the transmission page's;
    \<^item> the shared plants and the regional powers agree with the pages;
    \<^item> the map's literal strokes disagree with the loads.
  \<^item> \<open>DashboardShell\<close> (\<open>dashboard-ui-template/src/app/dashboard/layout.js\<close>): the
    layout's theme and sidebar hooks and its \<open>NotificationsButton\<close>. Mounting runs
    the effects of the first commit in React's order (child first, then declaration
    order), and the theme read from storage takes effect in the next commit.
    \<^item> the notifications of \<open>dashboard.json\<close> never appear: the save effect writes
      \<open>'[]'\<close> before the fetch answers, and that stored text wins (C25);
    \<^item> the theme survives reloads, since it is read before the effect writes
      \<open>light\<close> (lemma).
  \<^item> \<open>SaasPages\<close> (\<open>dashboard-ui-template/src/app/dashboard/reports/page.js\<close> and
    \<open>settings/page.js\<close>): the reports page over the stores of the tasks and customers
    controllers, and the settings page composed with the layout in one state
    (\<open>app_state\<close>, \<open>app_step\<close>).
    \<^item> the CSV export reads back, by a standard CSV reader (\<open>csv_rows\<close>), as the
      header and each task's seven cells (C2);
    \<^item> the done, to-do and in-progress counts never exceed the total (lemma);
    \<^item> reloading on the settings page with \<open>dark\<close> saved leaves the layout's theme
      \<open>light\<close> under a dark root, and the page's own toggle never updates the layout
      (lemmas).
  \<^item> \<open>SaasOverview\<close> (\<open>dashboard-ui-template/src/app/dashboard/page.js\<close> and
    \<open>controllers/dashboardController.js\<close>): the overview page's fetch with its
    \<open>mounted\<close> guard (\<open>ov_step\<close>) and its view of any JSON answer (\<open>ov_view\<close>,
    \<open>None\<close> where rendering throws). \<open>Number()\<close> of a string reads decimals;
    its exponent, hexadecimal and \<open>Infinity\<close> forms are read as \<open>NaN\<close>.
    \<^item> with non-negative numeric values every bar's width is within 0--100 percent,
      by the floor of 1 in \<open>Math.max\<close> (C26);
    \<^item> one non-numeric value makes every width \<open>NaN\<close>, and values below 1 never
      fill a bar (lemmas);
    \<^item> while mounted, the loading box is shown exactly while the fetch is pending
      (C14);
    \<^item> a failed fetch shows an empty dashboard with no message; a truthy \<open>kpis\<close>
      that is not an array throws; an unmounted page is never updated (lemmas).
  \<^item> \<open>JsDate\<close>: \<open>new Date(v)\<close> and \<open>getMonth()\<close> after ECMA-262. Time values are
    integer milliseconds. The calendar is \<open>DayFromYear\<close>, a bounded search for
    \<open>YearFromTime\<close>, and month tables. The parser reads the Date Time String Format.
    The local time zone is a fixed offset \<open>tz\<close> in minutes.
    \<^item> \<open>MakeDay\<close> followed by \<open>YearFromTime\<close>, \<open>MonthFromTime\<close> and
      \<open>DateFromTime\<close> gives back the year, month and day (C3, in \<open>OnsLayout\<close>,
      where \<open>DateFromTime\<close> is defined);
    \<^item> a \<open>YYYY-MM-DD\<close> string gives back its month from UTC to UTC+23:59 (C10);
    \<^item> west of UTC, the first of a month falls in the month before (theorem).
  \<^item> \<open>TailAdminTasks\<close> (\<open>free-nextjs-admin-dashboard-main\<close>: \<open>app/api/tasks/route.ts\<close>,
    \<open>services/RepositoryController.ts\<close>, \<open>components/charts/bar/BarChartOne.tsx\<close>):
    the route on every content of \<open>db.json\<close>, the client's catch-all, and the chart's
    month counting (\<open>tasks_chart\<close> composes them).
    \<^item> the series have one entry per month, and together they count the tasks with a
      valid date (C18);
    \<^item> every route failure shows as an empty chart (lemma);
    \<^item> a non-array \<open>tasks\<close> throws unhandled (lemma);
    \<^item> in UTC-3 a task of 1 February counts in January (lemma).
  \<^item> \<open>MustTauri\<close> (\<open>dashboard-must-tauri-app\<close>): the repository's Tauri detection and
    fallback (\<open>getDashboardKpis\<close>), and the view's four KPIs (\<open>dashboard_stats\<close>).
    \<^item> the KPIs stay in range (C6);
    \<^item> a non-string status throws (lemma);
    \<^item> a failed call answers no KPI, and outside Tauri the answer is sample data (lemmas).
  \<^item> \<open>OnsEnergia\<close> (\<open>app/energia/page.jsx\<close>): the energy page's series, stats
    cards, tooltips, ticks, stacked areas, matrix legend and regional bars. Lemmas show:
    \<^item> the stacked areas add up to the generation, and the matrix to 100 percent;
    \<^item> the surplus and peak cards disagree with the page's own series.
  \<^item> \<open>OnsOverview\<close> (\<open>app/page.jsx\<close>, \<open>widgets/EnergyChart.jsx\<close>,
    \<open>widgets/RenewableChart.jsx\<close>): the overview's stats cards, the energy chart's
    series and tooltip, the renewable chart's data, tooltip and legend. Lemmas show:
    \<^item> the energy chart draws the same series as the energy page;
    \<^item> the legend prints 81, 91 and 91 percent, while the solar and wind cards of the
      same page give other shares.
  \<^item> \<open>OnsLayout\<close> (\<open>widgets/DashboardLayout.jsx\<close>, \<open>Sidebar.jsx\<close>, \<open>Header.jsx\<close>):
    the layout's collapsed flag, the sidebar's menu and \<open>isActive\<close>, and the header's
    clock. The state \<open>ons_layout\<close> holds the flag, the two strings of the header, the
    time and the next firing of the 60 s interval; \<open>lay_step\<close> toggles, lets time
    pass or fires the interval. Timers are punctual: time passes only up to the next
    firing, as in the settings page's \<open>run_timers\<close>. Date and time are printed as \<open>pt-BR\<close> does, on the
    calendar of \<open>JsDate\<close>.
    \<^item> at most one menu entry is highlighted on any path (C5);
    \<^item> the header's clock shows an instant less than a minute old (C22);
    \<^item> it lags behind the minute shown by a clock, since the interval is counted
      from the mount (lemma).
  \<^item> \<open>NewsSite\<close> (\<open>website-noticias-template/main.js\<close> of the static websites, and its
    earlier copy in \<open>src/frontend_project\<close>): a single-page site. Each
    \<open>loadPage\<close> is a pending fetch in \<open>ns_pending\<close>, answered by an event
    (\<open>fetch_answered\<close>). The router and \<open>popstate\<close> are \<open>news_step\<close> events over a
    history list. The carousel and the to-do list are the state of their closures.
    A page is given by the elements the script queries in it (\<open>page_html\<close>).
    \<^item> with a home page, every load settles within two answers (C7);
    \<^item> without one, a load of a missing page never settles (C9);
    \<^item> the stored to-do list mirrors the shown one in every reachable state (C16);
    \<^item> next then prev restores the carousel index (C31).
    Lemmas show:
    \<^item> the intervals that leak, one per visit to home;
    \<^item> the \<open>NaN\<close> index of an empty carousel;
    \<^item> the page and address bar disagreeing when fetches answer out of order;
    \<^item> the error page on corrupt storage;
    \<^item> the ids shared by tasks of one millisecond;
    \<^item> that the earlier copy agrees on sites without a to-do section.

  \<^bold>\<open>Bounds and fuel.\<close> No loop needs fuel.
  \<^item> The recursion of the news template's \<open>loadPage\<close> into \<open>loadPage('home')\<close> is
    not a function of its own: each retry is a new pending fetch answered by a later
    event. That it ends with a home page (C7) and never ends without one (C9) are
    statements about runs of \<open>news_step\<close>.
  \<^item> The timer loop of the settings page terminates by the measure \<open>timers_weight\<close>:
    a pending sync has weight 2, since it arms one more timeout when it fires.
  \<^item> The quiescence bound of 7 s is the longest chain of timers the page arms: a 3 s
    sync followed by the banner's 4 s timeout.
  \<^item> Numbers are unbounded \<open>int\<close> and \<open>nat\<close>. No claim depends on floating-point
    overflow.

  \<^bold>\<open>Not modelled.\<close>
  \<^item> \<open>cn\<close> of \<open>@/lib/utils\<close> is not in the repository. It is modelled as \<open>clsx\<close>.
  \<^item> Styling classes that do not depend on state, icons and the drawing done by
    \<open>recharts\<close> are left out. Charts are given by their configuration.
  \<^item> In the MUST script, these are left out:
    \<^item> the decoding of the data URL literal, which only yields the failed fetch;
    \<^item> keys inherited from \<open>Object.prototype\<close> (such as \<open>__proto__\<close>) in \<open>companyData\<close>;
    \<^item> the printing of the bar width by \<open>Number#toString\<close>;
    \<^item> \<open>toLowerCase\<close> beyond ASCII.
  \<^item> These parts are not modelled yet:
    \<^item> the \<open>recharts\<close> charts of the solar and wind pages with the series that only
      feed them;
    \<^item> the header's search box, bell and user badge, which hold no state;
    \<^item> the static analytics and projects pages of the SaaS template;
    \<^item> the TailAdmin task dashboard page, a static heading;
    \<^item> the MUST Tauri app's charts, extension and icons, which are globals defined outside the repository;
    \<^item> the other static website templates, which are DOM scripts and presentational markup.
\<close>

end
